(* ===== verification/Prelude.thy ===== *)
theory Prelude
  imports Main "HOL-Library.Word"
begin

text \<open>
  Shared vocabulary of the development: the machine types of the C sources, the result type of
  operations that may leave the defined behaviour of C (an access outside an array, a
  \<^verbatim>\<open>while(1){}\<close>), and the generic lemmas on words, byte lists and cyclic
  counters that the components use.
\<close>

unbundle bit_operations_syntax

named_theorems layout_simps \<open>offsets and sizes of the packed structures\<close>
named_theorems reg_simps \<open>register addresses and field masks\<close>
named_theorems frame_simps \<open>fields an operation leaves alone\<close>

section \<open>Machine types and results\<close>

type_synonym u8 = "8 word"
type_synonym u16 = "16 word"
type_synonym u32 = "32 word"

text \<open>
  \<open>Out_Of_Bounds\<close>: the C code accesses memory outside the object a pointer or an array names.
  \<open>Div_By_Zero\<close>: an integer division by zero.
  \<open>Hang\<close>: the C code enters a loop it does not leave.
  \<open>System_Reset\<close>: the C code resets the processor.
\<close>

datatype fault = Out_Of_Bounds | Div_By_Zero | Hang | System_Reset

type_synonym 'a res = "fault + 'a"

definition bind_res :: "'a res \<Rightarrow> ('a \<Rightarrow> 'b res) \<Rightarrow> 'b res" where
  "bind_res r k = (case r of Inl e \<Rightarrow> Inl e | Inr x \<Rightarrow> k x)"

lemma bind_res_simps [simp]:
  "bind_res (Inl e) k = Inl e"
  "bind_res (Inr x) k = k x"
  by (simp_all add: bind_res_def)

lemma bind_res_eq_Inr: "bind_res r k = Inr y \<longleftrightarrow> (\<exists>x. r = Inr x \<and> k x = Inr y)"
  by (cases r) simp_all

definition is_ok :: "'a res \<Rightarrow> bool" where
  "is_ok r = (case r of Inl _ \<Rightarrow> False | Inr _ \<Rightarrow> True)"

lemma is_ok_simps [simp]: "is_ok (Inr x)" "\<not> is_ok (Inl e)"
  by (simp_all add: is_ok_def)

text \<open>Reading and writing a C array of known length.\<close>

definition get_at :: "'a list \<Rightarrow> nat \<Rightarrow> 'a res" where
  "get_at xs i = (if i < length xs then Inr (xs ! i) else Inl Out_Of_Bounds)"

definition put_at :: "'a list \<Rightarrow> nat \<Rightarrow> 'a \<Rightarrow> 'a list res" where
  "put_at xs i v = (if i < length xs then Inr (xs[i := v]) else Inl Out_Of_Bounds)"

lemma get_at_ok [simp]: "i < length xs \<Longrightarrow> get_at xs i = Inr (xs ! i)"
  by (simp add: get_at_def)

lemma put_at_ok [simp]: "i < length xs \<Longrightarrow> put_at xs i v = Inr (xs[i := v])"
  by (simp add: put_at_def)

lemma put_at_length: "put_at xs i v = Inr ys \<Longrightarrow> length ys = length xs"
  by (auto simp: put_at_def split: if_splits)

text \<open>A counted C loop whose body may fault.\<close>

primrec res_fold :: "('b \<Rightarrow> 'a \<Rightarrow> 'a res) \<Rightarrow> 'b list \<Rightarrow> 'a \<Rightarrow> 'a res" where
  "res_fold f [] a = Inr a"
| "res_fold f (x # xs) a = bind_res (f x a) (res_fold f xs)"

lemma res_fold_append: "res_fold f (xs @ ys) a = bind_res (res_fold f xs a) (res_fold f ys)"
  by (induction xs arbitrary: a) (auto simp: bind_res_def split: sum.splits)

lemma res_fold_inv:
  assumes "\<And>x a. x \<in> set xs \<Longrightarrow> I a \<Longrightarrow> \<exists>b. f x a = Inr b \<and> I b" and "I a"
  shows "\<exists>b. res_fold f xs a = Inr b \<and> I b"
  using assms
proof (induction xs arbitrary: a)
  case Nil
  then show ?case by simp
next
  case (Cons x xs)
  then obtain b where "f x a = Inr b" "I b" by (metis list.set_intros(1))
  with Cons show ?case by simp
qed

section \<open>Words\<close>

lemma unat_u8_less [simp]: "unat (w :: u8) < 256"
  using unsigned_less [of w, where ?'a = nat] by simp

text \<open>An equality of bytes, bit by bit.\<close>

lemma all_less_8: "(\<forall>n < 8. P n) \<longleftrightarrow> P 0 \<and> P 1 \<and> P 2 \<and> P 3 \<and> P 4 \<and> P 5 \<and> P 6 \<and> P (7::nat)"
proof
  assume h: "\<forall>n < 8. P n"
  then show "P 0 \<and> P 1 \<and> P 2 \<and> P 3 \<and> P 4 \<and> P 5 \<and> P 6 \<and> P 7" by simp
next
  assume h: "P 0 \<and> P 1 \<and> P 2 \<and> P 3 \<and> P 4 \<and> P 5 \<and> P 6 \<and> P 7"
  show "\<forall>n < 8. P n"
  proof (intro allI impI)
    fix n :: nat
    assume "n < 8"
    then have "n \<in> {0, 1, 2, 3, 4, 5, 6, 7}" by auto
    with h show "P n" by auto
  qed
qed

lemma u8_eq_iff: "(a :: u8) = b \<longleftrightarrow> (\<forall>n < 8. bit a n = bit b n)"
  by (auto intro: bit_word_eqI)

lemma upt_8: "[0..<8] = [0, 1, 2, 3, 4, 5, 6, 7::nat]"
  by (simp add: upt_rec)

lemma xor_eq_0_iff: "a XOR b = 0 \<longleftrightarrow> a = (b :: 'a :: len word)"
  by (metis xor.right_neutral xor_self_eq xor.left_commute xor.assoc)

lemma xor_left_cancel_iff: "a XOR b = a XOR c \<longleftrightarrow> b = (c :: 'a :: len word)"
  by (metis xor_self_eq xor.left_commute xor.right_neutral)

lemma xor_right_cancel_iff: "b XOR a = c XOR a \<longleftrightarrow> b = (c :: 'a :: len word)"
  by (simp add: xor.commute [of _ a] xor_left_cancel_iff)

text \<open>The high and the low byte of a 16-bit value.\<close>

definition lo8 :: "u16 \<Rightarrow> u8" where
  "lo8 w = ucast w"

definition hi8 :: "u16 \<Rightarrow> u8" where
  "hi8 w = ucast (drop_bit 8 w)"

text \<open>\<^verbatim>\<open>(((uint16_t)a)<<8)|b\<close>.\<close>

definition be16 :: "u8 \<Rightarrow> u8 \<Rightarrow> u16" where
  "be16 a b = push_bit 8 (ucast a) OR ucast b"

lemma hi8_be16 [simp]: "hi8 (be16 a b) = a"
  by (rule bit_word_eqI) (auto simp: hi8_def be16_def bit_simps dest: bit_imp_le_length)

lemma lo8_be16 [simp]: "lo8 (be16 a b) = b"
  by (rule bit_word_eqI) (auto simp: lo8_def be16_def bit_simps)

lemma be16_hi8_lo8 [simp]: "be16 (hi8 w) (lo8 w) = w"
  by (rule bit_word_eqI) (auto simp: hi8_def lo8_def be16_def bit_simps)

end
