(* ===== verification/Protocol.thy ===== *)
theory Protocol
  imports Prelude
begin

text \<open>
  The packed structures of \<^verbatim>\<open>src/inc/protocol.h\<close>. \<open>health_bit_map\<close> keeps the bit fields by
  name and \<open>health_bit\<close> gives their position on the wire. \<open>YLSToYVPacket\<close> is the answer to the
  host: the bit fields (bytes 0 to 21) and the bytes that follow. The structures are packed, so an
  index that runs past an inner array but not past the packet is an access to the byte at that
  address, as in the compiled code; it is not the fault \<open>Out_Of_Bounds\<close>, which stands for an
  access outside the whole object. Where the code makes such an access, a statement says which byte
  it reaches (\<open>servo_answer_misplaced\<close> in \<open>Uart_Answer\<close>, \<open>bkho_request_misread\<close> in \<open>Ethernet\<close>).
  \<open>YVToYLS\<close> accessors read the 80-byte request.
\<close>

section \<open>Health map\<close>

record health_bit_map =
  ykp_poc_1 :: "12 word"
  ykp_poc_2 :: "12 word"
  ykp_poc_3 :: "12 word"
  yaz_poc_1 :: "12 word"
  yaz_poc_2 :: "12 word"
  yaz_poc_3 :: "12 word"
  yps_poc_1 :: "12 word"
  yps_poc_2 :: "12 word"
  yps_poc_3 :: "12 word"
  ylk96_poc_1 :: "12 word"
  ylk96_poc_2 :: "12 word"
  ylk96_poc_3 :: "12 word"
  yps_bkho_a_poc_1 :: "1 word"
  yps_bkho_a_poc_2 :: "1 word"
  yps_bkho_a_poc_3 :: "1 word"
  ytp1_bkho_a_poc_1 :: "1 word"
  ytp1_bkho_a_poc_2 :: "1 word"
  ytp1_bkho_a_poc_3 :: "1 word"
  ytp2_bkho_a_poc_1 :: "1 word"
  ytp2_bkho_a_poc_2 :: "1 word"
  ytp2_bkho_a_poc_3 :: "1 word"
  ytm1_bkho_a_poc_1 :: "1 word"
  ytm1_bkho_a_poc_2 :: "1 word"
  ytm1_bkho_a_poc_3 :: "1 word"
  ytm2_bkho_a_poc_1 :: "1 word"
  ytm2_bkho_a_poc_2 :: "1 word"
  ytm2_bkho_a_poc_3 :: "1 word"
  ygr_bkho_a_poc_1 :: "1 word"
  ygr_bkho_a_poc_2 :: "1 word"
  ygr_bkho_a_poc_3 :: "1 word"
  ylk32_3_bkho_a_poc_1 :: "1 word"
  ylk32_3_bkho_a_poc_2 :: "1 word"
  ylk32_3_bkho_a_poc_3 :: "1 word"
  yvp_bkho_a_poc_1 :: "1 word"
  yvp_bkho_a_poc_2 :: "1 word"
  yvp_bkho_a_poc_3 :: "1 word"
  out_servo8 :: "1 word"
  out_servo7 :: "1 word"
  out_servo6 :: "1 word"
  out_servo5 :: "1 word"
  out_servo4 :: "1 word"
  out_servo3 :: "1 word"
  out_servo2 :: "1 word"
  out_servo1 :: "1 word"

text \<open>The fields in declaration order: twelve 12-bit fields, 24 and 8 single bits.\<close>

definition bkd_fields :: "health_bit_map \<Rightarrow> 12 word list" where
  "bkd_fields h =
     [ykp_poc_1 h, ykp_poc_2 h, ykp_poc_3 h, yaz_poc_1 h, yaz_poc_2 h, yaz_poc_3 h, yps_poc_1 h,
      yps_poc_2 h, yps_poc_3 h, ylk96_poc_1 h, ylk96_poc_2 h, ylk96_poc_3 h]"

definition bkho_fields :: "health_bit_map \<Rightarrow> 1 word list" where
  "bkho_fields h =
     [yps_bkho_a_poc_1 h, yps_bkho_a_poc_2 h, yps_bkho_a_poc_3 h, ytp1_bkho_a_poc_1 h,
      ytp1_bkho_a_poc_2 h, ytp1_bkho_a_poc_3 h, ytp2_bkho_a_poc_1 h, ytp2_bkho_a_poc_2 h,
      ytp2_bkho_a_poc_3 h, ytm1_bkho_a_poc_1 h, ytm1_bkho_a_poc_2 h, ytm1_bkho_a_poc_3 h,
      ytm2_bkho_a_poc_1 h, ytm2_bkho_a_poc_2 h, ytm2_bkho_a_poc_3 h, ygr_bkho_a_poc_1 h,
      ygr_bkho_a_poc_2 h, ygr_bkho_a_poc_3 h, ylk32_3_bkho_a_poc_1 h, ylk32_3_bkho_a_poc_2 h,
      ylk32_3_bkho_a_poc_3 h, yvp_bkho_a_poc_1 h, yvp_bkho_a_poc_2 h, yvp_bkho_a_poc_3 h]"

definition servo_fields :: "health_bit_map \<Rightarrow> 1 word list" where
  "servo_fields h =
     [out_servo8 h, out_servo7 h, out_servo6 h, out_servo5 h, out_servo4 h, out_servo3 h,
      out_servo2 h, out_servo1 h]"

lemma fields_length [simp]:
  "length (bkd_fields h) = 12" "length (bkho_fields h) = 24" "length (servo_fields h) = 8"
  unfolding bkd_fields_def bkho_fields_def servo_fields_def by (simp_all only: list.size)

text \<open>Bit \<open>n\<close> of the packed structure: fields are allocated from the lowest bit on, without padding.\<close>

definition health_bit :: "health_bit_map \<Rightarrow> nat \<Rightarrow> bool" where
  "health_bit h n =
     (if n < 144 then bit (bkd_fields h ! (n div 12)) (n mod 12)
      else if n < 168 then bit (bkho_fields h ! (n - 144)) 0
      else if n < 176 then bit (servo_fields h ! (n - 168)) 0
      else False)"

definition health_zero :: health_bit_map where
  "health_zero =
     \<lparr> ykp_poc_1 = 0, ykp_poc_2 = 0, ykp_poc_3 = 0, yaz_poc_1 = 0, yaz_poc_2 = 0, yaz_poc_3 = 0,
       yps_poc_1 = 0, yps_poc_2 = 0, yps_poc_3 = 0, ylk96_poc_1 = 0, ylk96_poc_2 = 0, ylk96_poc_3 = 0,
       yps_bkho_a_poc_1 = 0, yps_bkho_a_poc_2 = 0, yps_bkho_a_poc_3 = 0, ytp1_bkho_a_poc_1 = 0,
       ytp1_bkho_a_poc_2 = 0, ytp1_bkho_a_poc_3 = 0, ytp2_bkho_a_poc_1 = 0, ytp2_bkho_a_poc_2 = 0,
       ytp2_bkho_a_poc_3 = 0, ytm1_bkho_a_poc_1 = 0, ytm1_bkho_a_poc_2 = 0, ytm1_bkho_a_poc_3 = 0,
       ytm2_bkho_a_poc_1 = 0, ytm2_bkho_a_poc_2 = 0, ytm2_bkho_a_poc_3 = 0, ygr_bkho_a_poc_1 = 0,
       ygr_bkho_a_poc_2 = 0, ygr_bkho_a_poc_3 = 0, ylk32_3_bkho_a_poc_1 = 0, ylk32_3_bkho_a_poc_2 = 0,
       ylk32_3_bkho_a_poc_3 = 0, yvp_bkho_a_poc_1 = 0, yvp_bkho_a_poc_2 = 0, yvp_bkho_a_poc_3 = 0,
       out_servo8 = 0, out_servo7 = 0, out_servo6 = 0, out_servo5 = 0, out_servo4 = 0, out_servo3 = 0,
       out_servo2 = 0, out_servo1 = 0 \<rparr>"

text \<open>The 22 bytes of the structure.\<close>

definition health_byte :: "health_bit_map \<Rightarrow> nat \<Rightarrow> u8" where
  "health_byte h i = fold (\<lambda>j b. if health_bit h (8 * i + j) then b OR push_bit j 1 else b) [0..<8] 0"

definition health_bytes :: "health_bit_map \<Rightarrow> u8 list" where
  "health_bytes h = map (health_byte h) [0..<22]"

lemma bit_fold_or:
  "bit (fold (\<lambda>j b. if P j then b OR push_bit j 1 else b) js (a :: u8)) n
     \<longleftrightarrow> bit a n \<or> n < 8 \<and> n \<in> set js \<and> P n"
proof (induction js arbitrary: a)
  case Nil
  then show ?case by simp
next
  case (Cons j js)
  have "bit (push_bit j (1 :: u8)) n \<longleftrightarrow> n = j \<and> n < 8"
    by (simp only: bit_push_bit_iff bit_1_iff) auto
  then have "bit (if P j then a OR push_bit j 1 else a) n \<longleftrightarrow> bit a n \<or> P j \<and> n = j \<and> n < 8"
    by (cases "P j") (auto simp only: bit_or_iff if_True if_False)
  then show ?case by (simp only: fold_simps Cons.IH list.set insert_iff) blast
qed

lemma bit_health_byte: "j < 8 \<Longrightarrow> bit (health_byte h i) j = health_bit h (8 * i + j)"
  by (simp add: health_byte_def bit_fold_or)

lemma health_bytes_length [simp]: "length (health_bytes h) = 22"
  by (simp add: health_bytes_def)

section \<open>Updating one field\<close>

lemma bkd_fields_upd [simp]:
  "bkd_fields (ykp_poc_1_update f h) = (bkd_fields h)[0 := f (bkd_fields h ! 0)]"
  "bkd_fields (ykp_poc_2_update f h) = (bkd_fields h)[1 := f (bkd_fields h ! 1)]"
  "bkd_fields (ykp_poc_3_update f h) = (bkd_fields h)[2 := f (bkd_fields h ! 2)]"
  "bkd_fields (yaz_poc_1_update f h) = (bkd_fields h)[3 := f (bkd_fields h ! 3)]"
  "bkd_fields (yaz_poc_2_update f h) = (bkd_fields h)[4 := f (bkd_fields h ! 4)]"
  "bkd_fields (yaz_poc_3_update f h) = (bkd_fields h)[5 := f (bkd_fields h ! 5)]"
  "bkd_fields (yps_poc_1_update f h) = (bkd_fields h)[6 := f (bkd_fields h ! 6)]"
  "bkd_fields (yps_poc_2_update f h) = (bkd_fields h)[7 := f (bkd_fields h ! 7)]"
  "bkd_fields (yps_poc_3_update f h) = (bkd_fields h)[8 := f (bkd_fields h ! 8)]"
  "bkd_fields (ylk96_poc_1_update f h) = (bkd_fields h)[9 := f (bkd_fields h ! 9)]"
  "bkd_fields (ylk96_poc_2_update f h) = (bkd_fields h)[10 := f (bkd_fields h ! 10)]"
  "bkd_fields (ylk96_poc_3_update f h) = (bkd_fields h)[11 := f (bkd_fields h ! 11)]"
  unfolding bkd_fields_def by simp_all

lemma bkd_fields_other [simp]:
  "bkd_fields (yps_bkho_a_poc_1_update g h) = bkd_fields h"
  "bkd_fields (yps_bkho_a_poc_2_update g h) = bkd_fields h"
  "bkd_fields (yps_bkho_a_poc_3_update g h) = bkd_fields h"
  "bkd_fields (ytp1_bkho_a_poc_1_update g h) = bkd_fields h"
  "bkd_fields (ytp1_bkho_a_poc_2_update g h) = bkd_fields h"
  "bkd_fields (ytp1_bkho_a_poc_3_update g h) = bkd_fields h"
  "bkd_fields (ytp2_bkho_a_poc_1_update g h) = bkd_fields h"
  "bkd_fields (ytp2_bkho_a_poc_2_update g h) = bkd_fields h"
  "bkd_fields (ytp2_bkho_a_poc_3_update g h) = bkd_fields h"
  "bkd_fields (ytm1_bkho_a_poc_1_update g h) = bkd_fields h"
  "bkd_fields (ytm1_bkho_a_poc_2_update g h) = bkd_fields h"
  "bkd_fields (ytm1_bkho_a_poc_3_update g h) = bkd_fields h"
  "bkd_fields (ytm2_bkho_a_poc_1_update g h) = bkd_fields h"
  "bkd_fields (ytm2_bkho_a_poc_2_update g h) = bkd_fields h"
  "bkd_fields (ytm2_bkho_a_poc_3_update g h) = bkd_fields h"
  "bkd_fields (ygr_bkho_a_poc_1_update g h) = bkd_fields h"
  "bkd_fields (ygr_bkho_a_poc_2_update g h) = bkd_fields h"
  "bkd_fields (ygr_bkho_a_poc_3_update g h) = bkd_fields h"
  "bkd_fields (ylk32_3_bkho_a_poc_1_update g h) = bkd_fields h"
  "bkd_fields (ylk32_3_bkho_a_poc_2_update g h) = bkd_fields h"
  "bkd_fields (ylk32_3_bkho_a_poc_3_update g h) = bkd_fields h"
  "bkd_fields (yvp_bkho_a_poc_1_update g h) = bkd_fields h"
  "bkd_fields (yvp_bkho_a_poc_2_update g h) = bkd_fields h"
  "bkd_fields (yvp_bkho_a_poc_3_update g h) = bkd_fields h"
  "bkd_fields (out_servo8_update g h) = bkd_fields h"
  "bkd_fields (out_servo7_update g h) = bkd_fields h"
  "bkd_fields (out_servo6_update g h) = bkd_fields h"
  "bkd_fields (out_servo5_update g h) = bkd_fields h"
  "bkd_fields (out_servo4_update g h) = bkd_fields h"
  "bkd_fields (out_servo3_update g h) = bkd_fields h"
  "bkd_fields (out_servo2_update g h) = bkd_fields h"
  "bkd_fields (out_servo1_update g h) = bkd_fields h"
  unfolding bkd_fields_def by simp_all

lemma bkho_fields_upd [simp]:
  "bkho_fields (yps_bkho_a_poc_1_update f h) = (bkho_fields h)[0 := f (bkho_fields h ! 0)]"
  "bkho_fields (yps_bkho_a_poc_2_update f h) = (bkho_fields h)[1 := f (bkho_fields h ! 1)]"
  "bkho_fields (yps_bkho_a_poc_3_update f h) = (bkho_fields h)[2 := f (bkho_fields h ! 2)]"
  "bkho_fields (ytp1_bkho_a_poc_1_update f h) = (bkho_fields h)[3 := f (bkho_fields h ! 3)]"
  "bkho_fields (ytp1_bkho_a_poc_2_update f h) = (bkho_fields h)[4 := f (bkho_fields h ! 4)]"
  "bkho_fields (ytp1_bkho_a_poc_3_update f h) = (bkho_fields h)[5 := f (bkho_fields h ! 5)]"
  "bkho_fields (ytp2_bkho_a_poc_1_update f h) = (bkho_fields h)[6 := f (bkho_fields h ! 6)]"
  "bkho_fields (ytp2_bkho_a_poc_2_update f h) = (bkho_fields h)[7 := f (bkho_fields h ! 7)]"
  "bkho_fields (ytp2_bkho_a_poc_3_update f h) = (bkho_fields h)[8 := f (bkho_fields h ! 8)]"
  "bkho_fields (ytm1_bkho_a_poc_1_update f h) = (bkho_fields h)[9 := f (bkho_fields h ! 9)]"
  "bkho_fields (ytm1_bkho_a_poc_2_update f h) = (bkho_fields h)[10 := f (bkho_fields h ! 10)]"
  "bkho_fields (ytm1_bkho_a_poc_3_update f h) = (bkho_fields h)[11 := f (bkho_fields h ! 11)]"
  "bkho_fields (ytm2_bkho_a_poc_1_update f h) = (bkho_fields h)[12 := f (bkho_fields h ! 12)]"
  "bkho_fields (ytm2_bkho_a_poc_2_update f h) = (bkho_fields h)[13 := f (bkho_fields h ! 13)]"
  "bkho_fields (ytm2_bkho_a_poc_3_update f h) = (bkho_fields h)[14 := f (bkho_fields h ! 14)]"
  "bkho_fields (ygr_bkho_a_poc_1_update f h) = (bkho_fields h)[15 := f (bkho_fields h ! 15)]"
  "bkho_fields (ygr_bkho_a_poc_2_update f h) = (bkho_fields h)[16 := f (bkho_fields h ! 16)]"
  "bkho_fields (ygr_bkho_a_poc_3_update f h) = (bkho_fields h)[17 := f (bkho_fields h ! 17)]"
  "bkho_fields (ylk32_3_bkho_a_poc_1_update f h) = (bkho_fields h)[18 := f (bkho_fields h ! 18)]"
  "bkho_fields (ylk32_3_bkho_a_poc_2_update f h) = (bkho_fields h)[19 := f (bkho_fields h ! 19)]"
  "bkho_fields (ylk32_3_bkho_a_poc_3_update f h) = (bkho_fields h)[20 := f (bkho_fields h ! 20)]"
  "bkho_fields (yvp_bkho_a_poc_1_update f h) = (bkho_fields h)[21 := f (bkho_fields h ! 21)]"
  "bkho_fields (yvp_bkho_a_poc_2_update f h) = (bkho_fields h)[22 := f (bkho_fields h ! 22)]"
  "bkho_fields (yvp_bkho_a_poc_3_update f h) = (bkho_fields h)[23 := f (bkho_fields h ! 23)]"
  unfolding bkho_fields_def by simp_all

lemma bkho_fields_other [simp]:
  "bkho_fields (ykp_poc_1_update f h) = bkho_fields h"
  "bkho_fields (ykp_poc_2_update f h) = bkho_fields h"
  "bkho_fields (ykp_poc_3_update f h) = bkho_fields h"
  "bkho_fields (yaz_poc_1_update f h) = bkho_fields h"
  "bkho_fields (yaz_poc_2_update f h) = bkho_fields h"
  "bkho_fields (yaz_poc_3_update f h) = bkho_fields h"
  "bkho_fields (yps_poc_1_update f h) = bkho_fields h"
  "bkho_fields (yps_poc_2_update f h) = bkho_fields h"
  "bkho_fields (yps_poc_3_update f h) = bkho_fields h"
  "bkho_fields (ylk96_poc_1_update f h) = bkho_fields h"
  "bkho_fields (ylk96_poc_2_update f h) = bkho_fields h"
  "bkho_fields (ylk96_poc_3_update f h) = bkho_fields h"
  "bkho_fields (out_servo8_update g h) = bkho_fields h"
  "bkho_fields (out_servo7_update g h) = bkho_fields h"
  "bkho_fields (out_servo6_update g h) = bkho_fields h"
  "bkho_fields (out_servo5_update g h) = bkho_fields h"
  "bkho_fields (out_servo4_update g h) = bkho_fields h"
  "bkho_fields (out_servo3_update g h) = bkho_fields h"
  "bkho_fields (out_servo2_update g h) = bkho_fields h"
  "bkho_fields (out_servo1_update g h) = bkho_fields h"
  unfolding bkho_fields_def by simp_all

lemma servo_fields_upd [simp]:
  "servo_fields (out_servo8_update f h) = (servo_fields h)[0 := f (servo_fields h ! 0)]"
  "servo_fields (out_servo7_update f h) = (servo_fields h)[1 := f (servo_fields h ! 1)]"
  "servo_fields (out_servo6_update f h) = (servo_fields h)[2 := f (servo_fields h ! 2)]"
  "servo_fields (out_servo5_update f h) = (servo_fields h)[3 := f (servo_fields h ! 3)]"
  "servo_fields (out_servo4_update f h) = (servo_fields h)[4 := f (servo_fields h ! 4)]"
  "servo_fields (out_servo3_update f h) = (servo_fields h)[5 := f (servo_fields h ! 5)]"
  "servo_fields (out_servo2_update f h) = (servo_fields h)[6 := f (servo_fields h ! 6)]"
  "servo_fields (out_servo1_update f h) = (servo_fields h)[7 := f (servo_fields h ! 7)]"
  unfolding servo_fields_def by simp_all

lemma servo_fields_other [simp]:
  "servo_fields (ykp_poc_1_update f h) = servo_fields h"
  "servo_fields (ykp_poc_2_update f h) = servo_fields h"
  "servo_fields (ykp_poc_3_update f h) = servo_fields h"
  "servo_fields (yaz_poc_1_update f h) = servo_fields h"
  "servo_fields (yaz_poc_2_update f h) = servo_fields h"
  "servo_fields (yaz_poc_3_update f h) = servo_fields h"
  "servo_fields (yps_poc_1_update f h) = servo_fields h"
  "servo_fields (yps_poc_2_update f h) = servo_fields h"
  "servo_fields (yps_poc_3_update f h) = servo_fields h"
  "servo_fields (ylk96_poc_1_update f h) = servo_fields h"
  "servo_fields (ylk96_poc_2_update f h) = servo_fields h"
  "servo_fields (ylk96_poc_3_update f h) = servo_fields h"
  "servo_fields (yps_bkho_a_poc_1_update g h) = servo_fields h"
  "servo_fields (yps_bkho_a_poc_2_update g h) = servo_fields h"
  "servo_fields (yps_bkho_a_poc_3_update g h) = servo_fields h"
  "servo_fields (ytp1_bkho_a_poc_1_update g h) = servo_fields h"
  "servo_fields (ytp1_bkho_a_poc_2_update g h) = servo_fields h"
  "servo_fields (ytp1_bkho_a_poc_3_update g h) = servo_fields h"
  "servo_fields (ytp2_bkho_a_poc_1_update g h) = servo_fields h"
  "servo_fields (ytp2_bkho_a_poc_2_update g h) = servo_fields h"
  "servo_fields (ytp2_bkho_a_poc_3_update g h) = servo_fields h"
  "servo_fields (ytm1_bkho_a_poc_1_update g h) = servo_fields h"
  "servo_fields (ytm1_bkho_a_poc_2_update g h) = servo_fields h"
  "servo_fields (ytm1_bkho_a_poc_3_update g h) = servo_fields h"
  "servo_fields (ytm2_bkho_a_poc_1_update g h) = servo_fields h"
  "servo_fields (ytm2_bkho_a_poc_2_update g h) = servo_fields h"
  "servo_fields (ytm2_bkho_a_poc_3_update g h) = servo_fields h"
  "servo_fields (ygr_bkho_a_poc_1_update g h) = servo_fields h"
  "servo_fields (ygr_bkho_a_poc_2_update g h) = servo_fields h"
  "servo_fields (ygr_bkho_a_poc_3_update g h) = servo_fields h"
  "servo_fields (ylk32_3_bkho_a_poc_1_update g h) = servo_fields h"
  "servo_fields (ylk32_3_bkho_a_poc_2_update g h) = servo_fields h"
  "servo_fields (ylk32_3_bkho_a_poc_3_update g h) = servo_fields h"
  "servo_fields (yvp_bkho_a_poc_1_update g h) = servo_fields h"
  "servo_fields (yvp_bkho_a_poc_2_update g h) = servo_fields h"
  "servo_fields (yvp_bkho_a_poc_3_update g h) = servo_fields h"
  unfolding servo_fields_def by simp_all

lemma health_bit_bkd:
  assumes "bkd_fields g = (bkd_fields h)[i := w]" "bkho_fields g = bkho_fields h"
    "servo_fields g = servo_fields h" "i < 12"
  shows "health_bit g n = (if n < 144 \<and> n div 12 = i then bit w (n mod 12) else health_bit h n)"
proof -
  have "n < 144 \<Longrightarrow> n div 12 < 12" by (simp add: less_mult_imp_div_less)
  then show ?thesis using assms by (auto simp: health_bit_def nth_list_update)
qed

lemma health_bit_bkho:
  assumes "bkho_fields g = (bkho_fields h)[i := w]" "bkd_fields g = bkd_fields h"
    "servo_fields g = servo_fields h" "i < 24"
  shows "health_bit g n = (if n = 144 + i then bit w 0 else health_bit h n)"
  using assms by (auto simp: health_bit_def nth_list_update)

lemma health_bit_servo:
  assumes "servo_fields g = (servo_fields h)[i := w]" "bkd_fields g = bkd_fields h"
    "bkho_fields g = bkho_fields h" "i < 8"
  shows "health_bit g n = (if n = 168 + i then bit w 0 else health_bit h n)"
  using assms by (auto simp: health_bit_def nth_list_update)

section \<open>The answer packet\<close>

definition SIZE_MESSAGE_YLS :: nat where "SIZE_MESSAGE_YLS = 8192"
definition SIZE_MESSAGE_YV :: nat where "SIZE_MESSAGE_YV = 80"
definition SIZE_HEALTH_MAP :: nat where "SIZE_HEALTH_MAP = 22"

text \<open>\<open>rest\<close> holds bytes 22 to 8191.\<close>

record YLSToYVPacket =
  health_abonent :: health_bit_map
  rest :: "u8 list"

definition packet_zero :: YLSToYVPacket where
  "packet_zero = \<lparr> health_abonent = health_zero, rest = replicate (SIZE_MESSAGE_YLS - SIZE_HEALTH_MAP) 0 \<rparr>"

definition packet_wf :: "YLSToYVPacket \<Rightarrow> bool" where
  "packet_wf p \<longleftrightarrow> length (rest p) = SIZE_MESSAGE_YLS - SIZE_HEALTH_MAP"

definition packet_bytes :: "YLSToYVPacket \<Rightarrow> u8 list" where
  "packet_bytes p = health_bytes (health_abonent p) @ rest p"

text \<open>Storing a byte at an offset of the packet, outside the bit fields.\<close>

definition pk_put :: "nat \<Rightarrow> u8 \<Rightarrow> YLSToYVPacket \<Rightarrow> YLSToYVPacket res" where
  "pk_put off v p =
     (if SIZE_HEALTH_MAP \<le> off
      then bind_res (put_at (rest p) (off - SIZE_HEALTH_MAP) v) (\<lambda>r. Inr (p\<lparr> rest := r \<rparr>))
      else Inl Out_Of_Bounds)"

text \<open>A 16-bit store is little-endian.\<close>

definition pk_put16 :: "nat \<Rightarrow> u16 \<Rightarrow> YLSToYVPacket \<Rightarrow> YLSToYVPacket res" where
  "pk_put16 off v p = bind_res (pk_put off (lo8 v) p) (pk_put (off + 1) (hi8 v))"

text \<open>Offsets of the arrays of \<^verbatim>\<open>YLSToYVData\<close>; the health structure with its reserve is 30 bytes.\<close>

definition off_yps_mask_BKHO_A :: "nat \<Rightarrow> nat" where "off_yps_mask_BKHO_A i = 30 + i"
definition off_yps_mask :: "nat \<Rightarrow> nat \<Rightarrow> nat" where "off_yps_mask i j = 33 + 3 * i + j"
definition off_ykp_angle :: "nat \<Rightarrow> nat \<Rightarrow> nat \<Rightarrow> nat" where "off_ykp_angle i j k = 69 + 12 * i + 4 * j + 2 * k"
definition off_out_ykp_angle :: "nat \<Rightarrow> nat" where "off_out_ykp_angle i = 213 + 2 * i"
definition off_yaz_data :: "nat \<Rightarrow> nat \<Rightarrow> nat \<Rightarrow> nat" where "off_yaz_data i j k = 229 + 72 * i + 24 * j + k"
definition off_yvp_data :: "nat \<Rightarrow> nat \<Rightarrow> nat \<Rightarrow> nat" where "off_yvp_data i j k = 1093 + 192 * i + 64 * j + k"
definition off_ylk32_3_data :: "nat \<Rightarrow> nat" where "off_ylk32_3_data i = 1477 + i"
definition off_ylk96_data :: "nat \<Rightarrow> nat \<Rightarrow> nat \<Rightarrow> nat" where "off_ylk96_data i j k = 1577 + 90 * i + 30 * j + k"

lemmas offsets [layout_simps] =
  off_yps_mask_BKHO_A_def off_yps_mask_def off_ykp_angle_def off_out_ykp_angle_def off_yaz_data_def
  off_yvp_data_def off_ylk32_3_data_def off_ylk96_data_def
  SIZE_MESSAGE_YLS_def SIZE_MESSAGE_YV_def SIZE_HEALTH_MAP_def

lemma packet_bytes_length: "packet_wf p \<Longrightarrow> length (packet_bytes p) = SIZE_MESSAGE_YLS"
  by (simp add: packet_bytes_def packet_wf_def layout_simps)

lemma pk_put_ok:
  "\<lbrakk> packet_wf p; SIZE_HEALTH_MAP \<le> off; off < SIZE_MESSAGE_YLS \<rbrakk>
     \<Longrightarrow> pk_put off v p = Inr (p\<lparr> rest := (rest p)[off - SIZE_HEALTH_MAP := v] \<rparr>)"
  by (simp add: pk_put_def packet_wf_def layout_simps)

lemma pk_put_wf:
  "\<lbrakk> pk_put off v p = Inr q \<rbrakk> \<Longrightarrow> packet_wf q = packet_wf p \<and> health_abonent q = health_abonent p"
  by (auto simp: pk_put_def bind_res_eq_Inr packet_wf_def dest: put_at_length split: if_splits)

lemma pk_put_bytes:
  assumes "pk_put off v p = Inr q"
  shows "packet_bytes q = (packet_bytes p)[off := v]"
  using assms
  by (auto simp: pk_put_def bind_res_eq_Inr put_at_def packet_bytes_def list_update_append
        SIZE_HEALTH_MAP_def split: if_splits)

lemma packet_health_bytes: "packet_bytes (p\<lparr> health_abonent := h \<rparr>) = health_bytes h @ rest p"
  by (simp add: packet_bytes_def)

section \<open>The request packet\<close>

definition YV_COMMAND_TEST1 :: u8 where "YV_COMMAND_TEST1 = 1"
definition YV_COMMAND_TEST2 :: u8 where "YV_COMMAND_TEST2 = 2"

text \<open>
  The request is its 80 bytes; an element of \<^verbatim>\<open>yps_mask\<close> or \<^verbatim>\<open>ykp_angle\<close> past the
  end of its array is the byte of the packet at that offset.
\<close>

definition rx_yps_mask_BKHO_A :: "u8 list \<Rightarrow> u8 res" where "rx_yps_mask_BKHO_A m = get_at m 0"
definition rx_yps_mask :: "u8 list \<Rightarrow> nat \<Rightarrow> u8 res" where "rx_yps_mask m i = get_at m (1 + i)"
definition rx_ykp_angle :: "u8 list \<Rightarrow> nat \<Rightarrow> nat \<Rightarrow> u16 res" where
  "rx_ykp_angle m i k =
     bind_res (get_at m (13 + 4 * i + 2 * k)) (\<lambda>l. bind_res (get_at m (13 + 4 * i + 2 * k + 1)) (\<lambda>h. Inr (be16 h l)))"
definition rx_out_ykp_angle :: "u8 list \<Rightarrow> nat \<Rightarrow> u16 res" where
  "rx_out_ykp_angle m i =
     bind_res (get_at m (61 + 2 * i)) (\<lambda>l. bind_res (get_at m (61 + 2 * i + 1)) (\<lambda>h. Inr (be16 h l)))"
definition rx_command :: "u8 list \<Rightarrow> u8 res" where "rx_command m = get_at m 77"
definition rx_counter :: "u8 list \<Rightarrow> u16 res" where
  "rx_counter m = bind_res (get_at m 78) (\<lambda>l. bind_res (get_at m 79) (\<lambda>h. Inr (be16 h l)))"

end
