(* ===== verification/Mmio.thy ===== *)
theory Mmio
  imports Prelude
begin

text \<open>
  Memory-mapped registers: the macros \<^verbatim>\<open>REG32\<close>, \<^verbatim>\<open>BIT\<close>,
  \<^verbatim>\<open>BITS\<close> and \<^verbatim>\<open>GET_BITS\<close> of \<^verbatim>\<open>src/inc/gd32f4xx.h\<close> over a store
  from addresses to words. A register holds the last word written to it; what the silicon
  does on top of that (flags it raises, write-one-to-clear) belongs to the environment, which
  may change registers between two calls of the program. The locale \<open>register_bus\<close> states the
  two laws the drivers rely on, and proves the read-modify-write laws all of them share.
\<close>

type_synonym mem = "u32 \<Rightarrow> u32"

definition reg_rd :: "u32 \<Rightarrow> mem \<Rightarrow> u32" where
  "reg_rd a m = m a"

definition reg_wr :: "u32 \<Rightarrow> u32 \<Rightarrow> mem \<Rightarrow> mem" where
  "reg_wr a v m = m(a := v)"

text \<open>\<^verbatim>\<open>REG |= v\<close> and \<^verbatim>\<open>REG &= ~v\<close>.\<close>

definition reg_set :: "u32 \<Rightarrow> u32 \<Rightarrow> mem \<Rightarrow> mem" where
  "reg_set a v m = reg_wr a (reg_rd a m OR v) m"

definition reg_clr :: "u32 \<Rightarrow> u32 \<Rightarrow> mem \<Rightarrow> mem" where
  "reg_clr a v m = reg_wr a (reg_rd a m AND NOT v) m"

definition BIT :: "nat \<Rightarrow> u32" where
  "BIT x = push_bit x 1"

definition BITS :: "nat \<Rightarrow> nat \<Rightarrow> u32" where
  "BITS s e = push_bit s 0xFFFFFFFF AND drop_bit (31 - e) 0xFFFFFFFF"

definition GET_BITS :: "u32 \<Rightarrow> nat \<Rightarrow> nat \<Rightarrow> u32" where
  "GET_BITS regval s e = drop_bit s (regval AND BITS s e)"

lemma bit_BIT [simp]: "bit (BIT x) n \<longleftrightarrow> n = x \<and> n < 32"
  by (auto simp: BIT_def bit_simps)

lemma and_BIT_eq_0: "r AND BIT n = 0 \<longleftrightarrow> \<not> (n < 32 \<and> bit r n)" "0 = r AND BIT n \<longleftrightarrow> \<not> (n < 32 \<and> bit r n)"
proof -
  have "r AND BIT n = (if n < 32 \<and> bit r n then BIT n else 0)"
    by (rule bit_word_eqI) (auto simp: bit_and_iff)
  moreover have "n < 32 \<Longrightarrow> BIT n \<noteq> 0"
    by (metis bit_0_eq bit_BIT bot_apply bot_bool_def)
  ultimately show "r AND BIT n = 0 \<longleftrightarrow> \<not> (n < 32 \<and> bit r n)"
    and "0 = r AND BIT n \<longleftrightarrow> \<not> (n < 32 \<and> bit r n)" by auto
qed

lemma bit_all_ones: "bit (0xFFFFFFFF :: u32) n \<longleftrightarrow> n < 32"
proof -
  have "(0xFFFFFFFF :: u32) = mask 32" by (simp add: mask_eq_exp_minus_1)
  then show ?thesis by (simp only: bit_mask_iff) simp
qed

lemma bit_BITS [simp]: "e < 32 \<Longrightarrow> bit (BITS s e) n \<longleftrightarrow> s \<le> n \<and> n \<le> e"
proof -
  assume "e < 32"
  then show ?thesis
    unfolding BITS_def
    by (simp only: bit_and_iff bit_push_bit_iff bit_drop_bit_eq comp_def bit_all_ones) auto
qed

lemma bit_GET_BITS: "e < 32 \<Longrightarrow> bit (GET_BITS r s e) n \<longleftrightarrow> n + s \<le> e \<and> bit r (n + s)"
  by (auto simp: GET_BITS_def bit_drop_bit_eq bit_and_iff add.commute)

section \<open>The register bus\<close>

locale register_bus =
  fixes rd :: "u32 \<Rightarrow> 'm \<Rightarrow> u32"
    and wr :: "u32 \<Rightarrow> u32 \<Rightarrow> 'm \<Rightarrow> 'm"
  assumes rd_wr_same: "rd a (wr a v m) = v"
    and rd_wr_other: "a \<noteq> b \<Longrightarrow> rd a (wr b v m) = rd a m"
begin

lemma rd_wr: "rd a (wr b v m) = (if a = b then v else rd a m)"
  by (simp add: rd_wr_same rd_wr_other)

text \<open>Clear a field, then write a value that lies inside it.\<close>

lemma field_written:
  assumes "v AND NOT k = 0"
  shows "rd a (wr a ((rd a m AND NOT k) OR v) m) AND k = v"
proof (rule bit_word_eqI)
  fix n assume n: "n < LENGTH(32)"
  have "\<not> bit (v AND NOT k) n" using assms by simp
  then show "bit (rd a (wr a ((rd a m AND NOT k) OR v) m) AND k) n = bit v n"
    using n by (auto simp: rd_wr_same bit_simps)
qed

lemma field_kept:
  assumes "v AND NOT k = 0"
  shows "rd a (wr a ((rd a m AND NOT k) OR v) m) AND NOT k = rd a m AND NOT k"
proof (rule bit_word_eqI)
  fix n assume n: "n < LENGTH(32)"
  have "\<not> bit (v AND NOT k) n" using assms by simp
  then show "bit (rd a (wr a ((rd a m AND NOT k) OR v) m) AND NOT k) n = bit (rd a m AND NOT k) n"
    using n by (auto simp: rd_wr_same bit_simps)
qed

end

interpretation mmio: register_bus reg_rd reg_wr
  by unfold_locales (simp_all add: reg_rd_def reg_wr_def)

lemma reg_rd_wr [simp]: "reg_rd a (reg_wr b v m) = (if a = b then v else reg_rd a m)"
  by (rule mmio.rd_wr)

lemma rd_set [simp]:
  "reg_rd a (reg_set b v m) = (if a = b then reg_rd a m OR v else reg_rd a m)"
  by (simp add: reg_set_def)

lemma rd_clr [simp]:
  "reg_rd a (reg_clr b v m) = (if a = b then reg_rd a m AND NOT v else reg_rd a m)"
  by (simp add: reg_clr_def)

end
