(* ===== verification/Rcu.thy ===== *)
theory Rcu
  imports Mmio
begin

text \<open>
  The reset and clock unit, \<^verbatim>\<open>gd32f4xx_rcu.c\<close>: peripheral clocks and resets, the bus
  prescalers, the PLL set-up with its range checks, and \<^verbatim>\<open>rcu_clock_freq_get\<close>, from which
  the baud rate of the RS-485 lines is computed. A peripheral, an oscillator or a flag is the
  code \<^verbatim>\<open>RCU_REGIDX_BIT(offset, bit)\<close> of the C enumerations.
\<close>

section \<open>Registers and constants of \<^verbatim>\<open>gd32f4xx_rcu.h\<close>\<close>

definition RCU :: u32 where "RCU = 0x40023800"
definition RCU_CTL :: u32 where "RCU_CTL = RCU + 0x0"
definition RCU_PLL :: u32 where "RCU_PLL = RCU + 0x4"
definition RCU_CFG0 :: u32 where "RCU_CFG0 = RCU + 0x8"
definition RCU_INT :: u32 where "RCU_INT = RCU + 0xC"
definition RCU_AHB1RST :: u32 where "RCU_AHB1RST = RCU + 0x10"
definition RCU_APB1RST :: u32 where "RCU_APB1RST = RCU + 0x20"
definition RCU_APB2RST :: u32 where "RCU_APB2RST = RCU + 0x24"
definition RCU_AHB1EN :: u32 where "RCU_AHB1EN = RCU + 0x30"
definition RCU_APB1EN :: u32 where "RCU_APB1EN = RCU + 0x40"
definition RCU_APB2EN :: u32 where "RCU_APB2EN = RCU + 0x44"
definition RCU_BDCTL :: u32 where "RCU_BDCTL = RCU + 0x70"
definition RCU_RSTSCK :: u32 where "RCU_RSTSCK = RCU + 0x74"
definition RCU_PLLSSCTL :: u32 where "RCU_PLLSSCTL = RCU + 0x80"
definition RCU_PLLI2S :: u32 where "RCU_PLLI2S = RCU + 0x84"
definition RCU_PLLSAI :: u32 where "RCU_PLLSAI = RCU + 0x88"
definition RCU_CFG1 :: u32 where "RCU_CFG1 = RCU + 0x8C"
definition RCU_ADDCTL :: u32 where "RCU_ADDCTL = RCU + 0xC0"
definition RCU_VKEY :: u32 where "RCU_VKEY = RCU + 0x100"
definition RCU_DSV :: u32 where "RCU_DSV = RCU + 0x134"

lemmas rcu_regs [reg_simps] =
  RCU_def RCU_CTL_def RCU_PLL_def RCU_CFG0_def RCU_INT_def RCU_AHB1RST_def RCU_APB1RST_def
  RCU_APB2RST_def RCU_AHB1EN_def RCU_APB1EN_def RCU_APB2EN_def RCU_BDCTL_def RCU_RSTSCK_def
  RCU_PLLSSCTL_def RCU_PLLI2S_def RCU_PLLSAI_def RCU_CFG1_def RCU_ADDCTL_def RCU_VKEY_def RCU_DSV_def

definition RCU_CTL_IRC16MEN :: u32 where "RCU_CTL_IRC16MEN = BIT 0"
definition RCU_CTL_IRC16MADJ :: u32 where "RCU_CTL_IRC16MADJ = BITS 3 7"
definition RCU_CTL_HXTALEN :: u32 where "RCU_CTL_HXTALEN = BIT 16"
definition RCU_CTL_HXTALSTB :: u32 where "RCU_CTL_HXTALSTB = BIT 17"
definition RCU_CTL_HXTALBPS :: u32 where "RCU_CTL_HXTALBPS = BIT 18"
definition RCU_CTL_CKMEN :: u32 where "RCU_CTL_CKMEN = BIT 19"
definition RCU_CTL_PLLEN :: u32 where "RCU_CTL_PLLEN = BIT 24"
definition RCU_CTL_PLLSTB :: u32 where "RCU_CTL_PLLSTB = BIT 25"
definition RCU_CTL_PLLI2SEN :: u32 where "RCU_CTL_PLLI2SEN = BIT 26"
definition RCU_CTL_PLLSAIEN :: u32 where "RCU_CTL_PLLSAIEN = BIT 28"
definition RCU_PLL_PLLSEL :: u32 where "RCU_PLL_PLLSEL = BIT 22"
definition RCU_CFG0_SCS :: u32 where "RCU_CFG0_SCS = BITS 0 1"
definition RCU_CFG0_SCSS :: u32 where "RCU_CFG0_SCSS = BITS 2 3"
definition RCU_CFG0_AHBPSC :: u32 where "RCU_CFG0_AHBPSC = BITS 4 7"
definition RCU_CFG0_APB1PSC :: u32 where "RCU_CFG0_APB1PSC = BITS 10 12"
definition RCU_CFG0_APB2PSC :: u32 where "RCU_CFG0_APB2PSC = BITS 13 15"
definition RCU_CFG0_RTCDIV :: u32 where "RCU_CFG0_RTCDIV = BITS 16 20"
definition RCU_CFG0_CKOUT0SEL :: u32 where "RCU_CFG0_CKOUT0SEL = BITS 21 22"
definition RCU_CFG0_I2SSEL :: u32 where "RCU_CFG0_I2SSEL = BIT 23"
definition RCU_CFG0_CKOUT0DIV :: u32 where "RCU_CFG0_CKOUT0DIV = BITS 24 26"
definition RCU_CFG0_CKOUT1DIV :: u32 where "RCU_CFG0_CKOUT1DIV = BITS 27 29"
definition RCU_CFG0_CKOUT1SEL :: u32 where "RCU_CFG0_CKOUT1SEL = BITS 30 31"
definition RCU_BDCTL_LXTALEN :: u32 where "RCU_BDCTL_LXTALEN = BIT 0"
definition RCU_BDCTL_LXTALBPS :: u32 where "RCU_BDCTL_LXTALBPS = BIT 2"
definition RCU_BDCTL_LXTALDRI :: u32 where "RCU_BDCTL_LXTALDRI = BIT 3"
definition RCU_BDCTL_RTCSRC :: u32 where "RCU_BDCTL_RTCSRC = BITS 8 9"
definition RCU_BDCTL_BKPRST :: u32 where "RCU_BDCTL_BKPRST = BIT 16"
definition RCU_RSTSCK_RSTFC :: u32 where "RCU_RSTSCK_RSTFC = BIT 24"
definition RCU_PLLSSCTL_MODCNT :: u32 where "RCU_PLLSSCTL_MODCNT = BITS 0 12"
definition RCU_PLLSSCTL_MODSTEP :: u32 where "RCU_PLLSSCTL_MODSTEP = BITS 13 27"
definition RCU_PLLSSCTL_SS_TYPE :: u32 where "RCU_PLLSSCTL_SS_TYPE = BIT 30"
definition RCU_PLLSSCTL_SSCGON :: u32 where "RCU_PLLSSCTL_SSCGON = BIT 31"
definition RCU_CFG1_PLLSAIRDIV :: u32 where "RCU_CFG1_PLLSAIRDIV = BITS 16 17"
definition RCU_CFG1_TIMERSEL :: u32 where "RCU_CFG1_TIMERSEL = BIT 24"
definition RCU_ADDCTL_CK48MSEL :: u32 where "RCU_ADDCTL_CK48MSEL = BIT 0"
definition RCU_ADDCTL_PLL48MSEL :: u32 where "RCU_ADDCTL_PLL48MSEL = BIT 1"
definition RCU_DSV_DSLPVS :: u32 where "RCU_DSV_DSLPVS = BITS 0 2"
definition RCU_APB1EN_PMUEN :: u32 where "RCU_APB1EN_PMUEN = BIT 28"

lemmas rcu_bits =
  RCU_CTL_IRC16MEN_def RCU_CTL_IRC16MADJ_def RCU_CTL_HXTALEN_def RCU_CTL_HXTALSTB_def
  RCU_CTL_HXTALBPS_def RCU_CTL_CKMEN_def RCU_CTL_PLLEN_def RCU_CTL_PLLSTB_def RCU_CTL_PLLI2SEN_def
  RCU_CTL_PLLSAIEN_def RCU_PLL_PLLSEL_def RCU_CFG0_SCS_def RCU_CFG0_SCSS_def RCU_CFG0_AHBPSC_def
  RCU_CFG0_APB1PSC_def RCU_CFG0_APB2PSC_def RCU_CFG0_RTCDIV_def RCU_CFG0_CKOUT0SEL_def
  RCU_CFG0_I2SSEL_def RCU_CFG0_CKOUT0DIV_def RCU_CFG0_CKOUT1DIV_def RCU_CFG0_CKOUT1SEL_def
  RCU_BDCTL_LXTALEN_def RCU_BDCTL_LXTALBPS_def RCU_BDCTL_LXTALDRI_def RCU_BDCTL_RTCSRC_def
  RCU_BDCTL_BKPRST_def RCU_RSTSCK_RSTFC_def RCU_PLLSSCTL_MODCNT_def RCU_PLLSSCTL_MODSTEP_def
  RCU_PLLSSCTL_SS_TYPE_def RCU_PLLSSCTL_SSCGON_def RCU_CFG1_PLLSAIRDIV_def RCU_CFG1_TIMERSEL_def
  RCU_ADDCTL_CK48MSEL_def RCU_ADDCTL_PLL48MSEL_def RCU_DSV_DSLPVS_def RCU_APB1EN_PMUEN_def

definition RCU_REGIDX_BIT :: "u32 \<Rightarrow> u32 \<Rightarrow> u32" where
  "RCU_REGIDX_BIT regidx bitpos = push_bit 6 regidx OR bitpos"
definition RCU_REG_VAL :: "u32 \<Rightarrow> u32" where "RCU_REG_VAL periph = RCU + drop_bit 6 periph"
definition RCU_BIT_POS :: "u32 \<Rightarrow> nat" where "RCU_BIT_POS v = unat (v AND 0x1F)"

definition RCU_GPIOA :: u32 where "RCU_GPIOA = RCU_REGIDX_BIT 0x30 0"
definition RCU_GPIOB :: u32 where "RCU_GPIOB = RCU_REGIDX_BIT 0x30 1"
definition RCU_GPIOC :: u32 where "RCU_GPIOC = RCU_REGIDX_BIT 0x30 2"
definition RCU_GPIOD :: u32 where "RCU_GPIOD = RCU_REGIDX_BIT 0x30 3"
definition RCU_GPIOE :: u32 where "RCU_GPIOE = RCU_REGIDX_BIT 0x30 4"
definition RCU_DMA0 :: u32 where "RCU_DMA0 = RCU_REGIDX_BIT 0x30 21"
definition RCU_DMA1 :: u32 where "RCU_DMA1 = RCU_REGIDX_BIT 0x30 22"
definition RCU_ENET :: u32 where "RCU_ENET = RCU_REGIDX_BIT 0x30 25"
definition RCU_ENETTX :: u32 where "RCU_ENETTX = RCU_REGIDX_BIT 0x30 26"
definition RCU_ENETRX :: u32 where "RCU_ENETRX = RCU_REGIDX_BIT 0x30 27"
definition RCU_TIMER1 :: u32 where "RCU_TIMER1 = RCU_REGIDX_BIT 0x40 0"
definition RCU_TIMER2 :: u32 where "RCU_TIMER2 = RCU_REGIDX_BIT 0x40 1"
definition RCU_TIMER3 :: u32 where "RCU_TIMER3 = RCU_REGIDX_BIT 0x40 2"
definition RCU_TIMER4 :: u32 where "RCU_TIMER4 = RCU_REGIDX_BIT 0x40 3"
definition RCU_TIMER5 :: u32 where "RCU_TIMER5 = RCU_REGIDX_BIT 0x40 4"
definition RCU_TIMER6 :: u32 where "RCU_TIMER6 = RCU_REGIDX_BIT 0x40 5"
definition RCU_USART1 :: u32 where "RCU_USART1 = RCU_REGIDX_BIT 0x40 17"
definition RCU_USART2 :: u32 where "RCU_USART2 = RCU_REGIDX_BIT 0x40 18"
definition RCU_UART3 :: u32 where "RCU_UART3 = RCU_REGIDX_BIT 0x40 19"
definition RCU_UART4 :: u32 where "RCU_UART4 = RCU_REGIDX_BIT 0x40 20"
definition RCU_UART6 :: u32 where "RCU_UART6 = RCU_REGIDX_BIT 0x40 30"
definition RCU_UART7 :: u32 where "RCU_UART7 = RCU_REGIDX_BIT 0x40 31"
definition RCU_USART0 :: u32 where "RCU_USART0 = RCU_REGIDX_BIT 0x44 4"
definition RCU_USART5 :: u32 where "RCU_USART5 = RCU_REGIDX_BIT 0x44 5"
definition RCU_SYSCFG :: u32 where "RCU_SYSCFG = RCU_REGIDX_BIT 0x44 14"
definition RCU_TIMER1RST :: u32 where "RCU_TIMER1RST = RCU_REGIDX_BIT 0x20 0"
definition RCU_TIMER2RST :: u32 where "RCU_TIMER2RST = RCU_REGIDX_BIT 0x20 1"
definition RCU_TIMER3RST :: u32 where "RCU_TIMER3RST = RCU_REGIDX_BIT 0x20 2"
definition RCU_TIMER4RST :: u32 where "RCU_TIMER4RST = RCU_REGIDX_BIT 0x20 3"
definition RCU_TIMER5RST :: u32 where "RCU_TIMER5RST = RCU_REGIDX_BIT 0x20 4"
definition RCU_TIMER6RST :: u32 where "RCU_TIMER6RST = RCU_REGIDX_BIT 0x20 5"
definition RCU_TIMER11RST :: u32 where "RCU_TIMER11RST = RCU_REGIDX_BIT 0x20 6"
definition RCU_TIMER12RST :: u32 where "RCU_TIMER12RST = RCU_REGIDX_BIT 0x20 7"
definition RCU_TIMER13RST :: u32 where "RCU_TIMER13RST = RCU_REGIDX_BIT 0x20 8"
definition RCU_USART1RST :: u32 where "RCU_USART1RST = RCU_REGIDX_BIT 0x20 17"
definition RCU_USART2RST :: u32 where "RCU_USART2RST = RCU_REGIDX_BIT 0x20 18"
definition RCU_UART3RST :: u32 where "RCU_UART3RST = RCU_REGIDX_BIT 0x20 19"
definition RCU_UART4RST :: u32 where "RCU_UART4RST = RCU_REGIDX_BIT 0x20 20"
definition RCU_UART6RST :: u32 where "RCU_UART6RST = RCU_REGIDX_BIT 0x20 30"
definition RCU_UART7RST :: u32 where "RCU_UART7RST = RCU_REGIDX_BIT 0x20 31"
definition RCU_TIMER0RST :: u32 where "RCU_TIMER0RST = RCU_REGIDX_BIT 0x24 0"
definition RCU_TIMER7RST :: u32 where "RCU_TIMER7RST = RCU_REGIDX_BIT 0x24 1"
definition RCU_USART0RST :: u32 where "RCU_USART0RST = RCU_REGIDX_BIT 0x24 4"
definition RCU_USART5RST :: u32 where "RCU_USART5RST = RCU_REGIDX_BIT 0x24 5"
definition RCU_TIMER8RST :: u32 where "RCU_TIMER8RST = RCU_REGIDX_BIT 0x24 16"
definition RCU_TIMER9RST :: u32 where "RCU_TIMER9RST = RCU_REGIDX_BIT 0x24 17"
definition RCU_TIMER10RST :: u32 where "RCU_TIMER10RST = RCU_REGIDX_BIT 0x24 18"
definition RCU_FLAG_IRC16MSTB :: u32 where "RCU_FLAG_IRC16MSTB = RCU_REGIDX_BIT 0x00 1"
definition RCU_FLAG_HXTALSTB :: u32 where "RCU_FLAG_HXTALSTB = RCU_REGIDX_BIT 0x00 17"
definition RCU_FLAG_PLLSTB :: u32 where "RCU_FLAG_PLLSTB = RCU_REGIDX_BIT 0x00 25"
definition RCU_FLAG_PLLI2SSTB :: u32 where "RCU_FLAG_PLLI2SSTB = RCU_REGIDX_BIT 0x00 27"
definition RCU_FLAG_PLLSAISTB :: u32 where "RCU_FLAG_PLLSAISTB = RCU_REGIDX_BIT 0x00 29"
definition RCU_FLAG_LXTALSTB :: u32 where "RCU_FLAG_LXTALSTB = RCU_REGIDX_BIT 0x70 1"
definition RCU_FLAG_IRC32KSTB :: u32 where "RCU_FLAG_IRC32KSTB = RCU_REGIDX_BIT 0x74 1"
definition RCU_FLAG_IRC48MSTB :: u32 where "RCU_FLAG_IRC48MSTB = RCU_REGIDX_BIT 0xC0 17"
definition RCU_HXTAL :: u32 where "RCU_HXTAL = RCU_REGIDX_BIT 0x00 16"
definition RCU_LXTAL :: u32 where "RCU_LXTAL = RCU_REGIDX_BIT 0x70 0"
definition RCU_IRC16M :: u32 where "RCU_IRC16M = RCU_REGIDX_BIT 0x00 0"
definition RCU_IRC48M :: u32 where "RCU_IRC48M = RCU_REGIDX_BIT 0xC0 16"
definition RCU_IRC32K :: u32 where "RCU_IRC32K = RCU_REGIDX_BIT 0x74 0"
definition RCU_PLL_CK :: u32 where "RCU_PLL_CK = RCU_REGIDX_BIT 0x00 24"
definition RCU_PLLI2S_CK :: u32 where "RCU_PLLI2S_CK = RCU_REGIDX_BIT 0x00 26"
definition RCU_PLLSAI_CK :: u32 where "RCU_PLLSAI_CK = RCU_REGIDX_BIT 0x00 28"

lemmas rcu_periphs =
  RCU_REGIDX_BIT_def RCU_REG_VAL_def RCU_BIT_POS_def RCU_GPIOA_def RCU_GPIOB_def RCU_GPIOC_def
  RCU_GPIOD_def RCU_GPIOE_def RCU_DMA0_def RCU_DMA1_def RCU_ENET_def RCU_ENETTX_def RCU_ENETRX_def
  RCU_TIMER1_def RCU_TIMER2_def RCU_TIMER3_def RCU_TIMER4_def RCU_TIMER5_def RCU_TIMER6_def
  RCU_USART1_def RCU_USART2_def RCU_UART3_def RCU_UART4_def RCU_UART6_def RCU_UART7_def RCU_USART0_def
  RCU_USART5_def RCU_SYSCFG_def RCU_TIMER1RST_def RCU_TIMER2RST_def RCU_TIMER3RST_def RCU_TIMER4RST_def
  RCU_TIMER5RST_def RCU_TIMER6RST_def RCU_TIMER11RST_def RCU_TIMER12RST_def RCU_TIMER13RST_def
  RCU_USART1RST_def RCU_USART2RST_def RCU_UART3RST_def RCU_UART4RST_def RCU_UART6RST_def
  RCU_UART7RST_def RCU_TIMER0RST_def RCU_TIMER7RST_def RCU_USART0RST_def RCU_USART5RST_def
  RCU_TIMER8RST_def RCU_TIMER9RST_def RCU_TIMER10RST_def RCU_FLAG_IRC16MSTB_def RCU_FLAG_HXTALSTB_def
  RCU_FLAG_PLLSTB_def RCU_FLAG_PLLI2SSTB_def RCU_FLAG_PLLSAISTB_def RCU_FLAG_LXTALSTB_def
  RCU_FLAG_IRC32KSTB_def RCU_FLAG_IRC48MSTB_def RCU_HXTAL_def RCU_LXTAL_def RCU_IRC16M_def
  RCU_IRC48M_def RCU_IRC32K_def RCU_PLL_CK_def RCU_PLLI2S_CK_def RCU_PLLSAI_CK_def

definition HXTAL_VALUE :: u32 where "HXTAL_VALUE = 25000000"
definition IRC16M_VALUE :: u32 where "IRC16M_VALUE = 16000000"
definition HXTAL_STARTUP_TIMEOUT :: nat where "HXTAL_STARTUP_TIMEOUT = 0x800"
definition IRC16M_STARTUP_TIMEOUT :: nat where "IRC16M_STARTUP_TIMEOUT = 0x500"
definition LXTAL_STARTUP_TIMEOUT :: nat where "LXTAL_STARTUP_TIMEOUT = 0x0FFFFFFF"
definition OSC_STARTUP_TIMEOUT :: nat where "OSC_STARTUP_TIMEOUT = 0x000FFFFF"
definition RCU_PLLSRC_HXTAL :: u32 where "RCU_PLLSRC_HXTAL = RCU_PLL_PLLSEL"
definition RCU_CKSYSSRC_PLLP :: u32 where "RCU_CKSYSSRC_PLLP = BITS 0 1 AND 2"
definition RCU_SCSS_PLLP :: u32 where "RCU_SCSS_PLLP = BITS 2 3 AND push_bit 2 2"
definition RCU_AHB_CKSYS_DIV1 :: u32 where "RCU_AHB_CKSYS_DIV1 = BITS 4 7 AND push_bit 4 0"
definition RCU_APB1_CKAHB_DIV4 :: u32 where "RCU_APB1_CKAHB_DIV4 = BITS 10 12 AND push_bit 10 5"
definition RCU_APB2_CKAHB_DIV2 :: u32 where "RCU_APB2_CKAHB_DIV2 = BITS 13 15 AND push_bit 13 4"

datatype rcu_clock_freq_enum = CK_SYS | CK_AHB | CK_APB1 | CK_APB2

section \<open>Clocks and resets of peripherals\<close>

definition rcu_periph_clock_enable :: "u32 \<Rightarrow> mem \<Rightarrow> mem" where
  "rcu_periph_clock_enable p = reg_set (RCU_REG_VAL p) (BIT (RCU_BIT_POS p))"

definition rcu_periph_clock_disable :: "u32 \<Rightarrow> mem \<Rightarrow> mem" where
  "rcu_periph_clock_disable p = reg_clr (RCU_REG_VAL p) (BIT (RCU_BIT_POS p))"

definition rcu_periph_clock_sleep_enable :: "u32 \<Rightarrow> mem \<Rightarrow> mem" where
  "rcu_periph_clock_sleep_enable p = reg_set (RCU_REG_VAL p) (BIT (RCU_BIT_POS p))"

definition rcu_periph_clock_sleep_disable :: "u32 \<Rightarrow> mem \<Rightarrow> mem" where
  "rcu_periph_clock_sleep_disable p = reg_clr (RCU_REG_VAL p) (BIT (RCU_BIT_POS p))"

definition rcu_periph_reset_enable :: "u32 \<Rightarrow> mem \<Rightarrow> mem" where
  "rcu_periph_reset_enable p = reg_set (RCU_REG_VAL p) (BIT (RCU_BIT_POS p))"

definition rcu_periph_reset_disable :: "u32 \<Rightarrow> mem \<Rightarrow> mem" where
  "rcu_periph_reset_disable p = reg_clr (RCU_REG_VAL p) (BIT (RCU_BIT_POS p))"

definition rcu_osci_on :: "u32 \<Rightarrow> mem \<Rightarrow> mem" where
  "rcu_osci_on p = reg_set (RCU_REG_VAL p) (BIT (RCU_BIT_POS p))"

definition rcu_osci_off :: "u32 \<Rightarrow> mem \<Rightarrow> mem" where
  "rcu_osci_off p = reg_clr (RCU_REG_VAL p) (BIT (RCU_BIT_POS p))"

definition rcu_interrupt_flag_clear :: "u32 \<Rightarrow> mem \<Rightarrow> mem" where
  "rcu_interrupt_flag_clear p = reg_set (RCU_REG_VAL p) (BIT (RCU_BIT_POS p))"

definition rcu_interrupt_enable :: "u32 \<Rightarrow> mem \<Rightarrow> mem" where
  "rcu_interrupt_enable p = reg_set (RCU_REG_VAL p) (BIT (RCU_BIT_POS p))"

definition rcu_interrupt_disable :: "u32 \<Rightarrow> mem \<Rightarrow> mem" where
  "rcu_interrupt_disable p = reg_clr (RCU_REG_VAL p) (BIT (RCU_BIT_POS p))"

definition rcu_flag_get :: "u32 \<Rightarrow> mem \<Rightarrow> bool" where
  "rcu_flag_get flag m \<longleftrightarrow> reg_rd (RCU_REG_VAL flag) m AND BIT (RCU_BIT_POS flag) \<noteq> 0"

definition rcu_interrupt_flag_get :: "u32 \<Rightarrow> mem \<Rightarrow> bool" where
  "rcu_interrupt_flag_get int_flag m \<longleftrightarrow> reg_rd (RCU_REG_VAL int_flag) m AND BIT (RCU_BIT_POS int_flag) \<noteq> 0"

definition rcu_bkp_reset_enable :: "mem \<Rightarrow> mem" where
  "rcu_bkp_reset_enable = reg_set RCU_BDCTL RCU_BDCTL_BKPRST"

definition rcu_bkp_reset_disable :: "mem \<Rightarrow> mem" where
  "rcu_bkp_reset_disable = reg_clr RCU_BDCTL RCU_BDCTL_BKPRST"

definition rcu_spread_spectrum_enable :: "mem \<Rightarrow> mem" where
  "rcu_spread_spectrum_enable = reg_set RCU_PLLSSCTL RCU_PLLSSCTL_SSCGON"

definition rcu_spread_spectrum_disable :: "mem \<Rightarrow> mem" where
  "rcu_spread_spectrum_disable = reg_clr RCU_PLLSSCTL RCU_PLLSSCTL_SSCGON"

definition rcu_hxtal_clock_monitor_enable :: "mem \<Rightarrow> mem" where
  "rcu_hxtal_clock_monitor_enable = reg_set RCU_CTL RCU_CTL_CKMEN"

definition rcu_hxtal_clock_monitor_disable :: "mem \<Rightarrow> mem" where
  "rcu_hxtal_clock_monitor_disable = reg_clr RCU_CTL RCU_CTL_CKMEN"

definition rcu_all_reset_flag_clear :: "mem \<Rightarrow> mem" where
  "rcu_all_reset_flag_clear = reg_set RCU_RSTSCK RCU_RSTSCK_RSTFC"

section \<open>Clock tree\<close>

text \<open>\<^verbatim>\<open>reg = R; reg &= ~field; R = (reg | value)\<close>.\<close>

definition rcu_field :: "u32 \<Rightarrow> u32 \<Rightarrow> u32 \<Rightarrow> mem \<Rightarrow> mem" where
  "rcu_field r field v m =
     (let reg = reg_rd r m; reg = reg AND NOT field in reg_wr r (reg OR v) m)"

definition rcu_system_clock_source_config :: "u32 \<Rightarrow> mem \<Rightarrow> mem" where
  "rcu_system_clock_source_config v = rcu_field RCU_CFG0 RCU_CFG0_SCS v"

definition rcu_ahb_clock_config :: "u32 \<Rightarrow> mem \<Rightarrow> mem" where
  "rcu_ahb_clock_config v = rcu_field RCU_CFG0 RCU_CFG0_AHBPSC v"

definition rcu_apb1_clock_config :: "u32 \<Rightarrow> mem \<Rightarrow> mem" where
  "rcu_apb1_clock_config v = rcu_field RCU_CFG0 RCU_CFG0_APB1PSC v"

definition rcu_apb2_clock_config :: "u32 \<Rightarrow> mem \<Rightarrow> mem" where
  "rcu_apb2_clock_config v = rcu_field RCU_CFG0 RCU_CFG0_APB2PSC v"

definition rcu_rtc_clock_config :: "u32 \<Rightarrow> mem \<Rightarrow> mem" where
  "rcu_rtc_clock_config v = rcu_field RCU_BDCTL RCU_BDCTL_RTCSRC v"

definition rcu_rtc_div_config :: "u32 \<Rightarrow> mem \<Rightarrow> mem" where
  "rcu_rtc_div_config v = rcu_field RCU_CFG0 RCU_CFG0_RTCDIV v"

definition rcu_i2s_clock_config :: "u32 \<Rightarrow> mem \<Rightarrow> mem" where
  "rcu_i2s_clock_config v = rcu_field RCU_CFG0 RCU_CFG0_I2SSEL v"

definition rcu_ck48m_clock_config :: "u32 \<Rightarrow> mem \<Rightarrow> mem" where
  "rcu_ck48m_clock_config v = rcu_field RCU_ADDCTL RCU_ADDCTL_CK48MSEL v"

definition rcu_pll48m_clock_config :: "u32 \<Rightarrow> mem \<Rightarrow> mem" where
  "rcu_pll48m_clock_config v = rcu_field RCU_ADDCTL RCU_ADDCTL_PLL48MSEL v"

definition rcu_tli_clock_div_config :: "u32 \<Rightarrow> mem \<Rightarrow> mem" where
  "rcu_tli_clock_div_config v = rcu_field RCU_CFG1 RCU_CFG1_PLLSAIRDIV v"

definition rcu_lxtal_drive_capability_config :: "u32 \<Rightarrow> mem \<Rightarrow> mem" where
  "rcu_lxtal_drive_capability_config v = rcu_field RCU_BDCTL RCU_BDCTL_LXTALDRI v"

definition rcu_ckout0_config :: "u32 \<Rightarrow> u32 \<Rightarrow> mem \<Rightarrow> mem" where
  "rcu_ckout0_config src dv = rcu_field RCU_CFG0 (RCU_CFG0_CKOUT0SEL OR RCU_CFG0_CKOUT0DIV) (src OR dv)"

definition rcu_ckout1_config :: "u32 \<Rightarrow> u32 \<Rightarrow> mem \<Rightarrow> mem" where
  "rcu_ckout1_config src dv = rcu_field RCU_CFG0 (RCU_CFG0_CKOUT1SEL OR RCU_CFG0_CKOUT1DIV) (src OR dv)"

definition rcu_irc16m_adjust_value_set :: "u32 \<Rightarrow> mem \<Rightarrow> mem" where
  "rcu_irc16m_adjust_value_set adjval = rcu_field RCU_CTL RCU_CTL_IRC16MADJ (push_bit 3 (adjval AND 0x1F))"

definition rcu_spread_spectrum_config :: "u32 \<Rightarrow> u32 \<Rightarrow> u32 \<Rightarrow> mem \<Rightarrow> mem" where
  "rcu_spread_spectrum_config ss_type modstep modcnt =
     rcu_field RCU_PLLSSCTL (RCU_PLLSSCTL_MODCNT OR RCU_PLLSSCTL_MODSTEP OR RCU_PLLSSCTL_SS_TYPE)
       (ss_type OR push_bit 13 modstep OR modcnt)"

definition rcu_system_clock_source_get :: "mem \<Rightarrow> u32" where
  "rcu_system_clock_source_get m = reg_rd RCU_CFG0 m AND RCU_CFG0_SCSS"

definition rcu_timer_clock_prescaler_config :: "u32 \<Rightarrow> mem \<Rightarrow> mem" where
  "rcu_timer_clock_prescaler_config psc m =
     (if psc = NOT RCU_CFG1_TIMERSEL then reg_wr RCU_CFG1 (reg_rd RCU_CFG1 m AND psc) m
      else reg_set RCU_CFG1 psc m)"

definition rcu_voltage_key_unlock :: "mem \<Rightarrow> mem" where
  "rcu_voltage_key_unlock = reg_wr RCU_VKEY 0x1A2B3C4D"

definition rcu_deepsleep_voltage_set :: "u32 \<Rightarrow> mem \<Rightarrow> mem" where
  "rcu_deepsleep_voltage_set dsvol = reg_wr RCU_DSV (dsvol AND RCU_DSV_DSLPVS)"

definition rcu_osci_bypass_mode_enable :: "u32 \<Rightarrow> mem \<Rightarrow> mem" where
  "rcu_osci_bypass_mode_enable osci m =
     (if osci = RCU_HXTAL then
        let reg = reg_rd RCU_CTL m; m = reg_clr RCU_CTL RCU_CTL_HXTALEN m
        in reg_wr RCU_CTL (reg OR RCU_CTL_HXTALBPS) m
      else if osci = RCU_LXTAL then
        let reg = reg_rd RCU_BDCTL m; m = reg_clr RCU_BDCTL RCU_BDCTL_LXTALEN m
        in reg_wr RCU_BDCTL (reg OR RCU_BDCTL_LXTALBPS) m
      else m)"

definition rcu_osci_bypass_mode_disable :: "u32 \<Rightarrow> mem \<Rightarrow> mem" where
  "rcu_osci_bypass_mode_disable osci m =
     (if osci = RCU_HXTAL then
        let reg = reg_rd RCU_CTL m; m = reg_clr RCU_CTL RCU_CTL_HXTALEN m
        in reg_wr RCU_CTL (reg AND NOT RCU_CTL_HXTALBPS) m
      else if osci = RCU_LXTAL then
        let reg = reg_rd RCU_BDCTL m; m = reg_clr RCU_BDCTL RCU_BDCTL_LXTALEN m
        in reg_wr RCU_BDCTL (reg AND NOT RCU_BDCTL_LXTALBPS) m
      else m)"

text \<open>The result of the three PLL functions: \<open>None\<close> is \<^verbatim>\<open>ERROR\<close>, with no register written.\<close>

definition rcu_pll_config :: "u32 \<Rightarrow> u32 \<Rightarrow> u32 \<Rightarrow> u32 \<Rightarrow> u32 \<Rightarrow> mem \<Rightarrow> mem option" where
  "rcu_pll_config pll_src pll_psc pll_n pll_p pll_q m =
     (let ss_reg = reg_rd RCU_PLLSSCTL m;
          inc = (if ss_reg AND RCU_PLLSSCTL_SSCGON = RCU_PLLSSCTL_SSCGON
                 then if ss_reg AND RCU_PLLSSCTL_SS_TYPE = RCU_PLLSSCTL_SS_TYPE then 7 else 5
                 else 0)
      in if 2 \<le> pll_psc \<and> pll_psc \<le> 63 \<and> 64 + inc \<le> pll_n \<and> pll_n \<le> 500
            \<and> (pll_p = 2 \<or> pll_p = 4 \<or> pll_p = 6 \<or> pll_p = 8) \<and> 2 \<le> pll_q \<and> pll_q \<le> 15
         then Some (reg_wr RCU_PLL (pll_psc OR push_bit 6 pll_n OR push_bit 16 (drop_bit 1 pll_p - 1)
                      OR pll_src OR push_bit 24 pll_q) m)
         else None)"

definition rcu_plli2s_config :: "u32 \<Rightarrow> u32 \<Rightarrow> mem \<Rightarrow> mem option" where
  "rcu_plli2s_config n r m =
     (if 50 \<le> n \<and> n \<le> 500 \<and> 2 \<le> r \<and> r \<le> 7
      then Some (reg_wr RCU_PLLI2S (push_bit 6 n OR push_bit 28 r) m) else None)"

definition rcu_pllsai_config :: "u32 \<Rightarrow> u32 \<Rightarrow> u32 \<Rightarrow> mem \<Rightarrow> mem option" where
  "rcu_pllsai_config n p r m =
     (if 50 \<le> n \<and> n \<le> 500 \<and> (p = 2 \<or> p = 4 \<or> p = 6 \<or> p = 8) \<and> 2 \<le> r \<and> r \<le> 7
      then Some (reg_wr RCU_PLLSAI (push_bit 6 n OR push_bit 16 (drop_bit 1 p - 1) OR push_bit 28 r) m)
      else None)"

section \<open>Waiting for an oscillator\<close>

text \<open>
  The polling loop of \<^verbatim>\<open>rcu_osci_stab_wait\<close>: read number \<open>k\<close> finds the registers in the
  state \<open>hw k\<close>. The loop ends on the first set flag or after \<open>left\<close> reads, and yields the number
  of the next read.
\<close>

fun stab_loop :: "(nat \<Rightarrow> mem) \<Rightarrow> u32 \<Rightarrow> nat \<Rightarrow> nat \<Rightarrow> nat" where
  "stab_loop hw flag 0 k = k"
| "stab_loop hw flag (Suc left) k =
     (if rcu_flag_get flag (hw k) then Suc k else stab_loop hw flag left (Suc k))"

definition osci_wait :: "(nat \<Rightarrow> mem) \<Rightarrow> u32 \<Rightarrow> nat \<Rightarrow> bool" where
  "osci_wait hw flag timeout = rcu_flag_get flag (hw (stab_loop hw flag timeout 0))"

definition rcu_osci_stab_wait :: "(nat \<Rightarrow> mem) \<Rightarrow> u32 \<Rightarrow> bool" where
  "rcu_osci_stab_wait hw osci =
     (if osci = RCU_HXTAL then osci_wait hw RCU_FLAG_HXTALSTB HXTAL_STARTUP_TIMEOUT
      else if osci = RCU_LXTAL then osci_wait hw RCU_FLAG_LXTALSTB LXTAL_STARTUP_TIMEOUT
      else if osci = RCU_IRC16M then osci_wait hw RCU_FLAG_IRC16MSTB IRC16M_STARTUP_TIMEOUT
      else if osci = RCU_IRC48M then osci_wait hw RCU_FLAG_IRC48MSTB OSC_STARTUP_TIMEOUT
      else if osci = RCU_IRC32K then osci_wait hw RCU_FLAG_IRC32KSTB OSC_STARTUP_TIMEOUT
      else if osci = RCU_PLL_CK then osci_wait hw RCU_FLAG_PLLSTB OSC_STARTUP_TIMEOUT
      else if osci = RCU_PLLI2S_CK then osci_wait hw RCU_FLAG_PLLI2SSTB OSC_STARTUP_TIMEOUT
      else if osci = RCU_PLLSAI_CK then osci_wait hw RCU_FLAG_PLLSAISTB OSC_STARTUP_TIMEOUT
      else False)"

text \<open>
  \<^verbatim>\<open>rcu_deinit\<close> ignores the result of its wait for the internal oscillator; \<open>wait\<close> gives the
  memory after it.
\<close>

definition rcu_deinit :: "(mem \<Rightarrow> mem) \<Rightarrow> mem \<Rightarrow> mem" where
  "rcu_deinit wait m =
     (let m = wait (reg_set RCU_CTL RCU_CTL_IRC16MEN m);
          m = reg_clr RCU_CFG0 RCU_CFG0_SCS m;
          m = reg_clr RCU_CTL (RCU_CTL_HXTALEN OR RCU_CTL_CKMEN OR RCU_CTL_PLLEN OR RCU_CTL_PLLI2SEN OR RCU_CTL_PLLSAIEN) m;
          m = reg_clr RCU_CTL RCU_CTL_HXTALBPS m;
          m = reg_clr RCU_CFG0 (RCU_CFG0_SCS OR RCU_CFG0_AHBPSC OR RCU_CFG0_APB1PSC OR RCU_CFG0_APB2PSC OR RCU_CFG0_RTCDIV
            OR RCU_CFG0_CKOUT0SEL OR RCU_CFG0_I2SSEL OR RCU_CFG0_CKOUT0DIV OR RCU_CFG0_CKOUT1DIV OR RCU_CFG0_CKOUT1SEL) m;
          m = reg_wr RCU_PLL 0x24003010 m;
          m = reg_wr RCU_PLLI2S 0x24003000 m;
          m = reg_wr RCU_PLLSAI 0x24003010 m;
          m = reg_wr RCU_INT 0 m
      in reg_clr RCU_CFG1 (RCU_CFG1_PLLSAIRDIV OR RCU_CFG1_TIMERSEL) m)"

section \<open>Frequencies\<close>

definition ahb_exp :: "nat list" where "ahb_exp = [0, 0, 0, 0, 0, 0, 0, 0, 1, 2, 3, 4, 6, 7, 8, 9]"
definition apb_exp :: "nat list" where "apb_exp = [0, 0, 0, 0, 1, 2, 3, 4]"

definition cksys_freq_get :: "mem \<Rightarrow> u32 res" where
  "cksys_freq_get m =
     (let sws = GET_BITS (reg_rd RCU_CFG0 m) 2 3
      in if sws = 0 then Inr IRC16M_VALUE
         else if sws = 1 then Inr HXTAL_VALUE
         else if sws = 2 then
           let pll = reg_rd RCU_PLL m;
               pllpsc = GET_BITS pll 0 5;
               plln = GET_BITS pll 6 14;
               pllp = (GET_BITS pll 16 17 + 1) * 2;
               ck_src = (if RCU_PLLSRC_HXTAL = pll AND RCU_PLL_PLLSEL then HXTAL_VALUE else IRC16M_VALUE)
           in if pllpsc = 0 then Inl Div_By_Zero else Inr (((ck_src div pllpsc) * plln) div pllp)
         else Inr IRC16M_VALUE)"

definition rcu_clock_freq_get :: "rcu_clock_freq_enum \<Rightarrow> mem \<Rightarrow> u32 res" where
  "rcu_clock_freq_get clock m = bind_res (cksys_freq_get m) (\<lambda>cksys_freq.
     let cfg0 = reg_rd RCU_CFG0 m;
         ahb_freq = drop_bit (ahb_exp ! unat (GET_BITS cfg0 4 7)) cksys_freq;
         apb1_freq = drop_bit (apb_exp ! unat (GET_BITS cfg0 10 12)) ahb_freq;
         apb2_freq = drop_bit (apb_exp ! unat (GET_BITS cfg0 13 15)) ahb_freq
     in Inr (case clock of CK_SYS \<Rightarrow> cksys_freq | CK_AHB \<Rightarrow> ahb_freq
               | CK_APB1 \<Rightarrow> apb1_freq | CK_APB2 \<Rightarrow> apb2_freq))"

end
