(* ===== verification/Gpio.thy ===== *)
theory Gpio
  imports Rcu
begin

text \<open>
  The GPIO driver \<^verbatim>\<open>gd32f4xx_gpio.c\<close> of the standard peripheral library, as far as the
  board support code calls it: pin mode, pull, speed, output type, alternate function, and the
  set and clear registers that drive the RS-485 direction pins and the two activity pins.
\<close>

section \<open>Registers and constants of \<^verbatim>\<open>gd32f4xx_gpio.h\<close>\<close>

definition GPIO_BASE :: u32 where "GPIO_BASE = 0x40020000"
definition GPIOA :: u32 where "GPIOA = GPIO_BASE + 0x00000000"
definition GPIOB :: u32 where "GPIOB = GPIO_BASE + 0x00000400"
definition GPIOC :: u32 where "GPIOC = GPIO_BASE + 0x00000800"
definition GPIOD :: u32 where "GPIOD = GPIO_BASE + 0x00000C00"
definition GPIOE :: u32 where "GPIOE = GPIO_BASE + 0x00001000"

definition GPIO_CTL :: "u32 \<Rightarrow> u32" where "GPIO_CTL gpiox = gpiox + 0x00"
definition GPIO_OMODE :: "u32 \<Rightarrow> u32" where "GPIO_OMODE gpiox = gpiox + 0x04"
definition GPIO_OSPD :: "u32 \<Rightarrow> u32" where "GPIO_OSPD gpiox = gpiox + 0x08"
definition GPIO_PUD :: "u32 \<Rightarrow> u32" where "GPIO_PUD gpiox = gpiox + 0x0C"
definition GPIO_ISTAT :: "u32 \<Rightarrow> u32" where "GPIO_ISTAT gpiox = gpiox + 0x10"
definition GPIO_OCTL :: "u32 \<Rightarrow> u32" where "GPIO_OCTL gpiox = gpiox + 0x14"
definition GPIO_BOP :: "u32 \<Rightarrow> u32" where "GPIO_BOP gpiox = gpiox + 0x18"
definition GPIO_LOCK :: "u32 \<Rightarrow> u32" where "GPIO_LOCK gpiox = gpiox + 0x1C"
definition GPIO_AFSEL0 :: "u32 \<Rightarrow> u32" where "GPIO_AFSEL0 gpiox = gpiox + 0x20"
definition GPIO_AFSEL1 :: "u32 \<Rightarrow> u32" where "GPIO_AFSEL1 gpiox = gpiox + 0x24"
definition GPIO_BC :: "u32 \<Rightarrow> u32" where "GPIO_BC gpiox = gpiox + 0x28"
definition GPIO_TG :: "u32 \<Rightarrow> u32" where "GPIO_TG gpiox = gpiox + 0x2C"

lemmas gpio_regs [reg_simps] =
  GPIO_CTL_def GPIO_OMODE_def GPIO_OSPD_def GPIO_PUD_def GPIO_ISTAT_def GPIO_OCTL_def
  GPIO_BOP_def GPIO_LOCK_def GPIO_AFSEL0_def GPIO_AFSEL1_def GPIO_BC_def GPIO_TG_def

lemmas gpio_ports [reg_simps] = GPIO_BASE_def GPIOA_def GPIOB_def GPIOC_def GPIOD_def GPIOE_def

definition GPIO_PIN :: "nat \<Rightarrow> u32" where "GPIO_PIN n = BIT n"

definition GPIO_MODE_INPUT :: u32 where "GPIO_MODE_INPUT = 0"
definition GPIO_MODE_OUTPUT :: u32 where "GPIO_MODE_OUTPUT = 1"
definition GPIO_MODE_AF :: u32 where "GPIO_MODE_AF = 2"
definition GPIO_PUPD_NONE :: u32 where "GPIO_PUPD_NONE = 0"
definition GPIO_PUPD_PULLUP :: u32 where "GPIO_PUPD_PULLUP = 1"
definition GPIO_OTYPE_PP :: u8 where "GPIO_OTYPE_PP = 0"
definition GPIO_OTYPE_OD :: u8 where "GPIO_OTYPE_OD = 1"
definition GPIO_OSPEED_50MHZ :: u32 where "GPIO_OSPEED_50MHZ = 2"
definition GPIO_OSPEED_MAX :: u32 where "GPIO_OSPEED_MAX = 3"

text \<open>
  \<^verbatim>\<open>GPIO_MODE_SET\<close>, \<^verbatim>\<open>GPIO_PUPD_SET\<close>, \<^verbatim>\<open>GPIO_OSPEED_SET\<close>
  and their masks are the same macro, as are the two for the alternate functions.
\<close>

definition GPIO_MODE_SET :: "nat \<Rightarrow> u32 \<Rightarrow> u32" where "GPIO_MODE_SET n mode = push_bit (2 * n) mode"
definition GPIO_MODE_MASK :: "nat \<Rightarrow> u32" where "GPIO_MODE_MASK n = push_bit (2 * n) 0x3"
definition GPIO_AFR_SET :: "nat \<Rightarrow> u32 \<Rightarrow> u32" where "GPIO_AFR_SET n af = push_bit (4 * n) af"
definition GPIO_AFR_MASK :: "nat \<Rightarrow> u32" where "GPIO_AFR_MASK n = push_bit (4 * n) 0xF"

section \<open>Operations\<close>

definition GPIOF :: u32 where "GPIOF = GPIO_BASE + 0x00001400"
definition GPIOG :: u32 where "GPIOG = GPIO_BASE + 0x00001800"
definition GPIOH :: u32 where "GPIOH = GPIO_BASE + 0x00001C00"
definition GPIOI :: u32 where "GPIOI = GPIO_BASE + 0x00002000"

definition gpio_deinit :: "u32 \<Rightarrow> mem \<Rightarrow> mem" where
  "gpio_deinit gpio_periph m =
     (let reset = (\<lambda>n. rcu_periph_reset_disable (RCU_REGIDX_BIT 0x10 n) (rcu_periph_reset_enable (RCU_REGIDX_BIT 0x10 n) m))
      in if gpio_periph = GPIOA then reset 0
         else if gpio_periph = GPIOB then reset 1
         else if gpio_periph = GPIOC then reset 2
         else if gpio_periph = GPIOD then reset 3
         else if gpio_periph = GPIOE then reset 4
         else if gpio_periph = GPIOF then reset 5
         else if gpio_periph = GPIOG then reset 6
         else if gpio_periph = GPIOH then reset 7
         else if gpio_periph = GPIOI then reset 8
         else m)"

definition gpio_mode_set :: "u32 \<Rightarrow> u32 \<Rightarrow> u32 \<Rightarrow> u32 \<Rightarrow> mem \<Rightarrow> mem" where
  "gpio_mode_set gpio_periph mode pull_up_down pin m =
     (let (ctl, pupd) =
        fold (\<lambda>i (ctl, pupd).
            if BIT i AND pin \<noteq> 0
            then ((ctl AND NOT (GPIO_MODE_MASK i)) OR GPIO_MODE_SET i mode,
                  (pupd AND NOT (GPIO_MODE_MASK i)) OR GPIO_MODE_SET i pull_up_down)
            else (ctl, pupd))
          [0..<16] (reg_rd (GPIO_CTL gpio_periph) m, reg_rd (GPIO_PUD gpio_periph) m)
      in reg_wr (GPIO_PUD gpio_periph) pupd (reg_wr (GPIO_CTL gpio_periph) ctl m))"

definition gpio_output_options_set :: "u32 \<Rightarrow> u8 \<Rightarrow> u32 \<Rightarrow> u32 \<Rightarrow> mem \<Rightarrow> mem" where
  "gpio_output_options_set gpio_periph otype speed pin m =
     (let m = (if GPIO_OTYPE_OD = otype then reg_set (GPIO_OMODE gpio_periph) pin m
               else reg_clr (GPIO_OMODE gpio_periph) pin m);
          ospeedr = fold (\<lambda>i r. if BIT i AND pin \<noteq> 0
                              then (r AND NOT (GPIO_MODE_MASK i)) OR GPIO_MODE_SET i speed else r)
                      [0..<16] (reg_rd (GPIO_OSPD gpio_periph) m)
      in reg_wr (GPIO_OSPD gpio_periph) ospeedr m)"

definition gpio_bit_set :: "u32 \<Rightarrow> u32 \<Rightarrow> mem \<Rightarrow> mem" where
  "gpio_bit_set gpio_periph pin m = reg_wr (GPIO_BOP gpio_periph) pin m"

definition gpio_bit_reset :: "u32 \<Rightarrow> u32 \<Rightarrow> mem \<Rightarrow> mem" where
  "gpio_bit_reset gpio_periph pin m = reg_wr (GPIO_BC gpio_periph) pin m"

definition gpio_bit_write :: "u32 \<Rightarrow> u32 \<Rightarrow> bool \<Rightarrow> mem \<Rightarrow> mem" where
  "gpio_bit_write gpio_periph pin bit_value m =
     (if bit_value then reg_wr (GPIO_BOP gpio_periph) pin m else reg_wr (GPIO_BC gpio_periph) pin m)"

definition gpio_port_write :: "u32 \<Rightarrow> u16 \<Rightarrow> mem \<Rightarrow> mem" where
  "gpio_port_write gpio_periph data m = reg_wr (GPIO_OCTL gpio_periph) (ucast data) m"

definition gpio_input_bit_get :: "u32 \<Rightarrow> u32 \<Rightarrow> mem \<Rightarrow> bool" where
  "gpio_input_bit_get gpio_periph pin m \<longleftrightarrow> reg_rd (GPIO_ISTAT gpio_periph) m AND pin \<noteq> 0"

definition gpio_input_port_get :: "u32 \<Rightarrow> mem \<Rightarrow> u16" where
  "gpio_input_port_get gpio_periph m = ucast (reg_rd (GPIO_ISTAT gpio_periph) m)"

definition gpio_output_bit_get :: "u32 \<Rightarrow> u32 \<Rightarrow> mem \<Rightarrow> bool" where
  "gpio_output_bit_get gpio_periph pin m \<longleftrightarrow> reg_rd (GPIO_OCTL gpio_periph) m AND pin \<noteq> 0"

definition gpio_output_port_get :: "u32 \<Rightarrow> mem \<Rightarrow> u16" where
  "gpio_output_port_get gpio_periph m = ucast (reg_rd (GPIO_OCTL gpio_periph) m)"

definition gpio_af_set :: "u32 \<Rightarrow> u32 \<Rightarrow> u32 \<Rightarrow> mem \<Rightarrow> mem" where
  "gpio_af_set gpio_periph alt_func_num pin m =
     (let afrl = fold (\<lambda>i r. if BIT i AND pin \<noteq> 0
                           then (r AND NOT (GPIO_AFR_MASK i)) OR GPIO_AFR_SET i alt_func_num else r)
                   [0..<8] (reg_rd (GPIO_AFSEL0 gpio_periph) m);
          afrh = fold (\<lambda>i r. if BIT i AND pin \<noteq> 0
                           then (r AND NOT (GPIO_AFR_MASK (i - 8))) OR GPIO_AFR_SET (i - 8) alt_func_num
                           else r)
                   [8..<16] (reg_rd (GPIO_AFSEL1 gpio_periph) m)
      in reg_wr (GPIO_AFSEL1 gpio_periph) afrh (reg_wr (GPIO_AFSEL0 gpio_periph) afrl m))"

definition gpio_pin_lock :: "u32 \<Rightarrow> u32 \<Rightarrow> mem \<Rightarrow> mem" where
  "gpio_pin_lock gpio_periph pin m =
     (let lock = 0x00010000 OR pin
      in reg_wr (GPIO_LOCK gpio_periph) lock
          (reg_wr (GPIO_LOCK gpio_periph) pin (reg_wr (GPIO_LOCK gpio_periph) lock m)))"

definition gpio_bit_toggle :: "u32 \<Rightarrow> u32 \<Rightarrow> mem \<Rightarrow> mem" where
  "gpio_bit_toggle gpio_periph pin m = reg_wr (GPIO_TG gpio_periph) pin m"

definition gpio_port_toggle :: "u32 \<Rightarrow> mem \<Rightarrow> mem" where
  "gpio_port_toggle gpio_periph m = reg_wr (GPIO_TG gpio_periph) 0x0000FFFF m"

section \<open>A loop over pins writes exactly the fields of the selected pins\<close>

text \<open>The common shape of the four loops: field \<open>i\<close> is the \<open>w\<close> bits from \<open>w * i\<close> on.\<close>

definition set_fields :: "nat \<Rightarrow> u32 \<Rightarrow> (nat \<Rightarrow> bool) \<Rightarrow> nat list \<Rightarrow> u32 \<Rightarrow> u32" where
  "set_fields w v sel is r =
     fold (\<lambda>i r. if sel i then (r AND NOT (push_bit (w * i) (mask w))) OR push_bit (w * i) v else r) is r"

lemma BIT_and_pin: "BIT i AND pin \<noteq> 0 \<longleftrightarrow> bit pin i"
proof -
  have "BIT i AND pin = (if bit pin i then BIT i else 0)"
    by (rule bit_word_eqI) (auto simp: bit_and_iff)
  moreover have "BIT i \<noteq> 0" if "bit pin i"
  proof
    assume "BIT i = 0"
    then have "\<not> bit (BIT i) i" by simp
    with that show False by (auto dest: bit_imp_le_length)
  qed
  ultimately show ?thesis by auto
qed

lemma field_index: "0 < w \<Longrightarrow> w * i \<le> n \<and> n < w * i + w \<longleftrightarrow> n div w = (i :: nat)"
  by (metis div_nat_eqI dividend_less_times_div mult.commute mult_Suc_right
        times_div_less_eq_dividend add.commute)

lemma bit_set_field:
  fixes v r :: u32
  assumes w: "0 < w" and v: "v AND NOT (mask w) = 0" and n: "n < 32"
  shows "bit ((r AND NOT (push_bit (w * i) (mask w))) OR push_bit (w * i) v) n
     = (if n div w = i then bit v (n mod w) else bit r n)"
proof -
  have sub: "bit v k \<Longrightarrow> k < w" for k
  proof -
    assume b: "bit v k"
    have "\<not> bit (v AND NOT (mask w)) k" using v by simp
    with b show "k < w" by (auto simp: bit_simps dest: bit_imp_le_length)
  qed
  have "bit (push_bit (w * i) (mask w) :: u32) n \<longleftrightarrow> n div w = i"
    using n field_index [OF w, of i n] by (auto simp: bit_push_bit_iff bit_mask_iff less_diff_conv2)
  moreover have "bit (push_bit (w * i) v) n \<longleftrightarrow> n div w = i \<and> bit v (n mod w)"
  proof (cases "n div w = i")
    case True
    then have "w * i \<le> n" "n - w * i = n mod w"
      by (auto simp: modulo_nat_def mult.commute)
    with True n show ?thesis by (simp add: bit_push_bit_iff)
  next
    case False
    then have "\<not> (w * i \<le> n \<and> n < w * i + w)" using field_index [OF w] by blast
    then show ?thesis using False sub by (force simp: bit_push_bit_iff)
  qed
  ultimately show ?thesis using n by (auto simp: bit_simps)
qed

lemma bit_set_fields:
  assumes "0 < w" and "v AND NOT (mask w) = 0" and "n < 32"
  shows "bit (set_fields w v sel is r) n
     = (if n div w \<in> set is \<and> sel (n div w) then bit v (n mod w) else bit r n)"
  unfolding set_fields_def
proof (induction "is" arbitrary: r)
  case Nil
  then show ?case by simp
next
  case (Cons i "is")
  then show ?case by (auto simp: bit_set_field [OF assms])
qed

lemma fits_mask: "v < 2 ^ w \<Longrightarrow> v AND NOT (mask w) = 0" for v :: u32
  by (metis less_mask_eq bit.conj_cancel_right and.assoc and_zero_eq)

lemma gpio_masks:
  "GPIO_MODE_MASK i = push_bit (2 * i) (mask 2)" "GPIO_AFR_MASK i = push_bit (4 * i) (mask 4)"
  by (simp_all add: GPIO_MODE_MASK_def GPIO_AFR_MASK_def mask_eq_exp_minus_1)

lemma gpio_mode_loop:
  "fold (\<lambda>i (ctl, pupd).
       if BIT i AND pin \<noteq> 0
       then ((ctl AND NOT (GPIO_MODE_MASK i)) OR GPIO_MODE_SET i mode,
             (pupd AND NOT (GPIO_MODE_MASK i)) OR GPIO_MODE_SET i pud)
       else (ctl, pupd)) is (ctl, pupd)
     = (set_fields 2 mode (bit pin) is ctl, set_fields 2 pud (bit pin) is pupd)"
  unfolding set_fields_def
  by (induction "is" arbitrary: ctl pupd) (auto simp: BIT_and_pin gpio_masks GPIO_MODE_SET_def)

lemma gpio_speed_loop:
  "fold (\<lambda>i r. if BIT i AND pin \<noteq> 0
       then (r AND NOT (GPIO_MODE_MASK i)) OR GPIO_MODE_SET i v else r) is r
     = set_fields 2 v (bit pin) is r"
  unfolding set_fields_def
  by (induction "is" arbitrary: r) (auto simp: BIT_and_pin gpio_masks GPIO_MODE_SET_def)

lemma gpio_af_loop:
  "fold (\<lambda>i r. if BIT i AND pin \<noteq> 0
       then (r AND NOT (GPIO_AFR_MASK (i - k))) OR GPIO_AFR_SET (i - k) af else r) (map (\<lambda>i. i + k) is) r
     = set_fields 4 af (\<lambda>i. bit pin (i + k)) is r"
  unfolding set_fields_def
  by (induction "is" arbitrary: r) (auto simp: BIT_and_pin gpio_masks GPIO_AFR_SET_def)

lemma gpio_af_loop0:
  "fold (\<lambda>i r. if BIT i AND pin \<noteq> 0
       then (r AND NOT (GPIO_AFR_MASK i)) OR GPIO_AFR_SET i af else r) is r
     = set_fields 4 af (bit pin) is r"
  unfolding set_fields_def
  by (induction "is" arbitrary: r) (auto simp: BIT_and_pin gpio_masks GPIO_AFR_SET_def)

lemma gpio_mode_set_eq:
  "gpio_mode_set g mode pud pin m =
     reg_wr (GPIO_PUD g) (set_fields 2 pud (bit pin) [0..<16] (reg_rd (GPIO_PUD g) m))
       (reg_wr (GPIO_CTL g) (set_fields 2 mode (bit pin) [0..<16] (reg_rd (GPIO_CTL g) m)) m)"
  by (simp add: gpio_mode_set_def gpio_mode_loop)

lemma gpio_af_set_eq:
  "gpio_af_set g af pin m =
     reg_wr (GPIO_AFSEL1 g) (set_fields 4 af (\<lambda>i. bit pin (i + 8)) [0..<8] (reg_rd (GPIO_AFSEL1 g) m))
       (reg_wr (GPIO_AFSEL0 g) (set_fields 4 af (bit pin) [0..<8] (reg_rd (GPIO_AFSEL0 g) m)) m)"
proof -
  have "[8..<16] = map (\<lambda>i. i + 8) [0..<8]"
    using map_add_upt [of 8 8] by simp
  then show ?thesis
    by (simp only: gpio_af_set_def gpio_af_loop gpio_af_loop0 Let_def)
qed

lemma gpio_reg_distinct [simp]:
  "GPIO_CTL g \<noteq> GPIO_PUD g" "GPIO_PUD g \<noteq> GPIO_CTL g"
  "GPIO_AFSEL0 g \<noteq> GPIO_AFSEL1 g" "GPIO_AFSEL1 g \<noteq> GPIO_AFSEL0 g"
  "GPIO_OMODE g \<noteq> GPIO_OSPD g" "GPIO_OSPD g \<noteq> GPIO_OMODE g"
  by (simp_all add: reg_simps)

section \<open>Properties\<close>

text \<open>
  C13: \<^verbatim>\<open>gpio_mode_set\<close> writes the two mode bits and the two pull bits of every
  selected pin and nothing else: the fields of the other pins of the port and every other
  register keep their values.
\<close>

theorem gpio_mode_set_spec:
  assumes mode: "mode < 4" and pud: "pud < 4"
  shows "(\<forall>n < 32. bit (reg_rd (GPIO_CTL g) (gpio_mode_set g mode pud pin m)) n
            = (if bit pin (n div 2) then bit mode (n mod 2) else bit (reg_rd (GPIO_CTL g) m) n))
    \<and> (\<forall>n < 32. bit (reg_rd (GPIO_PUD g) (gpio_mode_set g mode pud pin m)) n
            = (if bit pin (n div 2) then bit pud (n mod 2) else bit (reg_rd (GPIO_PUD g) m) n))
    \<and> (\<forall>a. a \<noteq> GPIO_CTL g \<and> a \<noteq> GPIO_PUD g \<longrightarrow>
            reg_rd a (gpio_mode_set g mode pud pin m) = reg_rd a m)"
proof -
  have "mode AND NOT (mask 2) = 0" "pud AND NOT (mask 2) = 0"
    using mode pud by (simp_all add: fits_mask)
  then have f: "bit (set_fields 2 mode (bit pin) [0..<16] r) n
      = (if bit pin (n div 2) then bit mode (n mod 2) else bit r n)"
    "bit (set_fields 2 pud (bit pin) [0..<16] r) n
      = (if bit pin (n div 2) then bit pud (n mod 2) else bit r n)" if "n < 32" for n r
    using that by (auto simp: bit_set_fields)
  show ?thesis by (simp add: gpio_mode_set_eq f)
qed

theorem gpio_mode_set_spec_witness:
  "(1 :: u32) < 4 \<and> (2 :: u32) < 4 \<and> bit (reg_rd (GPIO_CTL GPIOB) (gpio_mode_set GPIOB 1 2 8 (\<lambda>_. 0))) 6"
  using gpio_mode_set_spec [of 1 2 GPIOB 8 "\<lambda>_. 0"] by (auto simp: bit_numeral_rec bit_1_iff)

end
