(* ===== verification/Dma.thy ===== *)
theory Dma
  imports Mmio
begin

text \<open>
  The DMA driver \<^verbatim>\<open>gd32f4xx_dma.c\<close>: channel set-up, start and stop, and the per-channel
  flags that four channels share in one register. A channel is its number, as in
  \<^verbatim>\<open>dma_channel_enum\<close>; the drivers' \<^verbatim>\<open>FlagStatus\<close> results are
  Booleans (\<^verbatim>\<open>SET\<close> is \<open>True\<close>).
\<close>

section \<open>Registers and constants of \<^verbatim>\<open>gd32f4xx_dma.h\<close>\<close>

definition DMA0 :: u32 where "DMA0 = 0x40026000"
definition DMA1 :: u32 where "DMA1 = DMA0 + 0x400"

definition DMA_INTF0 :: "u32 \<Rightarrow> u32" where "DMA_INTF0 dmax = dmax + 0x00"
definition DMA_INTF1 :: "u32 \<Rightarrow> u32" where "DMA_INTF1 dmax = dmax + 0x04"
definition DMA_INTC0 :: "u32 \<Rightarrow> u32" where "DMA_INTC0 dmax = dmax + 0x08"
definition DMA_INTC1 :: "u32 \<Rightarrow> u32" where "DMA_INTC1 dmax = dmax + 0x0C"
definition DMA_CHCTL :: "u32 \<Rightarrow> nat \<Rightarrow> u32" where "DMA_CHCTL dma ch = dma + 0x10 + 0x18 * of_nat ch"
definition DMA_CHCNT :: "u32 \<Rightarrow> nat \<Rightarrow> u32" where "DMA_CHCNT dma ch = dma + 0x14 + 0x18 * of_nat ch"
definition DMA_CHPADDR :: "u32 \<Rightarrow> nat \<Rightarrow> u32" where "DMA_CHPADDR dma ch = dma + 0x18 + 0x18 * of_nat ch"
definition DMA_CHM0ADDR :: "u32 \<Rightarrow> nat \<Rightarrow> u32" where "DMA_CHM0ADDR dma ch = dma + 0x1C + 0x18 * of_nat ch"
definition DMA_CHM1ADDR :: "u32 \<Rightarrow> nat \<Rightarrow> u32" where "DMA_CHM1ADDR dma ch = dma + 0x20 + 0x18 * of_nat ch"
definition DMA_CHFCTL :: "u32 \<Rightarrow> nat \<Rightarrow> u32" where "DMA_CHFCTL dma ch = dma + 0x24 + 0x18 * of_nat ch"

lemmas dma_regs [reg_simps] =
  DMA0_def DMA1_def DMA_INTF0_def DMA_INTF1_def DMA_INTC0_def DMA_INTC1_def
  DMA_CHCTL_def DMA_CHCNT_def DMA_CHPADDR_def DMA_CHM0ADDR_def DMA_CHM1ADDR_def DMA_CHFCTL_def

definition DMA_INTF_FEEIF :: u32 where "DMA_INTF_FEEIF = BIT 0"
definition DMA_INTF_SDEIF :: u32 where "DMA_INTF_SDEIF = BIT 2"
definition DMA_INTF_TAEIF :: u32 where "DMA_INTF_TAEIF = BIT 3"
definition DMA_INTF_HTFIF :: u32 where "DMA_INTF_HTFIF = BIT 4"
definition DMA_INTF_FTFIF :: u32 where "DMA_INTF_FTFIF = BIT 5"

definition DMA_CHXCTL_CHEN :: u32 where "DMA_CHXCTL_CHEN = BIT 0"
definition DMA_CHXCTL_SDEIE :: u32 where "DMA_CHXCTL_SDEIE = BIT 1"
definition DMA_CHXCTL_TAEIE :: u32 where "DMA_CHXCTL_TAEIE = BIT 2"
definition DMA_CHXCTL_HTFIE :: u32 where "DMA_CHXCTL_HTFIE = BIT 3"
definition DMA_CHXCTL_FTFIE :: u32 where "DMA_CHXCTL_FTFIE = BIT 4"
definition DMA_CHXCTL_TFCS :: u32 where "DMA_CHXCTL_TFCS = BIT 5"
definition DMA_CHXCTL_TM :: u32 where "DMA_CHXCTL_TM = BITS 6 7"
definition DMA_CHXCTL_CMEN :: u32 where "DMA_CHXCTL_CMEN = BIT 8"
definition DMA_CHXCTL_PNAGA :: u32 where "DMA_CHXCTL_PNAGA = BIT 9"
definition DMA_CHXCTL_MNAGA :: u32 where "DMA_CHXCTL_MNAGA = BIT 10"
definition DMA_CHXCTL_PWIDTH :: u32 where "DMA_CHXCTL_PWIDTH = BITS 11 12"
definition DMA_CHXCTL_MWIDTH :: u32 where "DMA_CHXCTL_MWIDTH = BITS 13 14"
definition DMA_CHXCTL_PAIF :: u32 where "DMA_CHXCTL_PAIF = BIT 15"
definition DMA_CHXCTL_PRIO :: u32 where "DMA_CHXCTL_PRIO = BITS 16 17"
definition DMA_CHXCTL_SBMEN :: u32 where "DMA_CHXCTL_SBMEN = BIT 18"
definition DMA_CHXCTL_MBS :: u32 where "DMA_CHXCTL_MBS = BIT 19"
definition DMA_CHXCTL_PBURST :: u32 where "DMA_CHXCTL_PBURST = BITS 21 22"
definition DMA_CHXCTL_MBURST :: u32 where "DMA_CHXCTL_MBURST = BITS 23 24"
definition DMA_CHXCTL_PERIEN :: u32 where "DMA_CHXCTL_PERIEN = BITS 25 27"
definition DMA_CHXFCTL_MDMEN :: u32 where "DMA_CHXFCTL_MDMEN = BIT 2"
definition DMA_CHXFCTL_FCNT :: u32 where "DMA_CHXFCTL_FCNT = BITS 3 5"
definition DMA_CHXFCTL_FEEIE :: u32 where "DMA_CHXFCTL_FEEIE = BIT 7"

definition DMA_FLAG_FTF :: u32 where "DMA_FLAG_FTF = DMA_INTF_FTFIF"
definition DMA_INT_FTF :: u32 where "DMA_INT_FTF = DMA_CHXCTL_FTFIE"
definition DMA_INT_HTF :: u32 where "DMA_INT_HTF = DMA_CHXCTL_HTFIE"

lemmas dma_bits =
  DMA_INTF_FEEIF_def DMA_INTF_SDEIF_def DMA_INTF_TAEIF_def DMA_INTF_HTFIF_def DMA_INTF_FTFIF_def
  DMA_CHXCTL_CHEN_def DMA_CHXCTL_SDEIE_def DMA_CHXCTL_TAEIE_def DMA_CHXCTL_HTFIE_def
  DMA_CHXCTL_FTFIE_def DMA_CHXCTL_TFCS_def DMA_CHXCTL_TM_def DMA_CHXCTL_CMEN_def
  DMA_CHXCTL_PNAGA_def DMA_CHXCTL_MNAGA_def DMA_CHXCTL_PWIDTH_def DMA_CHXCTL_MWIDTH_def
  DMA_CHXCTL_PAIF_def DMA_CHXCTL_PRIO_def DMA_CHXCTL_SBMEN_def DMA_CHXCTL_MBS_def
  DMA_CHXCTL_PBURST_def DMA_CHXCTL_MBURST_def DMA_CHXCTL_PERIEN_def DMA_CHXFCTL_MDMEN_def
  DMA_CHXFCTL_FCNT_def DMA_CHXFCTL_FEEIE_def DMA_FLAG_FTF_def DMA_INT_FTF_def DMA_INT_HTF_def

definition DMA_PERIPH_TO_MEMORY :: u32 where "DMA_PERIPH_TO_MEMORY = BITS 6 7 AND push_bit 6 0"
definition DMA_MEMORY_TO_PERIPH :: u32 where "DMA_MEMORY_TO_PERIPH = BITS 6 7 AND push_bit 6 1"
definition DMA_PRIORITY_LOW :: u32 where "DMA_PRIORITY_LOW = BITS 16 17 AND push_bit 16 0"
definition DMA_PRIORITY_HIGH :: u32 where "DMA_PRIORITY_HIGH = BITS 16 17 AND push_bit 16 2"
definition DMA_PERIPH_WIDTH_8BIT :: u32 where "DMA_PERIPH_WIDTH_8BIT = BITS 11 12 AND push_bit 11 0"
definition DMA_MEMORY_0 :: u32 where "DMA_MEMORY_0 = 0"
definition DMA_MEMORY_1 :: u32 where "DMA_MEMORY_1 = 1"
definition DMA_CIRCULAR_MODE_ENABLE :: u32 where "DMA_CIRCULAR_MODE_ENABLE = 0"
definition DMA_CIRCULAR_MODE_DISABLE :: u32 where "DMA_CIRCULAR_MODE_DISABLE = 1"
definition DMA_FLOW_CONTROLLER_DMA :: u32 where "DMA_FLOW_CONTROLLER_DMA = 0"
definition DMA_PERIPH_INCREASE_ENABLE :: u32 where "DMA_PERIPH_INCREASE_ENABLE = 0"
definition DMA_PERIPH_INCREASE_DISABLE :: u32 where "DMA_PERIPH_INCREASE_DISABLE = 1"
definition DMA_MEMORY_INCREASE_ENABLE :: u32 where "DMA_MEMORY_INCREASE_ENABLE = 0"
definition DMA_MEMORY_INCREASE_DISABLE :: u32 where "DMA_MEMORY_INCREASE_DISABLE = 1"

lemmas dma_consts =
  DMA_PERIPH_TO_MEMORY_def DMA_MEMORY_TO_PERIPH_def DMA_PRIORITY_LOW_def DMA_PRIORITY_HIGH_def
  DMA_PERIPH_WIDTH_8BIT_def DMA_MEMORY_0_def DMA_MEMORY_1_def DMA_CIRCULAR_MODE_ENABLE_def
  DMA_CIRCULAR_MODE_DISABLE_def DMA_FLOW_CONTROLLER_DMA_def DMA_PERIPH_INCREASE_ENABLE_def
  DMA_PERIPH_INCREASE_DISABLE_def DMA_MEMORY_INCREASE_ENABLE_def DMA_MEMORY_INCREASE_DISABLE_def

definition DMA_FLAG_ADD :: "u32 \<Rightarrow> nat \<Rightarrow> u32" where
  "DMA_FLAG_ADD flag channel = push_bit (channel * 6 + (channel div 2 mod 2) * 4) flag"

record dma_single_data_parameter_struct =
  periph_addr :: u32
  periph_inc :: u32
  memory0_addr :: u32
  memory_inc :: u32
  periph_memory_width :: u32
  circular_mode :: u32
  direction :: u32
  dma_number :: u32
  priority :: u32

record dma_multi_data_parameter_struct =
  m_periph_addr :: u32
  m_periph_width :: u32
  m_periph_inc :: u32
  m_memory0_addr :: u32
  m_memory_width :: u32
  m_memory_inc :: u32
  m_memory_burst_width :: u32
  m_periph_burst_width :: u32
  m_critical_value :: u32
  m_circular_mode :: u32
  m_direction :: u32
  m_number :: u32
  m_priority :: u32

section \<open>Set-up\<close>

definition dma_deinit :: "u32 \<Rightarrow> nat \<Rightarrow> mem \<Rightarrow> mem" where
  "dma_deinit dma_periph channelx m =
     (let m = reg_clr (DMA_CHCTL dma_periph channelx) DMA_CHXCTL_CHEN m;
          m = reg_wr (DMA_CHCTL dma_periph channelx) 0 m;
          m = reg_wr (DMA_CHCNT dma_periph channelx) 0 m;
          m = reg_wr (DMA_CHPADDR dma_periph channelx) 0 m;
          m = reg_wr (DMA_CHM0ADDR dma_periph channelx) 0 m;
          m = reg_wr (DMA_CHM1ADDR dma_periph channelx) 0 m;
          m = reg_wr (DMA_CHFCTL dma_periph channelx) 0x21 m
      in if channelx < 4 then reg_set (DMA_INTC0 dma_periph) (DMA_FLAG_ADD 0x3D channelx) m
         else reg_set (DMA_INTC1 dma_periph) (DMA_FLAG_ADD 0x3D (channelx - 4)) m)"

definition dma_single_data_para_struct_init ::
  "dma_single_data_parameter_struct \<Rightarrow> dma_single_data_parameter_struct" where
  "dma_single_data_para_struct_init init_struct = init_struct
     \<lparr> periph_addr := 0, periph_inc := DMA_PERIPH_INCREASE_DISABLE, memory0_addr := 0,
       memory_inc := DMA_MEMORY_INCREASE_DISABLE, periph_memory_width := 0,
       circular_mode := DMA_CIRCULAR_MODE_DISABLE, direction := DMA_PERIPH_TO_MEMORY,
       dma_number := 0, priority := DMA_PRIORITY_LOW \<rparr>"

text \<open>The C function leaves \<^verbatim>\<open>critical_value\<close> as it was.\<close>

definition dma_multi_data_para_struct_init ::
  "dma_multi_data_parameter_struct \<Rightarrow> dma_multi_data_parameter_struct" where
  "dma_multi_data_para_struct_init init_struct = init_struct
     \<lparr> m_periph_addr := 0, m_periph_width := 0, m_periph_inc := DMA_PERIPH_INCREASE_DISABLE,
       m_memory0_addr := 0, m_memory_width := 0, m_memory_inc := DMA_MEMORY_INCREASE_DISABLE,
       m_memory_burst_width := 0, m_periph_burst_width := 0,
       m_circular_mode := DMA_CIRCULAR_MODE_DISABLE, m_direction := DMA_PERIPH_TO_MEMORY,
       m_number := 0, m_priority := DMA_PRIORITY_LOW \<rparr>"

text \<open>The three increment and circulation branches that close both init functions.\<close>

definition dma_increments :: "u32 \<Rightarrow> nat \<Rightarrow> u32 \<Rightarrow> u32 \<Rightarrow> u32 \<Rightarrow> mem \<Rightarrow> mem" where
  "dma_increments dma_periph channelx pinc minc circular m =
     (let chctl = DMA_CHCTL dma_periph channelx;
          m = (if DMA_PERIPH_INCREASE_ENABLE = pinc then reg_set chctl DMA_CHXCTL_PNAGA m
               else if DMA_PERIPH_INCREASE_DISABLE = pinc then reg_clr chctl DMA_CHXCTL_PNAGA m
               else reg_set chctl DMA_CHXCTL_PAIF m);
          m = (if DMA_MEMORY_INCREASE_ENABLE = minc then reg_set chctl DMA_CHXCTL_MNAGA m
               else reg_clr chctl DMA_CHXCTL_MNAGA m)
      in if DMA_CIRCULAR_MODE_ENABLE = circular then reg_set chctl DMA_CHXCTL_CMEN m
         else reg_clr chctl DMA_CHXCTL_CMEN m)"

definition dma_single_data_mode_init ::
  "u32 \<Rightarrow> nat \<Rightarrow> dma_single_data_parameter_struct \<Rightarrow> mem \<Rightarrow> mem" where
  "dma_single_data_mode_init dma_periph channelx init_struct m =
     (let m = reg_clr (DMA_CHFCTL dma_periph channelx) DMA_CHXFCTL_MDMEN m;
          m = reg_wr (DMA_CHPADDR dma_periph channelx) (periph_addr init_struct) m;
          m = reg_wr (DMA_CHM0ADDR dma_periph channelx) (memory0_addr init_struct) m;
          m = reg_wr (DMA_CHCNT dma_periph channelx) (dma_number init_struct) m;
          ctl = reg_rd (DMA_CHCTL dma_periph channelx) m;
          ctl = ctl AND NOT (DMA_CHXCTL_PWIDTH OR DMA_CHXCTL_MWIDTH OR DMA_CHXCTL_PRIO OR DMA_CHXCTL_TM);
          ctl = ctl OR (periph_memory_width init_struct OR push_bit 2 (periph_memory_width init_struct)
                 OR priority init_struct OR direction init_struct);
          m = reg_wr (DMA_CHCTL dma_periph channelx) ctl m
      in dma_increments dma_periph channelx (periph_inc init_struct) (memory_inc init_struct)
           (circular_mode init_struct) m)"

definition dma_multi_data_mode_init ::
  "u32 \<Rightarrow> nat \<Rightarrow> dma_multi_data_parameter_struct \<Rightarrow> mem \<Rightarrow> mem" where
  "dma_multi_data_mode_init dma_periph channelx init_struct m =
     (let m = reg_set (DMA_CHFCTL dma_periph channelx) (DMA_CHXFCTL_MDMEN OR m_critical_value init_struct) m;
          m = reg_wr (DMA_CHPADDR dma_periph channelx) (m_periph_addr init_struct) m;
          m = reg_wr (DMA_CHM0ADDR dma_periph channelx) (m_memory0_addr init_struct) m;
          m = reg_wr (DMA_CHCNT dma_periph channelx) (m_number init_struct) m;
          ctl = reg_rd (DMA_CHCTL dma_periph channelx) m;
          ctl = ctl AND NOT (DMA_CHXCTL_PWIDTH OR DMA_CHXCTL_MWIDTH OR DMA_CHXCTL_PRIO OR DMA_CHXCTL_TM
                 OR DMA_CHXCTL_PBURST OR DMA_CHXCTL_MBURST);
          ctl = ctl OR (m_periph_width init_struct OR m_memory_width init_struct OR m_priority init_struct
                 OR m_direction init_struct OR m_memory_burst_width init_struct
                 OR m_periph_burst_width init_struct);
          m = reg_wr (DMA_CHCTL dma_periph channelx) ctl m
      in dma_increments dma_periph channelx (m_periph_inc init_struct) (m_memory_inc init_struct)
           (m_circular_mode init_struct) m)"

definition dma_periph_address_config :: "u32 \<Rightarrow> nat \<Rightarrow> u32 \<Rightarrow> mem \<Rightarrow> mem" where
  "dma_periph_address_config dma_periph channelx address m =
     reg_wr (DMA_CHPADDR dma_periph channelx) address m"

definition dma_memory_address_config :: "u32 \<Rightarrow> nat \<Rightarrow> u8 \<Rightarrow> u32 \<Rightarrow> mem \<Rightarrow> mem" where
  "dma_memory_address_config dma_periph channelx memory_flag address m =
     (if memory_flag \<noteq> 0 then reg_wr (DMA_CHM1ADDR dma_periph channelx) address m
      else reg_wr (DMA_CHM0ADDR dma_periph channelx) address m)"

definition dma_transfer_number_config :: "u32 \<Rightarrow> nat \<Rightarrow> u32 \<Rightarrow> mem \<Rightarrow> mem" where
  "dma_transfer_number_config dma_periph channelx n m = reg_wr (DMA_CHCNT dma_periph channelx) n m"

definition dma_transfer_number_get :: "u32 \<Rightarrow> nat \<Rightarrow> mem \<Rightarrow> u32" where
  "dma_transfer_number_get dma_periph channelx m = reg_rd (DMA_CHCNT dma_periph channelx) m"

text \<open>\<^verbatim>\<open>ctl = DMA_CHCTL; ctl &= ~field; ctl |= value; DMA_CHCTL = ctl\<close>.\<close>

definition dma_ctl_field :: "u32 \<Rightarrow> nat \<Rightarrow> u32 \<Rightarrow> u32 \<Rightarrow> mem \<Rightarrow> mem" where
  "dma_ctl_field dma_periph channelx field v m =
     (let ctl = reg_rd (DMA_CHCTL dma_periph channelx) m; ctl = ctl AND NOT field; ctl = ctl OR v
      in reg_wr (DMA_CHCTL dma_periph channelx) ctl m)"

definition dma_priority_config :: "u32 \<Rightarrow> nat \<Rightarrow> u32 \<Rightarrow> mem \<Rightarrow> mem" where
  "dma_priority_config dma_periph channelx prio = dma_ctl_field dma_periph channelx DMA_CHXCTL_PRIO prio"

definition dma_memory_burst_beats_config :: "u32 \<Rightarrow> nat \<Rightarrow> u32 \<Rightarrow> mem \<Rightarrow> mem" where
  "dma_memory_burst_beats_config dma_periph channelx mbeat =
     dma_ctl_field dma_periph channelx DMA_CHXCTL_MBURST mbeat"

definition dma_periph_burst_beats_config :: "u32 \<Rightarrow> nat \<Rightarrow> u32 \<Rightarrow> mem \<Rightarrow> mem" where
  "dma_periph_burst_beats_config dma_periph channelx pbeat =
     dma_ctl_field dma_periph channelx DMA_CHXCTL_PBURST pbeat"

definition dma_memory_width_config :: "u32 \<Rightarrow> nat \<Rightarrow> u32 \<Rightarrow> mem \<Rightarrow> mem" where
  "dma_memory_width_config dma_periph channelx msize =
     dma_ctl_field dma_periph channelx DMA_CHXCTL_MWIDTH msize"

definition dma_periph_width_config :: "u32 \<Rightarrow> nat \<Rightarrow> u32 \<Rightarrow> mem \<Rightarrow> mem" where
  "dma_periph_width_config dma_periph channelx psize =
     dma_ctl_field dma_periph channelx DMA_CHXCTL_PWIDTH psize"

definition dma_transfer_direction_config :: "u32 \<Rightarrow> nat \<Rightarrow> u8 \<Rightarrow> mem \<Rightarrow> mem" where
  "dma_transfer_direction_config dma_periph channelx dir =
     dma_ctl_field dma_periph channelx DMA_CHXCTL_TM (ucast dir)"

definition dma_channel_subperipheral_select :: "u32 \<Rightarrow> nat \<Rightarrow> u32 \<Rightarrow> mem \<Rightarrow> mem" where
  "dma_channel_subperipheral_select dma_periph channelx sub_periph =
     dma_ctl_field dma_periph channelx DMA_CHXCTL_PERIEN (push_bit 25 sub_periph)"

definition dma_memory_address_generation_config :: "u32 \<Rightarrow> nat \<Rightarrow> u8 \<Rightarrow> mem \<Rightarrow> mem" where
  "dma_memory_address_generation_config dma_periph channelx generation_algorithm m =
     (if DMA_MEMORY_INCREASE_ENABLE = ucast generation_algorithm
      then reg_set (DMA_CHCTL dma_periph channelx) DMA_CHXCTL_MNAGA m
      else reg_clr (DMA_CHCTL dma_periph channelx) DMA_CHXCTL_MNAGA m)"

definition dma_peripheral_address_generation_config :: "u32 \<Rightarrow> nat \<Rightarrow> u8 \<Rightarrow> mem \<Rightarrow> mem" where
  "dma_peripheral_address_generation_config dma_periph channelx generation_algorithm m =
     (let chctl = DMA_CHCTL dma_periph channelx
      in if DMA_PERIPH_INCREASE_ENABLE = ucast generation_algorithm then reg_set chctl DMA_CHXCTL_PNAGA m
         else if DMA_PERIPH_INCREASE_DISABLE = ucast generation_algorithm
              then reg_clr chctl DMA_CHXCTL_PNAGA m
              else reg_set chctl DMA_CHXCTL_PAIF (reg_set chctl DMA_CHXCTL_PNAGA m))"

definition dma_circulation_enable :: "u32 \<Rightarrow> nat \<Rightarrow> mem \<Rightarrow> mem" where
  "dma_circulation_enable dma_periph channelx = reg_set (DMA_CHCTL dma_periph channelx) DMA_CHXCTL_CMEN"

definition dma_circulation_disable :: "u32 \<Rightarrow> nat \<Rightarrow> mem \<Rightarrow> mem" where
  "dma_circulation_disable dma_periph channelx = reg_clr (DMA_CHCTL dma_periph channelx) DMA_CHXCTL_CMEN"

definition dma_channel_enable :: "u32 \<Rightarrow> nat \<Rightarrow> mem \<Rightarrow> mem" where
  "dma_channel_enable dma_periph channelx = reg_set (DMA_CHCTL dma_periph channelx) DMA_CHXCTL_CHEN"

definition dma_channel_disable :: "u32 \<Rightarrow> nat \<Rightarrow> mem \<Rightarrow> mem" where
  "dma_channel_disable dma_periph channelx = reg_clr (DMA_CHCTL dma_periph channelx) DMA_CHXCTL_CHEN"

definition dma_switch_buffer_mode_config :: "u32 \<Rightarrow> nat \<Rightarrow> u32 \<Rightarrow> u32 \<Rightarrow> mem \<Rightarrow> mem" where
  "dma_switch_buffer_mode_config dma_periph channelx memory1_addr memory_select m =
     (let m = reg_wr (DMA_CHM1ADDR dma_periph channelx) memory1_addr m
      in if DMA_MEMORY_0 = memory_select then reg_clr (DMA_CHCTL dma_periph channelx) DMA_CHXCTL_MBS m
         else reg_set (DMA_CHCTL dma_periph channelx) DMA_CHXCTL_MBS m)"

definition dma_using_memory_get :: "u32 \<Rightarrow> nat \<Rightarrow> mem \<Rightarrow> u32" where
  "dma_using_memory_get dma_periph channelx m =
     (if reg_rd (DMA_CHCTL dma_periph channelx) m AND DMA_CHXCTL_MBS \<noteq> 0 then DMA_MEMORY_1 else DMA_MEMORY_0)"

definition dma_flow_controller_config :: "u32 \<Rightarrow> nat \<Rightarrow> u32 \<Rightarrow> mem \<Rightarrow> mem" where
  "dma_flow_controller_config dma_periph channelx controller m =
     (if DMA_FLOW_CONTROLLER_DMA = controller then reg_clr (DMA_CHCTL dma_periph channelx) DMA_CHXCTL_TFCS m
      else reg_set (DMA_CHCTL dma_periph channelx) DMA_CHXCTL_TFCS m)"

definition dma_switch_buffer_mode_enable :: "u32 \<Rightarrow> nat \<Rightarrow> bool \<Rightarrow> mem \<Rightarrow> mem" where
  "dma_switch_buffer_mode_enable dma_periph channelx newvalue m =
     (if newvalue then reg_set (DMA_CHCTL dma_periph channelx) DMA_CHXCTL_SBMEN m
      else reg_clr (DMA_CHCTL dma_periph channelx) DMA_CHXCTL_SBMEN m)"

definition dma_fifo_status_get :: "u32 \<Rightarrow> nat \<Rightarrow> mem \<Rightarrow> u32" where
  "dma_fifo_status_get dma_periph channelx m = reg_rd (DMA_CHFCTL dma_periph channelx) m AND DMA_CHXFCTL_FCNT"

section \<open>Flags and interrupts\<close>

definition dma_flag_get :: "u32 \<Rightarrow> nat \<Rightarrow> u32 \<Rightarrow> mem \<Rightarrow> bool" where
  "dma_flag_get dma_periph channelx flag m \<longleftrightarrow>
     (if channelx < 4 then reg_rd (DMA_INTF0 dma_periph) m AND DMA_FLAG_ADD flag channelx \<noteq> 0
      else reg_rd (DMA_INTF1 dma_periph) m AND DMA_FLAG_ADD flag (channelx - 4) \<noteq> 0)"

definition dma_flag_clear :: "u32 \<Rightarrow> nat \<Rightarrow> u32 \<Rightarrow> mem \<Rightarrow> mem" where
  "dma_flag_clear dma_periph channelx flag m =
     (if channelx < 4 then reg_set (DMA_INTC0 dma_periph) (DMA_FLAG_ADD flag channelx) m
      else reg_set (DMA_INTC1 dma_periph) (DMA_FLAG_ADD flag (channelx - 4)) m)"

definition dma_interrupt_enable :: "u32 \<Rightarrow> nat \<Rightarrow> u32 \<Rightarrow> mem \<Rightarrow> mem" where
  "dma_interrupt_enable dma_periph channelx source m =
     (if DMA_CHXFCTL_FEEIE \<noteq> source then reg_set (DMA_CHCTL dma_periph channelx) source m
      else reg_set (DMA_CHFCTL dma_periph channelx) source m)"

definition dma_interrupt_disable :: "u32 \<Rightarrow> nat \<Rightarrow> u32 \<Rightarrow> mem \<Rightarrow> mem" where
  "dma_interrupt_disable dma_periph channelx source m =
     (if DMA_CHXFCTL_FEEIE \<noteq> source then reg_clr (DMA_CHCTL dma_periph channelx) source m
      else reg_clr (DMA_CHFCTL dma_periph channelx) source m)"

text \<open>The enable bit that belongs to a flag: the \<^verbatim>\<open>switch(interrupt)\<close> of the two halves.\<close>

definition dma_flag_enable_bit :: "u32 \<Rightarrow> nat \<Rightarrow> u32 \<Rightarrow> mem \<Rightarrow> u32 option" where
  "dma_flag_enable_bit dma_periph channelx interrupt m =
     (if interrupt = DMA_INTF_FEEIF then Some (reg_rd (DMA_CHFCTL dma_periph channelx) m AND DMA_CHXFCTL_FEEIE)
      else if interrupt = DMA_INTF_SDEIF then Some (reg_rd (DMA_CHCTL dma_periph channelx) m AND DMA_CHXCTL_SDEIE)
      else if interrupt = DMA_INTF_TAEIF then Some (reg_rd (DMA_CHCTL dma_periph channelx) m AND DMA_CHXCTL_TAEIE)
      else if interrupt = DMA_INTF_HTFIF then Some (reg_rd (DMA_CHCTL dma_periph channelx) m AND DMA_CHXCTL_HTFIE)
      else if interrupt = DMA_INTF_FTFIF then Some (reg_rd (DMA_CHCTL dma_periph channelx) m AND DMA_CHXCTL_FTFIE)
      else None)"

definition dma_interrupt_flag_get :: "u32 \<Rightarrow> nat \<Rightarrow> u32 \<Rightarrow> mem \<Rightarrow> bool" where
  "dma_interrupt_flag_get dma_periph channelx interrupt m =
     (case dma_flag_enable_bit dma_periph channelx interrupt m of
        None \<Rightarrow> False
      | Some interrupt_enable \<Rightarrow>
          (if channelx < 4 then reg_rd (DMA_INTF0 dma_periph) m AND DMA_FLAG_ADD interrupt channelx \<noteq> 0
           else reg_rd (DMA_INTF1 dma_periph) m AND DMA_FLAG_ADD interrupt (channelx - 4) \<noteq> 0)
          \<and> interrupt_enable \<noteq> 0)"

definition dma_interrupt_flag_clear :: "u32 \<Rightarrow> nat \<Rightarrow> u32 \<Rightarrow> mem \<Rightarrow> mem" where
  "dma_interrupt_flag_clear dma_periph channelx interrupt m =
     (if channelx < 4 then reg_set (DMA_INTC0 dma_periph) (DMA_FLAG_ADD interrupt channelx) m
      else reg_set (DMA_INTC1 dma_periph) (DMA_FLAG_ADD interrupt (channelx - 4)) m)"

lemmas dma_ops =
  dma_deinit_def dma_increments_def dma_single_data_mode_init_def dma_periph_address_config_def
  dma_memory_address_config_def dma_transfer_number_config_def dma_ctl_field_def dma_priority_config_def
  dma_transfer_direction_config_def dma_channel_subperipheral_select_def
  dma_memory_address_generation_config_def dma_circulation_enable_def dma_circulation_disable_def
  dma_channel_enable_def dma_channel_disable_def dma_flag_clear_def dma_interrupt_enable_def
  dma_interrupt_flag_clear_def

section \<open>Channels do not share flag bits\<close>

lemma bit_DMA_FLAG_ADD:
  assumes "flag < 64" and "ch < 4"
  shows "bit (DMA_FLAG_ADD flag ch) n \<longleftrightarrow>
     (let s = ch * 6 + (ch div 2 mod 2) * 4 in s \<le> n \<and> n < s + 6 \<and> bit flag (n - s))"
proof -
  have "flag AND mask 6 = flag"
    using less_mask_eq [of flag 6] assms(1) by simp
  then have lt: "bit flag k \<Longrightarrow> k < 6" for k
    by (metis bit_and_iff bit_mask_iff)
  have "ch \<in> {0, 1, 2, 3}" using assms(2) by auto
  then show ?thesis
    by (auto simp: DMA_FLAG_ADD_def bit_push_bit_iff Let_def dest: lt)
qed

lemma DMA_FLAG_ADD_disjoint:
  assumes "f < 64" "g < 64" "c < 4" "d < 4" "c \<noteq> d"
  shows "DMA_FLAG_ADD f c AND DMA_FLAG_ADD g d = 0"
proof (rule bit_word_eqI)
  fix n
  have "c \<in> {0, 1, 2, 3}" "d \<in> {0, 1, 2, 3}" using assms by auto
  then show "bit (DMA_FLAG_ADD f c AND DMA_FLAG_ADD g d) n = bit 0 n"
    using assms by (auto simp: bit_and_iff bit_DMA_FLAG_ADD Let_def)
qed

end
