(* ===== verification/Usart.thy ===== *)
theory Usart
  imports Rcu
begin

text \<open>
  The serial port driver \<^verbatim>\<open>gd32f4xx_usart.c\<close>: frame format, baud rate, DMA requests, and
  the flags. A flag or an interrupt source is its C code, a register offset and a bit packed
  into a word, which \<^verbatim>\<open>USART_REG_VAL\<close> and \<^verbatim>\<open>USART_BIT_POS\<close> take apart.
\<close>

section \<open>Registers and constants of \<^verbatim>\<open>gd32f4xx_usart.h\<close>\<close>

definition USART_BASE :: u32 where "USART_BASE = 0x40004400"
definition USART1 :: u32 where "USART1 = USART_BASE + 0x0"
definition USART2 :: u32 where "USART2 = USART_BASE + 0x400"
definition UART3 :: u32 where "UART3 = USART_BASE + 0x800"
definition UART4 :: u32 where "UART4 = USART_BASE + 0xC00"
definition UART6 :: u32 where "UART6 = USART_BASE + 0x3400"
definition UART7 :: u32 where "UART7 = USART_BASE + 0x3800"
definition USART0 :: u32 where "USART0 = USART_BASE + 0xCC00"
definition USART5 :: u32 where "USART5 = USART_BASE + 0xD000"

lemmas usart_periphs [reg_simps] =
  USART_BASE_def USART1_def USART2_def UART3_def UART4_def UART6_def UART7_def USART0_def USART5_def

definition USART_STAT0 :: "u32 \<Rightarrow> u32" where "USART_STAT0 usartx = usartx + 0x00"
definition USART_DATA :: "u32 \<Rightarrow> u32" where "USART_DATA usartx = usartx + 0x04"
definition USART_BAUD :: "u32 \<Rightarrow> u32" where "USART_BAUD usartx = usartx + 0x08"
definition USART_CTL0 :: "u32 \<Rightarrow> u32" where "USART_CTL0 usartx = usartx + 0x0C"
definition USART_CTL1 :: "u32 \<Rightarrow> u32" where "USART_CTL1 usartx = usartx + 0x10"
definition USART_CTL2 :: "u32 \<Rightarrow> u32" where "USART_CTL2 usartx = usartx + 0x14"
definition USART_GP :: "u32 \<Rightarrow> u32" where "USART_GP usartx = usartx + 0x18"
definition USART_CTL3 :: "u32 \<Rightarrow> u32" where "USART_CTL3 usartx = usartx + 0x80"
definition USART_RT :: "u32 \<Rightarrow> u32" where "USART_RT usartx = usartx + 0x84"
definition USART_STAT1 :: "u32 \<Rightarrow> u32" where "USART_STAT1 usartx = usartx + 0x88"
definition USART_CHC :: "u32 \<Rightarrow> u32" where "USART_CHC usartx = usartx + 0xC0"

lemmas usart_regs [reg_simps] =
  USART_STAT0_def USART_DATA_def USART_BAUD_def USART_CTL0_def USART_CTL1_def USART_CTL2_def
  USART_GP_def USART_CTL3_def USART_RT_def USART_STAT1_def USART_CHC_def

definition USART_CTL0_SBKCMD :: u32 where "USART_CTL0_SBKCMD = BIT 0"
definition USART_CTL0_RWU :: u32 where "USART_CTL0_RWU = BIT 1"
definition USART_CTL0_REN :: u32 where "USART_CTL0_REN = BIT 2"
definition USART_CTL0_TEN :: u32 where "USART_CTL0_TEN = BIT 3"
definition USART_CTL0_PM :: u32 where "USART_CTL0_PM = BIT 9"
definition USART_CTL0_PCEN :: u32 where "USART_CTL0_PCEN = BIT 10"
definition USART_CTL0_WM :: u32 where "USART_CTL0_WM = BIT 11"
definition USART_CTL0_WL :: u32 where "USART_CTL0_WL = BIT 12"
definition USART_CTL0_UEN :: u32 where "USART_CTL0_UEN = BIT 13"
definition USART_CTL0_OVSMOD :: u32 where "USART_CTL0_OVSMOD = BIT 15"
definition USART_CTL1_ADDR :: u32 where "USART_CTL1_ADDR = BITS 0 3"
definition USART_CTL1_LBLEN :: u32 where "USART_CTL1_LBLEN = BIT 5"
definition USART_CTL1_CLEN :: u32 where "USART_CTL1_CLEN = BIT 8"
definition USART_CTL1_CPH :: u32 where "USART_CTL1_CPH = BIT 9"
definition USART_CTL1_CPL :: u32 where "USART_CTL1_CPL = BIT 10"
definition USART_CTL1_CKEN :: u32 where "USART_CTL1_CKEN = BIT 11"
definition USART_CTL1_STB :: u32 where "USART_CTL1_STB = BITS 12 13"
definition USART_CTL1_LMEN :: u32 where "USART_CTL1_LMEN = BIT 14"
definition USART_CTL2_IREN :: u32 where "USART_CTL2_IREN = BIT 1"
definition USART_CTL2_IRLP :: u32 where "USART_CTL2_IRLP = BIT 2"
definition USART_CTL2_HDEN :: u32 where "USART_CTL2_HDEN = BIT 3"
definition USART_CTL2_NKEN :: u32 where "USART_CTL2_NKEN = BIT 4"
definition USART_CTL2_SCEN :: u32 where "USART_CTL2_SCEN = BIT 5"
definition USART_CTL2_DENR :: u32 where "USART_CTL2_DENR = BIT 6"
definition USART_CTL2_DENT :: u32 where "USART_CTL2_DENT = BIT 7"
definition USART_CTL2_RTSEN :: u32 where "USART_CTL2_RTSEN = BIT 8"
definition USART_CTL2_CTSEN :: u32 where "USART_CTL2_CTSEN = BIT 9"
definition USART_CTL2_OSB :: u32 where "USART_CTL2_OSB = BIT 11"
definition USART_GP_PSC :: u32 where "USART_GP_PSC = BITS 0 7"
definition USART_GP_GUAT :: u32 where "USART_GP_GUAT = BITS 8 15"
definition USART_CTL3_RTEN :: u32 where "USART_CTL3_RTEN = BIT 0"
definition USART_CTL3_SCRTNUM :: u32 where "USART_CTL3_SCRTNUM = BITS 1 3"
definition USART_CTL3_RINV :: u32 where "USART_CTL3_RINV = BIT 8"
definition USART_CTL3_TINV :: u32 where "USART_CTL3_TINV = BIT 9"
definition USART_CTL3_DINV :: u32 where "USART_CTL3_DINV = BIT 10"
definition USART_CTL3_MSBF :: u32 where "USART_CTL3_MSBF = BIT 11"
definition USART_RT_RT :: u32 where "USART_RT_RT = BITS 0 23"
definition USART_RT_BL :: u32 where "USART_RT_BL = BITS 24 31"
definition USART_CHC_HCM :: u32 where "USART_CHC_HCM = BIT 0"
definition USART_CHC_PCM :: u32 where "USART_CHC_PCM = BIT 1"
definition USART_CHC_BCM :: u32 where "USART_CHC_BCM = BIT 2"
definition USART_DATA_DATA :: u32 where "USART_DATA_DATA = BITS 0 8"
definition USART_BAUD_FRADIV :: u32 where "USART_BAUD_FRADIV = BITS 0 3"
definition USART_BAUD_INTDIV :: u32 where "USART_BAUD_INTDIV = BITS 4 15"

lemmas usart_bits =
  USART_CTL0_SBKCMD_def USART_CTL0_RWU_def USART_CTL0_REN_def USART_CTL0_TEN_def USART_CTL0_PM_def
  USART_CTL0_PCEN_def USART_CTL0_WM_def USART_CTL0_WL_def USART_CTL0_UEN_def USART_CTL0_OVSMOD_def
  USART_CTL1_ADDR_def USART_CTL1_LBLEN_def USART_CTL1_CLEN_def USART_CTL1_CPH_def USART_CTL1_CPL_def
  USART_CTL1_CKEN_def USART_CTL1_STB_def USART_CTL1_LMEN_def USART_CTL2_IREN_def USART_CTL2_IRLP_def
  USART_CTL2_HDEN_def USART_CTL2_NKEN_def USART_CTL2_SCEN_def USART_CTL2_DENR_def USART_CTL2_DENT_def
  USART_CTL2_RTSEN_def USART_CTL2_CTSEN_def USART_CTL2_OSB_def USART_GP_PSC_def USART_GP_GUAT_def
  USART_CTL3_RTEN_def USART_CTL3_SCRTNUM_def USART_CTL3_RINV_def USART_CTL3_TINV_def USART_CTL3_DINV_def
  USART_CTL3_MSBF_def USART_RT_RT_def USART_RT_BL_def USART_CHC_HCM_def USART_CHC_PCM_def
  USART_CHC_BCM_def USART_DATA_DATA_def USART_BAUD_FRADIV_def USART_BAUD_INTDIV_def

definition USART_REGIDX_BIT :: "u32 \<Rightarrow> u32 \<Rightarrow> u32" where
  "USART_REGIDX_BIT regidx bitpos = push_bit 6 regidx OR bitpos"
definition USART_REG_VAL :: "u32 \<Rightarrow> u32 \<Rightarrow> u32" where
  "USART_REG_VAL usartx offset = usartx + drop_bit 6 (offset AND 0xFFFF)"
definition USART_BIT_POS :: "u32 \<Rightarrow> nat" where "USART_BIT_POS v = unat (v AND 0x1F)"
definition USART_REGIDX_BIT2 :: "u32 \<Rightarrow> u32 \<Rightarrow> u32 \<Rightarrow> u32 \<Rightarrow> u32" where
  "USART_REGIDX_BIT2 regidx bitpos regidx2 bitpos2 =
     (push_bit 22 regidx2 OR push_bit 16 bitpos2) OR (push_bit 6 regidx OR bitpos)"
definition USART_REG_VAL2 :: "u32 \<Rightarrow> u32 \<Rightarrow> u32" where
  "USART_REG_VAL2 usartx offset = usartx + drop_bit 22 offset"
definition USART_BIT_POS2 :: "u32 \<Rightarrow> nat" where "USART_BIT_POS2 v = unat (drop_bit 16 (v AND 0x1F0000))"

definition USART_FLAG_TBE :: u32 where "USART_FLAG_TBE = USART_REGIDX_BIT 0x00 7"
definition USART_FLAG_TC :: u32 where "USART_FLAG_TC = USART_REGIDX_BIT 0x00 6"
definition USART_FLAG_RBNE :: u32 where "USART_FLAG_RBNE = USART_REGIDX_BIT 0x00 5"
definition USART_FLAG_IDLE :: u32 where "USART_FLAG_IDLE = USART_REGIDX_BIT 0x00 4"
definition USART_FLAG_EPERR :: u32 where "USART_FLAG_EPERR = USART_REGIDX_BIT 0xC0 8"
definition USART_INT_TBE :: u32 where "USART_INT_TBE = USART_REGIDX_BIT 0x0C 7"
definition USART_INT_TC :: u32 where "USART_INT_TC = USART_REGIDX_BIT 0x0C 6"
definition USART_INT_RBNE :: u32 where "USART_INT_RBNE = USART_REGIDX_BIT 0x0C 5"
definition USART_INT_IDLE :: u32 where "USART_INT_IDLE = USART_REGIDX_BIT 0x0C 4"
definition USART_INT_FLAG_TBE :: u32 where "USART_INT_FLAG_TBE = USART_REGIDX_BIT2 0x0C 7 0x00 7"
definition USART_INT_FLAG_TC :: u32 where "USART_INT_FLAG_TC = USART_REGIDX_BIT2 0x0C 6 0x00 6"
definition USART_INT_FLAG_RBNE :: u32 where "USART_INT_FLAG_RBNE = USART_REGIDX_BIT2 0x0C 5 0x00 5"
definition USART_INT_FLAG_IDLE :: u32 where "USART_INT_FLAG_IDLE = USART_REGIDX_BIT2 0x0C 4 0x00 4"

lemmas usart_flags =
  USART_REGIDX_BIT_def USART_REG_VAL_def USART_BIT_POS_def USART_REGIDX_BIT2_def USART_REG_VAL2_def
  USART_BIT_POS2_def USART_FLAG_TBE_def USART_FLAG_TC_def USART_FLAG_RBNE_def USART_FLAG_IDLE_def
  USART_FLAG_EPERR_def USART_INT_TBE_def USART_INT_TC_def USART_INT_RBNE_def USART_INT_IDLE_def
  USART_INT_FLAG_TBE_def USART_INT_FLAG_TC_def USART_INT_FLAG_RBNE_def USART_INT_FLAG_IDLE_def

definition USART_RECEIVE_ENABLE :: u32 where "USART_RECEIVE_ENABLE = BIT 2 AND push_bit 2 1"
definition USART_TRANSMIT_ENABLE :: u32 where "USART_TRANSMIT_ENABLE = BIT 3 AND push_bit 3 1"
definition USART_PM_NONE :: u32 where "USART_PM_NONE = BITS 9 10 AND push_bit 9 0"
definition USART_WL_8BIT :: u32 where "USART_WL_8BIT = BIT 12 AND push_bit 12 0"
definition USART_OVSMOD_16 :: u32 where "USART_OVSMOD_16 = BIT 15 AND push_bit 15 0"
definition USART_OVSMOD_8 :: u32 where "USART_OVSMOD_8 = BIT 15 AND push_bit 15 1"
definition USART_STB_1BIT :: u32 where "USART_STB_1BIT = BITS 12 13 AND push_bit 12 0"
definition USART_RECEIVE_DMA_ENABLE :: u32 where "USART_RECEIVE_DMA_ENABLE = BIT 6 AND push_bit 6 1"
definition USART_TRANSMIT_DMA_ENABLE :: u32 where "USART_TRANSMIT_DMA_ENABLE = BIT 7 AND push_bit 7 1"
definition USART_RTS_DISABLE :: u32 where "USART_RTS_DISABLE = BIT 8 AND push_bit 8 0"
definition USART_CTS_DISABLE :: u32 where "USART_CTS_DISABLE = BIT 9 AND push_bit 9 0"
definition USART_MSBF_LSB :: u32 where "USART_MSBF_LSB = BIT 11 AND push_bit 11 0"
definition USART_MSBF_MSB :: u32 where "USART_MSBF_MSB = BIT 11 AND push_bit 11 1"

lemmas usart_consts =
  USART_RECEIVE_ENABLE_def USART_TRANSMIT_ENABLE_def USART_PM_NONE_def USART_WL_8BIT_def
  USART_OVSMOD_16_def USART_OVSMOD_8_def USART_STB_1BIT_def USART_RECEIVE_DMA_ENABLE_def
  USART_TRANSMIT_DMA_ENABLE_def USART_RTS_DISABLE_def USART_CTS_DISABLE_def USART_MSBF_LSB_def
  USART_MSBF_MSB_def

datatype usart_invert_enum = USART_DINV_ENABLE | USART_DINV_DISABLE | USART_TXPIN_ENABLE
  | USART_TXPIN_DISABLE | USART_RXPIN_ENABLE | USART_RXPIN_DISABLE

section \<open>Operations\<close>

definition usart_deinit :: "u32 \<Rightarrow> mem \<Rightarrow> mem" where
  "usart_deinit usart_periph m =
     (let pulse = (\<lambda>rst. rcu_periph_reset_disable rst (rcu_periph_reset_enable rst m))
      in if usart_periph = USART0 then pulse RCU_USART0RST
         else if usart_periph = USART1 then pulse RCU_USART1RST
         else if usart_periph = USART2 then pulse RCU_USART2RST
         else if usart_periph = USART5 then pulse RCU_USART5RST
         else if usart_periph = UART3 then pulse RCU_UART3RST
         else if usart_periph = UART4 then pulse RCU_UART4RST
         else if usart_periph = UART6 then pulse RCU_UART6RST
         else if usart_periph = UART7 then pulse RCU_UART7RST
         else m)"

text \<open>The clock of a port; a base address that is no serial port leaves \<^verbatim>\<open>uclk\<close> at 0.\<close>

definition usart_uclk :: "u32 \<Rightarrow> mem \<Rightarrow> u32 res" where
  "usart_uclk usart_periph m =
     (if usart_periph = USART0 \<or> usart_periph = USART5 then rcu_clock_freq_get CK_APB2 m
      else if usart_periph = USART1 \<or> usart_periph = USART2 \<or> usart_periph = UART3 \<or> usart_periph = UART4
              \<or> usart_periph = UART6 \<or> usart_periph = UART7 then rcu_clock_freq_get CK_APB1 m
      else Inr 0)"

definition usart_baudrate_set :: "u32 \<Rightarrow> u32 \<Rightarrow> mem \<Rightarrow> mem res" where
  "usart_baudrate_set usart_periph baudval m = bind_res (usart_uclk usart_periph m) (\<lambda>uclk.
     if baudval = 0 then Inl Div_By_Zero
     else if reg_rd (USART_CTL0 usart_periph) m AND USART_CTL0_OVSMOD \<noteq> 0 then
       let udiv = ((2 * uclk) + baudval div 2) div baudval;
           intdiv = udiv AND 0xfff0;
           fradiv = drop_bit 1 udiv AND 0x7
       in Inr (reg_wr (USART_BAUD usart_periph)
                 ((USART_BAUD_FRADIV OR USART_BAUD_INTDIV) AND (intdiv OR fradiv)) m)
     else
       let udiv = (uclk + baudval div 2) div baudval;
           intdiv = udiv AND 0xfff0;
           fradiv = udiv AND 0xf
       in Inr (reg_wr (USART_BAUD usart_periph)
                 ((USART_BAUD_FRADIV OR USART_BAUD_INTDIV) AND (intdiv OR fradiv)) m))"

text \<open>\<^verbatim>\<open>REG &= ~field; REG |= value\<close>, two writes.\<close>

definition usart_field :: "u32 \<Rightarrow> u32 \<Rightarrow> u32 \<Rightarrow> mem \<Rightarrow> mem" where
  "usart_field r field v m = reg_set r v (reg_clr r field m)"

definition usart_parity_config :: "u32 \<Rightarrow> u32 \<Rightarrow> mem \<Rightarrow> mem" where
  "usart_parity_config usart_periph paritycfg =
     usart_field (USART_CTL0 usart_periph) (USART_CTL0_PM OR USART_CTL0_PCEN) paritycfg"

definition usart_word_length_set :: "u32 \<Rightarrow> u32 \<Rightarrow> mem \<Rightarrow> mem" where
  "usart_word_length_set usart_periph wlen =
     usart_field (USART_CTL0 usart_periph) USART_CTL0_WL wlen"

definition usart_stop_bit_set :: "u32 \<Rightarrow> u32 \<Rightarrow> mem \<Rightarrow> mem" where
  "usart_stop_bit_set usart_periph stblen =
     usart_field (USART_CTL1 usart_periph) USART_CTL1_STB stblen"

definition usart_enable :: "u32 \<Rightarrow> mem \<Rightarrow> mem" where
  "usart_enable usart_periph =
     reg_set (USART_CTL0 usart_periph) USART_CTL0_UEN"

definition usart_disable :: "u32 \<Rightarrow> mem \<Rightarrow> mem" where
  "usart_disable usart_periph =
     reg_clr (USART_CTL0 usart_periph) USART_CTL0_UEN"

definition usart_transmit_config :: "u32 \<Rightarrow> u32 \<Rightarrow> mem \<Rightarrow> mem" where
  "usart_transmit_config usart_periph txconfig =
     (\<lambda>m. reg_wr (USART_CTL0 usart_periph) (reg_rd (USART_CTL0 usart_periph) m AND NOT USART_CTL0_TEN OR txconfig) m)"

definition usart_receive_config :: "u32 \<Rightarrow> u32 \<Rightarrow> mem \<Rightarrow> mem" where
  "usart_receive_config usart_periph rxconfig =
     (\<lambda>m. reg_wr (USART_CTL0 usart_periph) (reg_rd (USART_CTL0 usart_periph) m AND NOT USART_CTL0_REN OR rxconfig) m)"

definition usart_data_first_config :: "u32 \<Rightarrow> u32 \<Rightarrow> mem \<Rightarrow> mem" where
  "usart_data_first_config usart_periph msbf =
     (\<lambda>m. reg_wr (USART_CTL3 usart_periph) (reg_rd (USART_CTL3 usart_periph) m AND NOT USART_CTL3_MSBF OR msbf) m)"

definition usart_invert_config :: "u32 \<Rightarrow> usart_invert_enum \<Rightarrow> mem \<Rightarrow> mem" where
  "usart_invert_config usart_periph invertpara m =
     (case invertpara of
        USART_DINV_ENABLE \<Rightarrow> reg_set (USART_CTL3 usart_periph) USART_CTL3_DINV m
      | USART_TXPIN_ENABLE \<Rightarrow> reg_set (USART_CTL3 usart_periph) USART_CTL3_TINV m
      | USART_RXPIN_ENABLE \<Rightarrow> reg_set (USART_CTL3 usart_periph) USART_CTL3_RINV m
      | USART_DINV_DISABLE \<Rightarrow> reg_clr (USART_CTL3 usart_periph) USART_CTL3_DINV m
      | USART_TXPIN_DISABLE \<Rightarrow> reg_clr (USART_CTL3 usart_periph) USART_CTL3_TINV m
      | USART_RXPIN_DISABLE \<Rightarrow> reg_clr (USART_CTL3 usart_periph) USART_CTL3_RINV m)"

definition usart_oversample_config :: "u32 \<Rightarrow> u32 \<Rightarrow> mem \<Rightarrow> mem" where
  "usart_oversample_config usart_periph oversamp =
     usart_field (USART_CTL0 usart_periph) USART_CTL0_OVSMOD oversamp"

definition usart_sample_bit_config :: "u32 \<Rightarrow> u32 \<Rightarrow> mem \<Rightarrow> mem" where
  "usart_sample_bit_config usart_periph obsm =
     usart_field (USART_CTL2 usart_periph) USART_CTL2_OSB obsm"

definition usart_receiver_timeout_enable :: "u32 \<Rightarrow> mem \<Rightarrow> mem" where
  "usart_receiver_timeout_enable usart_periph =
     reg_set (USART_CTL3 usart_periph) USART_CTL3_RTEN"

definition usart_receiver_timeout_disable :: "u32 \<Rightarrow> mem \<Rightarrow> mem" where
  "usart_receiver_timeout_disable usart_periph =
     reg_clr (USART_CTL3 usart_periph) USART_CTL3_RTEN"

definition usart_receiver_timeout_threshold_config :: "u32 \<Rightarrow> u32 \<Rightarrow> mem \<Rightarrow> mem" where
  "usart_receiver_timeout_threshold_config usart_periph rtimeout =
     usart_field (USART_RT usart_periph) USART_RT_RT rtimeout"

definition usart_data_transmit :: "u32 \<Rightarrow> u16 \<Rightarrow> mem \<Rightarrow> mem" where
  "usart_data_transmit usart_periph data =
     reg_wr (USART_DATA usart_periph) (USART_DATA_DATA AND ucast data)"

definition usart_data_receive :: "u32 \<Rightarrow> mem \<Rightarrow> u16" where
  "usart_data_receive usart_periph m =
     ucast (GET_BITS (reg_rd (USART_DATA usart_periph) m) 0 8)"

definition usart_address_config :: "u32 \<Rightarrow> u8 \<Rightarrow> mem \<Rightarrow> mem" where
  "usart_address_config usart_periph addr =
     usart_field (USART_CTL1 usart_periph) USART_CTL1_ADDR (USART_CTL1_ADDR AND ucast addr)"

definition usart_mute_mode_enable :: "u32 \<Rightarrow> mem \<Rightarrow> mem" where
  "usart_mute_mode_enable usart_periph =
     reg_set (USART_CTL0 usart_periph) USART_CTL0_RWU"

definition usart_mute_mode_disable :: "u32 \<Rightarrow> mem \<Rightarrow> mem" where
  "usart_mute_mode_disable usart_periph =
     reg_clr (USART_CTL0 usart_periph) USART_CTL0_RWU"

definition usart_mute_mode_wakeup_config :: "u32 \<Rightarrow> u32 \<Rightarrow> mem \<Rightarrow> mem" where
  "usart_mute_mode_wakeup_config usart_periph wmethod =
     usart_field (USART_CTL0 usart_periph) USART_CTL0_WM wmethod"

definition usart_lin_mode_enable :: "u32 \<Rightarrow> mem \<Rightarrow> mem" where
  "usart_lin_mode_enable usart_periph =
     reg_set (USART_CTL1 usart_periph) USART_CTL1_LMEN"

definition usart_lin_mode_disable :: "u32 \<Rightarrow> mem \<Rightarrow> mem" where
  "usart_lin_mode_disable usart_periph =
     reg_clr (USART_CTL1 usart_periph) USART_CTL1_LMEN"

definition usart_lin_break_detection_length_config :: "u32 \<Rightarrow> u32 \<Rightarrow> mem \<Rightarrow> mem" where
  "usart_lin_break_detection_length_config usart_periph lblen =
     usart_field (USART_CTL1 usart_periph) USART_CTL1_LBLEN (USART_CTL1_LBLEN AND lblen)"

definition usart_send_break :: "u32 \<Rightarrow> mem \<Rightarrow> mem" where
  "usart_send_break usart_periph =
     reg_set (USART_CTL0 usart_periph) USART_CTL0_SBKCMD"

definition usart_halfduplex_enable :: "u32 \<Rightarrow> mem \<Rightarrow> mem" where
  "usart_halfduplex_enable usart_periph =
     reg_set (USART_CTL2 usart_periph) USART_CTL2_HDEN"

definition usart_halfduplex_disable :: "u32 \<Rightarrow> mem \<Rightarrow> mem" where
  "usart_halfduplex_disable usart_periph =
     reg_clr (USART_CTL2 usart_periph) USART_CTL2_HDEN"

definition usart_synchronous_clock_enable :: "u32 \<Rightarrow> mem \<Rightarrow> mem" where
  "usart_synchronous_clock_enable usart_periph =
     reg_set (USART_CTL1 usart_periph) USART_CTL1_CKEN"

definition usart_synchronous_clock_disable :: "u32 \<Rightarrow> mem \<Rightarrow> mem" where
  "usart_synchronous_clock_disable usart_periph =
     reg_clr (USART_CTL1 usart_periph) USART_CTL1_CKEN"

definition usart_synchronous_clock_config :: "u32 \<Rightarrow> u32 \<Rightarrow> u32 \<Rightarrow> u32 \<Rightarrow> mem \<Rightarrow> mem" where
  "usart_synchronous_clock_config usart_periph clen cph cpl =
     usart_field (USART_CTL1 usart_periph) (USART_CTL1_CLEN OR USART_CTL1_CPH OR USART_CTL1_CPL) 
       ((USART_CTL1_CLEN AND clen) OR (USART_CTL1_CPH AND cph) OR (USART_CTL1_CPL AND cpl))"

definition usart_guard_time_config :: "u32 \<Rightarrow> u8 \<Rightarrow> mem \<Rightarrow> mem" where
  "usart_guard_time_config usart_periph guat =
     usart_field (USART_GP usart_periph) USART_GP_GUAT (USART_GP_GUAT AND push_bit 8 (ucast guat))"

definition usart_smartcard_mode_enable :: "u32 \<Rightarrow> mem \<Rightarrow> mem" where
  "usart_smartcard_mode_enable usart_periph =
     reg_set (USART_CTL2 usart_periph) USART_CTL2_SCEN"

definition usart_smartcard_mode_disable :: "u32 \<Rightarrow> mem \<Rightarrow> mem" where
  "usart_smartcard_mode_disable usart_periph =
     reg_clr (USART_CTL2 usart_periph) USART_CTL2_SCEN"

definition usart_smartcard_mode_nack_enable :: "u32 \<Rightarrow> mem \<Rightarrow> mem" where
  "usart_smartcard_mode_nack_enable usart_periph =
     reg_set (USART_CTL2 usart_periph) USART_CTL2_NKEN"

definition usart_smartcard_mode_nack_disable :: "u32 \<Rightarrow> mem \<Rightarrow> mem" where
  "usart_smartcard_mode_nack_disable usart_periph =
     reg_clr (USART_CTL2 usart_periph) USART_CTL2_NKEN"

definition usart_smartcard_autoretry_config :: "u32 \<Rightarrow> u8 \<Rightarrow> mem \<Rightarrow> mem" where
  "usart_smartcard_autoretry_config usart_periph scrtnum =
     usart_field (USART_CTL3 usart_periph) USART_CTL3_SCRTNUM (USART_CTL3_SCRTNUM AND push_bit 1 (ucast scrtnum))"

definition usart_block_length_config :: "u32 \<Rightarrow> u8 \<Rightarrow> mem \<Rightarrow> mem" where
  "usart_block_length_config usart_periph bl =
     usart_field (USART_RT usart_periph) USART_RT_BL (USART_RT_BL AND push_bit 24 (ucast bl))"

definition usart_irda_mode_enable :: "u32 \<Rightarrow> mem \<Rightarrow> mem" where
  "usart_irda_mode_enable usart_periph =
     reg_set (USART_CTL2 usart_periph) USART_CTL2_IREN"

definition usart_irda_mode_disable :: "u32 \<Rightarrow> mem \<Rightarrow> mem" where
  "usart_irda_mode_disable usart_periph =
     reg_clr (USART_CTL2 usart_periph) USART_CTL2_IREN"

definition usart_prescaler_config :: "u32 \<Rightarrow> u8 \<Rightarrow> mem \<Rightarrow> mem" where
  "usart_prescaler_config usart_periph psc =
     usart_field (USART_GP usart_periph) USART_GP_PSC (ucast psc)"

definition usart_irda_lowpower_config :: "u32 \<Rightarrow> u32 \<Rightarrow> mem \<Rightarrow> mem" where
  "usart_irda_lowpower_config usart_periph irlp =
     usart_field (USART_CTL2 usart_periph) USART_CTL2_IRLP (USART_CTL2_IRLP AND irlp)"

definition usart_hardware_flow_rts_config :: "u32 \<Rightarrow> u32 \<Rightarrow> mem \<Rightarrow> mem" where
  "usart_hardware_flow_rts_config usart_periph rtsconfig =
     usart_field (USART_CTL2 usart_periph) USART_CTL2_RTSEN (USART_CTL2_RTSEN AND rtsconfig)"

definition usart_hardware_flow_cts_config :: "u32 \<Rightarrow> u32 \<Rightarrow> mem \<Rightarrow> mem" where
  "usart_hardware_flow_cts_config usart_periph ctsconfig =
     usart_field (USART_CTL2 usart_periph) USART_CTL2_CTSEN (USART_CTL2_CTSEN AND ctsconfig)"

definition usart_break_frame_coherence_config :: "u32 \<Rightarrow> u32 \<Rightarrow> mem \<Rightarrow> mem" where
  "usart_break_frame_coherence_config usart_periph bcm =
     usart_field (USART_CHC usart_periph) USART_CHC_BCM (USART_CHC_BCM AND bcm)"

definition usart_parity_check_coherence_config :: "u32 \<Rightarrow> u32 \<Rightarrow> mem \<Rightarrow> mem" where
  "usart_parity_check_coherence_config usart_periph pcm =
     usart_field (USART_CHC usart_periph) USART_CHC_PCM (USART_CHC_PCM AND pcm)"

definition usart_hardware_flow_coherence_config :: "u32 \<Rightarrow> u32 \<Rightarrow> mem \<Rightarrow> mem" where
  "usart_hardware_flow_coherence_config usart_periph hcm =
     usart_field (USART_CHC usart_periph) USART_CHC_HCM (USART_CHC_HCM AND hcm)"

definition usart_dma_receive_config :: "u32 \<Rightarrow> u32 \<Rightarrow> mem \<Rightarrow> mem" where
  "usart_dma_receive_config usart_periph dmacmd =
     usart_field (USART_CTL2 usart_periph) USART_CTL2_DENR (USART_CTL2_DENR AND dmacmd)"

definition usart_dma_transmit_config :: "u32 \<Rightarrow> u32 \<Rightarrow> mem \<Rightarrow> mem" where
  "usart_dma_transmit_config usart_periph dmacmd =
     usart_field (USART_CTL2 usart_periph) USART_CTL2_DENT (USART_CTL2_DENT AND dmacmd)"

section \<open>Flags and interrupts\<close>

definition usart_flag_get :: "u32 \<Rightarrow> u32 \<Rightarrow> mem \<Rightarrow> bool" where
  "usart_flag_get usart_periph flag m \<longleftrightarrow>
     reg_rd (USART_REG_VAL usart_periph flag) m AND BIT (USART_BIT_POS flag) \<noteq> 0"

definition usart_flag_clear :: "u32 \<Rightarrow> u32 \<Rightarrow> mem \<Rightarrow> mem" where
  "usart_flag_clear usart_periph flag m =
     (if USART_FLAG_EPERR = flag then reg_clr (USART_REG_VAL usart_periph flag) (BIT (USART_BIT_POS flag)) m
      else reg_wr (USART_REG_VAL usart_periph flag) (NOT (BIT (USART_BIT_POS flag))) m)"

definition usart_interrupt_enable :: "u32 \<Rightarrow> u32 \<Rightarrow> mem \<Rightarrow> mem" where
  "usart_interrupt_enable usart_periph interrupt =
     reg_set (USART_REG_VAL usart_periph interrupt) (BIT (USART_BIT_POS interrupt))"

definition usart_interrupt_disable :: "u32 \<Rightarrow> u32 \<Rightarrow> mem \<Rightarrow> mem" where
  "usart_interrupt_disable usart_periph interrupt =
     reg_clr (USART_REG_VAL usart_periph interrupt) (BIT (USART_BIT_POS interrupt))"

definition usart_interrupt_flag_get :: "u32 \<Rightarrow> u32 \<Rightarrow> mem \<Rightarrow> bool" where
  "usart_interrupt_flag_get usart_periph int_flag m =
     (let intenable = reg_rd (USART_REG_VAL usart_periph int_flag) m AND BIT (USART_BIT_POS int_flag);
          flagstatus = reg_rd (USART_REG_VAL2 usart_periph int_flag) m AND BIT (USART_BIT_POS2 int_flag)
      in 0 \<noteq> flagstatus \<and> 0 \<noteq> intenable)"

definition usart_interrupt_flag_clear :: "u32 \<Rightarrow> u32 \<Rightarrow> mem \<Rightarrow> mem" where
  "usart_interrupt_flag_clear usart_periph int_flag =
     reg_clr (USART_REG_VAL2 usart_periph int_flag) (BIT (USART_BIT_POS2 int_flag))"

lemma usart_rbne_get:
  "usart_interrupt_flag_get u USART_INT_FLAG_RBNE m \<longleftrightarrow>
     bit (reg_rd (USART_STAT0 u) m) 5 \<and> bit (reg_rd (USART_CTL0 u) m) 5"
  by (auto simp: usart_interrupt_flag_get_def usart_flags usart_regs and_BIT_eq_0)

lemma usart_rbne_clear:
  "usart_interrupt_flag_clear u USART_INT_FLAG_RBNE = reg_clr (USART_STAT0 u) (BIT 5)"
  by (simp add: usart_interrupt_flag_clear_def usart_flags usart_regs)

end
