(* ===== verification/Timer.thy ===== *)
theory Timer
  imports Rcu
begin

text \<open>
  The timer driver \<^verbatim>\<open>gd32f4xx_timer.c\<close>, as far as the firmware configures and serves its
  timers: TIMER6 paces the polling, TIMER2 and TIMER4 mark the end of a received frame, TIMER3
  drives the PWM outputs.
\<close>

section \<open>Registers and constants of \<^verbatim>\<open>gd32f4xx_timer.h\<close>\<close>

definition TIMER_BASE :: u32 where "TIMER_BASE = 0x40000000"
definition TIMER0 :: u32 where "TIMER0 = TIMER_BASE + 0x10000"
definition TIMER1 :: u32 where "TIMER1 = TIMER_BASE + 0x0"
definition TIMER2 :: u32 where "TIMER2 = TIMER_BASE + 0x400"
definition TIMER3 :: u32 where "TIMER3 = TIMER_BASE + 0x800"
definition TIMER4 :: u32 where "TIMER4 = TIMER_BASE + 0xC00"
definition TIMER5 :: u32 where "TIMER5 = TIMER_BASE + 0x1000"
definition TIMER6 :: u32 where "TIMER6 = TIMER_BASE + 0x1400"
definition TIMER7 :: u32 where "TIMER7 = TIMER_BASE + 0x10400"
definition TIMER8 :: u32 where "TIMER8 = TIMER_BASE + 0x14000"
definition TIMER9 :: u32 where "TIMER9 = TIMER_BASE + 0x14400"
definition TIMER10 :: u32 where "TIMER10 = TIMER_BASE + 0x14800"
definition TIMER11 :: u32 where "TIMER11 = TIMER_BASE + 0x1800"
definition TIMER12 :: u32 where "TIMER12 = TIMER_BASE + 0x1C00"
definition TIMER13 :: u32 where "TIMER13 = TIMER_BASE + 0x2000"

lemmas timer_periphs [reg_simps] =
  TIMER_BASE_def TIMER0_def TIMER1_def TIMER2_def TIMER3_def TIMER4_def TIMER5_def TIMER6_def TIMER7_def
  TIMER8_def TIMER9_def TIMER10_def TIMER11_def TIMER12_def TIMER13_def

definition TIMER_CTL0 :: "u32 \<Rightarrow> u32" where "TIMER_CTL0 timerx = timerx + 0x00"
definition TIMER_CTL1 :: "u32 \<Rightarrow> u32" where "TIMER_CTL1 timerx = timerx + 0x04"
definition TIMER_DMAINTEN :: "u32 \<Rightarrow> u32" where "TIMER_DMAINTEN timerx = timerx + 0x0C"
definition TIMER_INTF :: "u32 \<Rightarrow> u32" where "TIMER_INTF timerx = timerx + 0x10"
definition TIMER_SWEVG :: "u32 \<Rightarrow> u32" where "TIMER_SWEVG timerx = timerx + 0x14"
definition TIMER_CHCTL0 :: "u32 \<Rightarrow> u32" where "TIMER_CHCTL0 timerx = timerx + 0x18"
definition TIMER_CHCTL1 :: "u32 \<Rightarrow> u32" where "TIMER_CHCTL1 timerx = timerx + 0x1C"
definition TIMER_CHCTL2 :: "u32 \<Rightarrow> u32" where "TIMER_CHCTL2 timerx = timerx + 0x20"
definition TIMER_CNT :: "u32 \<Rightarrow> u32" where "TIMER_CNT timerx = timerx + 0x24"
definition TIMER_PSC :: "u32 \<Rightarrow> u32" where "TIMER_PSC timerx = timerx + 0x28"
definition TIMER_CAR :: "u32 \<Rightarrow> u32" where "TIMER_CAR timerx = timerx + 0x2C"
definition TIMER_CREP :: "u32 \<Rightarrow> u32" where "TIMER_CREP timerx = timerx + 0x30"
definition TIMER_CH0CV :: "u32 \<Rightarrow> u32" where "TIMER_CH0CV timerx = timerx + 0x34"
definition TIMER_CH1CV :: "u32 \<Rightarrow> u32" where "TIMER_CH1CV timerx = timerx + 0x38"
definition TIMER_CH2CV :: "u32 \<Rightarrow> u32" where "TIMER_CH2CV timerx = timerx + 0x3C"
definition TIMER_CH3CV :: "u32 \<Rightarrow> u32" where "TIMER_CH3CV timerx = timerx + 0x40"
definition TIMER_CCHP :: "u32 \<Rightarrow> u32" where "TIMER_CCHP timerx = timerx + 0x44"

lemmas timer_regs [reg_simps] =
  TIMER_CTL0_def TIMER_CTL1_def TIMER_DMAINTEN_def TIMER_INTF_def TIMER_SWEVG_def TIMER_CHCTL0_def
  TIMER_CHCTL1_def TIMER_CHCTL2_def TIMER_CNT_def TIMER_PSC_def TIMER_CAR_def TIMER_CREP_def
  TIMER_CH0CV_def TIMER_CH1CV_def TIMER_CH2CV_def TIMER_CH3CV_def TIMER_CCHP_def

definition TIMER_CTL0_CEN :: u32 where "TIMER_CTL0_CEN = BIT 0"
definition TIMER_CTL0_UPDIS :: u32 where "TIMER_CTL0_UPDIS = BIT 1"
definition TIMER_CTL0_UPS :: u32 where "TIMER_CTL0_UPS = BIT 2"
definition TIMER_CTL0_SPM :: u32 where "TIMER_CTL0_SPM = BIT 3"
definition TIMER_CTL0_DIR :: u32 where "TIMER_CTL0_DIR = BIT 4"
definition TIMER_CTL0_CAM :: u32 where "TIMER_CTL0_CAM = BITS 5 6"
definition TIMER_CTL0_ARSE :: u32 where "TIMER_CTL0_ARSE = BIT 7"
definition TIMER_CTL0_CKDIV :: u32 where "TIMER_CTL0_CKDIV = BITS 8 9"
definition TIMER_SWEVG_UPG :: u32 where "TIMER_SWEVG_UPG = BIT 0"
definition TIMER_CCHP_POEN :: u32 where "TIMER_CCHP_POEN = BIT 15"
definition TIMER_DMAINTEN_UPIE :: u32 where "TIMER_DMAINTEN_UPIE = BIT 0"
definition TIMER_INTF_UPIF :: u32 where "TIMER_INTF_UPIF = BIT 0"
definition TIMER_CTL1_ISO0 :: u32 where "TIMER_CTL1_ISO0 = BIT 8"
definition TIMER_CTL1_ISO0N :: u32 where "TIMER_CTL1_ISO0N = BIT 9"
definition TIMER_CTL1_ISO1 :: u32 where "TIMER_CTL1_ISO1 = BIT 10"
definition TIMER_CTL1_ISO1N :: u32 where "TIMER_CTL1_ISO1N = BIT 11"
definition TIMER_CTL1_ISO2 :: u32 where "TIMER_CTL1_ISO2 = BIT 12"
definition TIMER_CTL1_ISO2N :: u32 where "TIMER_CTL1_ISO2N = BIT 13"
definition TIMER_CTL1_ISO3 :: u32 where "TIMER_CTL1_ISO3 = BIT 14"
definition TIMER_CHCTL0_CH0MS :: u32 where "TIMER_CHCTL0_CH0MS = BITS 0 1"
definition TIMER_CHCTL0_CH0COMSEN :: u32 where "TIMER_CHCTL0_CH0COMSEN = BIT 3"
definition TIMER_CHCTL0_CH0COMCTL :: u32 where "TIMER_CHCTL0_CH0COMCTL = BITS 4 6"
definition TIMER_CHCTL0_CH1MS :: u32 where "TIMER_CHCTL0_CH1MS = BITS 8 9"
definition TIMER_CHCTL0_CH1COMSEN :: u32 where "TIMER_CHCTL0_CH1COMSEN = BIT 11"
definition TIMER_CHCTL0_CH1COMCTL :: u32 where "TIMER_CHCTL0_CH1COMCTL = BITS 12 14"
definition TIMER_CHCTL1_CH2MS :: u32 where "TIMER_CHCTL1_CH2MS = BITS 0 1"
definition TIMER_CHCTL1_CH2COMSEN :: u32 where "TIMER_CHCTL1_CH2COMSEN = BIT 3"
definition TIMER_CHCTL1_CH2COMCTL :: u32 where "TIMER_CHCTL1_CH2COMCTL = BITS 4 6"
definition TIMER_CHCTL1_CH3MS :: u32 where "TIMER_CHCTL1_CH3MS = BITS 8 9"
definition TIMER_CHCTL1_CH3COMSEN :: u32 where "TIMER_CHCTL1_CH3COMSEN = BIT 11"
definition TIMER_CHCTL1_CH3COMCTL :: u32 where "TIMER_CHCTL1_CH3COMCTL = BITS 12 14"
definition TIMER_CHCTL2_CH0EN :: u32 where "TIMER_CHCTL2_CH0EN = BIT 0"
definition TIMER_CHCTL2_CH0P :: u32 where "TIMER_CHCTL2_CH0P = BIT 1"
definition TIMER_CHCTL2_CH0NEN :: u32 where "TIMER_CHCTL2_CH0NEN = BIT 2"
definition TIMER_CHCTL2_CH0NP :: u32 where "TIMER_CHCTL2_CH0NP = BIT 3"
definition TIMER_CHCTL2_CH1EN :: u32 where "TIMER_CHCTL2_CH1EN = BIT 4"
definition TIMER_CHCTL2_CH1P :: u32 where "TIMER_CHCTL2_CH1P = BIT 5"
definition TIMER_CHCTL2_CH1NEN :: u32 where "TIMER_CHCTL2_CH1NEN = BIT 6"
definition TIMER_CHCTL2_CH1NP :: u32 where "TIMER_CHCTL2_CH1NP = BIT 7"
definition TIMER_CHCTL2_CH2EN :: u32 where "TIMER_CHCTL2_CH2EN = BIT 8"
definition TIMER_CHCTL2_CH2P :: u32 where "TIMER_CHCTL2_CH2P = BIT 9"
definition TIMER_CHCTL2_CH2NEN :: u32 where "TIMER_CHCTL2_CH2NEN = BIT 10"
definition TIMER_CHCTL2_CH2NP :: u32 where "TIMER_CHCTL2_CH2NP = BIT 11"
definition TIMER_CHCTL2_CH3EN :: u32 where "TIMER_CHCTL2_CH3EN = BIT 12"
definition TIMER_CHCTL2_CH3P :: u32 where "TIMER_CHCTL2_CH3P = BIT 13"

lemmas timer_bits =
  TIMER_CTL0_CEN_def TIMER_CTL0_UPDIS_def TIMER_CTL0_UPS_def TIMER_CTL0_SPM_def TIMER_CTL0_DIR_def
  TIMER_CTL0_CAM_def TIMER_CTL0_ARSE_def TIMER_CTL0_CKDIV_def TIMER_SWEVG_UPG_def TIMER_CCHP_POEN_def
  TIMER_DMAINTEN_UPIE_def TIMER_INTF_UPIF_def TIMER_CTL1_ISO0_def TIMER_CTL1_ISO0N_def
  TIMER_CTL1_ISO1_def TIMER_CTL1_ISO1N_def TIMER_CTL1_ISO2_def TIMER_CTL1_ISO2N_def TIMER_CTL1_ISO3_def
  TIMER_CHCTL0_CH0MS_def TIMER_CHCTL0_CH0COMSEN_def TIMER_CHCTL0_CH0COMCTL_def TIMER_CHCTL0_CH1MS_def
  TIMER_CHCTL0_CH1COMSEN_def TIMER_CHCTL0_CH1COMCTL_def TIMER_CHCTL1_CH2MS_def
  TIMER_CHCTL1_CH2COMSEN_def TIMER_CHCTL1_CH2COMCTL_def TIMER_CHCTL1_CH3MS_def
  TIMER_CHCTL1_CH3COMSEN_def TIMER_CHCTL1_CH3COMCTL_def TIMER_CHCTL2_CH0EN_def TIMER_CHCTL2_CH0P_def
  TIMER_CHCTL2_CH0NEN_def TIMER_CHCTL2_CH0NP_def TIMER_CHCTL2_CH1EN_def TIMER_CHCTL2_CH1P_def
  TIMER_CHCTL2_CH1NEN_def TIMER_CHCTL2_CH1NP_def TIMER_CHCTL2_CH2EN_def TIMER_CHCTL2_CH2P_def
  TIMER_CHCTL2_CH2NEN_def TIMER_CHCTL2_CH2NP_def TIMER_CHCTL2_CH3EN_def TIMER_CHCTL2_CH3P_def

definition TIMER_INT_UP :: u32 where "TIMER_INT_UP = TIMER_DMAINTEN_UPIE"
definition TIMER_INT_FLAG_UP :: u32 where "TIMER_INT_FLAG_UP = TIMER_INTF_UPIF"
definition TIMER_COUNTER_EDGE :: u16 where "TIMER_COUNTER_EDGE = 0"
definition TIMER_COUNTER_CENTER_BOTH :: u16 where "TIMER_COUNTER_CENTER_BOTH = 0x60"
definition TIMER_COUNTER_UP :: u16 where "TIMER_COUNTER_UP = 0"
definition TIMER_CKDIV_DIV1 :: u16 where "TIMER_CKDIV_DIV1 = 0"
definition TIMER_CCX_ENABLE :: u16 where "TIMER_CCX_ENABLE = 1"
definition TIMER_OC_MODE_PWM0 :: u16 where "TIMER_OC_MODE_PWM0 = 0x60"
definition TIMER_OC_MODE_PWM1 :: u16 where "TIMER_OC_MODE_PWM1 = 0x70"

record timer_parameter_struct =
  prescaler :: u16
  alignedmode :: u16
  counterdirection :: u16
  clockdivision :: u16
  period :: u32
  repetitioncounter :: u8

record timer_oc_parameter_struct =
  outputstate :: u16
  outputnstate :: u16
  ocpolarity :: u16
  ocnpolarity :: u16
  ocidlestate :: u16
  ocnidlestate :: u16

section \<open>Time base\<close>

definition timer_deinit :: "u32 \<Rightarrow> mem \<Rightarrow> mem" where
  "timer_deinit timer_periph m =
     (let pulse = (\<lambda>rst. rcu_periph_reset_disable rst (rcu_periph_reset_enable rst m))
      in if timer_periph = TIMER0 then pulse RCU_TIMER0RST
         else if timer_periph = TIMER1 then pulse RCU_TIMER1RST
         else if timer_periph = TIMER2 then pulse RCU_TIMER2RST
         else if timer_periph = TIMER3 then pulse RCU_TIMER3RST
         else if timer_periph = TIMER4 then pulse RCU_TIMER4RST
         else if timer_periph = TIMER5 then pulse RCU_TIMER5RST
         else if timer_periph = TIMER6 then pulse RCU_TIMER6RST
         else if timer_periph = TIMER7 then pulse RCU_TIMER7RST
         else if timer_periph = TIMER8 then pulse RCU_TIMER8RST
         else if timer_periph = TIMER9 then pulse RCU_TIMER9RST
         else if timer_periph = TIMER10 then pulse RCU_TIMER10RST
         else if timer_periph = TIMER11 then pulse RCU_TIMER11RST
         else if timer_periph = TIMER12 then pulse RCU_TIMER12RST
         else if timer_periph = TIMER13 then pulse RCU_TIMER13RST
         else m)"

definition timer_struct_para_init :: "timer_parameter_struct \<Rightarrow> timer_parameter_struct" where
  "timer_struct_para_init initpara = initpara
     \<lparr> prescaler := 0, alignedmode := TIMER_COUNTER_EDGE, counterdirection := TIMER_COUNTER_UP,
       period := 65535, clockdivision := TIMER_CKDIV_DIV1, repetitioncounter := 0 \<rparr>"

definition timer_init :: "u32 \<Rightarrow> timer_parameter_struct \<Rightarrow> mem \<Rightarrow> mem" where
  "timer_init timer_periph initpara m =
     (let ctl0 = TIMER_CTL0 timer_periph;
          m = reg_wr (TIMER_PSC timer_periph) (ucast (prescaler initpara)) m;
          m = (if timer_periph \<in> {TIMER0, TIMER1, TIMER2, TIMER3, TIMER4, TIMER7}
               then reg_set ctl0 (ucast (counterdirection initpara))
                     (reg_set ctl0 (ucast (alignedmode initpara))
                       (reg_clr ctl0 (TIMER_CTL0_DIR OR TIMER_CTL0_CAM) m))
               else m);
          m = reg_wr (TIMER_CAR timer_periph) (period initpara) m;
          m = (if timer_periph \<noteq> TIMER5 \<and> timer_periph \<noteq> TIMER6
               then reg_set ctl0 (ucast (clockdivision initpara)) (reg_clr ctl0 TIMER_CTL0_CKDIV m)
               else m);
          m = (if timer_periph \<in> {TIMER0, TIMER7}
               then reg_wr (TIMER_CREP timer_periph) (ucast (repetitioncounter initpara)) m else m)
      in reg_set (TIMER_SWEVG timer_periph) TIMER_SWEVG_UPG m)"

definition timer_enable :: "u32 \<Rightarrow> mem \<Rightarrow> mem" where
  "timer_enable timer_periph =
     reg_set (TIMER_CTL0 timer_periph) TIMER_CTL0_CEN"

definition timer_disable :: "u32 \<Rightarrow> mem \<Rightarrow> mem" where
  "timer_disable timer_periph =
     reg_clr (TIMER_CTL0 timer_periph) TIMER_CTL0_CEN"

definition timer_auto_reload_shadow_enable :: "u32 \<Rightarrow> mem \<Rightarrow> mem" where
  "timer_auto_reload_shadow_enable timer_periph =
     reg_set (TIMER_CTL0 timer_periph) TIMER_CTL0_ARSE"

definition timer_auto_reload_shadow_disable :: "u32 \<Rightarrow> mem \<Rightarrow> mem" where
  "timer_auto_reload_shadow_disable timer_periph =
     reg_clr (TIMER_CTL0 timer_periph) TIMER_CTL0_ARSE"

definition timer_update_event_enable :: "u32 \<Rightarrow> mem \<Rightarrow> mem" where
  "timer_update_event_enable timer_periph =
     reg_clr (TIMER_CTL0 timer_periph) TIMER_CTL0_UPDIS"

definition timer_update_event_disable :: "u32 \<Rightarrow> mem \<Rightarrow> mem" where
  "timer_update_event_disable timer_periph =
     reg_set (TIMER_CTL0 timer_periph) TIMER_CTL0_UPDIS"

definition timer_counter_alignment :: "u32 \<Rightarrow> u16 \<Rightarrow> mem \<Rightarrow> mem" where
  "timer_counter_alignment timer_periph aligned m =
     reg_set (TIMER_CTL0 timer_periph) (ucast aligned) (reg_clr (TIMER_CTL0 timer_periph) TIMER_CTL0_CAM m)"

definition timer_counter_up_direction :: "u32 \<Rightarrow> mem \<Rightarrow> mem" where
  "timer_counter_up_direction timer_periph =
     reg_clr (TIMER_CTL0 timer_periph) TIMER_CTL0_DIR"

definition timer_counter_down_direction :: "u32 \<Rightarrow> mem \<Rightarrow> mem" where
  "timer_counter_down_direction timer_periph =
     reg_set (TIMER_CTL0 timer_periph) TIMER_CTL0_DIR"

definition timer_prescaler_config :: "u32 \<Rightarrow> u16 \<Rightarrow> u8 \<Rightarrow> mem \<Rightarrow> mem" where
  "timer_prescaler_config timer_periph psc pscreload m =
     (let m = reg_wr (TIMER_PSC timer_periph) (ucast psc) m
      in if pscreload = 0 then reg_set (TIMER_SWEVG timer_periph) TIMER_SWEVG_UPG m else m)"

definition timer_repetition_value_config :: "u32 \<Rightarrow> u16 \<Rightarrow> mem \<Rightarrow> mem" where
  "timer_repetition_value_config timer_periph repetition =
     reg_wr (TIMER_CREP timer_periph) (ucast repetition)"

definition timer_autoreload_value_config :: "u32 \<Rightarrow> u32 \<Rightarrow> mem \<Rightarrow> mem" where
  "timer_autoreload_value_config timer_periph autoreload =
     reg_wr (TIMER_CAR timer_periph) autoreload"

definition timer_counter_value_config :: "u32 \<Rightarrow> u32 \<Rightarrow> mem \<Rightarrow> mem" where
  "timer_counter_value_config timer_periph counter =
     reg_wr (TIMER_CNT timer_periph) counter"

definition timer_counter_read :: "u32 \<Rightarrow> mem \<Rightarrow> u32" where
  "timer_counter_read timer_periph m =
     reg_rd (TIMER_CNT timer_periph) m"

definition timer_prescaler_read :: "u32 \<Rightarrow> mem \<Rightarrow> u16" where
  "timer_prescaler_read timer_periph m =
     ucast (reg_rd (TIMER_PSC timer_periph) m)"

definition timer_single_pulse_mode_config :: "u32 \<Rightarrow> u32 \<Rightarrow> mem \<Rightarrow> mem" where
  "timer_single_pulse_mode_config timer_periph spmode m =
     (if spmode = 0 then reg_set (TIMER_CTL0 timer_periph) TIMER_CTL0_SPM m
      else if spmode = 1 then reg_clr (TIMER_CTL0 timer_periph) TIMER_CTL0_SPM m
      else m)"

definition timer_update_source_config :: "u32 \<Rightarrow> u32 \<Rightarrow> mem \<Rightarrow> mem" where
  "timer_update_source_config timer_periph update m =
     (if update = 0 then reg_set (TIMER_CTL0 timer_periph) TIMER_CTL0_UPS m
      else if update = 1 then reg_clr (TIMER_CTL0 timer_periph) TIMER_CTL0_UPS m
      else m)"

definition timer_dma_enable :: "u32 \<Rightarrow> u16 \<Rightarrow> mem \<Rightarrow> mem" where
  "timer_dma_enable timer_periph dma =
     reg_set (TIMER_DMAINTEN timer_periph) (ucast dma)"

definition timer_dma_disable :: "u32 \<Rightarrow> u16 \<Rightarrow> mem \<Rightarrow> mem" where
  "timer_dma_disable timer_periph dma =
     reg_clr (TIMER_DMAINTEN timer_periph) (ucast dma)"

definition timer_event_software_generate :: "u32 \<Rightarrow> u16 \<Rightarrow> mem \<Rightarrow> mem" where
  "timer_event_software_generate timer_periph event =
     reg_set (TIMER_SWEVG timer_periph) (ucast event)"

section \<open>Output channels\<close>

definition timer_primary_output_config :: "u32 \<Rightarrow> bool \<Rightarrow> mem \<Rightarrow> mem" where
  "timer_primary_output_config timer_periph newvalue m =
     (if newvalue then reg_set (TIMER_CCHP timer_periph) TIMER_CCHP_POEN m
      else reg_clr (TIMER_CCHP timer_periph) TIMER_CCHP_POEN m)"

definition timer_channel_output_struct_para_init :: "timer_oc_parameter_struct \<Rightarrow> timer_oc_parameter_struct" where
  "timer_channel_output_struct_para_init ocpara = ocpara
     \<lparr> outputstate := 0, outputnstate := 0, ocpolarity := 0, ocnpolarity := 0, ocidlestate := 0, ocnidlestate := 0 \<rparr>"

text \<open>\<^verbatim>\<open>REG &= ~clear; REG |= ((uint32_t)v << s)\<close>.\<close>

definition timer_field :: "u32 \<Rightarrow> u32 \<Rightarrow> u16 \<Rightarrow> nat \<Rightarrow> mem \<Rightarrow> mem" where
  "timer_field r clear v s m = reg_set r (push_bit s (ucast v)) (reg_clr r clear m)"

text \<open>The four cases of \<^verbatim>\<open>timer_channel_output_config\<close>.\<close>

definition timer_channel_output_config :: "u32 \<Rightarrow> u16 \<Rightarrow> timer_oc_parameter_struct \<Rightarrow> mem \<Rightarrow> mem" where
  "timer_channel_output_config timer_periph channel ocpara m =
     (let ctl1 = TIMER_CTL1 timer_periph; chctl0 = TIMER_CHCTL0 timer_periph;
          chctl1 = TIMER_CHCTL1 timer_periph; chctl2 = TIMER_CHCTL2 timer_periph;
          advanced = (timer_periph = TIMER0 \<or> timer_periph = TIMER7)
      in if channel = 0 then
           let m = reg_clr chctl2 TIMER_CHCTL2_CH0EN m;
               m = reg_clr chctl0 TIMER_CHCTL0_CH0MS m;
               m = reg_set chctl2 (push_bit 0 (ucast (outputstate ocpara))) m;
               m = timer_field chctl2 TIMER_CHCTL2_CH0P (ocpolarity ocpara) 0 m
           in if advanced then
                let m = timer_field chctl2 TIMER_CHCTL2_CH0NEN (outputnstate ocpara) 0 m;
                    m = timer_field chctl2 TIMER_CHCTL2_CH0NP (ocnpolarity ocpara) 0 m;
                    m = timer_field ctl1 TIMER_CTL1_ISO0 (ocidlestate ocpara) 0 m
                in timer_field ctl1 TIMER_CTL1_ISO0N (ocnidlestate ocpara) 0 m
              else m
         else if channel = 1 then
           let m = reg_clr chctl2 TIMER_CHCTL2_CH1EN m;
               m = reg_clr chctl0 TIMER_CHCTL0_CH1MS m;
               m = reg_set chctl2 (push_bit 4 (ucast (outputstate ocpara))) m;
               m = timer_field chctl2 TIMER_CHCTL2_CH1P (ocpolarity ocpara) 4 m
           in if advanced then
                let m = timer_field chctl2 TIMER_CHCTL2_CH1NEN (outputnstate ocpara) 4 m;
                    m = timer_field chctl2 TIMER_CHCTL2_CH1NP (ocnpolarity ocpara) 4 m;
                    m = timer_field ctl1 TIMER_CTL1_ISO1 (ocidlestate ocpara) 2 m
                in timer_field ctl1 TIMER_CTL1_ISO1N (ocnidlestate ocpara) 2 m
              else m
         else if channel = 2 then
           let m = reg_clr chctl2 TIMER_CHCTL2_CH2EN m;
               m = reg_clr chctl1 TIMER_CHCTL1_CH2MS m;
               m = reg_set chctl2 (push_bit 8 (ucast (outputstate ocpara))) m;
               m = timer_field chctl2 TIMER_CHCTL2_CH2P (ocpolarity ocpara) 8 m
           in if advanced then
                let m = timer_field chctl2 TIMER_CHCTL2_CH2NEN (outputnstate ocpara) 8 m;
                    m = timer_field chctl2 TIMER_CHCTL2_CH2NP (ocnpolarity ocpara) 8 m;
                    m = timer_field ctl1 TIMER_CTL1_ISO2 (ocidlestate ocpara) 4 m
                in timer_field ctl1 TIMER_CTL1_ISO2N (ocnidlestate ocpara) 4 m
              else m
         else if channel = 3 then
           let m = reg_clr chctl2 TIMER_CHCTL2_CH3EN m;
               m = reg_clr chctl1 TIMER_CHCTL1_CH3MS m;
               m = reg_set chctl2 (push_bit 12 (ucast (outputstate ocpara))) m;
               m = timer_field chctl2 TIMER_CHCTL2_CH3P (ocpolarity ocpara) 12 m
           in if advanced then
                timer_field ctl1 TIMER_CTL1_ISO3 (ocidlestate ocpara) 6 m
              else m
         else m)"

definition timer_channel_output_mode_config :: "u32 \<Rightarrow> u16 \<Rightarrow> u16 \<Rightarrow> mem \<Rightarrow> mem" where
  "timer_channel_output_mode_config timer_periph channel ocmode m =
     (if channel = 0 then timer_field (TIMER_CHCTL0 timer_periph) TIMER_CHCTL0_CH0COMCTL ocmode 0 m
      else if channel = 1 then timer_field (TIMER_CHCTL0 timer_periph) TIMER_CHCTL0_CH1COMCTL ocmode 8 m
      else if channel = 2 then timer_field (TIMER_CHCTL1 timer_periph) TIMER_CHCTL1_CH2COMCTL ocmode 0 m
      else if channel = 3 then timer_field (TIMER_CHCTL1 timer_periph) TIMER_CHCTL1_CH3COMCTL ocmode 8 m
      else m)"

definition timer_channel_output_pulse_value_config :: "u32 \<Rightarrow> u16 \<Rightarrow> u32 \<Rightarrow> mem \<Rightarrow> mem" where
  "timer_channel_output_pulse_value_config timer_periph channel pulse m =
     (if channel = 0 then reg_wr (TIMER_CH0CV timer_periph) pulse m
      else if channel = 1 then reg_wr (TIMER_CH1CV timer_periph) pulse m
      else if channel = 2 then reg_wr (TIMER_CH2CV timer_periph) pulse m
      else if channel = 3 then reg_wr (TIMER_CH3CV timer_periph) pulse m
      else m)"

definition timer_channel_output_shadow_config :: "u32 \<Rightarrow> u16 \<Rightarrow> u16 \<Rightarrow> mem \<Rightarrow> mem" where
  "timer_channel_output_shadow_config timer_periph channel ocshadow m =
     (if channel = 0 then timer_field (TIMER_CHCTL0 timer_periph) TIMER_CHCTL0_CH0COMSEN ocshadow 0 m
      else if channel = 1 then timer_field (TIMER_CHCTL0 timer_periph) TIMER_CHCTL0_CH1COMSEN ocshadow 8 m
      else if channel = 2 then timer_field (TIMER_CHCTL1 timer_periph) TIMER_CHCTL1_CH2COMSEN ocshadow 0 m
      else if channel = 3 then timer_field (TIMER_CHCTL1 timer_periph) TIMER_CHCTL1_CH3COMSEN ocshadow 8 m
      else m)"

definition timer_channel_output_polarity_config :: "u32 \<Rightarrow> u16 \<Rightarrow> u16 \<Rightarrow> mem \<Rightarrow> mem" where
  "timer_channel_output_polarity_config timer_periph channel polarity m =
     (if channel = 0 then timer_field (TIMER_CHCTL2 timer_periph) TIMER_CHCTL2_CH0P polarity 0 m
      else if channel = 1 then timer_field (TIMER_CHCTL2 timer_periph) TIMER_CHCTL2_CH1P polarity 4 m
      else if channel = 2 then timer_field (TIMER_CHCTL2 timer_periph) TIMER_CHCTL2_CH2P polarity 8 m
      else if channel = 3 then timer_field (TIMER_CHCTL2 timer_periph) TIMER_CHCTL2_CH3P polarity 12 m
      else m)"

definition timer_channel_output_state_config :: "u32 \<Rightarrow> u16 \<Rightarrow> u32 \<Rightarrow> mem \<Rightarrow> mem" where
  "timer_channel_output_state_config timer_periph channel state m =
     (if channel = 0 then reg_set (TIMER_CHCTL2 timer_periph) (push_bit 0 state)
        (reg_clr (TIMER_CHCTL2 timer_periph) TIMER_CHCTL2_CH0EN m)
      else if channel = 1 then reg_set (TIMER_CHCTL2 timer_periph) (push_bit 4 state)
        (reg_clr (TIMER_CHCTL2 timer_periph) TIMER_CHCTL2_CH1EN m)
      else if channel = 2 then reg_set (TIMER_CHCTL2 timer_periph) (push_bit 8 state)
        (reg_clr (TIMER_CHCTL2 timer_periph) TIMER_CHCTL2_CH2EN m)
      else if channel = 3 then reg_set (TIMER_CHCTL2 timer_periph) (push_bit 12 state)
        (reg_clr (TIMER_CHCTL2 timer_periph) TIMER_CHCTL2_CH3EN m)
      else m)"

section \<open>Flags and interrupts\<close>

definition timer_flag_get :: "u32 \<Rightarrow> u32 \<Rightarrow> mem \<Rightarrow> bool" where
  "timer_flag_get timer_periph flag m \<longleftrightarrow> reg_rd (TIMER_INTF timer_periph) m AND flag \<noteq> 0"

definition timer_flag_clear :: "u32 \<Rightarrow> u32 \<Rightarrow> mem \<Rightarrow> mem" where
  "timer_flag_clear timer_periph flag =
     reg_wr (TIMER_INTF timer_periph) (NOT flag)"

definition timer_interrupt_enable :: "u32 \<Rightarrow> u32 \<Rightarrow> mem \<Rightarrow> mem" where
  "timer_interrupt_enable timer_periph interrupt =
     reg_set (TIMER_DMAINTEN timer_periph) interrupt"

definition timer_interrupt_disable :: "u32 \<Rightarrow> u32 \<Rightarrow> mem \<Rightarrow> mem" where
  "timer_interrupt_disable timer_periph interrupt =
     reg_clr (TIMER_DMAINTEN timer_periph) interrupt"

definition timer_interrupt_flag_get :: "u32 \<Rightarrow> u32 \<Rightarrow> mem \<Rightarrow> bool" where
  "timer_interrupt_flag_get timer_periph interrupt m =
     (let val = reg_rd (TIMER_DMAINTEN timer_periph) m AND interrupt
      in reg_rd (TIMER_INTF timer_periph) m AND interrupt \<noteq> 0 \<and> val \<noteq> 0)"

definition timer_interrupt_flag_clear :: "u32 \<Rightarrow> u32 \<Rightarrow> mem \<Rightarrow> mem" where
  "timer_interrupt_flag_clear timer_periph interrupt =
     reg_wr (TIMER_INTF timer_periph) (NOT interrupt)"

lemma timer_update_get:
  "timer_interrupt_flag_get t TIMER_INT_FLAG_UP m \<longleftrightarrow>
     bit (reg_rd (TIMER_INTF t) m) 0 \<and> bit (reg_rd (TIMER_DMAINTEN t) m) 0"
  by (simp add: timer_interrupt_flag_get_def TIMER_INT_FLAG_UP_def TIMER_INTF_UPIF_def and_BIT_eq_0)

end
