(* ===== verification/App_State.thy ===== *)
theory App_State
  imports Protocol Gpio Dma Usart Timer
begin

text \<open>
  The global variables of \<^verbatim>\<open>src/src/uart.c\<close> and \<^verbatim>\<open>src/src/ethernet.c\<close> as one
  state, with the peripheral registers they drive. \<open>message_base\<close> is the address the linker
  gives to \<^verbatim>\<open>message_from_BKD\<close>; \<open>udp_pcb\<close> says that \<^verbatim>\<open>_udp_pcb_\<close> is not
  null, \<open>udp_callback\<close> that \<^verbatim>\<open>udp_reciev\<close> is registered with it,
  and \<open>sent\<close> collects the datagrams handed to \<^verbatim>\<open>udp_sendto\<close>, the latest last.
\<close>

record app =
  regs :: mem
  message_base :: u32
  current_BKD :: u8
  current_device_in_BKDx :: u8
  current_device_in_BKHO_A :: u8
  current_device_in_OUT_SERVO :: u8
  message_from_BKD :: "u8 list list"
  current_tick_tx_eth :: u8
  YLSToYVPack :: "YLSToYVPacket list"
  usart5_transmit :: u8
  usart5_counter :: u8
  usart5_buffer_rx :: "u8 list"
  timer4En :: bool
  usart0_transmit :: u8
  usart0_counter :: u8
  usart0_buffer_rx :: "u8 list"
  timer2En :: bool
  udp_pcb :: bool
  udp_callback :: bool
  sent :: "u8 list list"

definition IN_TOTAL_BKD :: u8 where "IN_TOTAL_BKD = 12"
definition DEVICE_IN_BKD :: u8 where "DEVICE_IN_BKD = 4 * 3"
definition USART_RX_BUFFER_SIZE :: nat where "USART_RX_BUFFER_SIZE = 200"
definition USART_BUFFER_TX_SIZE_YLS :: nat where "USART_BUFFER_TX_SIZE_YLS = 20"

text \<open>The static initialisers.\<close>

definition app_init :: "mem \<Rightarrow> u32 \<Rightarrow> app" where
  "app_init m base =
     \<lparr> regs = m, message_base = base, current_BKD = 0, current_device_in_BKDx = 1,
       current_device_in_BKHO_A = 1, current_device_in_OUT_SERVO = 1,
       message_from_BKD = replicate 14 (replicate USART_BUFFER_TX_SIZE_YLS 0),
       current_tick_tx_eth = 0, YLSToYVPack = replicate 2 packet_zero,
       usart5_transmit = 0, usart5_counter = 0, usart5_buffer_rx = replicate USART_RX_BUFFER_SIZE 0,
       timer4En = False,
       usart0_transmit = 0, usart0_counter = 0, usart0_buffer_rx = replicate USART_RX_BUFFER_SIZE 0,
       timer2En = False, udp_pcb = False, udp_callback = False, sent = [] \<rparr>"

section \<open>Access to the arrays\<close>

text \<open>\<^verbatim>\<open>message_from_BKD[i][j] = v\<close>.\<close>

definition put_msg :: "nat \<Rightarrow> nat \<Rightarrow> u8 \<Rightarrow> app \<Rightarrow> app res" where
  "put_msg i j v s =
     bind_res (get_at (message_from_BKD s) i) (\<lambda>row.
     bind_res (put_at row j v) (\<lambda>row'.
     bind_res (put_at (message_from_BKD s) i row') (\<lambda>rows. Inr (s\<lparr> message_from_BKD := rows \<rparr>))))"

text \<open>An update of \<^verbatim>\<open>YLSToYVPack[current_tick_tx_eth]\<close>.\<close>

definition on_pack :: "(YLSToYVPacket \<Rightarrow> YLSToYVPacket res) \<Rightarrow> app \<Rightarrow> app res" where
  "on_pack f s =
     bind_res (get_at (YLSToYVPack s) (unat (current_tick_tx_eth s))) (\<lambda>p.
     bind_res (f p) (\<lambda>p'.
     bind_res (put_at (YLSToYVPack s) (unat (current_tick_tx_eth s)) p') (\<lambda>ps.
     Inr (s\<lparr> YLSToYVPack := ps \<rparr>))))"

section \<open>Well-formed states\<close>

definition rows_wf :: "u8 list list \<Rightarrow> bool" where
  "rows_wf rows \<longleftrightarrow> length rows = 14 \<and> (\<forall>r \<in> set rows. length r = 20)"

definition packs_wf :: "YLSToYVPacket list \<Rightarrow> bool" where
  "packs_wf ps \<longleftrightarrow> length ps = 2 \<and> (\<forall>p \<in> set ps. packet_wf p)"

text \<open>Array sizes and the ranges of the indices that the handlers trust.\<close>

definition app_wf :: "app \<Rightarrow> bool" where
  "app_wf s \<longleftrightarrow> rows_wf (message_from_BKD s) \<and> packs_wf (YLSToYVPack s)
     \<and> length (usart5_buffer_rx s) = 200 \<and> length (usart0_buffer_rx s) = 200
     \<and> current_tick_tx_eth s \<le> 1 \<and> current_BKD s \<le> 13
     \<and> 1 \<le> current_device_in_BKDx s \<and> current_device_in_BKDx s \<le> 12
     \<and> 1 \<le> current_device_in_BKHO_A s \<and> current_device_in_BKHO_A s \<le> 168
     \<and> 1 \<le> current_device_in_OUT_SERVO s \<and> current_device_in_OUT_SERVO s \<le> 176"

lemma rows_wf_nth: "rows_wf rows \<Longrightarrow> i < 14 \<Longrightarrow> length (rows ! i) = 20"
  by (simp add: rows_wf_def)

lemma rows_wf_update: "rows_wf rows \<Longrightarrow> length r = 20 \<Longrightarrow> rows_wf (rows[i := r])"
  by (auto simp: rows_wf_def dest!: set_update_subset_insert [THEN subsetD])

lemma packs_wf_update: "packs_wf ps \<Longrightarrow> packet_wf p \<Longrightarrow> packs_wf (ps[i := p])"
  by (auto simp: packs_wf_def dest!: set_update_subset_insert [THEN subsetD])

lemma tick_cases: "app_wf s \<Longrightarrow> unat (current_tick_tx_eth s) < 2"
  by (simp add: app_wf_def word_le_nat_alt)

lemma put_msg_ok:
  assumes "rows_wf (message_from_BKD s)" "i < 14" "j < 20"
  shows "put_msg i j v s
    = Inr (s\<lparr> message_from_BKD := (message_from_BKD s)[i := (message_from_BKD s ! i)[j := v]] \<rparr>)"
  using assms rows_wf_nth [OF assms(1,2)] by (simp add: put_msg_def rows_wf_def)

lemma on_pack_ok:
  assumes "app_wf s" "f (YLSToYVPack s ! unat (current_tick_tx_eth s)) = Inr q"
  shows "on_pack f s = Inr (s\<lparr> YLSToYVPack := (YLSToYVPack s)[unat (current_tick_tx_eth s) := q] \<rparr>)"
  using assms tick_cases [OF assms(1)] by (simp add: on_pack_def app_wf_def packs_wf_def)

lemma cur_pack_wf: "app_wf s \<Longrightarrow> packet_wf (YLSToYVPack s ! unat (current_tick_tx_eth s))"
  using tick_cases [of s] by (simp add: app_wf_def packs_wf_def)

lemma app_init_wf: "app_wf (app_init m base)"
  by (simp add: app_wf_def app_init_def rows_wf_def packs_wf_def packet_wf_def packet_zero_def
        USART_BUFFER_TX_SIZE_YLS_def USART_RX_BUFFER_SIZE_def)

end
