(* ===== verification/Crc.thy ===== *)
theory Crc
  imports Prelude
begin

text \<open>
  The checksum of every RS-485 frame: \<^verbatim>\<open>Crc8\<close> of \<^verbatim>\<open>src/src/uart.c\<close> and its table
  \<^verbatim>\<open>Crc8Table\<close> of \<^verbatim>\<open>src/inc/uart.h\<close>. The table-driven routine is shown
  equal to the bit-serial division by \<open>x^8 + x^5 + x^4 + 1\<close>, and its error-detection laws are
  proved once, for any linear byte step, in the locale \<open>crc_step\<close>.
\<close>

section \<open>The code\<close>

definition Crc8Table :: "u8 list" where
  "Crc8Table = [
    0x00, 0x31, 0x62, 0x53, 0xC4, 0xF5, 0xA6, 0x97,
    0xB9, 0x88, 0xDB, 0xEA, 0x7D, 0x4C, 0x1F, 0x2E,
    0x43, 0x72, 0x21, 0x10, 0x87, 0xB6, 0xE5, 0xD4,
    0xFA, 0xCB, 0x98, 0xA9, 0x3E, 0x0F, 0x5C, 0x6D,
    0x86, 0xB7, 0xE4, 0xD5, 0x42, 0x73, 0x20, 0x11,
    0x3F, 0x0E, 0x5D, 0x6C, 0xFB, 0xCA, 0x99, 0xA8,
    0xC5, 0xF4, 0xA7, 0x96, 0x01, 0x30, 0x63, 0x52,
    0x7C, 0x4D, 0x1E, 0x2F, 0xB8, 0x89, 0xDA, 0xEB,
    0x3D, 0x0C, 0x5F, 0x6E, 0xF9, 0xC8, 0x9B, 0xAA,
    0x84, 0xB5, 0xE6, 0xD7, 0x40, 0x71, 0x22, 0x13,
    0x7E, 0x4F, 0x1C, 0x2D, 0xBA, 0x8B, 0xD8, 0xE9,
    0xC7, 0xF6, 0xA5, 0x94, 0x03, 0x32, 0x61, 0x50,
    0xBB, 0x8A, 0xD9, 0xE8, 0x7F, 0x4E, 0x1D, 0x2C,
    0x02, 0x33, 0x60, 0x51, 0xC6, 0xF7, 0xA4, 0x95,
    0xF8, 0xC9, 0x9A, 0xAB, 0x3C, 0x0D, 0x5E, 0x6F,
    0x41, 0x70, 0x23, 0x12, 0x85, 0xB4, 0xE7, 0xD6,
    0x7A, 0x4B, 0x18, 0x29, 0xBE, 0x8F, 0xDC, 0xED,
    0xC3, 0xF2, 0xA1, 0x90, 0x07, 0x36, 0x65, 0x54,
    0x39, 0x08, 0x5B, 0x6A, 0xFD, 0xCC, 0x9F, 0xAE,
    0x80, 0xB1, 0xE2, 0xD3, 0x44, 0x75, 0x26, 0x17,
    0xFC, 0xCD, 0x9E, 0xAF, 0x38, 0x09, 0x5A, 0x6B,
    0x45, 0x74, 0x27, 0x16, 0x81, 0xB0, 0xE3, 0xD2,
    0xBF, 0x8E, 0xDD, 0xEC, 0x7B, 0x4A, 0x19, 0x28,
    0x06, 0x37, 0x64, 0x55, 0xC2, 0xF3, 0xA0, 0x91,
    0x47, 0x76, 0x25, 0x14, 0x83, 0xB2, 0xE1, 0xD0,
    0xFE, 0xCF, 0x9C, 0xAD, 0x3A, 0x0B, 0x58, 0x69,
    0x04, 0x35, 0x66, 0x57, 0xC0, 0xF1, 0xA2, 0x93,
    0xBD, 0x8C, 0xDF, 0xEE, 0x79, 0x48, 0x1B, 0x2A,
    0xC1, 0xF0, 0xA3, 0x92, 0x05, 0x34, 0x67, 0x56,
    0x78, 0x49, 0x1A, 0x2B, 0xBC, 0x8D, 0xDE, 0xEF,
    0x82, 0xB3, 0xE0, 0xD1, 0x46, 0x77, 0x24, 0x15,
    0x3B, 0x0A, 0x59, 0x68, 0xFF, 0xCE, 0x9D, 0xAC]"

text \<open>
  \<^verbatim>\<open>while (size--) crc = Crc8Table[crc ^ *pcBlock++];\<close>: the block is the memory from
  \<^verbatim>\<open>pcBlock\<close> to the end of its array, so a \<^verbatim>\<open>size\<close> beyond it is an
  out-of-bounds read.
\<close>

fun crc8_while :: "u8 \<Rightarrow> nat \<Rightarrow> u8 list \<Rightarrow> u8 res" where
  "crc8_while crc 0 pcBlock = Inr crc"
| "crc8_while crc (Suc n) [] = Inl Out_Of_Bounds"
| "crc8_while crc (Suc n) (b # pcBlock) =
     crc8_while (Crc8Table ! unat (crc XOR b)) n pcBlock"

definition Crc8 :: "u8 list \<Rightarrow> u8 \<Rightarrow> u8 res" where
  "Crc8 pcBlock sz = crc8_while 0xFF (unat sz) pcBlock"

section \<open>Reference: division by the generator polynomial, one bit at a time\<close>

definition shift1 :: "u8 \<Rightarrow> u8" where
  "shift1 c = (if bit c 7 then push_bit 1 c XOR 0x31 else push_bit 1 c)"

definition poly_step :: "u8 \<Rightarrow> u8" where
  "poly_step c = (shift1 ^^ 8) c"

definition crc_run :: "(u8 \<Rightarrow> u8) \<Rightarrow> u8 \<Rightarrow> u8 list \<Rightarrow> u8" where
  "crc_run f c bs = foldl (\<lambda>c b. f (c XOR b)) c bs"

definition crc8_ref :: "u8 list \<Rightarrow> u8" where
  "crc8_ref bs = crc_run poly_step 0xFF bs"

text \<open>The number of one bits of a byte and of a byte string.\<close>

definition popcount8 :: "u8 \<Rightarrow> nat" where
  "popcount8 b = length (filter (bit b) [0..<8])"

definition weight :: "u8 list \<Rightarrow> nat" where
  "weight bs = sum_list (map popcount8 bs)"

lemma crc_run_simps [simp]:
  "crc_run f c [] = c"
  "crc_run f c (b # bs) = crc_run f (f (c XOR b)) bs"
  "crc_run f c (bs @ bs') = crc_run f (crc_run f c bs) bs'"
  by (simp_all add: crc_run_def)

lemma weight_simps [simp]: "weight [] = 0" "weight (b # bs) = popcount8 b + weight bs"
  by (simp_all add: weight_def)

lemma popcount8_0: "popcount8 0 = 0"
  by (simp add: popcount8_def)

lemma odd_length_filter_xor:
  "odd (length (filter (\<lambda>n. P n \<noteq> Q n) xs))
     \<longleftrightarrow> odd (length (filter P xs)) \<noteq> odd (length (filter Q xs))"
  by (induction xs) auto

lemma odd_popcount8_xor: "odd (popcount8 (a XOR b)) \<longleftrightarrow> odd (popcount8 a) \<noteq> odd (popcount8 b)"
  unfolding popcount8_def bit_xor_iff
  by (rule odd_length_filter_xor)

section \<open>Laws of a linear checksum step\<close>

text \<open>
  What the frame check relies on: the byte step is linear over exclusive or, nothing but 0 is
  mapped to 0, and the parity of the bits is kept (the generator is divisible by \<open>x + 1\<close>).
\<close>

locale crc_step =
  fixes f :: "u8 \<Rightarrow> u8"
  assumes f_xor: "f (a XOR b) = f a XOR f b"
    and f_kernel: "f a = 0 \<Longrightarrow> a = 0"
    and f_parity: "odd (popcount8 (f a)) \<longleftrightarrow> odd (popcount8 a)"
begin

lemma f_0 [simp]: "f 0 = 0"
  using f_xor [of 0 0] by simp

lemma f_inj: "f a = f b \<longleftrightarrow> a = b"
proof
  assume "f a = f b"
  then have "f (a XOR b) = 0" by (simp add: f_xor)
  then have "a XOR b = 0" by (rule f_kernel)
  then show "a = b" by (simp add: xor_eq_0_iff)
qed simp

lemma crc_run_xor:
  "length xs = length ys \<Longrightarrow>
   crc_run f (c XOR d) (map2 (XOR) xs ys) = crc_run f c xs XOR crc_run f d ys"
proof (induction xs ys arbitrary: c d rule: list_induct2)
  case Nil
  then show ?case by simp
next
  case (Cons x xs y ys)
  have "f (c XOR d XOR (x XOR y)) = f (c XOR x) XOR f (d XOR y)"
    by (simp add: f_xor ac_simps)
  then have "crc_run f (c XOR d) (map2 (XOR) (x # xs) (y # ys))
      = crc_run f (f (c XOR x) XOR f (d XOR y)) (map2 (XOR) xs ys)"
    by (simp add: xor.assoc)
  then show ?case by (simp add: Cons.IH)
qed

lemma crc_run_inj: "crc_run f c bs = crc_run f d bs \<longleftrightarrow> c = d"
  by (induction bs arbitrary: c d) (auto simp: f_inj xor_right_cancel_iff)

lemma crc_run_residue: "crc_run f c (bs @ [b]) = 0 \<longleftrightarrow> b = crc_run f c bs"
  by (auto dest!: f_kernel simp: xor_eq_0_iff)

lemma crc_run_update:
  assumes "k < length bs" and "b \<noteq> bs ! k"
  shows "crc_run f c (bs[k := b]) \<noteq> crc_run f c bs"
proof -
  define pre and post where "pre = take k bs" and "post = drop (Suc k) bs"
  have bs: "bs = pre @ bs ! k # post"
    using id_take_nth_drop [OF assms(1)] by (simp only: pre_def post_def)
  have upd: "bs[k := b] = pre @ b # post"
    using upd_conv_take_nth_drop [OF assms(1)] by (simp only: pre_def post_def)
  have "crc_run f c (pre @ b # post) \<noteq> crc_run f c (pre @ bs ! k # post)"
    using assms(2) by (simp add: crc_run_inj f_inj xor_left_cancel_iff)
  then show ?thesis using bs upd by simp
qed

lemma crc_run_parity:
  "odd (popcount8 (crc_run f c bs)) \<longleftrightarrow> odd (popcount8 c) \<noteq> odd (weight bs)"
proof (induction bs arbitrary: c)
  case Nil
  then show ?case by simp
next
  case (Cons b bs)
  have "odd (popcount8 (f (c XOR b))) \<longleftrightarrow> odd (popcount8 c) \<noteq> odd (popcount8 b)"
    by (simp only: f_parity odd_popcount8_xor)
  then show ?case
    by (simp only: crc_run_simps weight_simps Cons.IH even_add) argo
qed

lemma crc_run_odd_error:
  assumes len: "length e = length bs" and odd: "odd (weight e)"
  shows "crc_run f c (map2 (XOR) bs e) \<noteq> crc_run f c bs"
proof
  assume eq: "crc_run f c (map2 (XOR) bs e) = crc_run f c bs"
  have "crc_run f c (map2 (XOR) bs e) = crc_run f c bs XOR crc_run f 0 e"
    using crc_run_xor [of bs e c 0] len by simp
  with eq have "crc_run f 0 e = 0"
    by (metis xor_self_eq xor.left_commute xor.right_neutral)
  moreover have "odd (popcount8 (crc_run f 0 e))"
    using odd crc_run_parity [of 0 e] by (simp add: popcount8_0)
  ultimately show False by (simp add: popcount8_0)
qed

end

section \<open>The table implements the reference step\<close>

lemma bit_double: "bit (c * 2) n \<longleftrightarrow> 0 < n \<and> n < 8 \<and> bit c (n - 1)" for c :: u8
proof -
  have "c * 2 = push_bit 1 c" by simp
  then show ?thesis by (simp only: bit_push_bit_iff) auto
qed

lemma bit_poly: "bit (0x31::u8) n \<longleftrightarrow> n \<in> {0, 4, 5}"
proof (cases "n < 8")
  case True
  then have "n \<in> {0,1,2,3,4,5,6,7}" by auto
  then show ?thesis by auto
next
  case False
  then show ?thesis by (auto dest: bit_imp_le_length)
qed

lemma bit_shift1:
  "bit (shift1 c) n \<longleftrightarrow> (0 < n \<and> n < 8 \<and> bit c (n - 1)) \<noteq> (bit c 7 \<and> n \<in> {0, 4, 5})"
proof -
  have "push_bit 1 c = c * 2" by simp
  then have "bit (push_bit 1 c) n \<longleftrightarrow> 0 < n \<and> n < 8 \<and> bit c (n - 1)"
    by (simp only: bit_double)
  then show ?thesis
    by (cases "bit c 7") (simp_all only: shift1_def if_True if_False bit_xor_iff bit_poly simp_thms)
qed

lemma shift1_kernel: "shift1 a = 0 \<Longrightarrow> a = 0"
proof (rule bit_word_eqI)
  fix n assume z: "shift1 a = 0" and n: "n < LENGTH(8)"
  have all: "\<not> bit (shift1 a) k" for k using z by simp
  have b7: "\<not> bit a 7" using all [of 0] by (simp add: bit_shift1)
  show "bit a n = bit (0::u8) n"
    using all [of "Suc n"] b7 n by (cases "n = 7") (auto simp: bit_shift1)
qed

lemma shift1_xor: "shift1 (a XOR b) = shift1 a XOR shift1 b"
  by (rule bit_word_eqI) (auto simp: bit_shift1 bit_xor_iff)

lemma shift1_parity: "odd (popcount8 (shift1 a)) \<longleftrightarrow> odd (popcount8 a)"
  by (simp add: popcount8_def upt_8 bit_shift1)

lemma funpow_shift1_xor: "(shift1 ^^ n) (a XOR b) = (shift1 ^^ n) a XOR (shift1 ^^ n) b"
  by (induction n) (simp_all add: shift1_xor)

lemma funpow_shift1_kernel: "(shift1 ^^ n) a = 0 \<Longrightarrow> a = 0"
  by (induction n) (auto dest: shift1_kernel)

lemma funpow_shift1_parity: "odd (popcount8 ((shift1 ^^ n) a)) \<longleftrightarrow> odd (popcount8 a)"
  by (induction n) (simp_all add: shift1_parity)

interpretation crc8: crc_step poly_step
  unfolding poly_step_def
  by unfold_locales (fact funpow_shift1_xor funpow_shift1_kernel funpow_shift1_parity)+

lemma poly_step_eq:
  "poly_step c = shift1 (shift1 (shift1 (shift1 (shift1 (shift1 (shift1 (shift1 c)))))))"
  by (simp add: poly_step_def numeral_eq_Suc)

lemma word_of_nat_split:
  assumes "n < 2 ^ k"
  shows "word_of_nat (2 ^ k + n) = (2 ^ k :: u8) XOR word_of_nat n"
proof -
  have "\<not> bit n k"
    using assms by (simp add: bit_iff_odd)
  then have "(2 ^ k :: u8) AND word_of_nat n = 0"
    by (intro bit_word_eqI) (auto simp: bit_simps)
  then show ?thesis
    by (simp add: disjunctive_add_eq_xor)
qed

text \<open>
  Linearity: the 256 entries are the exclusive-or combinations of the images of the eight
  powers of two.
\<close>

primrec span :: "u8 list \<Rightarrow> u8 list" where
  "span [] = [0]"
| "span (b # bs) = span bs @ map (\<lambda>x. b XOR x) (span bs)"

lemma poly_step_span:
  "map (\<lambda>i. poly_step (word_of_nat i)) [0..<2 ^ k]
     = span (rev (map (\<lambda>i. poly_step (2 ^ i)) [0..<k]))"
proof (induction k)
  case 0
  show ?case by (simp add: poly_step_eq shift1_def)
next
  case (Suc k)
  let ?F = "\<lambda>i. poly_step (word_of_nat i)"
  have "[0..<2 ^ Suc k] = [0..<2 ^ k] @ map (\<lambda>i. 2 ^ k + i) [0..<2 ^ k]"
    by (rule nth_equalityI) (auto simp: nth_append mult_2)
  moreover have "?F (2 ^ k + i) = poly_step (2 ^ k) XOR ?F i" if "i \<in> set [0..<2 ^ k]" for i
    using that by (simp only: word_of_nat_split crc8.f_xor set_upt atLeastLessThan_iff)
  ultimately have "map ?F [0..<2 ^ Suc k]
      = map ?F [0..<2 ^ k] @ map (\<lambda>x. poly_step (2 ^ k) XOR x) (map ?F [0..<2 ^ k])"
    by (simp del: of_nat_add)
  then show ?case by (simp add: Suc.IH)
qed

lemma Crc8Table_upto: "map (\<lambda>i. poly_step (word_of_nat i)) [0..<256] = Crc8Table"
  using poly_step_span [of 8]
  by (simp add: upt_8 poly_step_eq shift1_def Crc8Table_def)

lemma Crc8Table_nth: "Crc8Table ! unat w = poly_step w"
  by (simp flip: Crc8Table_upto)

lemma crc8_while_eq:
  "crc8_while c n p =
     (if n \<le> length p then Inr (crc_run poly_step c (take n p)) else Inl Out_Of_Bounds)"
  by (induction c n p rule: crc8_while.induct) (simp_all add: Crc8Table_nth)

lemma Crc8_ok: "unat n \<le> length p \<Longrightarrow> Crc8 p n = Inr (crc8_ref (take (unat n) p))"
  by (simp add: Crc8_def crc8_while_eq crc8_ref_def)

lemma Crc8_overrun: "length p < unat n \<Longrightarrow> Crc8 p n = Inl Out_Of_Bounds"
  by (simp add: Crc8_def crc8_while_eq)

section \<open>Properties\<close>

text \<open>
  C3: the table-driven loop of \<^verbatim>\<open>Crc8\<close> computes, for every block and every size, the
  bit-serial CRC-8 with polynomial 0x31 and initial value 0xFF over the first \<open>size\<close> bytes; it
  always ends, and it reads outside the block exactly when the size exceeds the block.
\<close>

theorem Crc8_bitwise:
  "Crc8 p n = (if unat n \<le> length p then Inr (crc8_ref (take (unat n) p)) else Inl Out_Of_Bounds)"
  by (simp add: Crc8_ok Crc8_overrun)

end
