(* ===== verification/Uart_Poll.thy ===== *)
theory Uart_Poll
  imports App_State Crc
begin

text \<open>
  The polling half of \<^verbatim>\<open>src/src/uart.c\<close>: \<^verbatim>\<open>Qwerty_all_Device\<close>, run by TIMER6. It
  advances the address counters, writes the address of the next device into its frame, clears
  the device's health bit, closes the frame with its checksum and starts the DMA transfer.
\<close>

section \<open>Addresses: the enumeration \<^verbatim>\<open>adr_devices\<close>\<close>

definition YKP1_BKD :: u8 where "YKP1_BKD = 1"
definition YKP2_BKD :: u8 where "YKP2_BKD = 2"
definition YKP3_BKD :: u8 where "YKP3_BKD = 3"
definition YAZ1_BKD :: u8 where "YAZ1_BKD = 4"
definition YAZ2_BKD :: u8 where "YAZ2_BKD = 5"
definition YAZ3_BKD :: u8 where "YAZ3_BKD = 6"
definition YPS1_BKD :: u8 where "YPS1_BKD = 7"
definition YPS2_BKD :: u8 where "YPS2_BKD = 8"
definition YPS3_BKD :: u8 where "YPS3_BKD = 9"
definition YLK_96_1_BKD :: u8 where "YLK_96_1_BKD = 10"
definition YLK_96_2_BKD :: u8 where "YLK_96_2_BKD = 11"
definition YLK_96_3_BKD :: u8 where "YLK_96_3_BKD = 12"
definition START_ADR_BKHO_A :: u8 where "START_ADR_BKHO_A = 1 + DEVICE_IN_BKD * IN_TOTAL_BKD"
definition YPS1_BKHO_A :: u8 where "YPS1_BKHO_A = 1 + DEVICE_IN_BKD * IN_TOTAL_BKD"
definition YPS2_BKHO_A :: u8 where "YPS2_BKHO_A = 2 + DEVICE_IN_BKD * IN_TOTAL_BKD"
definition YPS3_BKHO_A :: u8 where "YPS3_BKHO_A = 3 + DEVICE_IN_BKD * IN_TOTAL_BKD"
definition YTP1_1_BKHO_A :: u8 where "YTP1_1_BKHO_A = 4 + DEVICE_IN_BKD * IN_TOTAL_BKD"
definition YTP1_2_BKHO_A :: u8 where "YTP1_2_BKHO_A = 5 + DEVICE_IN_BKD * IN_TOTAL_BKD"
definition YTP1_3_BKHO_A :: u8 where "YTP1_3_BKHO_A = 6 + DEVICE_IN_BKD * IN_TOTAL_BKD"
definition YTP2_1_BKHO_A :: u8 where "YTP2_1_BKHO_A = 7 + DEVICE_IN_BKD * IN_TOTAL_BKD"
definition YTP2_2_BKHO_A :: u8 where "YTP2_2_BKHO_A = 8 + DEVICE_IN_BKD * IN_TOTAL_BKD"
definition YTP2_3_BKHO_A :: u8 where "YTP2_3_BKHO_A = 9 + DEVICE_IN_BKD * IN_TOTAL_BKD"
definition YTM1_1_BKHO_A :: u8 where "YTM1_1_BKHO_A = 10 + DEVICE_IN_BKD * IN_TOTAL_BKD"
definition YTM1_2_BKHO_A :: u8 where "YTM1_2_BKHO_A = 11 + DEVICE_IN_BKD * IN_TOTAL_BKD"
definition YTM1_3_BKHO_A :: u8 where "YTM1_3_BKHO_A = 12 + DEVICE_IN_BKD * IN_TOTAL_BKD"
definition YTM2_1_BKHO_A :: u8 where "YTM2_1_BKHO_A = 13 + DEVICE_IN_BKD * IN_TOTAL_BKD"
definition YTM2_2_BKHO_A :: u8 where "YTM2_2_BKHO_A = 14 + DEVICE_IN_BKD * IN_TOTAL_BKD"
definition YTM2_3_BKHO_A :: u8 where "YTM2_3_BKHO_A = 15 + DEVICE_IN_BKD * IN_TOTAL_BKD"
definition YGR1_BKHO_A :: u8 where "YGR1_BKHO_A = 16 + DEVICE_IN_BKD * IN_TOTAL_BKD"
definition YGR2_BKHO_A :: u8 where "YGR2_BKHO_A = 17 + DEVICE_IN_BKD * IN_TOTAL_BKD"
definition YGR3_BKHO_A :: u8 where "YGR3_BKHO_A = 18 + DEVICE_IN_BKD * IN_TOTAL_BKD"
definition YLK32_3_1_BKHO_A :: u8 where "YLK32_3_1_BKHO_A = 19 + DEVICE_IN_BKD * IN_TOTAL_BKD"
definition YLK32_3_2_BKHO_A :: u8 where "YLK32_3_2_BKHO_A = 20 + DEVICE_IN_BKD * IN_TOTAL_BKD"
definition YLK32_3_3_BKHO_A :: u8 where "YLK32_3_3_BKHO_A = 21 + DEVICE_IN_BKD * IN_TOTAL_BKD"
definition YVP1_BKHO_A :: u8 where "YVP1_BKHO_A = 22 + DEVICE_IN_BKD * IN_TOTAL_BKD"
definition YVP2_BKHO_A :: u8 where "YVP2_BKHO_A = 23 + DEVICE_IN_BKD * IN_TOTAL_BKD"
definition YVP3_BKHO_A :: u8 where "YVP3_BKHO_A = 24 + DEVICE_IN_BKD * IN_TOTAL_BKD"
definition AND_ADR_BKHO_A :: u8 where "AND_ADR_BKHO_A = 24 + DEVICE_IN_BKD * IN_TOTAL_BKD"
definition START_ADR_OUT_SERVO :: u8 where "START_ADR_OUT_SERVO = 25 + DEVICE_IN_BKD * IN_TOTAL_BKD"
definition OUT_SERVO_1 :: u8 where "OUT_SERVO_1 = 25 + DEVICE_IN_BKD * IN_TOTAL_BKD"
definition OUT_SERVO_2 :: u8 where "OUT_SERVO_2 = 26 + DEVICE_IN_BKD * IN_TOTAL_BKD"
definition OUT_SERVO_3 :: u8 where "OUT_SERVO_3 = 27 + DEVICE_IN_BKD * IN_TOTAL_BKD"
definition OUT_SERVO_4 :: u8 where "OUT_SERVO_4 = 28 + DEVICE_IN_BKD * IN_TOTAL_BKD"
definition OUT_SERVO_5 :: u8 where "OUT_SERVO_5 = 29 + DEVICE_IN_BKD * IN_TOTAL_BKD"
definition OUT_SERVO_6 :: u8 where "OUT_SERVO_6 = 30 + DEVICE_IN_BKD * IN_TOTAL_BKD"
definition OUT_SERVO_7 :: u8 where "OUT_SERVO_7 = 31 + DEVICE_IN_BKD * IN_TOTAL_BKD"
definition OUT_SERVO_8 :: u8 where "OUT_SERVO_8 = 32 + DEVICE_IN_BKD * IN_TOTAL_BKD"
definition AND_ADR_OUT_SERVO :: u8 where "AND_ADR_OUT_SERVO = 32 + DEVICE_IN_BKD * IN_TOTAL_BKD"

lemmas adr_devices =
  IN_TOTAL_BKD_def DEVICE_IN_BKD_def YKP1_BKD_def YKP2_BKD_def YKP3_BKD_def YAZ1_BKD_def YAZ2_BKD_def
  YAZ3_BKD_def YPS1_BKD_def YPS2_BKD_def YPS3_BKD_def YLK_96_1_BKD_def YLK_96_2_BKD_def YLK_96_3_BKD_def
  START_ADR_BKHO_A_def YPS1_BKHO_A_def YPS2_BKHO_A_def YPS3_BKHO_A_def YTP1_1_BKHO_A_def
  YTP1_2_BKHO_A_def YTP1_3_BKHO_A_def YTP2_1_BKHO_A_def YTP2_2_BKHO_A_def YTP2_3_BKHO_A_def
  YTM1_1_BKHO_A_def YTM1_2_BKHO_A_def YTM1_3_BKHO_A_def YTM2_1_BKHO_A_def YTM2_2_BKHO_A_def
  YTM2_3_BKHO_A_def YGR1_BKHO_A_def YGR2_BKHO_A_def YGR3_BKHO_A_def YLK32_3_1_BKHO_A_def
  YLK32_3_2_BKHO_A_def YLK32_3_3_BKHO_A_def YVP1_BKHO_A_def YVP2_BKHO_A_def YVP3_BKHO_A_def
  AND_ADR_BKHO_A_def START_ADR_OUT_SERVO_def OUT_SERVO_1_def OUT_SERVO_2_def OUT_SERVO_3_def
  OUT_SERVO_4_def OUT_SERVO_5_def OUT_SERVO_6_def OUT_SERVO_7_def OUT_SERVO_8_def AND_ADR_OUT_SERVO_def

section \<open>The counters\<close>

text \<open>\<^verbatim>\<open>if(++current_BKD>(IN_TOTAL_BKD+1)) current_BKD=0\<close> and its three companions.\<close>

definition next_BKD :: "u8 \<Rightarrow> u8" where
  "next_BKD c = (let c = c + 1 in if c > IN_TOTAL_BKD + 1 then 0 else c)"

definition next_BKDx :: "u8 \<Rightarrow> u8" where
  "next_BKDx c = (let c = c + 1 in if c > DEVICE_IN_BKD then 1 else c)"

definition next_BKHO_A :: "u8 \<Rightarrow> u8" where
  "next_BKHO_A c = (let c = c + 1 in if c > AND_ADR_BKHO_A then START_ADR_BKHO_A else c)"

definition next_OUT_SERVO :: "u8 \<Rightarrow> u8" where
  "next_OUT_SERVO c = (let c = c + 1 in if c > AND_ADR_OUT_SERVO then START_ADR_OUT_SERVO else c)"

definition Qwerty_advance :: "app \<Rightarrow> app" where
  "Qwerty_advance s =
     (if current_BKD s + 1 > IN_TOTAL_BKD + 1
      then s\<lparr> current_BKD := next_BKD (current_BKD s),
              current_device_in_BKDx := next_BKDx (current_device_in_BKDx s) \<rparr>
      else s\<lparr> current_BKD := next_BKD (current_BKD s) \<rparr>)"

section \<open>Clearing the health bit of the polled device\<close>

text \<open>The three \<^verbatim>\<open>switch\<close> statements, as functions of the switched value.\<close>

definition clear_BKD :: "u8 \<Rightarrow> u8 \<Rightarrow> health_bit_map \<Rightarrow> health_bit_map" where
  "clear_BKD device bkd h =
     (let bits = NOT (push_bit (unat bkd) 1)
      in if device = YKP1_BKD then ykp_poc_1_update (\<lambda>w. w AND bits) h
         else if device = YKP2_BKD then ykp_poc_2_update (\<lambda>w. w AND bits) h
         else if device = YKP3_BKD then ykp_poc_3_update (\<lambda>w. w AND bits) h
         else if device = YAZ1_BKD then yaz_poc_1_update (\<lambda>w. w AND bits) h
         else if device = YAZ2_BKD then yaz_poc_2_update (\<lambda>w. w AND bits) h
         else if device = YAZ3_BKD then yaz_poc_3_update (\<lambda>w. w AND bits) h
         else if device = YPS1_BKD then yps_poc_1_update (\<lambda>w. w AND bits) h
         else if device = YPS2_BKD then yps_poc_2_update (\<lambda>w. w AND bits) h
         else if device = YPS3_BKD then yps_poc_3_update (\<lambda>w. w AND bits) h
         else if device = YLK_96_1_BKD then ylk96_poc_1_update (\<lambda>w. w AND bits) h
         else if device = YLK_96_2_BKD then ylk96_poc_2_update (\<lambda>w. w AND bits) h
         else if device = YLK_96_3_BKD then ylk96_poc_3_update (\<lambda>w. w AND bits) h
         else h)"

definition clear_BKHO_A :: "u8 \<Rightarrow> health_bit_map \<Rightarrow> health_bit_map" where
  "clear_BKHO_A device h =
     (if device = YPS1_BKHO_A then yps_bkho_a_poc_1_update (\<lambda>w. w AND NOT 1) h
      else if device = YPS2_BKHO_A then yps_bkho_a_poc_2_update (\<lambda>w. w AND NOT 1) h
      else if device = YPS3_BKHO_A then yps_bkho_a_poc_3_update (\<lambda>w. w AND NOT 1) h
      else if device = YTP1_1_BKHO_A then ytp1_bkho_a_poc_1_update (\<lambda>w. w AND NOT 1) h
      else if device = YTP1_2_BKHO_A then ytp1_bkho_a_poc_2_update (\<lambda>w. w AND NOT 1) h
      else if device = YTP1_3_BKHO_A then ytp1_bkho_a_poc_3_update (\<lambda>w. w AND NOT 1) h
      else if device = YTP2_1_BKHO_A then ytp2_bkho_a_poc_1_update (\<lambda>w. w AND NOT 1) h
      else if device = YTP2_2_BKHO_A then ytp2_bkho_a_poc_2_update (\<lambda>w. w AND NOT 1) h
      else if device = YTP2_3_BKHO_A then ytp2_bkho_a_poc_3_update (\<lambda>w. w AND NOT 1) h
      else if device = YTM1_1_BKHO_A then ytm1_bkho_a_poc_1_update (\<lambda>w. w AND NOT 1) h
      else if device = YTM1_2_BKHO_A then ytm1_bkho_a_poc_2_update (\<lambda>w. w AND NOT 1) h
      else if device = YTM1_3_BKHO_A then ytm1_bkho_a_poc_3_update (\<lambda>w. w AND NOT 1) h
      else if device = YTM2_1_BKHO_A then ytm2_bkho_a_poc_1_update (\<lambda>w. w AND NOT 1) h
      else if device = YTM2_2_BKHO_A then ytm2_bkho_a_poc_2_update (\<lambda>w. w AND NOT 1) h
      else if device = YTM2_3_BKHO_A then ytm2_bkho_a_poc_3_update (\<lambda>w. w AND NOT 1) h
      else if device = YGR1_BKHO_A then ygr_bkho_a_poc_1_update (\<lambda>w. w AND NOT 1) h
      else if device = YGR2_BKHO_A then ygr_bkho_a_poc_2_update (\<lambda>w. w AND NOT 1) h
      else if device = YGR3_BKHO_A then ygr_bkho_a_poc_3_update (\<lambda>w. w AND NOT 1) h
      else if device = YLK32_3_1_BKHO_A then ylk32_3_bkho_a_poc_1_update (\<lambda>w. w AND NOT 1) h
      else if device = YLK32_3_2_BKHO_A then ylk32_3_bkho_a_poc_2_update (\<lambda>w. w AND NOT 1) h
      else if device = YLK32_3_3_BKHO_A then ylk32_3_bkho_a_poc_3_update (\<lambda>w. w AND NOT 1) h
      else if device = YVP1_BKHO_A then yvp_bkho_a_poc_1_update (\<lambda>w. w AND NOT 1) h
      else if device = YVP2_BKHO_A then yvp_bkho_a_poc_2_update (\<lambda>w. w AND NOT 1) h
      else if device = YVP3_BKHO_A then yvp_bkho_a_poc_3_update (\<lambda>w. w AND NOT 1) h
      else h)"

definition clear_OUT_SERVO :: "u8 \<Rightarrow> health_bit_map \<Rightarrow> health_bit_map" where
  "clear_OUT_SERVO device h =
     (if device = OUT_SERVO_1 then out_servo1_update (\<lambda>w. w AND NOT 1) h
      else if device = OUT_SERVO_2 then out_servo2_update (\<lambda>w. w AND NOT 1) h
      else if device = OUT_SERVO_3 then out_servo3_update (\<lambda>w. w AND NOT 1) h
      else if device = OUT_SERVO_4 then out_servo4_update (\<lambda>w. w AND NOT 1) h
      else if device = OUT_SERVO_5 then out_servo5_update (\<lambda>w. w AND NOT 1) h
      else if device = OUT_SERVO_6 then out_servo6_update (\<lambda>w. w AND NOT 1) h
      else if device = OUT_SERVO_7 then out_servo7_update (\<lambda>w. w AND NOT 1) h
      else if device = OUT_SERVO_8 then out_servo8_update (\<lambda>w. w AND NOT 1) h
      else h)"

section \<open>One poll\<close>

definition Qwerty_BKD :: "app \<Rightarrow> app res" where
  "Qwerty_BKD s =
     bind_res (put_msg (unat (current_BKD s)) 0
                 (current_device_in_BKDx s + current_BKD s * DEVICE_IN_BKD) s) (\<lambda>s.
     on_pack (\<lambda>p. Inr (health_abonent_update (clear_BKD (current_device_in_BKDx s) (current_BKD s)) p)) s)"

definition Qwerty_BKHO_A :: "app \<Rightarrow> app res" where
  "Qwerty_BKHO_A s =
     (let s = s\<lparr> current_device_in_BKHO_A := next_BKHO_A (current_device_in_BKHO_A s) \<rparr>
      in bind_res (put_msg (unat (current_BKD s)) 0 (current_device_in_BKHO_A s) s) (\<lambda>s.
         on_pack (\<lambda>p. Inr (health_abonent_update (clear_BKHO_A (current_device_in_BKHO_A s)) p)) s))"

definition Qwerty_OUT_SERVO :: "app \<Rightarrow> app res" where
  "Qwerty_OUT_SERVO s =
     (let s = s\<lparr> current_device_in_OUT_SERVO := next_OUT_SERVO (current_device_in_OUT_SERVO s) \<rparr>
      in bind_res (put_msg (unat (current_BKD s)) 0 (current_device_in_OUT_SERVO s) s) (\<lambda>s.
         on_pack (\<lambda>p. Inr (health_abonent_update (clear_OUT_SERVO (current_device_in_OUT_SERVO s)) p)) s))"

text \<open>
  \<^verbatim>\<open>message_from_BKD[current_BKD][19] = Crc8(message_from_BKD[current_BKD], 19)\<close>.
\<close>

definition Qwerty_crc :: "app \<Rightarrow> app res" where
  "Qwerty_crc s =
     bind_res (get_at (message_from_BKD s) (unat (current_BKD s))) (\<lambda>row.
     bind_res (Crc8 row (of_nat (USART_BUFFER_TX_SIZE_YLS - 1))) (\<lambda>crc.
     put_msg (unat (current_BKD s)) (USART_BUFFER_TX_SIZE_YLS - 1) crc s))"

text \<open>
  The direction pins \<^verbatim>\<open>USARTn_TX\<close> and \<^verbatim>\<open>USARTn_RX\<close> of \<^verbatim>\<open>init_config.h\<close>
  with their delays: the driver is given 4 rounds of an empty loop after it was switched to transmit,
  before the DMA starts, and 66 rounds after the last byte before it is switched back. A round counts
  a local variable and leaves the registers alone.
\<close>

function delay_rounds :: "nat \<Rightarrow> nat \<Rightarrow> mem \<Rightarrow> mem" where
  "delay_rounds i n m = (if i < n then delay_rounds (Suc i) n m else m)"
  by pat_completeness auto

termination delay_rounds
  by (relation "measure (\<lambda>(i, n, _). n - i)") auto

declare delay_rounds.simps [simp del]

definition USART0_TX :: "mem \<Rightarrow> mem" where
  "USART0_TX m = delay_rounds 0 4 (gpio_bit_set GPIOA (GPIO_PIN 11) m)"
definition USART0_RX :: "mem \<Rightarrow> mem" where
  "USART0_RX m = gpio_bit_reset GPIOA (GPIO_PIN 11) (delay_rounds 0 66 m)"
definition USART5_TX :: "mem \<Rightarrow> mem" where
  "USART5_TX m = delay_rounds 0 4 (gpio_bit_set GPIOC (GPIO_PIN 8) m)"
definition USART5_RX :: "mem \<Rightarrow> mem" where
  "USART5_RX m = gpio_bit_reset GPIOC (GPIO_PIN 8) (delay_rounds 0 66 m)"

lemma delay_rounds_regs [simp]: "delay_rounds i n m = m"
  by (induction i n m rule: delay_rounds.induct) (subst delay_rounds.simps, simp)

definition message_address :: "app \<Rightarrow> u32" where
  "message_address s = message_base s + of_nat USART_BUFFER_TX_SIZE_YLS * ucast (current_BKD s)"

definition Qwerty_transmit :: "u32 \<Rightarrow> app \<Rightarrow> app" where
  "Qwerty_transmit usart s =
     (if usart = USART0 then
        let m = USART0_TX (regs s);
            m = dma_flag_clear DMA1 7 DMA_FLAG_FTF m;
            m = dma_memory_address_config DMA1 7 (ucast DMA_MEMORY_0) (message_address s) m;
            m = dma_transfer_number_config DMA1 7 (of_nat USART_BUFFER_TX_SIZE_YLS) m;
            m = dma_channel_enable DMA1 7 m
        in s\<lparr> usart0_transmit := 1, regs := m \<rparr>
      else
        let m = USART5_TX (regs s);
            m = dma_memory_address_config DMA1 6 (ucast DMA_MEMORY_0) (message_address s) m;
            m = dma_transfer_number_config DMA1 6 (of_nat USART_BUFFER_TX_SIZE_YLS) m;
            m = dma_channel_enable DMA1 6 m
        in s\<lparr> usart5_transmit := 1, regs := m \<rparr>)"

definition Qwerty_all_Device :: "app \<Rightarrow> app res" where
  "Qwerty_all_Device s =
     (let s = Qwerty_advance s
      in bind_res (if current_BKD s < IN_TOTAL_BKD then Qwerty_BKD s
                   else if current_BKD s = IN_TOTAL_BKD then Qwerty_BKHO_A s
                   else Qwerty_OUT_SERVO s) (\<lambda>s.
         bind_res (Qwerty_crc s) (\<lambda>s. Inr (Qwerty_transmit USART5 s))))"

section \<open>Cyclic counters\<close>

text \<open>
  What the four counters share: below the upper end they count up, at the upper end they fall
  back to the lower end. A start below the window is a run-in that enters it.
\<close>

locale cyclic_counter =
  fixes nxt :: "u8 \<Rightarrow> u8" and lo hi :: nat
  assumes nxt: "unat c \<le> hi \<Longrightarrow> unat (nxt c) = (if unat c = hi then lo else unat c + 1)"
    and window: "lo \<le> hi"
begin

lemma nxt_le: "unat c \<le> hi \<Longrightarrow> unat (nxt c) \<le> hi"
  using window by (simp add: nxt)

lemma nxt_ge: "unat c \<le> hi \<Longrightarrow> k \<le> lo \<Longrightarrow> k \<le> unat c \<Longrightarrow> k \<le> unat (nxt c)"
  by (simp add: nxt)

lemma run_in: "unat c + k \<le> hi \<Longrightarrow> unat ((nxt ^^ k) c) = unat c + k"
  by (induction k) (simp_all add: nxt)

lemma closed_form:
  assumes "lo \<le> unat c" "unat c \<le> hi"
  shows "unat ((nxt ^^ k) c) = lo + (unat c - lo + k) mod (hi - lo + 1)"
proof (induction k)
  case 0
  then show ?case using assms by simp
next
  case (Suc k)
  let ?x = "(unat c - lo + k) mod (hi - lo + 1)"
  have x: "?x < hi - lo + 1" by simp
  then have le: "unat ((nxt ^^ k) c) \<le> hi" using Suc.IH window by linarith
  have m: "(unat c - lo + Suc k) mod (hi - lo + 1) = (if ?x = hi - lo then 0 else ?x + 1)"
    by (simp add: mod_Suc)
  have "unat ((nxt ^^ Suc k) c) = lo + (if ?x = hi - lo then 0 else ?x + 1)"
    using nxt [OF le] Suc.IH window by auto
  then show ?case by (simp only: m)
qed

text \<open>Every value of the window comes up within one revolution.\<close>

lemma revolution:
  assumes "lo \<le> unat c" "unat c \<le> hi" "lo \<le> v" "v \<le> hi"
  shows "\<exists>k. 0 < k \<and> k \<le> hi - lo + 1 \<and> unat ((nxt ^^ k) c) = v"
proof -
  let ?n = "hi - lo + 1"
  define a where "a = unat c - lo"
  define b where "b = v - lo"
  have ab: "a < ?n" "b < ?n" using assms by (simp_all add: a_def b_def)
  define k where "k = (if a < b then b - a else b + ?n - a)"
  have "0 < k" "k \<le> ?n" "(a + k) mod ?n = b"
    using ab by (auto simp: k_def mod_if)
  moreover from this have "unat ((nxt ^^ k) c) = v"
    using assms by (simp add: closed_form flip: a_def) (simp add: b_def)
  ultimately show ?thesis by blast
qed

end

definition count_up :: "u8 \<Rightarrow> u8 \<Rightarrow> u8 \<Rightarrow> u8" where
  "count_up lo hi c = (let c = c + 1 in if c > hi then lo else c)"

lemma unat_count_up:
  assumes "unat c \<le> unat hi" "unat hi < 255"
  shows "unat (count_up lo hi c) = (if unat c = unat hi then unat lo else unat c + 1)"
proof -
  have "unat (c + 1) = unat c + 1"
    using assms by (simp add: unat_word_ariths)
  then show ?thesis
    using assms by (auto simp: count_up_def Let_def word_less_nat_alt)
qed

lemma next_count_up:
  "next_BKD c = count_up 0 13 c" "next_BKDx c = count_up 1 12 c"
  "next_BKHO_A c = count_up 145 168 c" "next_OUT_SERVO c = count_up 169 176 c"
  by (simp_all add: Let_def count_up_def next_BKD_def next_BKDx_def next_BKHO_A_def next_OUT_SERVO_def adr_devices)

interpretation bkd: cyclic_counter next_BKD 0 13
  by unfold_locales (simp_all add: next_count_up unat_count_up)

interpretation bkdx: cyclic_counter next_BKDx 1 12
  by unfold_locales (simp_all add: next_count_up unat_count_up)

interpretation bkho: cyclic_counter next_BKHO_A 145 168
  by unfold_locales (simp_all add: next_count_up unat_count_up)

interpretation servo: cyclic_counter next_OUT_SERVO 169 176
  by unfold_locales (simp_all add: next_count_up unat_count_up)

section \<open>The poll in closed form\<close>

text \<open>The counters after one tick.\<close>

definition tick_counters :: "app \<Rightarrow> app" where
  "tick_counters s =
     (let t = Qwerty_advance s
      in if current_BKD t < 12 then t
         else if current_BKD t = 12
           then t\<lparr> current_device_in_BKHO_A := next_BKHO_A (current_device_in_BKHO_A t) \<rparr>
           else t\<lparr> current_device_in_OUT_SERVO := next_OUT_SERVO (current_device_in_OUT_SERVO t) \<rparr>)"

text \<open>The address a state has just polled, and the health fields this clears.\<close>

definition polled_address :: "app \<Rightarrow> u8" where
  "polled_address t =
     (if current_BKD t < 12 then current_device_in_BKDx t + current_BKD t * 12
      else if current_BKD t = 12 then current_device_in_BKHO_A t
      else current_device_in_OUT_SERVO t)"

definition clear_polled :: "app \<Rightarrow> health_bit_map \<Rightarrow> health_bit_map" where
  "clear_polled t =
     (if current_BKD t < 12 then clear_BKD (current_device_in_BKDx t) (current_BKD t)
      else if current_BKD t = 12 then clear_BKHO_A (current_device_in_BKHO_A t)
      else clear_OUT_SERVO (current_device_in_OUT_SERVO t))"

text \<open>A frame with a new address and a matching checksum.\<close>

definition addressed_frame :: "u8 \<Rightarrow> u8 list \<Rightarrow> u8 list" where
  "addressed_frame a row = (let r = row[0 := a] in r[19 := crc8_ref (take 19 r)])"

lemma addressed_frame_length [simp]: "length (addressed_frame a row) = length row"
  by (simp add: addressed_frame_def Let_def)

lemma addressed_frame_nth:
  assumes "length row = 20"
  shows "addressed_frame a row ! 0 = a"
    and "addressed_frame a row ! 19 = crc8_ref (take 19 (addressed_frame a row))"
    and "0 < j \<Longrightarrow> j < 19 \<Longrightarrow> addressed_frame a row ! j = row ! j"
  using assms by (simp_all add: addressed_frame_def Let_def)

lemma Qwerty_advance_frame [simp]:
  "message_from_BKD (Qwerty_advance s) = message_from_BKD s"
  "YLSToYVPack (Qwerty_advance s) = YLSToYVPack s"
  "current_tick_tx_eth (Qwerty_advance s) = current_tick_tx_eth s"
  "usart5_buffer_rx (Qwerty_advance s) = usart5_buffer_rx s"
  "usart0_buffer_rx (Qwerty_advance s) = usart0_buffer_rx s"
  "current_device_in_BKHO_A (Qwerty_advance s) = current_device_in_BKHO_A s"
  "current_device_in_OUT_SERVO (Qwerty_advance s) = current_device_in_OUT_SERVO s"
  "current_BKD (Qwerty_advance s) = next_BKD (current_BKD s)"
  by (simp_all add: Qwerty_advance_def)

lemma u8_le_unat: "a \<le> (b :: u8) \<longleftrightarrow> unat a \<le> unat b" "a < b \<longleftrightarrow> unat a < unat b"
  by (simp_all add: word_le_nat_alt word_less_nat_alt)

lemma u8_eq_unat: "a = (b :: u8) \<longleftrightarrow> unat a = unat b"
  by (rule word_unat_eq_iff)

lemma app_wf_unat:
  "app_wf s \<longleftrightarrow> rows_wf (message_from_BKD s) \<and> packs_wf (YLSToYVPack s)
     \<and> length (usart5_buffer_rx s) = 200 \<and> length (usart0_buffer_rx s) = 200
     \<and> unat (current_tick_tx_eth s) \<le> 1 \<and> unat (current_BKD s) \<le> 13
     \<and> 1 \<le> unat (current_device_in_BKDx s) \<and> unat (current_device_in_BKDx s) \<le> 12
     \<and> 1 \<le> unat (current_device_in_BKHO_A s) \<and> unat (current_device_in_BKHO_A s) \<le> 168
     \<and> 1 \<le> unat (current_device_in_OUT_SERVO s) \<and> unat (current_device_in_OUT_SERVO s) \<le> 176"
  by (simp add: app_wf_def u8_le_unat)

lemma BKDx_advance:
  assumes "app_wf s"
  shows "1 \<le> unat (current_device_in_BKDx (Qwerty_advance s))"
    and "unat (current_device_in_BKDx (Qwerty_advance s)) \<le> 12"
  using assms bkdx.nxt_le [of "current_device_in_BKDx s"] bkdx.nxt_ge [of "current_device_in_BKDx s" 1]
  by (simp_all add: Qwerty_advance_def app_wf_unat)

lemma tick_counters_wf:
  assumes "app_wf s"
  shows "app_wf (tick_counters s)"
  using assms BKDx_advance [OF assms] bkd.nxt_le [of "current_BKD s"]
    bkho.nxt_le [of "current_device_in_BKHO_A s"] bkho.nxt_ge [of "current_device_in_BKHO_A s" 1]
    servo.nxt_le [of "current_device_in_OUT_SERVO s"] servo.nxt_ge [of "current_device_in_OUT_SERVO s" 1]
  unfolding tick_counters_def Let_def app_wf_unat by simp

lemma tick_counters_frame [simp]:
  "message_from_BKD (tick_counters s) = message_from_BKD s"
  "YLSToYVPack (tick_counters s) = YLSToYVPack s"
  "current_tick_tx_eth (tick_counters s) = current_tick_tx_eth s"
  "current_BKD (tick_counters s) = next_BKD (current_BKD s)"
  "current_device_in_BKDx (tick_counters s) = current_device_in_BKDx (Qwerty_advance s)"
  by (simp_all add: tick_counters_def Let_def)

text \<open>The state in which the frame has been built, just before the transfer starts.\<close>

definition poll_state :: "app \<Rightarrow> app" where
  "poll_state s =
     (let t = tick_counters s; b = unat (current_BKD t); k = unat (current_tick_tx_eth t)
      in t\<lparr> message_from_BKD := (message_from_BKD t)[b := addressed_frame (polled_address t) (message_from_BKD t ! b)],
            YLSToYVPack := (YLSToYVPack t)[k := health_abonent_update (clear_polled t) (YLSToYVPack t ! k)] \<rparr>)"

lemma packet_wf_health [simp]: "packet_wf (health_abonent_update f p) = packet_wf p"
  by (simp add: packet_wf_def)

lemma poll_slot:
  assumes "app_wf s"
  shows "put_msg (unat (current_BKD s)) 0 a s
    = Inr (s\<lparr> message_from_BKD := (message_from_BKD s)[unat (current_BKD s) := (message_from_BKD s ! unat (current_BKD s))[0 := a]] \<rparr>)"
  using assms by (intro put_msg_ok) (simp_all add: app_wf_unat)

lemma Qwerty_crc_ok:
  assumes "rows_wf (message_from_BKD s)" "unat (current_BKD s) \<le> 13"
  shows "Qwerty_crc s = Inr (s\<lparr> message_from_BKD := (message_from_BKD s)[unat (current_BKD s) :=
      (message_from_BKD s ! unat (current_BKD s))[19 := crc8_ref (take 19 (message_from_BKD s ! unat (current_BKD s)))]] \<rparr>)"
proof -
  let ?b = "unat (current_BKD s)"
  have len: "length (message_from_BKD s) = 14" "length (message_from_BKD s ! ?b) = 20"
    using assms rows_wf_nth [OF assms(1), of ?b] by (simp_all add: rows_wf_def)
  have "Crc8 (message_from_BKD s ! ?b) 19 = Inr (crc8_ref (take 19 (message_from_BKD s ! ?b)))"
    using Crc8_ok [of 19 "message_from_BKD s ! ?b"] len by simp
  then show ?thesis
    using assms len by (simp add: Qwerty_crc_def USART_BUFFER_TX_SIZE_YLS_def put_msg_ok)
qed

lemma poll_branch:
  assumes "app_wf s"
  defines "t \<equiv> tick_counters s"
  shows "(if current_BKD (Qwerty_advance s) < IN_TOTAL_BKD then Qwerty_BKD (Qwerty_advance s)
       else if current_BKD (Qwerty_advance s) = IN_TOTAL_BKD then Qwerty_BKHO_A (Qwerty_advance s)
       else Qwerty_OUT_SERVO (Qwerty_advance s))
    = bind_res (put_msg (unat (current_BKD t)) 0 (polled_address t) t)
        (on_pack (\<lambda>p. Inr (health_abonent_update (clear_polled t) p)))"
proof -
  have t: "app_wf t" unfolding t_def using tick_counters_wf [OF assms(1)] .
  have q: "put_msg (unat (current_BKD t)) 0 (polled_address t) t
      = Inr (t\<lparr> message_from_BKD := (message_from_BKD t)[unat (current_BKD t) :=
          (message_from_BKD t ! unat (current_BKD t))[0 := polled_address t]] \<rparr>)"
    by (rule poll_slot [OF t])
  consider (a) "current_BKD (Qwerty_advance s) < 12" | (b) "current_BKD (Qwerty_advance s) = 12"
    | (c) "\<not> current_BKD (Qwerty_advance s) < 12" "current_BKD (Qwerty_advance s) \<noteq> 12" by blast
  then show ?thesis
  proof cases
    case a
    then show ?thesis using q
      by (simp add: t_def tick_counters_def Let_def polled_address_def clear_polled_def Qwerty_BKD_def
          IN_TOTAL_BKD_def DEVICE_IN_BKD_def)
  next
    case b
    then show ?thesis using q
      by (simp add: t_def tick_counters_def Let_def polled_address_def clear_polled_def Qwerty_BKHO_A_def
          IN_TOTAL_BKD_def)
  next
    case c
    then show ?thesis using q
      by (simp add: t_def tick_counters_def Let_def polled_address_def clear_polled_def
          Qwerty_OUT_SERVO_def IN_TOTAL_BKD_def)
  qed
qed

lemma Qwerty_eq:
  assumes "app_wf s"
  shows "Qwerty_all_Device s = Inr (Qwerty_transmit USART5 (poll_state s))"
proof -
  define t where "t = tick_counters s"
  define b where "b = unat (current_BKD t)"
  define r where "r = (message_from_BKD t ! b)[0 := polled_address t]"
  define u where "u = t\<lparr> message_from_BKD := (message_from_BKD t)[b := r] \<rparr>"
  define v where "v = u\<lparr> YLSToYVPack := (YLSToYVPack u)[unat (current_tick_tx_eth u) :=
      health_abonent_update (clear_polled t) (YLSToYVPack u ! unat (current_tick_tx_eth u))] \<rparr>"
  have t: "app_wf t" unfolding t_def by (rule tick_counters_wf [OF assms])
  have b: "b \<le> 13" using t by (simp add: b_def app_wf_unat)
  have rows: "rows_wf (message_from_BKD t)" "length (message_from_BKD t) = 14"
    using t by (simp_all add: app_wf_unat rows_wf_def)
  have rw: "rows_wf (message_from_BKD u)"
    unfolding u_def r_def using rows b rows_wf_nth [OF rows(1), of b] by (simp add: rows_wf_update)
  have u: "app_wf u" using t rw by (simp add: u_def app_wf_unat)
  have 1: "put_msg (unat (current_BKD t)) 0 (polled_address t) t = Inr u"
    using poll_slot [OF t] by (simp add: u_def r_def b_def)
  have 2: "on_pack (\<lambda>p. Inr (health_abonent_update (clear_polled t) p)) u = Inr v"
    unfolding v_def by (rule on_pack_ok [OF u]) simp
  have mv: "message_from_BKD v = (message_from_BKD t)[b := r]" "current_BKD v = current_BKD t"
    by (simp_all add: v_def u_def)
  have 3: "Qwerty_crc v = Inr (v\<lparr> message_from_BKD := (message_from_BKD t)[b := r[19 := crc8_ref (take 19 r)]] \<rparr>)"
    using Qwerty_crc_ok [of v] rw b rows(2) mv by (simp add: v_def u_def b_def)
  have 4: "v\<lparr> message_from_BKD := (message_from_BKD t)[b := r[19 := crc8_ref (take 19 r)]] \<rparr> = poll_state s"
    by (simp add: poll_state_def Let_def v_def u_def addressed_frame_def r_def b_def flip: t_def)
  show ?thesis
    unfolding Qwerty_all_Device_def Let_def poll_branch [OF assms]
    by (simp add: 1 2 3 4 flip: t_def)
qed

lemma Qwerty_transmit_frame [simp]:
  "message_from_BKD (Qwerty_transmit u s) = message_from_BKD s"
  "YLSToYVPack (Qwerty_transmit u s) = YLSToYVPack s"
  "current_tick_tx_eth (Qwerty_transmit u s) = current_tick_tx_eth s"
  "usart5_buffer_rx (Qwerty_transmit u s) = usart5_buffer_rx s"
  "usart0_buffer_rx (Qwerty_transmit u s) = usart0_buffer_rx s"
  "usart5_counter (Qwerty_transmit u s) = usart5_counter s"
  "usart0_counter (Qwerty_transmit u s) = usart0_counter s"
  "current_BKD (Qwerty_transmit u s) = current_BKD s"
  "current_device_in_BKDx (Qwerty_transmit u s) = current_device_in_BKDx s"
  "current_device_in_BKHO_A (Qwerty_transmit u s) = current_device_in_BKHO_A s"
  "current_device_in_OUT_SERVO (Qwerty_transmit u s) = current_device_in_OUT_SERVO s"
  "message_base (Qwerty_transmit u s) = message_base s"
  "timer4En (Qwerty_transmit u s) = timer4En s"
  "timer2En (Qwerty_transmit u s) = timer2En s"
  "sent (Qwerty_transmit u s) = sent s"
  "udp_pcb (Qwerty_transmit u s) = udp_pcb s"
  by (simp_all add: Qwerty_transmit_def Let_def)

lemma app_wf_transmit [simp]: "app_wf (Qwerty_transmit u s) = app_wf s"
  by (simp add: app_wf_def)

lemma poll_state_wf:
  assumes "app_wf s"
  shows "app_wf (poll_state s)"
proof -
  define t where "t = tick_counters s"
  have t: "app_wf t" unfolding t_def by (rule tick_counters_wf [OF assms])
  then have "length (message_from_BKD t ! unat (current_BKD t)) = 20"
    by (intro rows_wf_nth) (simp_all add: app_wf_unat)
  with t show ?thesis
    using cur_pack_wf [OF t]
    by (simp add: poll_state_def Let_def app_wf_def rows_wf_update packs_wf_update flip: t_def)
qed

section \<open>Which health bit a poll clears\<close>

text \<open>The wire position of the health bit of an address.\<close>

definition health_pos :: "nat \<Rightarrow> nat" where
  "health_pos a =
     (if a \<le> 144 then 12 * ((a - 1) mod 12) + (a - 1) div 12
      else if a \<le> 168 then 144 + (a - 145)
      else 168 + (176 - a))"

lemma u8_cases_upto:
  fixes d :: u8
  assumes "lo \<le> unat d" "unat d < hi"
  shows "d \<in> set (map word_of_nat [lo..<hi])"
proof -
  have "d = word_of_nat (unat d)" by simp
  with assms show ?thesis by (auto intro!: image_eqI [where x = "unat d"])
qed

lemma bkd_range: "1 \<le> unat d \<Longrightarrow> unat d \<le> 12 \<Longrightarrow> d \<in> {1, 2, 3, 4, 5, 6, 7, 8, 9, 10, 11, 12 :: u8}"
  using u8_cases_upto [of 1 d 13] by (simp add: upt_rec)

lemma bkho_range:
  "145 \<le> unat d \<Longrightarrow> unat d \<le> 168 \<Longrightarrow> d \<in> {145, 146, 147, 148, 149, 150, 151, 152, 153, 154, 155, 156,
      157, 158, 159, 160, 161, 162, 163, 164, 165, 166, 167, 168 :: u8}"
  using u8_cases_upto [of 145 d 169] by (simp add: upt_rec)

lemma servo_range:
  "169 \<le> unat d \<Longrightarrow> unat d \<le> 176 \<Longrightarrow> d \<in> {169, 170, 171, 172, 173, 174, 175, 176 :: u8}"
  using u8_cases_upto [of 169 d 177] by (simp add: upt_rec)

lemma clear_BKD_fields:
  assumes "1 \<le> unat d" "unat d \<le> 12"
  shows "bkd_fields (clear_BKD d b h) = (bkd_fields h)[unat d - 1 :=
      (bkd_fields h ! (unat d - 1)) AND NOT (push_bit (unat b) 1)]"
    and "bkho_fields (clear_BKD d b h) = bkho_fields h"
    and "servo_fields (clear_BKD d b h) = servo_fields h"
  using bkd_range [OF assms] by (auto simp: clear_BKD_def adr_devices Let_def)

lemma clear_BKHO_A_fields:
  assumes "145 \<le> unat d" "unat d \<le> 168"
  shows "bkho_fields (clear_BKHO_A d h) = (bkho_fields h)[unat d - 145 := (bkho_fields h ! (unat d - 145)) AND NOT 1]"
    and "bkd_fields (clear_BKHO_A d h) = bkd_fields h"
    and "servo_fields (clear_BKHO_A d h) = servo_fields h"
  using bkho_range [OF assms] by (auto simp: clear_BKHO_A_def adr_devices)

lemma clear_OUT_SERVO_fields:
  assumes "169 \<le> unat d" "unat d \<le> 176"
  shows "servo_fields (clear_OUT_SERVO d h) = (servo_fields h)[176 - unat d := (servo_fields h ! (176 - unat d)) AND NOT 1]"
    and "bkd_fields (clear_OUT_SERVO d h) = bkd_fields h"
    and "bkho_fields (clear_OUT_SERVO d h) = bkho_fields h"
  using servo_range [OF assms] by (auto simp: clear_OUT_SERVO_def adr_devices)

lemma bit_not_push: "m < 12 \<Longrightarrow> bit (w AND NOT (2 ^ b)) m \<longleftrightarrow> bit w m \<and> m \<noteq> b" for w :: "12 word"
  by (auto simp: bit_and_iff bit_not_iff bit_exp_iff)

lemma pos12: "b < 12 \<Longrightarrow> i < 12 \<Longrightarrow> n = 12 * i + b \<longleftrightarrow> n < 144 \<and> n div 12 = i \<and> n mod 12 = (b :: nat)"
  by auto

lemma clear_BKD_bit:
  assumes "1 \<le> unat d" "unat d \<le> 12" "unat b < 12"
  shows "health_bit (clear_BKD d b h) n \<longleftrightarrow> health_bit h n \<and> n \<noteq> 12 * (unat d - 1) + unat b"
proof -
  have i: "unat d - 1 < 12" using assms by simp
  show ?thesis
    unfolding health_bit_bkd [OF clear_BKD_fields [OF assms(1,2)] i] pos12 [OF assms(3) i]
    by (auto simp: bit_not_push health_bit_def)
qed

lemma clear_BKHO_A_bit:
  assumes "145 \<le> unat d" "unat d \<le> 168"
  shows "health_bit (clear_BKHO_A d h) n \<longleftrightarrow> health_bit h n \<and> n \<noteq> 144 + (unat d - 145)"
proof -
  have i: "unat d - 145 < 24" using assms by simp
  show ?thesis
    unfolding health_bit_bkho [OF clear_BKHO_A_fields [OF assms] i]
    using i by (auto simp: bit_and_iff bit_not_iff bit_1_iff)
qed

lemma clear_OUT_SERVO_bit:
  assumes "169 \<le> unat d" "unat d \<le> 176"
  shows "health_bit (clear_OUT_SERVO d h) n \<longleftrightarrow> health_bit h n \<and> n \<noteq> 168 + (176 - unat d)"
proof -
  have i: "176 - unat d < 8" using assms by simp
  show ?thesis
    unfolding health_bit_servo [OF clear_OUT_SERVO_fields [OF assms] i]
    using i by (auto simp: bit_and_iff bit_not_iff bit_1_iff)
qed

lemma clear_outside:
  "unat d < 145 \<Longrightarrow> clear_BKHO_A d h = h" "unat e < 169 \<Longrightarrow> clear_OUT_SERVO e h = h"
proof -
  have ne: "unat d < k \<Longrightarrow> k \<le> unat w \<Longrightarrow> (d = w) = False" for d w :: u8 and k by auto
  show "unat d < 145 \<Longrightarrow> clear_BKHO_A d h = h"
    by (simp add: clear_BKHO_A_def adr_devices ne)
  show "unat e < 169 \<Longrightarrow> clear_OUT_SERVO e h = h"
    by (simp add: clear_OUT_SERVO_def adr_devices ne)
qed

text \<open>A tick addresses a device; in the run-in of the two outer counters the slot addresses none of its own.\<close>

definition polls_device :: "app \<Rightarrow> bool" where
  "polls_device t \<longleftrightarrow> current_BKD t < 12 \<or> current_BKD t = 12 \<and> 145 \<le> unat (current_device_in_BKHO_A t)
     \<or> current_BKD t = 13 \<and> 169 \<le> unat (current_device_in_OUT_SERVO t)"

lemma unat_polled_address:
  assumes "app_wf t"
  shows "unat (polled_address t) =
    (if current_BKD t < 12 then unat (current_device_in_BKDx t) + 12 * unat (current_BKD t)
     else if current_BKD t = 12 then unat (current_device_in_BKHO_A t)
     else unat (current_device_in_OUT_SERVO t))"
proof -
  have "unat (current_device_in_BKDx t) + unat (current_BKD t) * 12 < 256" if "unat (current_BKD t) < 12"
    using assms that by (simp add: app_wf_unat)
  then show ?thesis
    by (simp add: polled_address_def u8_le_unat unat_word_ariths mult.commute)
qed

lemma health_pos_bkd: "1 \<le> d \<Longrightarrow> d \<le> 12 \<Longrightarrow> b < 12 \<Longrightarrow> health_pos (d + 12 * b) = 12 * (d - 1) + b"
proof -
  assume h: "1 \<le> d" "d \<le> 12" "b < 12"
  then have e: "d + 12 * b - 1 = (d - 1) + b * 12" by simp
  have "(d + 12 * b - 1) mod 12 = d - 1" "(d + 12 * b - 1) div 12 = b"
    unfolding e using h by (simp_all only: mod_mult_self1 div_mult_self1) simp_all
  then show ?thesis using h by (simp add: health_pos_def)
qed

lemma clear_polled_bit:
  assumes "app_wf t"
  shows "health_bit (clear_polled t h) n \<longleftrightarrow>
    health_bit h n \<and> \<not> (polls_device t \<and> n = health_pos (unat (polled_address t)))"
proof -
  have w: "1 \<le> unat (current_device_in_BKDx t)" "unat (current_device_in_BKDx t) \<le> 12"
    "unat (current_device_in_BKHO_A t) \<le> 168" "unat (current_device_in_OUT_SERVO t) \<le> 176"
    "unat (current_BKD t) \<le> 13"
    using assms by (simp_all add: app_wf_unat)
  consider (a) "current_BKD t < 12" | (b) "current_BKD t = 12" | (c) "current_BKD t = 13"
    using w(5) by (simp add: u8_le_unat u8_eq_unat) linarith
  then show ?thesis
  proof cases
    case a
    then have b: "unat (current_BKD t) < 12" by (simp add: u8_le_unat)
    show ?thesis
      using a clear_BKD_bit [OF w(1,2) b, of h n] health_pos_bkd [OF w(1,2) b] unat_polled_address [OF assms]
      by (simp add: clear_polled_def polls_device_def)
  next
    case b
    show ?thesis
    proof (cases "145 \<le> unat (current_device_in_BKHO_A t)")
      case True
      then show ?thesis
        using b w(3) clear_BKHO_A_bit [OF True w(3), of h n] unat_polled_address [OF assms]
        by (simp add: clear_polled_def polls_device_def health_pos_def)
    next
      case False
      then show ?thesis using b by (simp add: clear_polled_def polls_device_def clear_outside)
    qed
  next
    case c
    show ?thesis
    proof (cases "169 \<le> unat (current_device_in_OUT_SERVO t)")
      case True
      then show ?thesis
        using c w(4) clear_OUT_SERVO_bit [OF True w(4), of h n] unat_polled_address [OF assms]
        by (simp add: clear_polled_def polls_device_def health_pos_def)
    next
      case False
      then show ?thesis using c by (simp add: clear_polled_def polls_device_def clear_outside)
    qed
  qed
qed

section \<open>Many ticks\<close>

text \<open>The state after \<open>n\<close> polls with no other event in between.\<close>

primrec qwerty_run :: "nat \<Rightarrow> app \<Rightarrow> app res" where
  "qwerty_run 0 s = Inr s"
| "qwerty_run (Suc n) s = bind_res (qwerty_run n s) Qwerty_all_Device"

text \<open>The place in the cycle of 14 slots and 12 devices.\<close>

definition cycle_index :: "app \<Rightarrow> nat" where
  "cycle_index s = 14 * (unat (current_device_in_BKDx s) - 1) + unat (current_BKD s)"

lemma cycle_index_less: "app_wf s \<Longrightarrow> cycle_index s < 168"
  by (simp add: cycle_index_def app_wf_unat) linarith

lemma cycle_index_split:
  assumes "app_wf s"
  shows "unat (current_BKD s) = cycle_index s mod 14"
    and "unat (current_device_in_BKDx s) = cycle_index s div 14 + 1"
  using assms by (simp_all add: cycle_index_def app_wf_unat)

lemma poll_counters:
  assumes "app_wf s"
  shows "unat (current_BKD (poll_state s)) = (if unat (current_BKD s) = 13 then 0 else unat (current_BKD s) + 1)"
    and "current_device_in_BKDx (poll_state s) =
      (if unat (current_BKD s) = 13 then next_BKDx (current_device_in_BKDx s) else current_device_in_BKDx s)"
    and "current_device_in_BKHO_A (poll_state s) =
      (if unat (current_BKD s) = 11 then next_BKHO_A (current_device_in_BKHO_A s) else current_device_in_BKHO_A s)"
    and "current_device_in_OUT_SERVO (poll_state s) =
      (if unat (current_BKD s) = 12 then next_OUT_SERVO (current_device_in_OUT_SERVO s)
       else current_device_in_OUT_SERVO s)"
proof -
  have c: "unat (current_BKD s) \<le> 13" using assms by (simp add: app_wf_unat)
  then have n: "unat (next_BKD (current_BKD s)) = (if unat (current_BKD s) = 13 then 0 else unat (current_BKD s) + 1)"
    using bkd.nxt [of "current_BKD s"] by simp
  have g: "current_BKD s + 1 > IN_TOTAL_BKD + 1 \<longleftrightarrow> unat (current_BKD s) = 13"
    using c by (auto simp: IN_TOTAL_BKD_def u8_le_unat unat_word_ariths)
  show "unat (current_BKD (poll_state s)) = (if unat (current_BKD s) = 13 then 0 else unat (current_BKD s) + 1)"
    using n by (simp add: poll_state_def Let_def)
  show "current_device_in_BKDx (poll_state s) =
      (if unat (current_BKD s) = 13 then next_BKDx (current_device_in_BKDx s) else current_device_in_BKDx s)"
    using g by (simp add: poll_state_def Let_def Qwerty_advance_def)
  show "current_device_in_BKHO_A (poll_state s) =
      (if unat (current_BKD s) = 11 then next_BKHO_A (current_device_in_BKHO_A s) else current_device_in_BKHO_A s)"
    and "current_device_in_OUT_SERVO (poll_state s) =
      (if unat (current_BKD s) = 12 then next_OUT_SERVO (current_device_in_OUT_SERVO s)
       else current_device_in_OUT_SERVO s)"
    using n c by (auto simp: poll_state_def Let_def tick_counters_def u8_le_unat u8_eq_unat split: if_splits)
qed

lemma cycle_index_poll:
  assumes "app_wf s"
  shows "cycle_index (poll_state s) = (cycle_index s + 1) mod 168"
proof -
  have w: "1 \<le> unat (current_device_in_BKDx s)" "unat (current_device_in_BKDx s) \<le> 12" "unat (current_BKD s) \<le> 13"
    using assms by (simp_all add: app_wf_unat)
  then show ?thesis
    using bkdx.nxt [OF w(2)] by (auto simp: cycle_index_def poll_counters [OF assms] mod_if)
qed

text \<open>How often the two outer slots come up in \<open>n\<close> ticks.\<close>

definition bkho_slots :: "app \<Rightarrow> nat \<Rightarrow> nat" where
  "bkho_slots s n = (unat (current_BKD s) + n + 2) div 14 - (unat (current_BKD s) + 2) div 14"

definition servo_slots :: "app \<Rightarrow> nat \<Rightarrow> nat" where
  "servo_slots s n = (unat (current_BKD s) + n + 1) div 14 - (unat (current_BKD s) + 1) div 14"

lemma slot_count_Suc:
  "(c + Suc n + k) div 14 - x = (if (c + n + k) mod 14 = 13 then Suc ((c + n + k) div 14 - x) else (c + n + k) div 14 - x)"
  if "x \<le> (c + n + k) div 14" for c n k x :: nat
  using that by (simp add: div_Suc mod_Suc Suc_diff_le)

lemma mod14:
  "x mod 14 = 11 \<longleftrightarrow> (x + 2) mod 14 = 13" "x mod 14 = 12 \<longleftrightarrow> (x + 1) mod 14 = (13 :: nat)"
proof -
  have e: "(x + 2) mod 14 = (x mod 14 + 2) mod 14" "(x + 1) mod 14 = (x mod 14 + 1) mod 14"
    by (simp_all only: mod_add_left_eq)
  define y where "y = x mod 14"
  have "y < 14" by (simp add: y_def)
  then have "y + 2 < 14 \<or> y = 12 \<or> y = 13" by linarith
  then have "(y = 11) = ((y + 2) mod 14 = 13)" "(y = 12) = ((y + 1) mod 14 = 13)" by auto
  then show "x mod 14 = 11 \<longleftrightarrow> (x + 2) mod 14 = 13" "x mod 14 = 12 \<longleftrightarrow> (x + 1) mod 14 = 13"
    unfolding e y_def .
qed

lemma qwerty_run_ok:
  assumes "app_wf s"
  shows "\<exists>t. qwerty_run n s = Inr t \<and> app_wf t \<and> cycle_index t = (cycle_index s + n) mod 168
    \<and> current_device_in_BKHO_A t = (next_BKHO_A ^^ bkho_slots s n) (current_device_in_BKHO_A s)
    \<and> current_device_in_OUT_SERVO t = (next_OUT_SERVO ^^ servo_slots s n) (current_device_in_OUT_SERVO s)"
proof (induction n)
  case 0
  then show ?case using assms cycle_index_less [OF assms] by (simp add: bkho_slots_def servo_slots_def)
next
  case (Suc n)
  let ?c = "unat (current_BKD s)"
  from Suc.IH obtain t where t: "qwerty_run n s = Inr t" "app_wf t" "cycle_index t = (cycle_index s + n) mod 168"
    "current_device_in_BKHO_A t = (next_BKHO_A ^^ bkho_slots s n) (current_device_in_BKHO_A s)"
    "current_device_in_OUT_SERVO t = (next_OUT_SERVO ^^ servo_slots s n) (current_device_in_OUT_SERVO s)"
    by blast
  have "unat (current_BKD t) = (cycle_index s + n) mod 168 mod 14"
    using cycle_index_split(1) [OF t(2)] t(3) by simp
  also have "\<dots> = (cycle_index s + n) mod 14"
    by (rule mod_mod_cancel) simp
  also have "\<dots> = (?c + n) mod 14"
    using cycle_index_split(1) [OF assms] by (simp add: mod_add_left_eq)
  finally have c: "unat (current_BKD t) = (?c + n) mod 14" .
  have h: "(?c + n) mod 14 = 11 \<longleftrightarrow> (?c + n + 2) mod 14 = 13" "(?c + n) mod 14 = 12 \<longleftrightarrow> (?c + n + 1) mod 14 = 13"
    by (rule mod14)+
  have b: "bkho_slots s (Suc n) = (if (?c + n) mod 14 = 11 then Suc (bkho_slots s n) else bkho_slots s n)"
    unfolding bkho_slots_def h using slot_count_Suc [of "(?c + 2) div 14" ?c n 2] by (simp add: div_le_mono)
  have v: "servo_slots s (Suc n) = (if (?c + n) mod 14 = 12 then Suc (servo_slots s n) else servo_slots s n)"
    unfolding servo_slots_def h using slot_count_Suc [of "(?c + 1) div 14" ?c n 1] by (simp add: div_le_mono)
  let ?u = "Qwerty_transmit USART5 (poll_state t)"
  have "cycle_index ?u = (cycle_index s + Suc n) mod 168"
    using cycle_index_poll [OF t(2)] t(3) by (simp add: cycle_index_def mod_Suc_eq)
  then show ?case
    using t poll_state_wf [OF t(2)] poll_counters(3,4) [OF t(2)]
    by (simp add: Qwerty_eq b v c)
qed

section \<open>Properties of the poll\<close>

lemma transmit_regs:
  "reg_rd (DMA_CHM0ADDR DMA1 6) (regs (Qwerty_transmit USART5 s)) = message_address s"
  "reg_rd (DMA_CHCNT DMA1 6) (regs (Qwerty_transmit USART5 s)) = 20"
  "bit (reg_rd (DMA_CHCTL DMA1 6) (regs (Qwerty_transmit USART5 s))) 0"
  "reg_rd (GPIO_BOP GPIOC) (regs (Qwerty_transmit USART5 s)) = GPIO_PIN 8"
  "usart5_transmit (Qwerty_transmit USART5 s) = 1"
  by (simp_all add: Qwerty_transmit_def Let_def USART0_def USART5_def USART5_TX_def gpio_bit_set_def
      dma_ops dma_regs gpio_regs gpio_ports DMA_MEMORY_0_def DMA_CHXCTL_CHEN_def bit_or_iff
      USART_BUFFER_TX_SIZE_YLS_def)

lemma poll_row:
  assumes "app_wf s"
  defines "t \<equiv> Qwerty_transmit USART5 (poll_state s)"
  shows "message_from_BKD t ! unat (current_BKD t)
      = addressed_frame (polled_address t) (message_from_BKD s ! unat (current_BKD t))"
    and "i \<noteq> unat (current_BKD t) \<Longrightarrow> message_from_BKD t ! i = message_from_BKD s ! i"
    and "length (message_from_BKD s ! unat (current_BKD t)) = 20"
proof -
  define u where "u = tick_counters s"
  have u: "app_wf u" unfolding u_def by (rule tick_counters_wf [OF assms(1)])
  have r: "rows_wf (message_from_BKD s)" "unat (current_BKD u) < 14" "length (message_from_BKD s) = 14"
    using u assms(1) by (simp_all add: app_wf_unat rows_wf_def)
  have pa: "polled_address t = polled_address u" "current_BKD t = current_BKD u"
    by (simp_all add: t_def u_def poll_state_def Let_def polled_address_def)
  have m: "message_from_BKD t = (message_from_BKD s)[unat (current_BKD u) :=
      addressed_frame (polled_address u) (message_from_BKD s ! unat (current_BKD u))]"
    by (simp add: t_def u_def poll_state_def Let_def)
  show "message_from_BKD t ! unat (current_BKD t)
      = addressed_frame (polled_address t) (message_from_BKD s ! unat (current_BKD t))"
    unfolding m pa using r by simp
  show "i \<noteq> unat (current_BKD t) \<Longrightarrow> message_from_BKD t ! i = message_from_BKD s ! i"
    unfolding m pa by simp
  show "length (message_from_BKD s ! unat (current_BKD t)) = 20"
    unfolding pa using rows_wf_nth [OF r(1,2)] .
qed

lemma frame_residue:
  assumes "length f = 20" "f ! 19 = crc8_ref (take 19 f)"
  shows "crc_run poly_step 0xFF f = 0"
proof -
  have "f = take 19 f @ [f ! 19]"
    using assms(1) take_Suc_conv_app_nth [of 19 f] by simp
  then show ?thesis
    using crc8.crc_run_residue [of "0xFF" "take 19 f" "f ! 19"] assms(2) by (simp add: crc8_ref_def)
qed

text \<open>
  C1: one run of \<^verbatim>\<open>Qwerty_all_Device\<close> always succeeds and keeps the state well formed.
  It leaves in the polled row a 20-byte frame that starts with the polled address and whose
  checksum closes the CRC (the remainder over all 20 bytes is 0), changes nothing else in that
  row between bytes 1 and 18 and no other row, points DMA1 channel 6 at that row with a count of
  20 and starts it, with the direction pin of the RS-485 driver set and the transmit flag raised.
\<close>

theorem poll_frame:
  assumes "app_wf s"
  shows "\<exists>t. Qwerty_all_Device s = Inr t \<and> app_wf t
    \<and> (let b = unat (current_BKD t); f = message_from_BKD t ! b in
         length f = 20 \<and> f ! 0 = polled_address t \<and> crc_run poly_step 0xFF f = 0
         \<and> (\<forall>j. 0 < j \<and> j < 19 \<longrightarrow> f ! j = message_from_BKD s ! b ! j)
         \<and> (\<forall>i. i \<noteq> b \<longrightarrow> message_from_BKD t ! i = message_from_BKD s ! i))
    \<and> reg_rd (DMA_CHM0ADDR DMA1 6) (regs t) = message_base t + 20 * ucast (current_BKD t)
    \<and> reg_rd (DMA_CHCNT DMA1 6) (regs t) = 20
    \<and> bit (reg_rd (DMA_CHCTL DMA1 6) (regs t)) 0
    \<and> reg_rd (GPIO_BOP GPIOC) (regs t) = GPIO_PIN 8 \<and> usart5_transmit t = 1"
proof -
  let ?t = "Qwerty_transmit USART5 (poll_state s)"
  let ?f = "message_from_BKD ?t ! unat (current_BKD ?t)"
  note row = poll_row [OF assms]
  have len: "length ?f = 20" using row(1,3) by simp
  have "?f ! 19 = crc8_ref (take 19 ?f)" "?f ! 0 = polled_address ?t"
    "\<forall>j. 0 < j \<and> j < 19 \<longrightarrow> ?f ! j = message_from_BKD s ! unat (current_BKD ?t) ! j"
    using row(1) addressed_frame_nth [OF row(3)] by auto
  moreover from this(1) have "crc_run poly_step 0xFF ?f = 0" by (rule frame_residue [OF len])
  moreover have "message_address (poll_state s) = message_base ?t + 20 * ucast (current_BKD ?t)"
    by (simp add: message_address_def USART_BUFFER_TX_SIZE_YLS_def)
  ultimately show ?thesis
    using len row(2) poll_state_wf [OF assms] transmit_regs
    by (intro exI [of _ ?t]) (simp add: Qwerty_eq [OF assms] Let_def)
qed

theorem poll_frame_witness:
  "\<exists>t. Qwerty_all_Device (app_init (\<lambda>_. 0) 0x20000000) = Inr t \<and> app_wf t"
  using poll_frame [OF app_init_wf, of "\<lambda>_. 0" "0x20000000"] by blast

lemma poll_packs:
  assumes "app_wf s" and "Qwerty_all_Device s = Inr t"
  shows "YLSToYVPack t = (YLSToYVPack s)[unat (current_tick_tx_eth s) :=
      health_abonent_update (clear_polled t) (YLSToYVPack s ! unat (current_tick_tx_eth s))]"
    and "app_wf t"
  using assms poll_state_wf [OF assms(1)]
  by (auto simp: Qwerty_eq poll_state_def Let_def clear_polled_def)

text \<open>
  C12: a poll clears the health bit of the device it addresses, at the position the packed map
  gives it, and no other bit of the map, in the packet that is being filled; the data bytes of
  that packet and the other packet are not touched.
\<close>

theorem poll_health:
  assumes "app_wf s" and "Qwerty_all_Device s = Inr t" and "k = unat (current_tick_tx_eth s)"
  shows "(\<forall>n. health_bit (health_abonent (YLSToYVPack t ! k)) n \<longleftrightarrow>
        health_bit (health_abonent (YLSToYVPack s ! k)) n
        \<and> \<not> (polls_device t \<and> n = health_pos (unat (polled_address t))))
    \<and> rest (YLSToYVPack t ! k) = rest (YLSToYVPack s ! k)
    \<and> YLSToYVPack t ! (1 - k) = YLSToYVPack s ! (1 - k)"
proof -
  note packs = poll_packs [OF assms(1,2), folded assms(3)]
  have k: "k < 2" using tick_cases [OF assms(1)] assms(3) by simp
  then have "k < length (YLSToYVPack s)" using assms(1) by (simp add: app_wf_def packs_wf_def)
  moreover have "1 - k \<noteq> k" by arith
  ultimately show ?thesis
    using clear_polled_bit [OF packs(2)] by (simp add: packs(1))
qed

theorem poll_health_witness:
  "\<exists>t. Qwerty_all_Device (app_init (\<lambda>_. 0) 0) = Inr t
     \<and> rest (YLSToYVPack t ! 0) = rest (YLSToYVPack (app_init (\<lambda>_. 0) 0) ! 0)"
proof -
  let ?s = "app_init (\<lambda>_. 0) 0"
  have q: "Qwerty_all_Device ?s = Inr (Qwerty_transmit USART5 (poll_state ?s))"
    by (rule Qwerty_eq [OF app_init_wf])
  have k: "0 = unat (current_tick_tx_eth ?s)" by (simp add: app_init_def)
  from poll_health [OF app_init_wf q k] q show ?thesis by blast
qed

text \<open>
  C8: no BKD device starves. From any well-formed state, each of the 144 addresses
  \<open>device + 12 * block\<close> is polled at least once within one cycle of 168 ticks.
\<close>

theorem bkd_polled_within_cycle:
  assumes "app_wf s" "1 \<le> d" "d \<le> 12" "b < 12"
  shows "\<exists>n t. 0 < n \<and> n \<le> 168 \<and> qwerty_run n s = Inr t \<and> unat (current_BKD t) = b
    \<and> unat (polled_address t) = d + 12 * b"
proof -
  let ?x = "cycle_index s"
  define v where "v = 14 * (d - 1) + b"
  have v: "v < 168" "v mod 14 = b" "v div 14 = d - 1" using assms by (simp_all add: v_def)
  have x: "?x < 168" by (rule cycle_index_less [OF assms(1)])
  define n where "n = (if ?x < v then v - ?x else v + 168 - ?x)"
  have n: "0 < n" "n \<le> 168" "(?x + n) mod 168 = v" using x v(1) by (auto simp: n_def)
  obtain t where t: "qwerty_run n s = Inr t" "app_wf t" "cycle_index t = v"
    using qwerty_run_ok [OF assms(1), of n] n(3) by auto
  have "unat (current_BKD t) = b" "unat (current_device_in_BKDx t) = d"
    using cycle_index_split [OF t(2)] t(3) v assms(2) by simp_all
  then have "unat (polled_address t) = d + 12 * b"
    using unat_polled_address [OF t(2)] assms(4) by (simp add: u8_le_unat)
  with n t \<open>unat (current_BKD t) = b\<close> show ?thesis by blast
qed

theorem bkd_polled_within_cycle_witness:
  "\<exists>n t. 0 < n \<and> n \<le> 168 \<and> qwerty_run n (app_init (\<lambda>_. 0) 0) = Inr t \<and> unat (current_BKD t) = 4
    \<and> unat (polled_address t) = 7 + 12 * 4"
  using bkd_polled_within_cycle [OF app_init_wf, of 7 4 "\<lambda>_. 0" 0] by simp

lemma slot_pick:
  fixes c k e :: nat
  assumes "0 < k" "0 < e" "e \<le> 14"
  shows "0 < 14 * k - (c + e) mod 14" "(c + (14 * k - (c + e) mod 14)) mod 14 = 14 - e"
    "(c + (14 * k - (c + e) mod 14) + e) div 14 - (c + e) div 14 = k"
proof -
  define q where "q = (c + e) div 14"
  define r where "r = (c + e) mod 14"
  have c: "c + e = 14 * q + r" "r < 14" by (simp_all add: q_def r_def)
  obtain j where j: "k = Suc j" using assms(1) by (cases k) auto
  have n: "c + (14 * k - r) + e = 14 * (q + k)" using c assms(1) by simp
  then have "c + (14 * k - r) = 14 - e + (q + j) * 14" using assms j by (simp add: algebra_simps)
  then have "(c + (14 * k - r)) mod 14 = (14 - e) mod 14" by (simp only: mod_mult_self1)
  also have "\<dots> = 14 - e" using assms by simp
  finally show "(c + (14 * k - (c + e) mod 14)) mod 14 = 14 - e" by (simp add: r_def)
  show "0 < 14 * k - (c + e) mod 14" using c(2) assms(1) by (simp flip: r_def)
  show "(c + (14 * k - (c + e) mod 14) + e) div 14 - (c + e) div 14 = k"
    using n by (simp flip: r_def q_def)
qed

lemma run_slot:
  assumes "app_wf s" "app_wf t" "cycle_index t = (cycle_index s + n) mod 168"
  shows "unat (current_BKD t) = (unat (current_BKD s) + n) mod 14"
  using cycle_index_split(1) [OF assms(2)] cycle_index_split(1) [OF assms(1)] assms(3)
  by (simp add: mod_mod_cancel mod_add_left_eq)

lemma bkho_polled:
  assumes "app_wf s" "145 \<le> unat (current_device_in_BKHO_A s)" "145 \<le> v" "v \<le> 168"
  shows "\<exists>n t. 0 < n \<and> n \<le> 336 \<and> qwerty_run n s = Inr t \<and> current_BKD t = 12 \<and> unat (polled_address t) = v"
proof -
  let ?c = "unat (current_BKD s)"
  have "unat (current_device_in_BKHO_A s) \<le> 168" using assms by (simp add: app_wf_unat)
  then obtain k where k: "0 < k" "k \<le> 24" "unat ((next_BKHO_A ^^ k) (current_device_in_BKHO_A s)) = v"
    using bkho.revolution [of "current_device_in_BKHO_A s" v] assms by auto
  define n where "n = 14 * k - (?c + 2) mod 14"
  obtain t where t: "qwerty_run n s = Inr t" "app_wf t" "cycle_index t = (cycle_index s + n) mod 168"
    "current_device_in_BKHO_A t = (next_BKHO_A ^^ bkho_slots s n) (current_device_in_BKHO_A s)"
    using qwerty_run_ok [OF assms(1), of n] by blast
  have "bkho_slots s n = k" "unat (current_BKD t) = 12" "0 < n"
    using slot_pick [OF k(1), of 2 ?c] run_slot [OF assms(1) t(2,3)] by (simp_all add: bkho_slots_def n_def)
  then have "current_BKD t = 12" "unat (polled_address t) = v"
    using unat_polled_address [OF t(2)] t(4) k(3) by (simp_all add: u8_eq_unat u8_le_unat)
  moreover have "n \<le> 336" using k(2) by (simp add: n_def)
  ultimately show ?thesis using t(1) \<open>0 < n\<close> by blast
qed

lemma servo_polled:
  assumes "app_wf s" "169 \<le> unat (current_device_in_OUT_SERVO s)" "169 \<le> v" "v \<le> 176"
  shows "\<exists>n t. 0 < n \<and> n \<le> 112 \<and> qwerty_run n s = Inr t \<and> current_BKD t = 13 \<and> unat (polled_address t) = v"
proof -
  let ?c = "unat (current_BKD s)"
  have "unat (current_device_in_OUT_SERVO s) \<le> 176" using assms by (simp add: app_wf_unat)
  then obtain k where k: "0 < k" "k \<le> 8" "unat ((next_OUT_SERVO ^^ k) (current_device_in_OUT_SERVO s)) = v"
    using servo.revolution [of "current_device_in_OUT_SERVO s" v] assms by auto
  define n where "n = 14 * k - (?c + 1) mod 14"
  obtain t where t: "qwerty_run n s = Inr t" "app_wf t" "cycle_index t = (cycle_index s + n) mod 168"
    "current_device_in_OUT_SERVO t = (next_OUT_SERVO ^^ servo_slots s n) (current_device_in_OUT_SERVO s)"
    using qwerty_run_ok [OF assms(1), of n] by blast
  have "servo_slots s n = k" "unat (current_BKD t) = 13" "0 < n"
    using slot_pick [OF k(1), of 1 ?c] run_slot [OF assms(1) t(2,3)] by (simp_all add: servo_slots_def n_def)
  then have "current_BKD t = 13" "unat (polled_address t) = v"
    using unat_polled_address [OF t(2)] t(4) k(3) by (simp_all add: u8_eq_unat u8_le_unat)
  moreover have "n \<le> 112" using k(2) by (simp add: n_def)
  ultimately show ?thesis using t(1) \<open>0 < n\<close> by blast
qed

text \<open>
  C13: once the counters of the two outer slots are in their address windows, every BKHO-A address
  145 to 168 is polled within 336 ticks and every external servo 169 to 176 within 112 ticks.
\<close>

theorem outer_polled_within_cycle:
  assumes "app_wf s" "145 \<le> unat (current_device_in_BKHO_A s)" "169 \<le> unat (current_device_in_OUT_SERVO s)"
    and "145 \<le> v" "v \<le> 176"
  shows "\<exists>n t. 0 < n \<and> n \<le> (if v \<le> 168 then 336 else 112) \<and> qwerty_run n s = Inr t
    \<and> current_BKD t = (if v \<le> 168 then 12 else 13) \<and> unat (polled_address t) = v"
  using bkho_polled [OF assms(1,2,4)] servo_polled [OF assms(1,3) _ assms(5)] by (cases "v \<le> 168") auto

theorem outer_polled_within_cycle_witness:
  "\<exists>n t. 0 < n \<and> n \<le> 112
    \<and> qwerty_run n ((app_init (\<lambda>_. 0) 0)\<lparr> current_device_in_BKHO_A := 145, current_device_in_OUT_SERVO := 170 \<rparr>) = Inr t
    \<and> current_BKD t = 13 \<and> unat (polled_address t) = 169"
proof -
  let ?s = "(app_init (\<lambda>_. 0) 0)\<lparr> current_device_in_BKHO_A := 145, current_device_in_OUT_SERVO := 170 \<rparr>"
  have "app_wf ?s" using app_init_wf [of "\<lambda>_. 0" 0] by (simp add: app_wf_unat)
  from outer_polled_within_cycle [OF this, of 169] show ?thesis by simp
qed

lemma bkho_run_in:
  assumes "1 \<le> k" "k \<le> 144"
  shows "\<exists>t. qwerty_run (14 * k - 2) (app_init m base) = Inr t \<and> current_BKD t = 12
      \<and> unat (polled_address t) = k + 1 \<and> (polls_device t \<longleftrightarrow> k = 144)"
proof -
  let ?s = "app_init m base"
  have i: "current_BKD ?s = 0" "current_device_in_BKHO_A ?s = 1" by (simp_all add: app_init_def)
  obtain t where t: "qwerty_run (14 * k - 2) ?s = Inr t" "app_wf t"
    "cycle_index t = (cycle_index ?s + (14 * k - 2)) mod 168"
    "current_device_in_BKHO_A t = (next_BKHO_A ^^ bkho_slots ?s (14 * k - 2)) (current_device_in_BKHO_A ?s)"
    using qwerty_run_ok [OF app_init_wf, of "14 * k - 2" m base] by blast
  have "bkho_slots ?s (14 * k - 2) = k" "unat (current_BKD t) = 12"
    using run_slot [OF app_init_wf t(2,3)] slot_pick [of k 2 0] assms
    by (simp_all add: bkho_slots_def i numeral_2_eq_2)
  then have "unat (current_device_in_BKHO_A t) = k + 1" "current_BKD t = 12"
    using t(4) bkho.run_in [of 1 k] assms by (simp_all add: i u8_eq_unat)
  then show ?thesis
    using t(1) unat_polled_address [OF t(2)] assms by (auto simp: polls_device_def)
qed

lemma servo_run_in:
  assumes "1 \<le> k" "k \<le> 168"
  shows "\<exists>t. qwerty_run (14 * k - 1) (app_init m base) = Inr t \<and> current_BKD t = 13
      \<and> unat (polled_address t) = k + 1 \<and> (polls_device t \<longleftrightarrow> k = 168)"
proof -
  let ?s = "app_init m base"
  have i: "current_BKD ?s = 0" "current_device_in_OUT_SERVO ?s = 1" by (simp_all add: app_init_def)
  obtain t where t: "qwerty_run (14 * k - 1) ?s = Inr t" "app_wf t"
    "cycle_index t = (cycle_index ?s + (14 * k - 1)) mod 168"
    "current_device_in_OUT_SERVO t = (next_OUT_SERVO ^^ servo_slots ?s (14 * k - 1)) (current_device_in_OUT_SERVO ?s)"
    using qwerty_run_ok [OF app_init_wf, of "14 * k - 1" m base] by blast
  have "servo_slots ?s (14 * k - 1) = k" "unat (current_BKD t) = 13"
    using run_slot [OF app_init_wf t(2,3)] slot_pick [of k 1 0] assms by (simp_all add: servo_slots_def i)
  then have "unat (current_device_in_OUT_SERVO t) = k + 1" "current_BKD t = 13"
    using t(4) servo.run_in [of 1 k] assms by (simp_all add: i u8_eq_unat)
  then show ?thesis
    using t(1) unat_polled_address [OF t(2)] assms by (auto simp: polls_device_def)
qed

text \<open>
  Both outer counters are initialised to 1, not to the start of their address windows. From
  power-up the BKHO-A slot therefore sends the addresses 2 to 144, which belong to BKD devices,
  in its first 143 turns, and reaches address 145 only in turn 144; the servo slot first reaches
  169 in turn 168.
\<close>

theorem outer_run_in:
  assumes "1 \<le> k"
  shows "(k \<le> 144 \<longrightarrow> (\<exists>t. qwerty_run (14 * k - 2) (app_init m base) = Inr t \<and> current_BKD t = 12
      \<and> unat (polled_address t) = k + 1 \<and> (polls_device t \<longleftrightarrow> k = 144)))
    \<and> (k \<le> 168 \<longrightarrow> (\<exists>t. qwerty_run (14 * k - 1) (app_init m base) = Inr t \<and> current_BKD t = 13
      \<and> unat (polled_address t) = k + 1 \<and> (polls_device t \<longleftrightarrow> k = 168)))"
  using bkho_run_in [OF assms] servo_run_in [OF assms] by blast

theorem outer_run_in_witness:
  "\<exists>t. qwerty_run 12 (app_init (\<lambda>_. 0) 0) = Inr t \<and> current_BKD t = 12
      \<and> unat (polled_address t) = 2 \<and> \<not> polls_device t"
  using outer_run_in [of 1 "\<lambda>_. 0" 0] by (simp add: numeral_2_eq_2)

end
