(* ===== verification/Uart_Answer.thy ===== *)
theory Uart_Answer
  imports Uart_Poll
begin

text \<open>
  The receiving half of \<^verbatim>\<open>src/src/uart.c\<close>: a frame that arrived is checked by
  \<^verbatim>\<open>Check_message_UART\<close> and stored into the packet for the host by the handler of the
  slot that was polled last. A message is \<open>None\<close> for a null pointer, otherwise the memory from
  the pointer to the end of its array.
\<close>

section \<open>Frame sizes of \<^verbatim>\<open>protocol.h\<close>\<close>

definition USART_BUFFER_TX_SIZE_YKP :: u8 where "USART_BUFFER_TX_SIZE_YKP = 32"
definition USART_BUFFER_TX_SIZE_YPS :: u8 where "USART_BUFFER_TX_SIZE_YPS = 32"
definition USART_BUFFER_TX_SIZE_YAZ :: u8 where "USART_BUFFER_TX_SIZE_YAZ = 32"
definition USART_BUFFER_TX_SIZE_YLK_96 :: u8 where "USART_BUFFER_TX_SIZE_YLK_96 = 32"
definition USART_BUFFER_TX_SIZE_YLK32_3 :: u8 where "USART_BUFFER_TX_SIZE_YLK32_3 = 32"
definition USART_BUFFER_TX_SIZE_YVP :: u8 where "USART_BUFFER_TX_SIZE_YVP = 32"
definition USART_BUFFER_TX_SIZE_YTP :: u8 where "USART_BUFFER_TX_SIZE_YTP = 32"
definition USART_BUFFER_TX_SIZE_YTM :: u8 where "USART_BUFFER_TX_SIZE_YTM = 32"
definition USART_BUFFER_TX_SIZE_YGR :: u8 where "USART_BUFFER_TX_SIZE_YGR = 32"

lemmas frame_sizes =
  USART_BUFFER_TX_SIZE_YKP_def USART_BUFFER_TX_SIZE_YPS_def USART_BUFFER_TX_SIZE_YAZ_def
  USART_BUFFER_TX_SIZE_YLK_96_def USART_BUFFER_TX_SIZE_YLK32_3_def USART_BUFFER_TX_SIZE_YVP_def
  USART_BUFFER_TX_SIZE_YTP_def USART_BUFFER_TX_SIZE_YTM_def USART_BUFFER_TX_SIZE_YGR_def

section \<open>Stores into the packet\<close>

text \<open>
  \<^verbatim>\<open>ykp_angle[bkd][j][0] = message[0] << 8 | message[1]\<close> and the same for the second angle.
\<close>

definition ykp_store :: "nat \<Rightarrow> nat \<Rightarrow> u8 list \<Rightarrow> YLSToYVPacket \<Rightarrow> YLSToYVPacket res" where
  "ykp_store bkd j message p =
     bind_res (get_at message 0) (\<lambda>m0. bind_res (get_at message 1) (\<lambda>m1.
     bind_res (pk_put16 (off_ykp_angle bkd j 0) (be16 m0 m1) p) (\<lambda>p.
     bind_res (get_at message 2) (\<lambda>m2. bind_res (get_at message 3) (\<lambda>m3.
     pk_put16 (off_ykp_angle bkd j 1) (be16 m2 m3) p)))))"

text \<open>\<^verbatim>\<open>for(uint8_t i=0; i<24;i++) array[i] = message[i]\<close>.\<close>

definition copy24 :: "nat \<Rightarrow> u8 list \<Rightarrow> YLSToYVPacket \<Rightarrow> YLSToYVPacket res" where
  "copy24 off message =
     res_fold (\<lambda>i p. bind_res (get_at message i) (\<lambda>v. pk_put (off + i) v p)) [0..<24]"

definition byte_store :: "nat \<Rightarrow> u8 list \<Rightarrow> YLSToYVPacket \<Rightarrow> YLSToYVPacket res" where
  "byte_store off message p = bind_res (get_at message 0) (\<lambda>v. pk_put off v p)"

section \<open>The handlers\<close>

text \<open>The body of the \<^verbatim>\<open>switch\<close> of \<^verbatim>\<open>Check_message_BKD\<close>, on the packet.\<close>

definition answer_BKD :: "u8 \<Rightarrow> u8 \<Rightarrow> u8 list \<Rightarrow> u8 \<Rightarrow> YLSToYVPacket \<Rightarrow> YLSToYVPacket res" where
  "answer_BKD device bkd message len p =
     (let b = unat bkd; alive = (\<lambda>w. w OR push_bit b 1)
      in if device = YKP1_BKD then
           if len = USART_BUFFER_TX_SIZE_YKP
           then ykp_store b 0 message (health_abonent_update (ykp_poc_1_update alive) p) else Inr p
         else if device = YKP2_BKD then
           if len = USART_BUFFER_TX_SIZE_YKP
           then ykp_store b 1 message (health_abonent_update (ykp_poc_2_update alive) p) else Inr p
         else if device = YKP3_BKD then
           if len = USART_BUFFER_TX_SIZE_YKP
           then ykp_store b 2 message (health_abonent_update (ykp_poc_3_update alive) p) else Inr p
         else if device = YAZ1_BKD then
           if len = USART_BUFFER_TX_SIZE_YAZ
           then copy24 (off_yaz_data b 0 0) message (health_abonent_update (yaz_poc_1_update alive) p) else Inr p
         else if device = YAZ2_BKD then
           if len = USART_BUFFER_TX_SIZE_YAZ
           then copy24 (off_yaz_data b 1 0) message (health_abonent_update (yaz_poc_2_update alive) p) else Inr p
         else if device = YAZ3_BKD then
           if len = USART_BUFFER_TX_SIZE_YAZ
           then copy24 (off_yaz_data b 2 0) message (health_abonent_update (yaz_poc_3_update alive) p) else Inr p
         else if device = YPS1_BKD then
           if len = USART_BUFFER_TX_SIZE_YPS
           then byte_store (off_yps_mask b 0) message (health_abonent_update (yps_poc_1_update alive) p) else Inr p
         else if device = YPS2_BKD then
           if len = USART_BUFFER_TX_SIZE_YPS
           then byte_store (off_yps_mask b 1) message (health_abonent_update (yps_poc_2_update alive) p) else Inr p
         else if device = YPS3_BKD then
           if len = USART_BUFFER_TX_SIZE_YPS
           then byte_store (off_yps_mask b 2) message (health_abonent_update (yps_poc_3_update alive) p) else Inr p
         else if device = YLK_96_1_BKD then
           if len = USART_BUFFER_TX_SIZE_YLK_96
           then copy24 (off_ylk96_data b 0 0) message (health_abonent_update (ylk96_poc_1_update alive) p) else Inr p
         else if device = YLK_96_2_BKD then
           if len = USART_BUFFER_TX_SIZE_YLK_96
           then copy24 (off_ylk96_data b 1 0) message (health_abonent_update (ylk96_poc_2_update alive) p) else Inr p
         else if device = YLK_96_3_BKD then
           if len = USART_BUFFER_TX_SIZE_YLK_96
           then copy24 (off_ylk96_data b 2 0) message (health_abonent_update (ylk96_poc_3_update alive) p) else Inr p
         else Inr p)"

definition Check_message_BKD :: "u8 list option \<Rightarrow> u8 \<Rightarrow> app \<Rightarrow> app res" where
  "Check_message_BKD message len s =
     (case message of None \<Rightarrow> Inr s
      | Some bs \<Rightarrow> on_pack (answer_BKD (current_device_in_BKDx s) (current_BKD s) bs len) s)"

text \<open>The first twelve and the last twelve cases of \<^verbatim>\<open>Check_message_BKHO_A\<close>.\<close>

definition answer_BKHO_A_high :: "u8 \<Rightarrow> u8 list \<Rightarrow> u8 \<Rightarrow> YLSToYVPacket \<Rightarrow> YLSToYVPacket res" where
  "answer_BKHO_A_high device message len p =
     (if device = YTM2_1_BKHO_A then
        if len = USART_BUFFER_TX_SIZE_YTM then Inr (health_abonent_update (ytm2_bkho_a_poc_1_update (\<lambda>w. w OR 1)) p) else Inr p
      else if device = YTM2_2_BKHO_A then
        if len = USART_BUFFER_TX_SIZE_YTM then Inr (health_abonent_update (ytm2_bkho_a_poc_2_update (\<lambda>w. w OR 1)) p) else Inr p
      else if device = YTM2_3_BKHO_A then
        if len = USART_BUFFER_TX_SIZE_YTM then Inr (health_abonent_update (ytm2_bkho_a_poc_3_update (\<lambda>w. w OR 1)) p) else Inr p
      else if device = YGR1_BKHO_A then
        if len = USART_BUFFER_TX_SIZE_YGR then Inr (health_abonent_update (ygr_bkho_a_poc_1_update (\<lambda>w. w OR 1)) p) else Inr p
      else if device = YGR2_BKHO_A then
        if len = USART_BUFFER_TX_SIZE_YGR then Inr (health_abonent_update (ygr_bkho_a_poc_2_update (\<lambda>w. w OR 1)) p) else Inr p
      else if device = YGR3_BKHO_A then
        if len = USART_BUFFER_TX_SIZE_YGR then Inr (health_abonent_update (ygr_bkho_a_poc_3_update (\<lambda>w. w OR 1)) p) else Inr p
      else if device = YLK32_3_1_BKHO_A then
        if len = USART_BUFFER_TX_SIZE_YLK32_3 then Inr (health_abonent_update (ylk32_3_bkho_a_poc_1_update (\<lambda>w. w OR 1)) p) else Inr p
      else if device = YLK32_3_2_BKHO_A then
        if len = USART_BUFFER_TX_SIZE_YLK32_3 then Inr (health_abonent_update (ylk32_3_bkho_a_poc_2_update (\<lambda>w. w OR 1)) p) else Inr p
      else if device = YLK32_3_3_BKHO_A then
        if len = USART_BUFFER_TX_SIZE_YLK32_3 then Inr (health_abonent_update (ylk32_3_bkho_a_poc_3_update (\<lambda>w. w OR 1)) p) else Inr p
      else if device = YVP1_BKHO_A then
        if len = USART_BUFFER_TX_SIZE_YVP then Inr (health_abonent_update (yvp_bkho_a_poc_1_update (\<lambda>w. w OR 1)) p) else Inr p
      else if device = YVP2_BKHO_A then
        if len = USART_BUFFER_TX_SIZE_YVP then Inr (health_abonent_update (yvp_bkho_a_poc_2_update (\<lambda>w. w OR 1)) p) else Inr p
      else if device = YVP3_BKHO_A then
        if len = USART_BUFFER_TX_SIZE_YVP then Inr (health_abonent_update (yvp_bkho_a_poc_3_update (\<lambda>w. w OR 1)) p) else Inr p
      else Inr p)"

definition answer_BKHO_A :: "u8 \<Rightarrow> u8 list \<Rightarrow> u8 \<Rightarrow> YLSToYVPacket \<Rightarrow> YLSToYVPacket res" where
  "answer_BKHO_A device message len p =
     (if device = YPS1_BKHO_A then
        if len = USART_BUFFER_TX_SIZE_YPS then byte_store (off_yps_mask_BKHO_A 0) message (health_abonent_update (yps_bkho_a_poc_1_update (\<lambda>w. w OR 1)) p) else Inr p
      else if device = YPS2_BKHO_A then
        if len = USART_BUFFER_TX_SIZE_YPS then byte_store (off_yps_mask_BKHO_A 1) message (health_abonent_update (yps_bkho_a_poc_2_update (\<lambda>w. w OR 1)) p) else Inr p
      else if device = YPS3_BKHO_A then
        if len = USART_BUFFER_TX_SIZE_YPS then byte_store (off_yps_mask_BKHO_A 2) message (health_abonent_update (yps_bkho_a_poc_3_update (\<lambda>w. w OR 1)) p) else Inr p
      else if device = YTP1_1_BKHO_A then
        if len = USART_BUFFER_TX_SIZE_YTP then Inr (health_abonent_update (ytp1_bkho_a_poc_1_update (\<lambda>w. w OR 1)) p) else Inr p
      else if device = YTP1_2_BKHO_A then
        if len = USART_BUFFER_TX_SIZE_YTP then Inr (health_abonent_update (ytp1_bkho_a_poc_2_update (\<lambda>w. w OR 1)) p) else Inr p
      else if device = YTP1_3_BKHO_A then
        if len = USART_BUFFER_TX_SIZE_YTP then Inr (health_abonent_update (ytp1_bkho_a_poc_3_update (\<lambda>w. w OR 1)) p) else Inr p
      else if device = YTP2_1_BKHO_A then
        if len = USART_BUFFER_TX_SIZE_YTP then Inr (health_abonent_update (ytp2_bkho_a_poc_1_update (\<lambda>w. w OR 1)) p) else Inr p
      else if device = YTP2_2_BKHO_A then
        if len = USART_BUFFER_TX_SIZE_YTP then Inr (health_abonent_update (ytp2_bkho_a_poc_2_update (\<lambda>w. w OR 1)) p) else Inr p
      else if device = YTP2_3_BKHO_A then
        if len = USART_BUFFER_TX_SIZE_YTP then Inr (health_abonent_update (ytp2_bkho_a_poc_3_update (\<lambda>w. w OR 1)) p) else Inr p
      else if device = YTM1_1_BKHO_A then
        if len = USART_BUFFER_TX_SIZE_YTM then Inr (health_abonent_update (ytm1_bkho_a_poc_1_update (\<lambda>w. w OR 1)) p) else Inr p
      else if device = YTM1_2_BKHO_A then
        if len = USART_BUFFER_TX_SIZE_YTM then Inr (health_abonent_update (ytm1_bkho_a_poc_2_update (\<lambda>w. w OR 1)) p) else Inr p
      else if device = YTM1_3_BKHO_A then
        if len = USART_BUFFER_TX_SIZE_YTM then Inr (health_abonent_update (ytm1_bkho_a_poc_3_update (\<lambda>w. w OR 1)) p) else Inr p
      else answer_BKHO_A_high device message len p)"

definition Check_message_BKHO_A :: "u8 list option \<Rightarrow> u8 \<Rightarrow> app \<Rightarrow> app res" where
  "Check_message_BKHO_A message len s =
     (case message of None \<Rightarrow> Inr s
      | Some bs \<Rightarrow> on_pack (answer_BKHO_A (current_device_in_BKHO_A s) bs len) s)"

definition answer_OUT_SERVO :: "u8 \<Rightarrow> health_bit_map \<Rightarrow> health_bit_map" where
  "answer_OUT_SERVO device h =
     (if device = OUT_SERVO_1 then out_servo1_update (\<lambda>w. w OR 1) h
      else if device = OUT_SERVO_2 then out_servo2_update (\<lambda>w. w OR 1) h
      else if device = OUT_SERVO_3 then out_servo3_update (\<lambda>w. w OR 1) h
      else if device = OUT_SERVO_4 then out_servo4_update (\<lambda>w. w OR 1) h
      else if device = OUT_SERVO_5 then out_servo5_update (\<lambda>w. w OR 1) h
      else if device = OUT_SERVO_6 then out_servo6_update (\<lambda>w. w OR 1) h
      else if device = OUT_SERVO_7 then out_servo7_update (\<lambda>w. w OR 1) h
      else if device = OUT_SERVO_8 then out_servo8_update (\<lambda>w. w OR 1) h
      else h)"

definition Check_message_OUT_SERVO :: "u8 list option \<Rightarrow> u8 \<Rightarrow> app \<Rightarrow> app res" where
  "Check_message_OUT_SERVO message len s =
     (case message of None \<Rightarrow> Inr s
      | Some bs \<Rightarrow>
          on_pack (\<lambda>p. Inr (health_abonent_update (answer_OUT_SERVO (current_device_in_OUT_SERVO s)) p)) s)"

text \<open>
  The dispatch. Its second test repeats the negation of the first, so the third branch is dead,
  exactly as in the C text.
\<close>

definition Check_message_UART :: "u8 list option \<Rightarrow> u8 \<Rightarrow> app \<Rightarrow> app res" where
  "Check_message_UART message len s =
     (case message of None \<Rightarrow> Inr s
      | Some bs \<Rightarrow>
          if len > 1 then
            bind_res (get_at bs (unat (len - 1))) (\<lambda>last.
            bind_res (Crc8 bs (len - 1)) (\<lambda>crc.
            if last = crc then
              if current_BKD s \<noteq> IN_TOTAL_BKD then Check_message_BKD message len s
              else if current_BKD s = IN_TOTAL_BKD then Check_message_BKHO_A message len s
              else Check_message_OUT_SERVO message len s
            else Inr s))
          else Inr s)"

section \<open>Byte ranges\<close>

text \<open>Replacing a range of a byte list.\<close>

definition overlay :: "nat \<Rightarrow> 'a list \<Rightarrow> 'a list \<Rightarrow> 'a list" where
  "overlay off bs xs = take off xs @ bs @ drop (off + length bs) xs"

lemma overlay_length [simp]: "off + length bs \<le> length xs \<Longrightarrow> length (overlay off bs xs) = length xs"
  by (simp add: overlay_def)

lemma overlay_nth:
  assumes "off + length bs \<le> length xs" "i < length xs"
  shows "overlay off bs xs ! i = (if off \<le> i \<and> i < off + length bs then bs ! (i - off) else xs ! i)"
  using assms by (auto simp: overlay_def nth_append)

lemma overlay_Nil [simp]: "overlay off [] xs = xs"
  by (simp add: overlay_def)

lemma overlay_snoc:
  assumes "off + length bs < length xs"
  shows "(overlay off bs xs)[off + length bs := v] = overlay off (bs @ [v]) xs"
proof (rule nth_equalityI)
  show "length ((overlay off bs xs)[off + length bs := v]) = length (overlay off (bs @ [v]) xs)"
    using assms by simp
next
  fix i assume "i < length ((overlay off bs xs)[off + length bs := v])"
  then have i: "i < length xs" using assms by simp
  show "(overlay off bs xs)[off + length bs := v] ! i = overlay off (bs @ [v]) xs ! i"
    using assms i by (auto simp: overlay_nth nth_list_update nth_append)
qed

lemma pk_put_overlay:
  assumes "packet_wf p" "22 \<le> off" "off + length bs < 8192"
  shows "pk_put (off + length bs) v (p\<lparr> rest := overlay (off - 22) bs (rest p) \<rparr>)
     = Inr (p\<lparr> rest := overlay (off - 22) (bs @ [v]) (rest p) \<rparr>)"
proof -
  let ?q = "p\<lparr> rest := overlay (off - 22) bs (rest p) \<rparr>"
  have l: "length (rest p) = 8170" using assms(1) by (simp add: packet_wf_def layout_simps)
  have le: "off - 22 + length bs < length (rest p)" using assms(2,3) l by simp
  have q: "packet_wf ?q" using assms(1) le by (simp add: packet_wf_def)
  have b: "SIZE_HEALTH_MAP \<le> off + length bs" "off + length bs < SIZE_MESSAGE_YLS"
    using assms(2,3) by (simp_all add: layout_simps)
  have e: "off + length bs - SIZE_HEALTH_MAP = off - 22 + length bs"
    using assms(2) by (simp add: SIZE_HEALTH_MAP_def)
  have "pk_put (off + length bs) v ?q = Inr (?q\<lparr> rest := (rest ?q)[off - 22 + length bs := v] \<rparr>)"
    using pk_put_ok [OF q b] by (simp only: e)
  then show ?thesis using overlay_snoc [OF le] by simp
qed

lemma copy_loop:
  assumes "packet_wf p" "22 \<le> off" "off + n \<le> 8192" "n \<le> length message"
  shows "res_fold (\<lambda>i p. bind_res (get_at message i) (\<lambda>v. pk_put (off + i) v p)) [0..<n] p
     = Inr (p\<lparr> rest := overlay (off - 22) (take n message) (rest p) \<rparr>)"
  using assms
proof (induction n)
  case 0
  then show ?case by simp
next
  case (Suc n)
  then have "pk_put (off + n) (message ! n) (p\<lparr> rest := overlay (off - 22) (take n message) (rest p) \<rparr>)
     = Inr (p\<lparr> rest := overlay (off - 22) (take n message @ [message ! n]) (rest p) \<rparr>)"
    using pk_put_overlay [of p off "take n message" "message ! n"] by simp
  with Suc show ?case
    by (simp add: res_fold_append take_Suc_conv_app_nth)
qed

lemma byte_store_ok:
  assumes "packet_wf p" "22 \<le> off" "off < 8192" "0 < length message"
  shows "byte_store off message p = Inr (p\<lparr> rest := overlay (off - 22) [message ! 0] (rest p) \<rparr>)"
  using assms pk_put_overlay [of p off "[]" "message ! 0"] by (simp add: byte_store_def)

lemma ykp_store_ok:
  assumes "packet_wf p" "off_ykp_angle b j 0 + 4 \<le> 8192" "3 < length message"
  shows "ykp_store b j message p = Inr (p\<lparr> rest := overlay (off_ykp_angle b j 0 - 22)
      [message ! 1, message ! 0, message ! 3, message ! 2] (rest p) \<rparr>)"
proof -
  let ?o = "off_ykp_angle b j 0"
  have o: "22 \<le> ?o" "off_ykp_angle b j (Suc 0) = Suc (Suc ?o)" by (simp_all add: layout_simps)
  have l: "0 < length message" "1 < length message" "2 < length message" using assms(3) by auto
  note put = pk_put_overlay [OF assms(1) o(1)]
  have "pk_put16 ?o (be16 (message ! 0) (message ! 1)) p
      = Inr (p\<lparr> rest := overlay (?o - 22) [message ! 1, message ! 0] (rest p) \<rparr>)"
    using put [of "[]" "message ! 1"] put [of "[message ! 1]" "message ! 0"] assms(2)
    by (simp add: pk_put16_def)
  then show ?thesis
    using put [of "[message ! 1, message ! 0]" "message ! 3"]
      put [of "[message ! 1, message ! 0, message ! 3]" "message ! 2"] assms(2,3) l
    by (simp add: ykp_store_def pk_put16_def o(2) del: length_greater_0_conv)
qed

section \<open>What an answer stores\<close>

text \<open>Where device \<open>d\<close> of block \<open>b\<close> reports, and what of its frame is kept.\<close>

definition answer_off :: "nat \<Rightarrow> nat \<Rightarrow> nat" where
  "answer_off d b =
     (if d \<le> 3 then off_ykp_angle b (d - 1) 0 else if d \<le> 6 then off_yaz_data b (d - 4) 0
      else if d \<le> 9 then off_yps_mask b (d - 7) else off_ylk96_data b (d - 10) 0)"

definition answer_payload :: "nat \<Rightarrow> u8 list \<Rightarrow> u8 list" where
  "answer_payload d m =
     (if d \<le> 3 then [m ! 1, m ! 0, m ! 3, m ! 2] else if d \<le> 6 then take 24 m
      else if d \<le> 9 then [m ! 0] else take 24 m)"

lemma answer_payload_length: "24 \<le> length m \<Longrightarrow> length (answer_payload d m) \<le> 24"
  by (simp add: answer_payload_def)

lemma answer_off_bounds: "1 \<le> d \<Longrightarrow> d \<le> 12 \<Longrightarrow> b \<le> 13 \<Longrightarrow> 30 \<le> answer_off d b \<and> answer_off d b + 24 \<le> 8192"
  by (auto simp: answer_off_def layout_simps)

text \<open>The packet after an answer: new health fields and a new byte range.\<close>

definition packet_after :: "health_bit_map \<Rightarrow> nat \<Rightarrow> u8 list \<Rightarrow> YLSToYVPacket \<Rightarrow> YLSToYVPacket" where
  "packet_after h off bs p = p\<lparr> health_abonent := h, rest := overlay (off - 22) bs (rest p) \<rparr>"

lemma packet_after_inject [simp]: "packet_after g off bs p = packet_after h off bs p \<longleftrightarrow> g = h"
  by (cases p) (simp add: packet_after_def)

lemma packet_after_sel [simp]:
  "health_abonent (packet_after h off bs p) = h"
  "rest (packet_after h off bs p) = overlay (off - 22) bs (rest p)"
  by (simp_all add: packet_after_def)

lemma packet_after_wf:
  "\<lbrakk> packet_wf p; 22 \<le> off; off + length bs \<le> 8192 \<rbrakk> \<Longrightarrow> packet_wf (packet_after h off bs p)"
  by (simp add: packet_wf_def layout_simps)

lemma answer_stores:
  assumes "packet_wf p" "24 \<le> length m" "b \<le> 13" "j \<le> 2"
  shows "ykp_store b j m (health_abonent_update f p)
      = Inr (packet_after (f (health_abonent p)) (off_ykp_angle b j 0) [m ! 1, m ! 0, m ! 3, m ! 2] p)"
    and "copy24 (off_yaz_data b j 0) m (health_abonent_update f p)
      = Inr (packet_after (f (health_abonent p)) (off_yaz_data b j 0) (take 24 m) p)"
    and "byte_store (off_yps_mask b j) m (health_abonent_update f p)
      = Inr (packet_after (f (health_abonent p)) (off_yps_mask b j) [m ! 0] p)"
    and "copy24 (off_ylk96_data b j 0) m (health_abonent_update f p)
      = Inr (packet_after (f (health_abonent p)) (off_ylk96_data b j 0) (take 24 m) p)"
proof -
  have w: "packet_wf (health_abonent_update f p)" using assms(1) by simp
  have l: "3 < length m" "m \<noteq> []" using assms(2) by auto
  show "ykp_store b j m (health_abonent_update f p)
      = Inr (packet_after (f (health_abonent p)) (off_ykp_angle b j 0) [m ! 1, m ! 0, m ! 3, m ! 2] p)"
    using ykp_store_ok [OF w _ l(1)] assms by (simp add: layout_simps packet_after_def)
  show "copy24 (off_yaz_data b j 0) m (health_abonent_update f p)
      = Inr (packet_after (f (health_abonent p)) (off_yaz_data b j 0) (take 24 m) p)"
    using copy_loop [OF w _ _ assms(2)] assms by (simp add: copy24_def layout_simps packet_after_def)
  show "byte_store (off_yps_mask b j) m (health_abonent_update f p)
      = Inr (packet_after (f (health_abonent p)) (off_yps_mask b j) [m ! 0] p)"
    using byte_store_ok [OF w] assms l by (simp add: layout_simps packet_after_def)
  show "copy24 (off_ylk96_data b j 0) m (health_abonent_update f p)
      = Inr (packet_after (f (health_abonent p)) (off_ylk96_data b j 0) (take 24 m) p)"
    using copy_loop [OF w _ _ assms(2)] assms by (simp add: copy24_def layout_simps packet_after_def)
qed

lemma answer_BKD_ok:
  assumes "packet_wf p" "24 \<le> length m" "1 \<le> unat d" "unat d \<le> 12" "unat b \<le> 13"
  shows "\<exists>h. answer_BKD d b m 32 p
      = Inr (packet_after h (answer_off (unat d) (unat b)) (answer_payload (unat d) m) p)
    \<and> bkd_fields h = (bkd_fields (health_abonent p))[unat d - 1 :=
        (bkd_fields (health_abonent p) ! (unat d - 1)) OR push_bit (unat b) 1]
    \<and> bkho_fields h = bkho_fields (health_abonent p) \<and> servo_fields h = servo_fields (health_abonent p)"
  using bkd_range [OF assms(3,4)] answer_stores [OF assms(1,2,5)]
  by (elim insertE emptyE)
    (simp_all add: answer_BKD_def adr_devices frame_sizes Let_def answer_off_def answer_payload_def)

lemma answer_BKD_other_size: "len \<noteq> 32 \<Longrightarrow> answer_BKD d b m len p = Inr p"
  by (simp add: answer_BKD_def frame_sizes Let_def)

text \<open>The BKHO-A answers: a health bit and, for the three YPS devices, the first byte.\<close>

definition bkho_payload :: "nat \<Rightarrow> u8 list \<Rightarrow> u8 list" where
  "bkho_payload d m = (if d \<le> 147 then [m ! 0] else [])"

lemma packet_after_Nil: "packet_after h off [] p = p\<lparr> health_abonent := h \<rparr>"
  by (simp add: packet_after_def)

lemma health_update_after [simp]:
  "health_abonent_update f p = packet_after h off [] p \<longleftrightarrow> f (health_abonent p) = h"
  by (cases p) (simp add: packet_after_def)

lemma answer_BKHO_A_ok:
  assumes "packet_wf p" "24 \<le> length m" "145 \<le> unat d" "unat d \<le> 168"
  shows "\<exists>h. answer_BKHO_A d m 32 p
      = Inr (packet_after h (off_yps_mask_BKHO_A (unat d - 145)) (bkho_payload (unat d) m) p)
    \<and> bkho_fields h = (bkho_fields (health_abonent p))[unat d - 145 :=
        (bkho_fields (health_abonent p) ! (unat d - 145)) OR 1]
    \<and> bkd_fields h = bkd_fields (health_abonent p) \<and> servo_fields h = servo_fields (health_abonent p)"
proof -
  have store: "byte_store (off_yps_mask_BKHO_A j) m (health_abonent_update f p)
      = Inr (packet_after (f (health_abonent p)) (off_yps_mask_BKHO_A j) [m ! 0] p)" if "j \<le> 2" for j f
  proof -
    have "packet_wf (health_abonent_update f p)" "m \<noteq> []" using assms(1,2) by auto
    then show ?thesis using byte_store_ok [of "health_abonent_update f p" "off_yps_mask_BKHO_A j" m] that
      by (simp add: layout_simps packet_after_def)
  qed
  show ?thesis
    using bkho_range [OF assms(3,4)]
    by (elim insertE emptyE)
      (simp_all add: answer_BKHO_A_def answer_BKHO_A_high_def adr_devices frame_sizes bkho_payload_def store)
qed

lemma answer_BKHO_A_other:
  "len \<noteq> 32 \<Longrightarrow> answer_BKHO_A d m len p = Inr p" "unat d < 145 \<Longrightarrow> answer_BKHO_A d m len p = Inr p"
proof -
  show "len \<noteq> 32 \<Longrightarrow> answer_BKHO_A d m len p = Inr p"
    by (simp add: answer_BKHO_A_def answer_BKHO_A_high_def frame_sizes)
  have ne: "unat d < 145 \<Longrightarrow> 145 \<le> unat w \<Longrightarrow> (d = w) = False" for w by auto
  show "unat d < 145 \<Longrightarrow> answer_BKHO_A d m len p = Inr p"
    by (simp add: answer_BKHO_A_def answer_BKHO_A_high_def adr_devices ne)
qed

section \<open>Accepted frames\<close>

text \<open>The test of \<^verbatim>\<open>Check_message_UART\<close>, on the bytes that were received.\<close>

definition frame_ok :: "u8 list \<Rightarrow> u8 \<Rightarrow> bool" where
  "frame_ok bs len \<longleftrightarrow> 1 < unat len \<and> unat len \<le> length bs \<and> crc_run poly_step 0xFF (take (unat len) bs) = 0"

lemma frame_ok_alt:
  assumes "1 < unat len" "unat len \<le> length bs"
  shows "frame_ok bs len \<longleftrightarrow> bs ! (unat len - 1) = crc8_ref (take (unat len - 1) bs)"
proof -
  obtain n where n: "unat len = Suc n" using assms(1) by (cases "unat len") auto
  then have "take (unat len) bs = take n bs @ [bs ! n]"
    using assms(2) by (simp add: take_Suc_conv_app_nth)
  then show ?thesis
    using assms n crc8.crc_run_residue [of "0xFF" "take n bs" "bs ! n"]
    by (simp add: frame_ok_def crc8_ref_def)
qed

lemma unat_pred: "1 < unat len \<Longrightarrow> unat (len - 1) = unat len - 1" for len :: u8
  by (rule unat_minus_one) auto

text \<open>The dispatch: the slot of the BKHO-A block has its handler, every other slot the one of the BKD blocks.\<close>

lemma Check_UART_eq:
  assumes "unat len \<le> length bs"
  shows "Check_message_UART (Some bs) len s =
    (if frame_ok bs len
     then if current_BKD s = 12 then on_pack (answer_BKHO_A (current_device_in_BKHO_A s) bs len) s
          else on_pack (answer_BKD (current_device_in_BKDx s) (current_BKD s) bs len) s
     else Inr s)"
proof (cases "1 < unat len")
  case True
  then have l: "unat (len - 1) = unat len - 1" by (rule unat_pred)
  have "get_at bs (unat (len - 1)) = Inr (bs ! (unat len - 1))"
    using True assms l by simp
  moreover have "Crc8 bs (len - 1) = Inr (crc8_ref (take (unat len - 1) bs))"
    using Crc8_ok [of "len - 1" bs] assms l by simp
  ultimately show ?thesis
    using True frame_ok_alt [OF True assms]
    by (simp add: Check_message_UART_def Check_message_BKD_def Check_message_BKHO_A_def IN_TOTAL_BKD_def u8_le_unat)
next
  case False
  then show ?thesis by (simp add: Check_message_UART_def frame_ok_def u8_le_unat)
qed

lemma answer_BKD_wf:
  assumes "packet_wf p" "24 \<le> length m" "1 \<le> unat d" "unat d \<le> 12" "unat b \<le> 13"
  shows "\<exists>q. answer_BKD d b m len p = Inr q \<and> packet_wf q"
proof (cases "len = 32")
  case True
  with answer_BKD_ok [OF assms] show ?thesis
    using answer_off_bounds [OF assms(3-5)] answer_payload_length [OF assms(2), of "unat d"]
    by (auto intro!: packet_after_wf assms(1))
next
  case False
  then show ?thesis using assms(1) by (simp add: answer_BKD_other_size)
qed

lemma answer_BKHO_A_wf:
  assumes "packet_wf p" "24 \<le> length m" "unat d \<le> 168"
  shows "\<exists>q. answer_BKHO_A d m len p = Inr q \<and> packet_wf q"
proof (cases "len = 32 \<and> 145 \<le> unat d")
  case True
  with answer_BKHO_A_ok [OF assms(1,2) _ assms(3)] assms(3) show ?thesis
    by (auto intro!: packet_after_wf assms(1) simp: layout_simps bkho_payload_def)
next
  case False
  then show ?thesis using assms(1) answer_BKHO_A_other by fastforce
qed

text \<open>The handler never faults on a buffer of 200 bytes, and it changes only the packet being filled.\<close>

lemma Check_UART_pack:
  assumes "app_wf s" "length bs = 200" "unat len \<le> 200"
  shows "\<exists>q. Check_message_UART (Some bs) len s
      = Inr (s\<lparr> YLSToYVPack := (YLSToYVPack s)[unat (current_tick_tx_eth s) := q] \<rparr>) \<and> packet_wf q"
proof (cases "frame_ok bs len")
  case True
  let ?p = "YLSToYVPack s ! unat (current_tick_tx_eth s)"
  have p: "packet_wf ?p" "24 \<le> length bs" using cur_pack_wf [OF assms(1)] assms(2) by simp_all
  have d: "1 \<le> unat (current_device_in_BKDx s)" "unat (current_device_in_BKDx s) \<le> 12" "unat (current_BKD s) \<le> 13"
    "unat (current_device_in_BKHO_A s) \<le> 168"
    using assms(1) by (simp_all add: app_wf_unat)
  show ?thesis
    using answer_BKD_wf [OF p d(1-3), of len] answer_BKHO_A_wf [OF p d(4), of len] True assms(2,3)
    by (auto simp: Check_UART_eq on_pack_ok [OF assms(1)])
next
  case False
  then show ?thesis
    using cur_pack_wf [OF assms(1)] assms(2,3)
    by (intro exI [of _ "YLSToYVPack s ! unat (current_tick_tx_eth s)"]) (simp add: Check_UART_eq)
qed

lemma Check_UART_wf:
  assumes "app_wf s" "length bs = 200" "unat len \<le> 200" "Check_message_UART (Some bs) len s = Inr t"
  shows "app_wf t"
  using Check_UART_pack [OF assms(1-3)] assms(1,4) by (auto simp: app_wf_def packs_wf_update)

lemma bit_or_push: "m < 12 \<Longrightarrow> bit (w OR 2 ^ b) m \<longleftrightarrow> bit w m \<or> m = b" for w :: "12 word"
  by (auto simp: bit_or_iff bit_exp_iff)

lemma health_bit_set_bkd:
  assumes "bkd_fields g = (bkd_fields h)[i := (bkd_fields h ! i) OR push_bit b 1]"
    "bkho_fields g = bkho_fields h" "servo_fields g = servo_fields h" "i < 12"
  shows "health_bit g n \<longleftrightarrow> health_bit h n \<or> b < 12 \<and> n = 12 * i + b"
  unfolding health_bit_bkd [OF assms]
  using assms(4) pos12 [of b i n] by (auto simp: bit_or_push health_bit_def)

lemma health_bit_set_bkho:
  assumes "bkho_fields g = (bkho_fields h)[i := (bkho_fields h ! i) OR 1]"
    "bkd_fields g = bkd_fields h" "servo_fields g = servo_fields h" "i < 24"
  shows "health_bit g n \<longleftrightarrow> health_bit h n \<or> n = 144 + i"
  unfolding health_bit_bkho [OF assms]
  using assms(4) by (auto simp: bit_or_iff bit_1_iff health_bit_def)

section \<open>Properties of the answers\<close>

lemma bkd_answer:
  assumes "app_wf s" "length bs = 200" "frame_ok bs 32" "current_BKD s < 12"
    and "k = unat (current_tick_tx_eth s)" "d = unat (current_device_in_BKDx s)"
  shows "\<exists>q. Check_message_UART (Some bs) 32 s = Inr (s\<lparr> YLSToYVPack := (YLSToYVPack s)[k := q] \<rparr>)
    \<and> (\<forall>n. health_bit (health_abonent q) n \<longleftrightarrow>
         health_bit (health_abonent (YLSToYVPack s ! k)) n \<or> n = health_pos (unat (polled_address s)))
    \<and> rest q = overlay (answer_off d (unat (current_BKD s)) - 22) (answer_payload d bs) (rest (YLSToYVPack s ! k))"
proof -
  let ?p = "YLSToYVPack s ! k" and ?b = "unat (current_BKD s)"
  have d: "1 \<le> d" "d \<le> 12" "?b < 12" "?b \<le> 13" using assms(1,4,6) by (simp_all add: app_wf_unat u8_le_unat)
  have p: "packet_wf ?p" "24 \<le> length bs" using cur_pack_wf [OF assms(1)] assms(2,5) by simp_all
  obtain h where h: "answer_BKD (current_device_in_BKDx s) (current_BKD s) bs 32 ?p
      = Inr (packet_after h (answer_off d ?b) (answer_payload d bs) ?p)"
    "bkd_fields h = (bkd_fields (health_abonent ?p))[d - 1 := (bkd_fields (health_abonent ?p) ! (d - 1)) OR push_bit ?b 1]"
    "bkho_fields h = bkho_fields (health_abonent ?p)" "servo_fields h = servo_fields (health_abonent ?p)"
    using answer_BKD_ok [OF p, of "current_device_in_BKDx s" "current_BKD s"] d assms(6) by auto
  have "health_pos (unat (polled_address s)) = 12 * (d - 1) + ?b"
    using health_pos_bkd [OF d(1-3)] unat_polled_address [OF assms(1)] assms(4,6) by simp
  then have "health_bit h n \<longleftrightarrow> health_bit (health_abonent ?p) n \<or> n = health_pos (unat (polled_address s))" for n
    using health_bit_set_bkd [OF h(2-4)] d by simp
  moreover have "Check_message_UART (Some bs) 32 s
      = Inr (s\<lparr> YLSToYVPack := (YLSToYVPack s)[k := packet_after h (answer_off d ?b) (answer_payload d bs) ?p] \<rparr>)"
    using assms h(1) by (subst Check_UART_eq) (auto simp: on_pack_ok [OF assms(1)])
  ultimately show ?thesis by auto
qed

text \<open>
  C2: a valid 32-byte answer in a BKD slot sets the health bit of the device polled last (the one
  the poll cleared) and no other, and stores the payload of the frame in that device's range of
  the packet, the angles of a YKP with their bytes swapped to little-endian; the rest of the
  packet, the other packet and every other variable keep their values.
\<close>

theorem bkd_answer_stored:
  assumes "app_wf s" "length bs = 200" "frame_ok bs 32" "current_BKD s < 12"
    and "k = unat (current_tick_tx_eth s)" "d = unat (current_device_in_BKDx s)"
  shows "\<exists>q. Check_message_UART (Some bs) 32 s = Inr (s\<lparr> YLSToYVPack := (YLSToYVPack s)[k := q] \<rparr>)
    \<and> (\<forall>n. health_bit (health_abonent q) n \<longleftrightarrow>
         health_bit (health_abonent (YLSToYVPack s ! k)) n \<or> n = health_pos (unat (polled_address s)))
    \<and> rest q = overlay (answer_off d (unat (current_BKD s)) - 22) (answer_payload d bs) (rest (YLSToYVPack s ! k))"
  by (rule bkd_answer [OF assms])

text \<open>
  C14: a valid 32-byte answer in the BKHO-A slot, once its counter is in the address window, sets
  the health bit of the polled device and no other; the three YPS devices also store the first
  byte of the frame as their mask, the others store nothing.
\<close>

theorem bkho_answer_stored:
  assumes "app_wf s" "length bs = 200" "frame_ok bs 32" "current_BKD s = 12"
    and "145 \<le> unat (current_device_in_BKHO_A s)"
    and "k = unat (current_tick_tx_eth s)" "d = unat (current_device_in_BKHO_A s)"
  shows "\<exists>q. Check_message_UART (Some bs) 32 s = Inr (s\<lparr> YLSToYVPack := (YLSToYVPack s)[k := q] \<rparr>)
    \<and> (\<forall>n. health_bit (health_abonent q) n \<longleftrightarrow>
         health_bit (health_abonent (YLSToYVPack s ! k)) n \<or> n = health_pos (unat (polled_address s)))
    \<and> rest q = (if d \<le> 147 then (rest (YLSToYVPack s ! k))[off_yps_mask_BKHO_A (d - 145) - 22 := bs ! 0]
                else rest (YLSToYVPack s ! k))"
proof -
  let ?p = "YLSToYVPack s ! k"
  have d: "145 \<le> d" "d \<le> 168" using assms(1,5,7) by (simp_all add: app_wf_unat)
  have p: "packet_wf ?p" "24 \<le> length bs" using cur_pack_wf [OF assms(1)] assms(2,6) by simp_all
  obtain h where h: "answer_BKHO_A (current_device_in_BKHO_A s) bs 32 ?p
      = Inr (packet_after h (off_yps_mask_BKHO_A (d - 145)) (bkho_payload d bs) ?p)"
    "bkho_fields h = (bkho_fields (health_abonent ?p))[d - 145 := (bkho_fields (health_abonent ?p) ! (d - 145)) OR 1]"
    "bkd_fields h = bkd_fields (health_abonent ?p)" "servo_fields h = servo_fields (health_abonent ?p)"
    using answer_BKHO_A_ok [OF p, of "current_device_in_BKHO_A s"] d assms(7) by auto
  have "health_pos (unat (polled_address s)) = 144 + (d - 145)"
    using unat_polled_address [OF assms(1)] assms(4,7) d by (simp add: health_pos_def)
  then have "health_bit h n \<longleftrightarrow> health_bit (health_abonent ?p) n \<or> n = health_pos (unat (polled_address s))" for n
    using health_bit_set_bkho [OF h(2-4)] d by simp
  moreover have "Check_message_UART (Some bs) 32 s
      = Inr (s\<lparr> YLSToYVPack := (YLSToYVPack s)[k := packet_after h (off_yps_mask_BKHO_A (d - 145)) (bkho_payload d bs) ?p] \<rparr>)"
    using assms h(1) by (subst Check_UART_eq) (auto simp: on_pack_ok [OF assms(1)])
  moreover have "overlay (off_yps_mask_BKHO_A (d - 145) - 22) (bkho_payload d bs) (rest ?p)
      = (if d \<le> 147 then (rest ?p)[off_yps_mask_BKHO_A (d - 145) - 22 := bs ! 0] else rest ?p)"
    using overlay_snoc [of "off_yps_mask_BKHO_A (d - 145) - 22" "[]" "rest ?p" "bs ! 0"] p(1) d
    by (simp add: bkho_payload_def layout_simps packet_wf_def)
  ultimately show ?thesis by auto
qed

text \<open>A frame used to exercise the properties: 31 equal bytes and their checksum, in a buffer of 200.\<close>

definition sample_frame :: "u8 list" where
  "sample_frame = replicate 31 5 @ [crc8_ref (replicate 31 5)] @ replicate 168 0"

lemma sample_frame_ok: "length sample_frame = 200" "frame_ok sample_frame 32"
proof -
  show l: "length sample_frame = 200" by (simp add: sample_frame_def)
  have "sample_frame ! 31 = crc8_ref (take 31 sample_frame)"
    by (simp add: sample_frame_def nth_append)
  then show "frame_ok sample_frame 32" using frame_ok_alt [of 32 sample_frame] l by simp
qed

theorem bkd_answer_stored_witness:
  "\<exists>t. Check_message_UART (Some sample_frame) 32 ((app_init (\<lambda>_. 0) 0)\<lparr> current_BKD := 3 \<rparr>) = Inr t
     \<and> health_bit (health_abonent (YLSToYVPack t ! 0)) 3"
proof -
  let ?s = "(app_init (\<lambda>_. 0) 0)\<lparr> current_BKD := 3 \<rparr>"
  have w: "app_wf ?s" using app_init_wf [of "\<lambda>_. 0" 0] by (simp add: app_wf_unat)
  have v: "current_BKD ?s < 12" "0 = unat (current_tick_tx_eth ?s)" "1 = unat (current_device_in_BKDx ?s)"
    "length (YLSToYVPack ?s) = 2" "health_pos (unat (polled_address ?s)) = 3"
    by (simp_all add: app_init_def polled_address_def health_pos_def)
  from bkd_answer_stored [OF w sample_frame_ok v(1-3)] v(4,5) show ?thesis by auto
qed

theorem bkho_answer_stored_witness:
  "\<exists>t. Check_message_UART (Some sample_frame) 32
       ((app_init (\<lambda>_. 0) 0)\<lparr> current_BKD := 12, current_device_in_BKHO_A := 150 \<rparr>) = Inr t
     \<and> health_bit (health_abonent (YLSToYVPack t ! 0)) 149"
proof -
  let ?s = "(app_init (\<lambda>_. 0) 0)\<lparr> current_BKD := 12, current_device_in_BKHO_A := 150 \<rparr>"
  have w: "app_wf ?s" using app_init_wf [of "\<lambda>_. 0" 0] by (simp add: app_wf_unat)
  have v: "current_BKD ?s = 12" "145 \<le> unat (current_device_in_BKHO_A ?s)" "0 = unat (current_tick_tx_eth ?s)"
    "150 = unat (current_device_in_BKHO_A ?s)"
    "length (YLSToYVPack ?s) = 2" "health_pos (unat (polled_address ?s)) = 149"
    by (simp_all add: app_init_def polled_address_def health_pos_def)
  from bkho_answer_stored [OF w sample_frame_ok v(1-4)] v(5,6) show ?thesis by auto
qed

text \<open>
  C7: a damaged frame changes nothing. If a frame of the given length passes the check, then the
  same frame with one byte replaced by another value, or with an odd number of its bits flipped,
  is rejected and leaves the whole state as it was.
\<close>

theorem damaged_frame_ignored:
  assumes "frame_ok bs len"
  shows "(\<forall>i v. i < unat len \<and> v \<noteq> bs ! i \<longrightarrow> Check_message_UART (Some (bs[i := v])) len s = Inr s)
    \<and> (\<forall>e. length e = unat len \<and> odd (weight e) \<longrightarrow>
         Check_message_UART (Some (map2 (XOR) (take (unat len) bs) e @ drop (unat len) bs)) len s = Inr s)"
proof (intro conjI allI impI)
  have l: "unat len \<le> length bs" and r: "crc_run poly_step 0xFF (take (unat len) bs) = 0"
    using assms by (simp_all add: frame_ok_def)
  fix i v assume a: "i < unat len \<and> v \<noteq> bs ! i"
  have "crc_run poly_step 0xFF ((take (unat len) bs)[i := v]) \<noteq> crc_run poly_step 0xFF (take (unat len) bs)"
    using a l by (intro crc8.crc_run_update) simp_all
  then have "\<not> frame_ok (bs[i := v]) len"
    using a r by (simp add: frame_ok_def take_update_swap)
  then show "Check_message_UART (Some (bs[i := v])) len s = Inr s"
    using l by (subst Check_UART_eq) simp_all
next
  have l: "unat len \<le> length bs" and r: "crc_run poly_step 0xFF (take (unat len) bs) = 0"
    using assms by (simp_all add: frame_ok_def)
  fix e :: "u8 list" assume a: "length e = unat len \<and> odd (weight e)"
  let ?x = "map2 (XOR) (take (unat len) bs) e"
  have "crc_run poly_step 0xFF ?x \<noteq> 0"
    using crc8.crc_run_odd_error [of e "take (unat len) bs" "0xFF"] a l r by simp
  moreover have "length ?x = unat len" using a l by simp
  ultimately have "\<not> frame_ok (?x @ drop (unat len) bs) len" by (simp add: frame_ok_def)
  then show "Check_message_UART (Some (?x @ drop (unat len) bs)) len s = Inr s"
    using a l by (subst Check_UART_eq) simp_all
qed

theorem damaged_frame_ignored_witness:
  "Check_message_UART (Some (sample_frame[4 := 6])) 32 (app_init (\<lambda>_. 0) 0) = Inr (app_init (\<lambda>_. 0) 0)"
  using damaged_frame_ignored [OF sample_frame_ok(2), of "app_init (\<lambda>_. 0) 0"]
  by (simp add: sample_frame_def nth_append)

lemma answer_servo_fields:
  assumes "packet_wf p" "24 \<le> length m" "1 \<le> unat d" "unat d \<le> 12" "unat b \<le> 13" "unat e \<le> 168"
  shows "answer_BKD d b m len p = Inr q \<Longrightarrow> servo_fields (health_abonent q) = servo_fields (health_abonent p)"
    and "answer_BKHO_A e m len p = Inr q \<Longrightarrow> servo_fields (health_abonent q) = servo_fields (health_abonent p)"
proof -
  show "answer_BKD d b m len p = Inr q \<Longrightarrow> servo_fields (health_abonent q) = servo_fields (health_abonent p)"
    using answer_BKD_ok [OF assms(1-5)] by (cases "len = 32") (auto simp: answer_BKD_other_size)
  show "answer_BKHO_A e m len p = Inr q \<Longrightarrow> servo_fields (health_abonent q) = servo_fields (health_abonent p)"
    using answer_BKHO_A_ok [OF assms(1,2) _ assms(6)] answer_BKHO_A_other
    by (cases "len = 32 \<and> 145 \<le> unat e") auto
qed

lemma Check_UART_servo_fields:
  assumes "app_wf s" "length bs = 200" "unat len \<le> 200" "Check_message_UART (Some bs) len s = Inr t"
  shows "servo_fields (health_abonent (YLSToYVPack t ! i)) = servo_fields (health_abonent (YLSToYVPack s ! i))"
proof -
  let ?k = "unat (current_tick_tx_eth s)"
  let ?p = "YLSToYVPack s ! ?k"
  have p: "packet_wf ?p" "24 \<le> length bs" using cur_pack_wf [OF assms(1)] assms(2) by simp_all
  have d: "1 \<le> unat (current_device_in_BKDx s)" "unat (current_device_in_BKDx s) \<le> 12" "unat (current_BKD s) \<le> 13"
    "unat (current_device_in_BKHO_A s) \<le> 168"
    using assms(1) by (simp_all add: app_wf_unat)
  obtain a where a: "answer_BKD (current_device_in_BKDx s) (current_BKD s) bs len ?p = Inr a"
    using answer_BKD_wf [OF p d(1-3)] by blast
  obtain b where b: "answer_BKHO_A (current_device_in_BKHO_A s) bs len ?p = Inr b"
    using answer_BKHO_A_wf [OF p d(4)] by blast
  have "t = s \<or> t = s\<lparr> YLSToYVPack := (YLSToYVPack s)[?k := a] \<rparr> \<or> t = s\<lparr> YLSToYVPack := (YLSToYVPack s)[?k := b] \<rparr>"
    using assms(2-4) a b by (auto simp: Check_UART_eq on_pack_ok [OF assms(1)] split: if_splits)
  then show ?thesis
    using answer_servo_fields(1) [OF p d a] answer_servo_fields(2) [OF p d b]
    by (cases "i = ?k"; cases "?k < length (YLSToYVPack s)") (auto simp: list_update_beyond)
qed

text \<open>
  No received frame ever changes the health bit of an external servo: the dispatch sends
  every frame of the servo slot to the handler of the BKD blocks, and the handler written for
  the servos is never reached.
\<close>

theorem servo_answer_never_recorded:
  assumes "app_wf s" "length bs = 200" "unat len \<le> 200" "Check_message_UART (Some bs) len s = Inr t"
  shows "\<forall>n i. 168 \<le> n \<longrightarrow> health_bit (health_abonent (YLSToYVPack t ! i)) n
    = health_bit (health_abonent (YLSToYVPack s ! i)) n"
  using Check_UART_servo_fields [OF assms] by (simp add: health_bit_def)

theorem servo_answer_never_recorded_witness:
  "\<exists>t. Check_message_UART (Some sample_frame) 32 ((app_init (\<lambda>_. 0) 0)\<lparr> current_BKD := 13 \<rparr>) = Inr t
     \<and> \<not> health_bit (health_abonent (YLSToYVPack t ! 0)) 175"
proof -
  let ?s = "(app_init (\<lambda>_. 0) 0)\<lparr> current_BKD := 13 \<rparr>"
  have w: "app_wf ?s" using app_init_wf [of "\<lambda>_. 0" 0] by (simp add: app_wf_unat)
  obtain t where t: "Check_message_UART (Some sample_frame) 32 ?s = Inr t"
    using Check_UART_pack [OF w sample_frame_ok(1), of 32] by auto
  have "\<not> health_bit (health_abonent (YLSToYVPack ?s ! 0)) 175"
    by (simp add: app_init_def packet_zero_def health_zero_def health_bit_def servo_fields_def)
  with servo_answer_never_recorded [OF w sample_frame_ok(1) _ t] t show ?thesis by auto
qed

text \<open>
  C25: in the servo slot a valid answer is stored through array indices that are out of range: the
  health map keeps every bit, and the payload lands at \<open>answer_off d 13\<close>, beyond the end of the
  array it is meant for and still inside the packet, so it overwrites the fields that follow.
\<close>

theorem servo_answer_misplaced:
  assumes "app_wf s" "length bs = 200" "frame_ok bs 32" "current_BKD s = 13"
    and "k = unat (current_tick_tx_eth s)" "d = unat (current_device_in_BKDx s)"
  shows "\<exists>q. Check_message_UART (Some bs) 32 s = Inr (s\<lparr> YLSToYVPack := (YLSToYVPack s)[k := q] \<rparr>)
    \<and> (\<forall>n. health_bit (health_abonent q) n = health_bit (health_abonent (YLSToYVPack s ! k)) n)
    \<and> rest q = overlay (answer_off d 13 - 22) (answer_payload d bs) (rest (YLSToYVPack s ! k))
    \<and> (if d \<le> 3 then off_out_ykp_angle 0 else if d \<le> 6 then off_yvp_data 0 0 0
       else if d \<le> 9 then off_ykp_angle 0 0 0 else off_ylk96_data 12 0 0) \<le> answer_off d 13
    \<and> answer_off d 13 + length (answer_payload d bs) \<le> SIZE_MESSAGE_YLS"
proof -
  let ?p = "YLSToYVPack s ! k"
  have d: "1 \<le> d" "d \<le> 12" using assms(1,6) by (simp_all add: app_wf_unat)
  have p: "packet_wf ?p" "24 \<le> length bs" using cur_pack_wf [OF assms(1)] assms(2,5) by simp_all
  obtain h where h: "answer_BKD (current_device_in_BKDx s) 13 bs 32 ?p
      = Inr (packet_after h (answer_off d 13) (answer_payload d bs) ?p)"
    "bkd_fields h = (bkd_fields (health_abonent ?p))[d - 1 := (bkd_fields (health_abonent ?p) ! (d - 1)) OR push_bit 13 1]"
    "bkho_fields h = bkho_fields (health_abonent ?p)" "servo_fields h = servo_fields (health_abonent ?p)"
    using answer_BKD_ok [OF p, of "current_device_in_BKDx s" 13] d assms(6) by auto
  have "health_bit h n = health_bit (health_abonent ?p) n" for n
    using health_bit_set_bkd [OF h(2-4)] d by simp
  moreover have "Check_message_UART (Some bs) 32 s
      = Inr (s\<lparr> YLSToYVPack := (YLSToYVPack s)[k := packet_after h (answer_off d 13) (answer_payload d bs) ?p] \<rparr>)"
    using assms h(1) by (subst Check_UART_eq) (auto simp: on_pack_ok [OF assms(1)])
  moreover have "answer_off d 13 + length (answer_payload d bs) \<le> SIZE_MESSAGE_YLS"
    using answer_off_bounds [OF d, of 13] answer_payload_length [OF p(2), of d] by (simp add: SIZE_MESSAGE_YLS_def)
  moreover have "(if d \<le> 3 then off_out_ykp_angle 0 else if d \<le> 6 then off_yvp_data 0 0 0
       else if d \<le> 9 then off_ykp_angle 0 0 0 else off_ylk96_data 12 0 0) \<le> answer_off d 13"
    by (simp add: answer_off_def layout_simps)
  ultimately show ?thesis by (intro exI [of _ "packet_after h (answer_off d 13) (answer_payload d bs) ?p"]) simp
qed

theorem servo_answer_misplaced_witness:
  "\<exists>q. Check_message_UART (Some sample_frame) 32 ((app_init (\<lambda>_. 0) 0)\<lparr> current_BKD := 13 \<rparr>)
      = Inr (((app_init (\<lambda>_. 0) 0)\<lparr> current_BKD := 13 \<rparr>)\<lparr> YLSToYVPack := (YLSToYVPack (app_init (\<lambda>_. 0) 0))[0 := q] \<rparr>)
    \<and> off_out_ykp_angle 0 \<le> answer_off 1 13"
proof -
  let ?s = "(app_init (\<lambda>_. 0) 0)\<lparr> current_BKD := 13 \<rparr>"
  have w: "app_wf ?s" using app_init_wf [of "\<lambda>_. 0" 0] by (simp add: app_wf_unat)
  have v: "current_BKD ?s = 13" "0 = unat (current_tick_tx_eth ?s)" "1 = unat (current_device_in_BKDx ?s)"
    by (simp_all add: app_init_def)
  from servo_answer_misplaced [OF w sample_frame_ok v] show ?thesis by auto
qed

end
