(* ===== verification/Uart_Irq.thy ===== *)
theory Uart_Irq
  imports Uart_Answer
begin

text \<open>
  The interrupt handlers of \<^verbatim>\<open>src/src/uart.c\<close>: the end-of-frame timers, the poll
  timer, the receive interrupts of the two USARTs and the end-of-transfer interrupts of their DMA
  channels. The two receivers share the contract \<open>frame_receiver\<close>, whose lemmas are proved
  once and used for both.
\<close>

section \<open>The handlers\<close>

definition TIMER2_IRQHandler :: "app \<Rightarrow> app res" where
  "TIMER2_IRQHandler s =
     (if timer_interrupt_flag_get TIMER2 TIMER_INT_FLAG_UP (regs s) then
        let s = s\<lparr> regs := timer_interrupt_flag_clear TIMER2 TIMER_INT_FLAG_UP (regs s) \<rparr>
        in bind_res (Check_message_UART (Some (usart0_buffer_rx s)) (usart0_counter s) s) (\<lambda>s.
           Inr (s\<lparr> regs := timer_disable TIMER2 (regs s), usart0_counter := 0, timer2En := False \<rparr>))
      else Inr s)"

definition TIMER4_IRQHandler :: "app \<Rightarrow> app res" where
  "TIMER4_IRQHandler s =
     (if timer_interrupt_flag_get TIMER4 TIMER_INT_FLAG_UP (regs s) then
        let s = s\<lparr> regs := timer_interrupt_flag_clear TIMER4 TIMER_INT_FLAG_UP (regs s) \<rparr>
        in bind_res (Check_message_UART (Some (usart5_buffer_rx s)) (usart5_counter s) s) (\<lambda>s.
           Inr (s\<lparr> regs := timer_disable TIMER4 (regs s), usart5_counter := 0, timer4En := False \<rparr>))
      else Inr s)"

definition TIMER6_IRQHandler :: "app \<Rightarrow> app res" where
  "TIMER6_IRQHandler s =
     (if timer_interrupt_flag_get TIMER6 TIMER_INT_FLAG_UP (regs s) then
        Qwerty_all_Device (s\<lparr> regs := timer_interrupt_flag_clear TIMER6 TIMER_INT_FLAG_UP (regs s) \<rparr>)
      else Inr s)"

definition USART0_IRQHandler :: "app \<Rightarrow> app res" where
  "USART0_IRQHandler s =
     (if usart_interrupt_flag_get USART0 USART_INT_FLAG_RBNE (regs s) then
        let s = s\<lparr> regs := usart_interrupt_flag_clear USART0 USART_INT_FLAG_RBNE (regs s) \<rparr>
        in bind_res (put_at (usart0_buffer_rx s) (unat (usart0_counter s))
                       (ucast (usart_data_receive USART0 (regs s)))) (\<lambda>buf.
           let s = s\<lparr> usart0_buffer_rx := buf, usart0_counter := usart0_counter s + 1 \<rparr>
           in if usart0_transmit s = 0 then
                if unat (usart0_counter s) < USART_RX_BUFFER_SIZE then
                  let s = s\<lparr> regs := reg_wr (TIMER_CNT TIMER2) 0 (regs s) \<rparr>
                  in if \<not> timer2En s
                     then Inr (s\<lparr> timer2En := True, regs := timer_enable TIMER2 (regs s) \<rparr>)
                     else Inr s
                else Inr (s\<lparr> usart0_counter := 0 \<rparr>)
              else Inr s)
      else Inr s)"

definition USART5_IRQHandler :: "app \<Rightarrow> app res" where
  "USART5_IRQHandler s =
     (if usart_interrupt_flag_get USART5 USART_INT_FLAG_RBNE (regs s) then
        let s = s\<lparr> regs := usart_interrupt_flag_clear USART5 USART_INT_FLAG_RBNE (regs s) \<rparr>
        in bind_res (put_at (usart5_buffer_rx s) (unat (usart5_counter s))
                       (ucast (usart_data_receive USART5 (regs s)))) (\<lambda>buf.
           let s = s\<lparr> usart5_buffer_rx := buf, usart5_counter := usart5_counter s + 1 \<rparr>
           in if usart5_transmit s = 0 then
                if unat (usart5_counter s) < USART_RX_BUFFER_SIZE then
                  let s = s\<lparr> regs := reg_wr (TIMER_CNT TIMER4) 0 (regs s) \<rparr>
                  in if \<not> timer4En s
                     then Inr (s\<lparr> timer4En := True, regs := timer_enable TIMER4 (regs s) \<rparr>)
                     else Inr s
                else Inr (s\<lparr> usart5_counter := 0 \<rparr>)
              else Inr s)
      else Inr s)"

definition DMA1_Channel7_IRQHandler :: "app \<Rightarrow> app" where
  "DMA1_Channel7_IRQHandler s =
     (if dma_flag_get DMA1 7 DMA_FLAG_FTF (regs s) then
        let m = dma_flag_clear DMA1 7 DMA_FLAG_FTF (regs s);
            m = USART0_RX m;
            m = dma_channel_disable DMA1 7 m
        in s\<lparr> usart0_transmit := 0, regs := m \<rparr>
      else s)"

definition DMA1_Channel6_IRQHandler :: "app \<Rightarrow> app" where
  "DMA1_Channel6_IRQHandler s =
     (if dma_flag_get DMA1 6 DMA_FLAG_FTF (regs s) then
        let m = dma_flag_clear DMA1 6 DMA_FLAG_FTF (regs s);
            m = USART5_RX m;
            m = dma_channel_disable DMA1 6 m
        in s\<lparr> usart5_transmit := 0, regs := m \<rparr>
      else s)"

section \<open>The hardware events that raise them\<close>

text \<open>
  A byte that arrives is latched in the data register and sets RBNE; a timer that overflows sets
  its update flag; a finished transfer sets FTF of its channel. The interrupt then runs the handler.
\<close>

definition rx_latch :: "u32 \<Rightarrow> u8 \<Rightarrow> mem \<Rightarrow> mem" where
  "rx_latch u b m = reg_set (USART_STAT0 u) (BIT 5) (reg_wr (USART_DATA u) (ucast b) m)"

definition timer_overflow :: "u32 \<Rightarrow> mem \<Rightarrow> mem" where
  "timer_overflow t = reg_set (TIMER_INTF t) TIMER_INTF_UPIF"

definition dma_finished :: "u32 \<Rightarrow> nat \<Rightarrow> mem \<Rightarrow> mem" where
  "dma_finished d c = reg_set (DMA_INTF1 d) (DMA_FLAG_ADD DMA_FLAG_FTF (c - 4))"

definition usart5_byte :: "u8 \<Rightarrow> app \<Rightarrow> app res" where
  "usart5_byte b s = USART5_IRQHandler (s\<lparr> regs := rx_latch USART5 b (regs s) \<rparr>)"

definition usart0_byte :: "u8 \<Rightarrow> app \<Rightarrow> app res" where
  "usart0_byte b s = USART0_IRQHandler (s\<lparr> regs := rx_latch USART0 b (regs s) \<rparr>)"

section \<open>The contract of a receiver\<close>

text \<open>
  \<open>on_byte\<close> is the arrival of a byte, \<open>ready\<close> says that the receive interrupt is on and
  the buffer has its size, \<open>busy\<close> that the transmit flag is set, \<open>other\<close> is the part of the
  state a receiver must not touch.
\<close>

locale frame_receiver =
  fixes on_byte :: "u8 \<Rightarrow> 's \<Rightarrow> 's res"
    and buf :: "'s \<Rightarrow> u8 list" and cnt :: "'s \<Rightarrow> nat"
    and ready busy :: "'s \<Rightarrow> bool" and other :: "'s \<Rightarrow> 'o"
    and cap :: nat
  assumes buf_size: "ready s \<Longrightarrow> length (buf s) = cap"
    and stored: "ready s \<Longrightarrow> cnt s < cap \<Longrightarrow> \<exists>t. on_byte b s = Inr t \<and> ready t \<and> busy t = busy s
        \<and> other t = other s \<and> buf t = (buf s)[cnt s := b]
        \<and> cnt t = (if busy s \<or> Suc (cnt s) < cap then Suc (cnt s) else 0)"
    and overrun: "ready s \<Longrightarrow> cap \<le> cnt s \<Longrightarrow> on_byte b s = Inl Out_Of_Bounds"
begin

text \<open>A run of bytes that fits behind the ones already in the buffer.\<close>

lemma frame_collected:
  assumes "ready s" "cnt s + length bs < cap"
  shows "\<exists>t. res_fold on_byte bs s = Inr t \<and> ready t \<and> busy t = busy s \<and> other t = other s
    \<and> cnt t = cnt s + length bs \<and> take (cnt t) (buf t) = take (cnt s) (buf s) @ bs
    \<and> drop (cnt t) (buf t) = drop (cnt t) (buf s)"
  using assms
proof (induction bs arbitrary: s)
  case Nil
  then show ?case by simp
next
  case (Cons b bs)
  obtain t where t: "on_byte b s = Inr t" "ready t" "busy t = busy s" "other t = other s"
    "buf t = (buf s)[cnt s := b]" "cnt t = Suc (cnt s)"
    using stored [OF Cons.prems(1), of b] Cons.prems(2) by auto
  from Cons.IH [OF t(2)] t(6) Cons.prems(2) obtain u where u: "res_fold on_byte bs t = Inr u" "ready u"
    "busy u = busy t" "other u = other t" "cnt u = cnt t + length bs"
    "take (cnt u) (buf u) = take (cnt t) (buf t) @ bs" "drop (cnt u) (buf u) = drop (cnt u) (buf t)"
    by auto
  have "take (cnt t) (buf t) = take (cnt s) (buf s) @ [b]"
    using t(5,6) Cons.prems(2) buf_size [OF Cons.prems(1)] by (simp add: take_Suc_conv_app_nth)
  with t u show ?case by simp
qed

text \<open>With the transmit flag set nothing bounds the counter: the buffer can be filled to its end, and the byte after that faults.\<close>

lemma busy_collected:
  assumes "ready s" "busy s" "cnt s + length bs \<le> cap"
  shows "\<exists>t. res_fold on_byte bs s = Inr t \<and> ready t \<and> busy t \<and> other t = other s \<and> cnt t = cnt s + length bs"
  using assms
proof (induction bs arbitrary: s)
  case (Cons b bs)
  have "cnt s < cap" using Cons.prems(3) by simp
  from stored [OF Cons.prems(1) this, of b] Cons.prems obtain t where
    "on_byte b s = Inr t" "ready t" "busy t" "other t = other s" "cnt t = Suc (cnt s)" by auto
  with Cons.IH [of t] Cons.prems(3) show ?case by auto
qed simp

lemma busy_overrun:
  assumes "ready s" "busy s" "cnt s + length bs = Suc cap" "cnt s \<le> cap"
  shows "res_fold on_byte bs s = Inl Out_Of_Bounds"
  using assms
proof (induction bs arbitrary: s)
  case Nil
  then show ?case by simp
next
  case (Cons b bs)
  show ?case
  proof (cases "cnt s < cap")
    case True
    from stored [OF Cons.prems(1) this, of b] Cons.prems obtain t where
      "on_byte b s = Inr t" "ready t" "busy t" "cnt t = Suc (cnt s)" by auto
    with Cons.IH [of t] Cons.prems True show ?thesis by simp
  next
    case False
    then show ?thesis using overrun [OF Cons.prems(1), of b] by simp
  qed
qed

text \<open>Outside a transmission the counter never leaves the buffer, however many bytes arrive.\<close>

lemma quiet_never_overruns:
  assumes "ready s" "\<not> busy s" "cnt s < cap"
  shows "\<exists>t. res_fold on_byte bs s = Inr t \<and> ready t \<and> \<not> busy t \<and> other t = other s \<and> cnt t < cap"
  using assms
proof (induction bs arbitrary: s)
  case Nil
  then show ?case by simp
next
  case (Cons b bs)
  from stored [OF Cons.prems(1,3), of b] Cons.prems obtain t where
    t: "on_byte b s = Inr t" "ready t" "\<not> busy t" "other t = other s" "cnt t < cap"
    by (auto split: if_splits)
  with Cons.IH [OF t(2,3,5)] show ?case by auto
qed

end

section \<open>The two receivers meet the contract\<close>

lemma data_receive_latched: "reg_rd (USART_DATA u) m = ucast b \<Longrightarrow> ucast (usart_data_receive u m) = b" for b :: u8
  by (rule bit_word_eqI)
    (simp add: usart_data_receive_def bit_unsigned_iff bit_GET_BITS)

text \<open>What a receiver leaves alone: every variable and register but its own.\<close>

definition usart5_other :: "app \<Rightarrow> app \<times> mem" where
  "usart5_other s =
     (s\<lparr> regs := \<lambda>_. 0, usart5_buffer_rx := [], usart5_counter := 0, timer4En := False \<rparr>,
      \<lambda>a. if a \<in> {USART_STAT0 USART5, USART_DATA USART5, TIMER_CNT TIMER4, TIMER_CTL0 TIMER4}
          then 0 else reg_rd a (regs s))"

definition usart5_ready :: "app \<Rightarrow> bool" where
  "usart5_ready s \<longleftrightarrow> length (usart5_buffer_rx s) = 200 \<and> bit (reg_rd (USART_CTL0 USART5) (regs s)) 5"

definition usart0_other :: "app \<Rightarrow> app \<times> mem" where
  "usart0_other s =
     (s\<lparr> regs := \<lambda>_. 0, usart0_buffer_rx := [], usart0_counter := 0, timer2En := False \<rparr>,
      \<lambda>a. if a \<in> {USART_STAT0 USART0, USART_DATA USART0, TIMER_CNT TIMER2, TIMER_CTL0 TIMER2}
          then 0 else reg_rd a (regs s))"

definition usart0_ready :: "app \<Rightarrow> bool" where
  "usart0_ready s \<longleftrightarrow> length (usart0_buffer_rx s) = 200 \<and> bit (reg_rd (USART_CTL0 USART0) (regs s)) 5"

lemma u8_succ: "unat (c + 1) = Suc (unat c)" if "unat c < 200" for c :: u8
  using that by (simp add: unat_word_ariths)

lemma usart_reg_distinct [simp]:
  "USART_STAT0 u \<noteq> USART_DATA u" "USART_DATA u \<noteq> USART_STAT0 u"
  "USART_STAT0 u \<noteq> USART_CTL0 u" "USART_CTL0 u \<noteq> USART_STAT0 u"
  "USART_DATA u \<noteq> USART_CTL0 u" "USART_CTL0 u \<noteq> USART_DATA u"
  by (simp_all add: usart_regs)

lemma usart5_timer_distinct [simp]:
  "USART_CTL0 USART5 \<noteq> TIMER_CNT TIMER4" "USART_CTL0 USART5 \<noteq> TIMER_CTL0 TIMER4"
  "USART_CTL0 USART0 \<noteq> TIMER_CNT TIMER2" "USART_CTL0 USART0 \<noteq> TIMER_CTL0 TIMER2"
  by (simp_all add: reg_simps)

lemma rx_latch_regs:
  "bit (reg_rd (USART_STAT0 u) (rx_latch u b m)) 5"
  "reg_rd (USART_CTL0 u) (rx_latch u b m) = reg_rd (USART_CTL0 u) m"
  "reg_rd (USART_DATA u) (reg_clr (USART_STAT0 u) k (rx_latch u b m)) = ucast b"
  "a \<noteq> USART_STAT0 u \<Longrightarrow> a \<noteq> USART_DATA u \<Longrightarrow> reg_rd a (rx_latch u b m) = reg_rd a m"
  by (simp_all add: rx_latch_def bit_or_iff)

lemma usart5_stored:
  assumes "usart5_ready s" "unat (usart5_counter s) < 200"
  shows "\<exists>t. usart5_byte b s = Inr t \<and> usart5_ready t \<and> (usart5_transmit t \<noteq> 0) = (usart5_transmit s \<noteq> 0)
    \<and> usart5_other t = usart5_other s \<and> usart5_buffer_rx t = (usart5_buffer_rx s)[unat (usart5_counter s) := b]
    \<and> unat (usart5_counter t) = (if usart5_transmit s \<noteq> 0 \<or> Suc (unat (usart5_counter s)) < 200
                                  then Suc (unat (usart5_counter s)) else 0)"
  using assms
  by (auto simp: usart5_byte_def USART5_IRQHandler_def usart5_ready_def usart_rbne_get rx_latch_regs
      usart_rbne_clear Let_def data_receive_latched [OF rx_latch_regs(3)] u8_succ USART_RX_BUFFER_SIZE_def
      usart5_other_def timer_enable_def fun_eq_iff)

lemma usart0_stored:
  assumes "usart0_ready s" "unat (usart0_counter s) < 200"
  shows "\<exists>t. usart0_byte b s = Inr t \<and> usart0_ready t \<and> (usart0_transmit t \<noteq> 0) = (usart0_transmit s \<noteq> 0)
    \<and> usart0_other t = usart0_other s \<and> usart0_buffer_rx t = (usart0_buffer_rx s)[unat (usart0_counter s) := b]
    \<and> unat (usart0_counter t) = (if usart0_transmit s \<noteq> 0 \<or> Suc (unat (usart0_counter s)) < 200
                                  then Suc (unat (usart0_counter s)) else 0)"
  using assms
  by (auto simp: usart0_byte_def USART0_IRQHandler_def usart0_ready_def usart_rbne_get rx_latch_regs
      usart_rbne_clear Let_def data_receive_latched [OF rx_latch_regs(3)] u8_succ USART_RX_BUFFER_SIZE_def
      usart0_other_def timer_enable_def fun_eq_iff)

interpretation rx5: frame_receiver usart5_byte usart5_buffer_rx "\<lambda>s. unat (usart5_counter s)"
  usart5_ready "\<lambda>s. usart5_transmit s \<noteq> 0" usart5_other 200
proof
  show "usart5_ready s \<Longrightarrow> length (usart5_buffer_rx s) = 200" for s by (simp add: usart5_ready_def)
  show "usart5_ready s \<Longrightarrow> 200 \<le> unat (usart5_counter s) \<Longrightarrow> usart5_byte b s = Inl Out_Of_Bounds" for s b
    by (simp add: usart5_byte_def USART5_IRQHandler_def usart5_ready_def usart_rbne_get rx_latch_regs Let_def put_at_def)
qed (rule usart5_stored)

interpretation rx0: frame_receiver usart0_byte usart0_buffer_rx "\<lambda>s. unat (usart0_counter s)"
  usart0_ready "\<lambda>s. usart0_transmit s \<noteq> 0" usart0_other 200
proof
  show "usart0_ready s \<Longrightarrow> length (usart0_buffer_rx s) = 200" for s by (simp add: usart0_ready_def)
  show "usart0_ready s \<Longrightarrow> 200 \<le> unat (usart0_counter s) \<Longrightarrow> usart0_byte b s = Inl Out_Of_Bounds" for s b
    by (simp add: usart0_byte_def USART0_IRQHandler_def usart0_ready_def usart_rbne_get rx_latch_regs Let_def put_at_def)
qed (rule usart0_stored)

section \<open>A whole frame\<close>

text \<open>The answer handlers read the poll counters and the packets and write the packets only.\<close>

lemma Check_UART_view:
  assumes "current_BKD t = current_BKD s" "current_device_in_BKDx t = current_device_in_BKDx s"
    "current_device_in_BKHO_A t = current_device_in_BKHO_A s"
    "current_device_in_OUT_SERVO t = current_device_in_OUT_SERVO s"
    "current_tick_tx_eth t = current_tick_tx_eth s" "YLSToYVPack t = YLSToYVPack s"
  shows "Check_message_UART m len t =
    map_sum id (\<lambda>v. t\<lparr> YLSToYVPack := YLSToYVPack v \<rparr>) (Check_message_UART m len s)"
proof -
  have p: "on_pack f t = map_sum id (\<lambda>v. t\<lparr> YLSToYVPack := YLSToYVPack v \<rparr>) (on_pack f s)" for f
    using assms by (simp add: on_pack_def bind_res_def split: sum.split)
  have i: "Inr t = map_sum id (\<lambda>v. t\<lparr> YLSToYVPack := YLSToYVPack v \<rparr>) (Inr s)"
    using assms(6) by simp
  have b: "bind_res r (\<lambda>x. map_sum id g (k x)) = map_sum id g (bind_res r k)" for r g k
    by (simp add: bind_res_def split: sum.split)
  have c: "(if P then map_sum id g x else map_sum id g y) = map_sum id g (if P then x else y)" for P g x y
    by simp
  show ?thesis
    unfolding Check_message_UART_def Check_message_BKD_def Check_message_BKHO_A_def Check_message_OUT_SERVO_def assms(1-4)
    by (cases m) (simp_all only: option.case p i b c)
qed

lemma usart5_other_eq:
  assumes "usart5_other t = usart5_other s"
  shows "t = s\<lparr> regs := regs t, usart5_buffer_rx := usart5_buffer_rx t, usart5_counter := usart5_counter t, timer4En := timer4En t \<rparr>"
    and "a \<notin> {USART_STAT0 USART5, USART_DATA USART5, TIMER_CNT TIMER4, TIMER_CTL0 TIMER4} \<Longrightarrow>
      reg_rd a (regs t) = reg_rd a (regs s)"
proof -
  show "t = s\<lparr> regs := regs t, usart5_buffer_rx := usart5_buffer_rx t, usart5_counter := usart5_counter t, timer4En := timer4En t \<rparr>"
    using assms by (cases t; cases s) (simp add: usart5_other_def)
  show "reg_rd a (regs t) = reg_rd a (regs s)"
    if "a \<notin> {USART_STAT0 USART5, USART_DATA USART5, TIMER_CNT TIMER4, TIMER_CTL0 TIMER4}"
    using assms that by (simp add: usart5_other_def fun_eq_iff) (metis (no_types))
qed

lemma usart5_other_fields:
  assumes "usart5_other t = usart5_other s"
  shows "current_BKD t = current_BKD s" "current_device_in_BKDx t = current_device_in_BKDx s"
    "current_device_in_BKHO_A t = current_device_in_BKHO_A s"
    "current_device_in_OUT_SERVO t = current_device_in_OUT_SERVO s"
    "current_tick_tx_eth t = current_tick_tx_eth s" "YLSToYVPack t = YLSToYVPack s"
  using assms by (cases t; cases s; simp add: usart5_other_def)+

lemma timer4_flag:
  "timer_interrupt_flag_get TIMER4 TIMER_INT_FLAG_UP (timer_overflow TIMER4 m) \<longleftrightarrow>
     bit (reg_rd (TIMER_DMAINTEN TIMER4) m) 0"
  by (simp add: timer_update_get timer_overflow_def timer_regs timer_periphs TIMER_INTF_UPIF_def bit_or_iff)

lemma TIMER4_run:
  assumes "bit (reg_rd (TIMER_DMAINTEN TIMER4) (regs t)) 0"
    "Check_message_UART (Some (usart5_buffer_rx t)) (usart5_counter t) t = Inr v"
  shows "\<exists>m. TIMER4_IRQHandler (t\<lparr> regs := timer_overflow TIMER4 (regs t) \<rparr>)
      = Inr (t\<lparr> regs := m, YLSToYVPack := YLSToYVPack v, usart5_counter := 0, timer4En := False \<rparr>)
    \<and> \<not> bit (reg_rd (TIMER_CTL0 TIMER4) m) 0"
proof -
  let ?t = "t\<lparr> regs := timer_interrupt_flag_clear TIMER4 TIMER_INT_FLAG_UP (timer_overflow TIMER4 (regs t)) \<rparr>"
  have "Check_message_UART (Some (usart5_buffer_rx t)) (usart5_counter t) ?t
      = Inr (?t\<lparr> YLSToYVPack := YLSToYVPack v \<rparr>)"
    using assms(2) by (subst Check_UART_view [of _ t]) simp_all
  then show ?thesis
    using assms(1)
    by (intro exI [of _ "timer_disable TIMER4 (regs ?t)"])
      (simp add: TIMER4_IRQHandler_def timer4_flag timer_disable_def TIMER_CTL0_CEN_def bit_and_iff bit_not_iff)
qed

section \<open>Properties of the interrupts\<close>

lemma frame_reception:
  assumes "app_wf s" "usart5_ready s" "usart5_counter s = 0" "usart5_transmit s = 0"
    and "bit (reg_rd (TIMER_DMAINTEN TIMER4) (regs s)) 0" "length f < 200"
  shows "\<exists>t u v. res_fold usart5_byte f s = Inr t
    \<and> TIMER4_IRQHandler (t\<lparr> regs := timer_overflow TIMER4 (regs t) \<rparr>) = Inr u
    \<and> Check_message_UART (Some (f @ drop (length f) (usart5_buffer_rx s))) (of_nat (length f)) s = Inr v
    \<and> u = s\<lparr> regs := regs u, YLSToYVPack := YLSToYVPack v, usart5_counter := 0, timer4En := False,
            usart5_buffer_rx := f @ drop (length f) (usart5_buffer_rx s) \<rparr>
    \<and> \<not> bit (reg_rd (TIMER_CTL0 TIMER4) (regs u)) 0"
proof -
  obtain t where t: "res_fold usart5_byte f s = Inr t" "usart5_other t = usart5_other s"
    "unat (usart5_counter t) = length f" "take (length f) (usart5_buffer_rx t) = f"
    "drop (length f) (usart5_buffer_rx t) = drop (length f) (usart5_buffer_rx s)"
    using rx5.frame_collected [OF assms(2), of f] assms(3,6) by auto
  note o = usart5_other_eq [OF t(2)]
  define b where "b = f @ drop (length f) (usart5_buffer_rx s)"
  have b: "usart5_buffer_rx t = b" using t(4,5) append_take_drop_id [of "length f" "usart5_buffer_rx t"]
    by (simp add: b_def)
  have c: "usart5_counter t = of_nat (length f)" using t(3) assms(6) by (simp add: word_unat_eq_iff unat_of_nat)
  have e: "bit (reg_rd (TIMER_DMAINTEN TIMER4) (regs t)) 0"
    using o(2) [of "TIMER_DMAINTEN TIMER4"] assms(5) by (simp add: reg_simps)
  have l: "length b = 200" using assms(2,6) by (simp add: b_def usart5_ready_def)
  obtain v where v: "Check_message_UART (Some b) (of_nat (length f)) s = Inr v"
    using Check_UART_pack [OF assms(1) l, of "of_nat (length f)"] assms(6)
    by (auto simp: unat_of_nat)
  have "Check_message_UART (Some b) (of_nat (length f)) t = Inr (t\<lparr> YLSToYVPack := YLSToYVPack v \<rparr>)"
    using v by (simp add: Check_UART_view [OF usart5_other_fields [OF t(2)]])
  then obtain m where m: "TIMER4_IRQHandler (t\<lparr> regs := timer_overflow TIMER4 (regs t) \<rparr>)
      = Inr (t\<lparr> regs := m, YLSToYVPack := YLSToYVPack v, usart5_counter := 0, timer4En := False \<rparr>)"
    "\<not> bit (reg_rd (TIMER_CTL0 TIMER4) m) 0"
    using TIMER4_run [OF e] b c by auto
  have "t\<lparr> regs := m, YLSToYVPack := YLSToYVPack v, usart5_counter := 0, timer4En := False \<rparr>
      = s\<lparr> regs := m, YLSToYVPack := YLSToYVPack v, usart5_counter := 0, timer4En := False, usart5_buffer_rx := b \<rparr>"
    by (subst o(1)) (simp add: b)
  with t(1) m v show ?thesis unfolding b_def by auto
qed

text \<open>
  C11: reception end to end. With the receive and timer interrupts enabled and no transmission in
  progress, the bytes of a frame of fewer than 200 bytes are collected one by one, and the overflow
  of TIMER4 then runs the answer handler on exactly these bytes: the packet becomes what
  \<^verbatim>\<open>Check_message_UART\<close> makes of the frame, the receiver is empty again and its timer
  is stopped; no other variable changes.
\<close>

theorem frame_received:
  assumes "app_wf s" "usart5_ready s" "usart5_counter s = 0" "usart5_transmit s = 0"
    and "bit (reg_rd (TIMER_DMAINTEN TIMER4) (regs s)) 0" "length f < 200"
  shows "\<exists>t u v. res_fold usart5_byte f s = Inr t
    \<and> TIMER4_IRQHandler (t\<lparr> regs := timer_overflow TIMER4 (regs t) \<rparr>) = Inr u
    \<and> Check_message_UART (Some (f @ drop (length f) (usart5_buffer_rx s))) (of_nat (length f)) s = Inr v
    \<and> u = s\<lparr> regs := regs u, YLSToYVPack := YLSToYVPack v, usart5_counter := 0, timer4En := False,
            usart5_buffer_rx := f @ drop (length f) (usart5_buffer_rx s) \<rparr>
    \<and> \<not> bit (reg_rd (TIMER_CTL0 TIMER4) (regs u)) 0"
  by (rule frame_reception [OF assms])

text \<open>A state with every interrupt enabled.\<close>

definition irq_sample :: app where
  "irq_sample = app_init (\<lambda>_. 0xFFFFFFFF) 0x20000000"

lemma irq_sample:
  "app_wf irq_sample" "usart5_ready irq_sample" "usart0_ready irq_sample"
  "usart5_counter irq_sample = 0" "usart5_transmit irq_sample = 0"
  "usart0_counter irq_sample = 0" "usart0_transmit irq_sample = 0"
  "bit (reg_rd a (regs irq_sample)) 0" "bit (reg_rd a (regs irq_sample)) 21" "\<not> timer4En irq_sample"
proof -
  have "bit (0xFFFFFFFF :: u32) n" if "n < 32" for n
    using that bit_mask_iff [of 32 n, where 'a = u32] by (simp add: mask_eq_exp_minus_1)
  then show "usart5_ready irq_sample" "usart0_ready irq_sample"
    "bit (reg_rd a (regs irq_sample)) 0" "bit (reg_rd a (regs irq_sample)) 21"
    by (simp_all add: irq_sample_def usart5_ready_def usart0_ready_def app_init_def reg_rd_def USART_RX_BUFFER_SIZE_def)
  show "app_wf irq_sample" by (simp add: irq_sample_def app_init_wf)
qed (simp_all add: irq_sample_def app_init_def)

theorem frame_received_witness:
  "\<exists>t u. res_fold usart5_byte (take 32 sample_frame) irq_sample = Inr t
     \<and> TIMER4_IRQHandler (t\<lparr> regs := timer_overflow TIMER4 (regs t) \<rparr>) = Inr u \<and> usart5_counter u = 0"
proof -
  have "length (take 32 sample_frame) < 200" by (simp add: sample_frame_ok(1))
  from frame_received [OF irq_sample(1,2,4,5,8) this] show ?thesis
    apply (elim exE conjE)
    subgoal for t u v
    apply (rule exI [of _ t], rule exI [of _ u])
    apply (intro conjI)
    apply assumption
    apply assumption
    apply (drule arg_cong [where f = usart5_counter and x = u])
    apply simp
    done
    done
qed

text \<open>
  C18: outside a transmission no number of received bytes makes a receiver write past its
  200-byte buffer: the counter wraps to 0 at the end of the buffer.
\<close>

theorem rx_quiet_bounded:
  shows "(usart5_ready s \<and> usart5_transmit s = 0 \<and> unat (usart5_counter s) < 200 \<longrightarrow>
       (\<exists>t. res_fold usart5_byte bs s = Inr t \<and> unat (usart5_counter t) < 200 \<and> YLSToYVPack t = YLSToYVPack s))
    \<and> (usart0_ready s \<and> usart0_transmit s = 0 \<and> unat (usart0_counter s) < 200 \<longrightarrow>
       (\<exists>t. res_fold usart0_byte bs s = Inr t \<and> unat (usart0_counter t) < 200))"
  using rx5.quiet_never_overruns [of s bs] rx0.quiet_never_overruns [of s bs] usart5_other_fields(6)
  by blast

theorem rx_quiet_bounded_witness:
  "\<exists>t. res_fold usart5_byte (replicate 1000 7) irq_sample = Inr t \<and> unat (usart5_counter t) < 200"
  using rx_quiet_bounded [of irq_sample "replicate 1000 7"] irq_sample by auto

text \<open>
  C27: during a transmission the bound is gone. While the transmit flag is set the handlers store
  every byte and only count up, so that 201 bytes from an empty buffer write outside it.
\<close>

theorem rx_busy_overrun:
  assumes "length bs = 201"
  shows "(usart5_ready s \<and> usart5_transmit s \<noteq> 0 \<and> usart5_counter s = 0 \<longrightarrow>
       res_fold usart5_byte bs s = Inl Out_Of_Bounds)
    \<and> (usart0_ready s \<and> usart0_transmit s \<noteq> 0 \<and> usart0_counter s = 0 \<longrightarrow>
       res_fold usart0_byte bs s = Inl Out_Of_Bounds)"
  using rx5.busy_overrun [of s bs] rx0.busy_overrun [of s bs] assms by auto

theorem rx_busy_overrun_witness:
  "res_fold usart5_byte (replicate 201 7) (irq_sample\<lparr> usart5_transmit := 1 \<rparr>) = Inl Out_Of_Bounds"
proof -
  have "usart5_ready (irq_sample\<lparr> usart5_transmit := 1 \<rparr>)" "usart5_counter (irq_sample\<lparr> usart5_transmit := 1 \<rparr>) = 0"
    using irq_sample(2,4) by (simp_all add: usart5_ready_def)
  with rx_busy_overrun [of "replicate 201 7" "irq_sample\<lparr> usart5_transmit := 1 \<rparr>"] show ?thesis by simp
qed

text \<open>
  Every byte of a frame restarts the end-of-frame timer from 0, and the timer runs from the
  first byte on, so that TIMER4 can only overflow a full period after the last byte received.
\<close>

theorem byte_restarts_timer:
  assumes "usart5_ready s" "usart5_transmit s = 0" "Suc (unat (usart5_counter s)) < 200"
    and "timer4En s \<longrightarrow> bit (reg_rd (TIMER_CTL0 TIMER4) (regs s)) 0"
  shows "\<exists>t. usart5_byte b s = Inr t \<and> reg_rd (TIMER_CNT TIMER4) (regs t) = 0
    \<and> timer4En t \<and> bit (reg_rd (TIMER_CTL0 TIMER4) (regs t)) 0"
proof -
  have d: "TIMER_CNT TIMER4 \<noteq> TIMER_CTL0 TIMER4" "TIMER_CTL0 TIMER4 \<noteq> TIMER_CNT TIMER4"
    "TIMER_CTL0 TIMER4 \<noteq> USART_STAT0 USART5" "TIMER_CTL0 TIMER4 \<noteq> USART_DATA USART5"
    by (simp_all add: reg_simps)
  show ?thesis
    using assms
    by (auto simp: usart5_byte_def USART5_IRQHandler_def usart5_ready_def usart_rbne_get rx_latch_regs
        usart_rbne_clear Let_def u8_succ USART_RX_BUFFER_SIZE_def timer_enable_def TIMER_CTL0_CEN_def d bit_or_iff)
qed

theorem byte_restarts_timer_witness:
  "\<exists>t. usart5_byte 9 irq_sample = Inr t \<and> timer4En t"
  using byte_restarts_timer [of irq_sample 9] irq_sample by auto

section \<open>Preservation of well-formedness\<close>

text \<open>
  The receive counters are at most at the end of their buffers. A counter at the end is possible:
  the byte that fills the buffer while the transmit flag is set does not reset it.
\<close>

definition rx_wf :: "app \<Rightarrow> bool" where
  "rx_wf s \<longleftrightarrow> app_wf s \<and> unat (usart5_counter s) \<le> 200 \<and> unat (usart0_counter s) \<le> 200"

lemma app_wf_regs [simp]: "app_wf (s\<lparr> regs := m \<rparr>) = app_wf s"
  by (simp add: app_wf_def)

lemma Check_UART_rx:
  assumes "rx_wf s" "bs = usart5_buffer_rx s \<and> len = usart5_counter s \<or> bs = usart0_buffer_rx s \<and> len = usart0_counter s"
  shows "\<exists>q. Check_message_UART (Some bs) len s
      = Inr (s\<lparr> YLSToYVPack := (YLSToYVPack s)[unat (current_tick_tx_eth s) := q] \<rparr>) \<and> packet_wf q"
  using assms by (intro Check_UART_pack) (auto simp: rx_wf_def app_wf_def)

lemma TIMER4_wf: "rx_wf s \<Longrightarrow> \<exists>t. TIMER4_IRQHandler s = Inr t \<and> rx_wf t"
  using Check_UART_rx [of "s\<lparr> regs := timer_interrupt_flag_clear TIMER4 TIMER_INT_FLAG_UP (regs s) \<rparr>"]
  by (fastforce simp: TIMER4_IRQHandler_def rx_wf_def app_wf_def packs_wf_update)

lemma TIMER2_wf: "rx_wf s \<Longrightarrow> \<exists>t. TIMER2_IRQHandler s = Inr t \<and> rx_wf t"
  using Check_UART_rx [of "s\<lparr> regs := timer_interrupt_flag_clear TIMER2 TIMER_INT_FLAG_UP (regs s) \<rparr>"]
  by (fastforce simp: TIMER2_IRQHandler_def rx_wf_def app_wf_def packs_wf_update)

lemma poll_state_counters [simp]:
  "usart5_counter (poll_state s) = usart5_counter s" "usart0_counter (poll_state s) = usart0_counter s"
  by (simp_all add: poll_state_def tick_counters_def Qwerty_advance_def Let_def)

lemma TIMER6_wf: "rx_wf s \<Longrightarrow> \<exists>t. TIMER6_IRQHandler s = Inr t \<and> rx_wf t"
  by (simp add: TIMER6_IRQHandler_def rx_wf_def Qwerty_eq poll_state_wf)

lemma DMA1_6_wf: "rx_wf s \<Longrightarrow> rx_wf (DMA1_Channel6_IRQHandler s)"
  by (simp add: DMA1_Channel6_IRQHandler_def rx_wf_def app_wf_def Let_def)

lemma DMA1_7_wf: "rx_wf s \<Longrightarrow> rx_wf (DMA1_Channel7_IRQHandler s)"
  by (simp add: DMA1_Channel7_IRQHandler_def rx_wf_def app_wf_def Let_def)

text \<open>
  The receive handlers: they keep these states whatever the transmit flag is, and the only fault is
  the store behind the end of the buffer.
\<close>

lemma USART5_wf:
  assumes "rx_wf s" "unat (usart5_counter s) < 200"
  shows "\<exists>t. USART5_IRQHandler s = Inr t \<and> rx_wf t"
  using assms by (auto simp: USART5_IRQHandler_def rx_wf_def app_wf_def Let_def USART_RX_BUFFER_SIZE_def u8_succ)

lemma USART0_wf:
  assumes "rx_wf s" "unat (usart0_counter s) < 200"
  shows "\<exists>t. USART0_IRQHandler s = Inr t \<and> rx_wf t"
  using assms by (auto simp: USART0_IRQHandler_def rx_wf_def app_wf_def Let_def USART_RX_BUFFER_SIZE_def u8_succ)

lemma usart5_byte_cases:
  assumes "rx_wf s"
  shows "(usart5_ready s \<and> unat (usart5_counter s) = 200 \<and> usart5_byte b s = Inl Out_Of_Bounds)
    \<or> (\<not> (usart5_ready s \<and> unat (usart5_counter s) = 200) \<and> (\<exists>t. usart5_byte b s = Inr t \<and> rx_wf t))"
proof (cases "unat (usart5_counter s) = 200")
  case True
  then show ?thesis
    using assms rx5.overrun [of s b]
    by (auto simp: usart5_ready_def rx_wf_def app_wf_def usart5_byte_def USART5_IRQHandler_def usart_rbne_get rx_latch_regs)
next
  case False
  then have "unat (usart5_counter s) < 200" using assms by (simp add: rx_wf_def)
  then show ?thesis
    using assms USART5_wf [of "s\<lparr> regs := rx_latch USART5 b (regs s) \<rparr>"] by (simp add: usart5_byte_def rx_wf_def)
qed

lemma usart0_byte_cases:
  assumes "rx_wf s"
  shows "(usart0_ready s \<and> unat (usart0_counter s) = 200 \<and> usart0_byte b s = Inl Out_Of_Bounds)
    \<or> (\<not> (usart0_ready s \<and> unat (usart0_counter s) = 200) \<and> (\<exists>t. usart0_byte b s = Inr t \<and> rx_wf t))"
proof (cases "unat (usart0_counter s) = 200")
  case True
  then show ?thesis
    using assms rx0.overrun [of s b]
    by (auto simp: usart0_ready_def rx_wf_def app_wf_def usart0_byte_def USART0_IRQHandler_def usart_rbne_get rx_latch_regs)
next
  case False
  then have "unat (usart0_counter s) < 200" using assms by (simp add: rx_wf_def)
  then show ?thesis
    using assms USART0_wf [of "s\<lparr> regs := rx_latch USART0 b (regs s) \<rparr>"] by (simp add: usart0_byte_def rx_wf_def)
qed

lemma app_init_rx_wf: "rx_wf (app_init m base)"
  using app_init_wf [of m base] by (simp add: rx_wf_def app_init_def)

end
