(* ===== verification/Ethernet.thy ===== *)
theory Ethernet
  imports Uart_Irq
begin

text \<open>
  \<^verbatim>\<open>src/src/ethernet.c\<close>: the host's request is spread over the frames of the poll, and the
  reply is a part of one of the two packets. What lwIP answers to \<^verbatim>\<open>udp_new\<close>,
  \<^verbatim>\<open>udp_bind\<close> and \<^verbatim>\<open>pbuf_alloc\<close> is an argument of the functions that call
  them. A received message is \<open>None\<close> for a null pointer, otherwise the bytes of the payload;
  the structure of a request has no padding, and an index that leaves one of its inner arrays reads the
  byte of the structure at that address, as the compiled code does. Only an access outside the whole
  structure is the fault \<open>Out_Of_Bounds\<close>.
\<close>

section \<open>The code\<close>

definition Blink_TX_PORT :: u32 where "Blink_TX_PORT = GPIOE"
definition Blink_TX_PIN :: u32 where "Blink_TX_PIN = GPIO_PIN 4"
definition Blink_RX_PORT :: u32 where "Blink_RX_PORT = GPIOE"
definition Blink_RX_PIN :: u32 where "Blink_RX_PIN = GPIO_PIN 2"

text \<open>The size of the reply in the call of \<^verbatim>\<open>udp_send_buf\<close>.\<close>

definition REPLY_SIZE :: nat where "REPLY_SIZE = 1432"

definition yv_command :: "u8 \<Rightarrow> u8" where
  "yv_command c =
     (let command = 0
      in if c \<noteq> 0 then
           let command = (if c = YV_COMMAND_TEST1 then YV_COMMAND_TEST1 else command)
           in if c = YV_COMMAND_TEST2 then YV_COMMAND_TEST2 else command
         else command)"

text \<open>The body of the loop over the frames.\<close>

definition Check_YV_row :: "u8 list \<Rightarrow> u8 \<Rightarrow> nat \<Rightarrow> app \<Rightarrow> app res" where
  "Check_YV_row rx command i s =
     bind_res (put_msg i 1 command s) (\<lambda>s.
     bind_res (rx_yps_mask rx i) (\<lambda>mask. bind_res (put_msg i 2 mask s) (\<lambda>s.
     bind_res (rx_ykp_angle rx i 0) (\<lambda>a.
     bind_res (put_msg i 4 (lo8 a) s) (\<lambda>s. bind_res (put_msg i 5 (hi8 a) s) (\<lambda>s.
     bind_res (rx_ykp_angle rx i 1) (\<lambda>b.
     bind_res (put_msg i 6 (lo8 b) s) (\<lambda>s. bind_res (put_msg i 7 (hi8 b) s) (\<lambda>s.
     bind_res (get_at (message_from_BKD s) i) (\<lambda>row.
     bind_res (Crc8 row 15) (\<lambda>c. put_msg i 15 c s)))))))))))"

definition udp_send_buf :: "bool \<Rightarrow> u8 list \<Rightarrow> nat \<Rightarrow> app \<Rightarrow> app res" where
  "udp_send_buf alloc_ok buf len s =
     (let s = s\<lparr> regs := gpio_bit_set Blink_TX_PORT Blink_TX_PIN (regs s) \<rparr>
      in if \<not> udp_pcb s then Inr s
         else if \<not> alloc_ok then Inr s
         else if length buf < len then Inl Out_Of_Bounds
         else let s = s\<lparr> sent := sent s @ [take len buf] \<rparr>
              in Inr (s\<lparr> regs := gpio_bit_reset Blink_TX_PORT Blink_TX_PIN (regs s) \<rparr>))"

definition Check_message_YV :: "bool \<Rightarrow> u8 list option \<Rightarrow> app \<Rightarrow> app res" where
  "Check_message_YV alloc_ok message s =
     (case message of None \<Rightarrow> Inr s
      | Some rx \<Rightarrow>
          bind_res (rx_command rx) (\<lambda>c.
          bind_res (res_fold (Check_YV_row rx (yv_command c)) [0..<unat IN_TOTAL_BKD + 1] s) (\<lambda>s.
          let s = s\<lparr> current_tick_tx_eth := (if current_tick_tx_eth s \<noteq> 0 then 0 else 1) \<rparr>
          in bind_res (get_at (YLSToYVPack s) (unat (current_tick_tx_eth s))) (\<lambda>p.
             udp_send_buf alloc_ok (packet_bytes p) REPLY_SIZE s))))"

definition udp_reciev :: "bool \<Rightarrow> u8 list option \<Rightarrow> app \<Rightarrow> app res" where
  "udp_reciev alloc_ok p s =
     (let s = s\<lparr> regs := gpio_bit_set Blink_RX_PORT Blink_RX_PIN (regs s) \<rparr>
      in case p of None \<Rightarrow> Inr s
         | Some payload \<Rightarrow>
             bind_res (if SIZE_MESSAGE_YV = length payload then Check_message_YV alloc_ok p s else Inr s) (\<lambda>s.
             Inr (s\<lparr> regs := gpio_bit_reset Blink_RX_PORT Blink_RX_PIN (regs s) \<rparr>)))"

definition udp_create_socket :: "bool \<Rightarrow> bool \<Rightarrow> app \<Rightarrow> u8 \<times> app" where
  "udp_create_socket new_ok bind_ok s =
     (let s = s\<lparr> udp_pcb := new_ok \<rparr>
      in if \<not> udp_pcb s then (1, s)
         else if bind_ok then (0, s\<lparr> udp_callback := True \<rparr>)
         else (1, s))"

section \<open>The frames after a request\<close>

text \<open>What a request makes of one frame.\<close>

definition request_frame :: "u8 list \<Rightarrow> nat \<Rightarrow> u8 list \<Rightarrow> u8 list" where
  "request_frame rx i row =
     (let r = row[1 := yv_command (rx ! 77), 2 := rx ! (1 + i), 4 := rx ! (13 + 4 * i), 5 := rx ! (14 + 4 * i),
                  6 := rx ! (15 + 4 * i), 7 := rx ! (16 + 4 * i)]
      in r[15 := crc8_ref (take 15 r)])"

lemma request_frame_length [simp]: "length (request_frame rx i row) = length row"
  by (simp add: request_frame_def Let_def)

lemma rx_reads:
  assumes "80 \<le> length rx" "i < 13"
  shows "rx_yps_mask rx i = Inr (rx ! (1 + i))"
    "rx_ykp_angle rx i 0 = Inr (be16 (rx ! (14 + 4 * i)) (rx ! (13 + 4 * i)))"
    "rx_ykp_angle rx i 1 = Inr (be16 (rx ! (16 + 4 * i)) (rx ! (15 + 4 * i)))"
  using assms by (simp_all add: rx_yps_mask_def rx_ykp_angle_def numeral_eq_Suc)

lemma Check_YV_row_ok:
  assumes "rows_wf (message_from_BKD s)" "80 \<le> length rx" "i < 13"
  shows "Check_YV_row rx (yv_command (rx ! 77)) i s
    = Inr (s\<lparr> message_from_BKD := (message_from_BKD s)[i := request_frame rx i (message_from_BKD s ! i)] \<rparr>)"
proof -
  have l: "length (message_from_BKD s) = 14" "length (message_from_BKD s ! i) = 20"
    using assms rows_wf_nth [OF assms(1), of i] by (simp_all add: rows_wf_def)
  have p: "put_msg i j v (s\<lparr> message_from_BKD := (message_from_BKD s)[i := r] \<rparr>)
      = Inr (s\<lparr> message_from_BKD := (message_from_BKD s)[i := r[j := v]] \<rparr>)" if "length r = 20" "j < 20" for r j v
    using that l assms(3) by (simp add: put_msg_def)
  have q: "put_msg i 1 v s = Inr (s\<lparr> message_from_BKD := (message_from_BKD s)[i := (message_from_BKD s ! i)[1 := v]] \<rparr>)" for v
    using put_msg_ok [OF assms(1), of i 1 v] assms(3) by simp
  show ?thesis
    using l assms(3)
    by (simp add: Check_YV_row_def q rx_reads [OF assms(2,3)] p Crc8_ok request_frame_def Let_def hi8_be16 lo8_be16 del: One_nat_def)
qed

definition request_rows :: "u8 list \<Rightarrow> nat \<Rightarrow> u8 list list \<Rightarrow> u8 list list" where
  "request_rows rx n rows = map (\<lambda>i. if i < n then request_frame rx i (rows ! i) else rows ! i) [0..<length rows]"

lemma request_rows_length [simp]: "length (request_rows rx n rows) = length rows"
  by (simp add: request_rows_def)

lemma request_rows_nth:
  "i < length rows \<Longrightarrow> request_rows rx n rows ! i = (if i < n then request_frame rx i (rows ! i) else rows ! i)"
  by (simp add: request_rows_def)

lemma request_rows_0 [simp]: "request_rows rx 0 rows = rows"
  by (simp add: request_rows_def map_nth)

lemma request_rows_Suc:
  "n < length rows \<Longrightarrow> (request_rows rx n rows)[n := request_frame rx n (rows ! n)] = request_rows rx (Suc n) rows"
  by (rule nth_equalityI) (auto simp: request_rows_nth nth_list_update)

lemma request_rows_wf: "rows_wf rows \<Longrightarrow> rows_wf (request_rows rx n rows)"
  by (auto simp: rows_wf_def request_rows_def)

lemma Check_YV_rows_ok:
  assumes "rows_wf (message_from_BKD s)" "80 \<le> length rx" "n \<le> 13"
  shows "res_fold (Check_YV_row rx (yv_command (rx ! 77))) [0..<n] s
    = Inr (s\<lparr> message_from_BKD := request_rows rx n (message_from_BKD s) \<rparr>)"
  using assms(3)
proof (induction n)
  case 0
  then show ?case by simp
next
  case (Suc n)
  have l: "length (message_from_BKD s) = 14" using assms(1) by (simp add: rows_wf_def)
  have "Check_YV_row rx (yv_command (rx ! 77)) n (s\<lparr> message_from_BKD := request_rows rx n (message_from_BKD s) \<rparr>)
      = Inr (s\<lparr> message_from_BKD := request_rows rx (Suc n) (message_from_BKD s) \<rparr>)"
    using Suc.prems l request_rows_wf [OF assms(1), of rx n] request_rows_Suc [of n "message_from_BKD s" rx]
    by (subst Check_YV_row_ok [OF _ assms(2)]) (simp_all add: request_rows_nth)
  with Suc show ?case by (simp add: res_fold_append)
qed

text \<open>The packet the reply is taken from, and the reply.\<close>

definition reply_of :: "app \<Rightarrow> u8 list" where
  "reply_of s = take REPLY_SIZE (packet_bytes (YLSToYVPack s ! (1 - unat (current_tick_tx_eth s))))"

definition request_state :: "u8 list \<Rightarrow> app \<Rightarrow> app" where
  "request_state rx s = s\<lparr> message_from_BKD := request_rows rx 13 (message_from_BKD s),
     current_tick_tx_eth := (if current_tick_tx_eth s \<noteq> 0 then 0 else 1) \<rparr>"

lemma tick_toggle:
  assumes "app_wf s"
  shows "unat (if current_tick_tx_eth s \<noteq> 0 then 0 else 1 :: u8) = 1 - unat (current_tick_tx_eth s)"
proof -
  have "unat (current_tick_tx_eth s) = 0 \<or> unat (current_tick_tx_eth s) = 1" using tick_cases [OF assms] by arith
  then show ?thesis by (auto simp: unat_eq_0)
qed

lemma other_pack_wf:
  assumes "app_wf s"
  shows "packet_wf (YLSToYVPack s ! (1 - unat (current_tick_tx_eth s)))" "length (YLSToYVPack s) = 2"
  using assms by (simp_all add: app_wf_def packs_wf_def)

lemma Check_YV_eq:
  assumes "app_wf s" "80 \<le> length rx"
  shows "Check_message_YV alloc_ok (Some rx) s =
    (if udp_pcb s \<and> alloc_ok
     then Inr ((request_state rx s)\<lparr> sent := sent s @ [reply_of s],
            regs := gpio_bit_reset Blink_TX_PORT Blink_TX_PIN (gpio_bit_set Blink_TX_PORT Blink_TX_PIN (regs s)) \<rparr>)
     else Inr ((request_state rx s)\<lparr> regs := gpio_bit_set Blink_TX_PORT Blink_TX_PIN (regs s) \<rparr>))"
proof -
  have w: "rows_wf (message_from_BKD s)" using assms(1) by (simp add: app_wf_def)
  note o = other_pack_wf [OF assms(1)]
  have l: "length (packet_bytes (YLSToYVPack s ! (1 - unat (current_tick_tx_eth s)))) = 8192"
    using packet_bytes_length [OF o(1)] by (simp add: SIZE_MESSAGE_YLS_def)
  have c: "rx_command rx = Inr (rx ! 77)" using assms(2) by (simp add: rx_command_def)
  have n: "unat IN_TOTAL_BKD + 1 = 13" by (simp add: IN_TOTAL_BKD_def)
  have g: "get_at (YLSToYVPack s) (1 - unat (current_tick_tx_eth s)) = Inr (YLSToYVPack s ! (1 - unat (current_tick_tx_eth s)))"
    using o(2) by (simp add: get_at_def)
  show ?thesis
    using Check_YV_rows_ok [OF w assms(2), of 13] l
    by (simp add: Check_message_YV_def c n Let_def tick_toggle [OF assms(1)] g udp_send_buf_def request_state_def
        reply_of_def REPLY_SIZE_def del: One_nat_def)
qed

lemma request_state_wf: "app_wf s \<Longrightarrow> app_wf (request_state rx s)"
  by (simp add: app_wf_def request_state_def request_rows_wf)

lemma Check_YV_wf:
  assumes "app_wf s" "80 \<le> length rx"
  shows "\<exists>t. Check_message_YV alloc_ok (Some rx) s = Inr t \<and> app_wf t"
  using request_state_wf [OF assms(1), of rx] by (auto simp: Check_YV_eq [OF assms] app_wf_def)

lemma udp_reciev_wf:
  assumes "app_wf s"
  shows "\<exists>t. udp_reciev alloc_ok p s = Inr t \<and> app_wf t"
proof (cases "\<exists>rx. p = Some rx \<and> length rx = 80")
  case True
  then obtain rx where "p = Some rx" "length rx = 80" by blast
  with Check_YV_wf [of "s\<lparr> regs := gpio_bit_set Blink_RX_PORT Blink_RX_PIN (regs s) \<rparr>" rx alloc_ok] assms
  show ?thesis by (auto simp: udp_reciev_def Let_def SIZE_MESSAGE_YV_def)
next
  case False
  with assms show ?thesis by (auto simp: udp_reciev_def Let_def SIZE_MESSAGE_YV_def split: option.split)
qed

section \<open>Properties\<close>

lemma request_frame_nth:
  assumes "length row = 20"
  shows "request_frame rx i row ! 1 = yv_command (rx ! 77)" "request_frame rx i row ! 2 = rx ! (1 + i)"
    "\<forall>j. 4 \<le> j \<and> j \<le> 7 \<longrightarrow> request_frame rx i row ! j = rx ! (9 + 4 * i + j)"
    "request_frame rx i row ! 15 = crc8_ref (take 15 (request_frame rx i row))"
    "j \<notin> {1, 2, 4, 5, 6, 7, 15} \<Longrightarrow> request_frame rx i row ! j = row ! j"
proof -
  have "j = 4 \<or> j = 5 \<or> j = 6 \<or> j = 7" if "4 \<le> j \<and> j \<le> 7" for j :: nat using that by arith
  then show "\<forall>j. 4 \<le> j \<and> j \<le> 7 \<longrightarrow> request_frame rx i row ! j = rx ! (9 + 4 * i + j)"
    using assms by (fastforce simp: request_frame_def Let_def add.commute)
qed (use assms in \<open>simp_all add: request_frame_def Let_def\<close>)

definition reply_regs :: "bool \<Rightarrow> mem \<Rightarrow> mem" where
  "reply_regs done m =
     (let m = gpio_bit_set Blink_TX_PORT Blink_TX_PIN (gpio_bit_set Blink_RX_PORT Blink_RX_PIN m)
      in gpio_bit_reset Blink_RX_PORT Blink_RX_PIN (if done then gpio_bit_reset Blink_TX_PORT Blink_TX_PIN m else m))"

lemma udp_reciev_eq:
  assumes "app_wf s" "length rx = 80"
  shows "udp_reciev alloc_ok (Some rx) s = Inr ((request_state rx s)\<lparr> regs := reply_regs (udp_pcb s \<and> alloc_ok) (regs s),
      sent := (if udp_pcb s \<and> alloc_ok then sent s @ [reply_of s] else sent s) \<rparr>)"
proof -
  let ?s = "s\<lparr> regs := gpio_bit_set Blink_RX_PORT Blink_RX_PIN (regs s) \<rparr>"
  have "app_wf ?s" using assms(1) by simp
  from Check_YV_eq [OF this, of rx alloc_ok] show ?thesis
    using assms(2)
    by (cases s) (simp add: reply_of_def udp_reciev_def SIZE_MESSAGE_YV_def Let_def request_state_def reply_regs_def)
qed

text \<open>
  C9: a request of 80 bytes is accepted in every well-formed state, and for each of the twelve BKD
  blocks it leaves in that block's frame the command (the two test commands only, anything else
  becomes 0), the block's own mask byte and its two angles, low byte first, at bytes 4 to 7, and at
  byte 15 the checksum of the first 15 bytes of the frame as it is then; every other byte of the
  frame, the address and the checksum at byte 19 included, is left alone, and so is the frame of the
  servos. Of the variables only the frames, the index of the current packet, the list of datagrams
  sent and the registers can differ afterwards: the packets, the receivers and all poll counters keep
  their values.
\<close>

theorem request_forwarded:
  assumes "app_wf s" "length rx = 80"
  shows "\<exists>t. udp_reciev alloc_ok (Some rx) s = Inr t \<and> app_wf t
    \<and> (\<forall>i < 12. let f = message_from_BKD t ! i in
         f ! 1 = (if rx ! 77 \<in> {1, 2} then rx ! 77 else 0) \<and> f ! 2 = rx ! (1 + i)
         \<and> (\<forall>j. 4 \<le> j \<and> j \<le> 7 \<longrightarrow> f ! j = rx ! (9 + 4 * i + j))
         \<and> Crc8 f 15 = Inr (f ! 15)
         \<and> (\<forall>j. j \<notin> {1, 2, 4, 5, 6, 7, 15} \<longrightarrow> f ! j = message_from_BKD s ! i ! j))
    \<and> message_from_BKD t ! 13 = message_from_BKD s ! 13
    \<and> t = s\<lparr> message_from_BKD := message_from_BKD t, current_tick_tx_eth := current_tick_tx_eth t,
            sent := sent t, regs := regs t \<rparr>"
proof -
  have "udp_reciev alloc_ok (Some rx) s = Inr ((request_state rx s)\<lparr> regs := reply_regs (udp_pcb s \<and> alloc_ok) (regs s),
      sent := (if udp_pcb s \<and> alloc_ok then sent s @ [reply_of s] else sent s) \<rparr>)" (is "_ = Inr ?t")
    by (rule udp_reciev_eq [OF assms])
  moreover have "app_wf ?t" using request_state_wf [OF assms(1)] by (simp add: app_wf_def)
  moreover have l: "length (message_from_BKD s) = 14" "\<And>i. i < 14 \<Longrightarrow> length (message_from_BKD s ! i) = 20"
    using assms(1) by (simp_all add: app_wf_def rows_wf_def)
  moreover have "Crc8 (request_frame rx i (message_from_BKD s ! i)) 15 = Inr (request_frame rx i (message_from_BKD s ! i) ! 15)"
    if "i < 12" for i
    using l(2) [of i] that by (simp add: Crc8_ok request_frame_nth(4))
  moreover have "yv_command (rx ! 77) = (if rx ! 77 \<in> {1, 2} then rx ! 77 else 0)"
    by (simp add: yv_command_def YV_COMMAND_TEST1_def YV_COMMAND_TEST2_def)
  ultimately show ?thesis
    by (intro exI [of _ ?t])
      (simp add: request_state_def request_rows_nth request_frame_nth(1-3,5) Let_def del: One_nat_def)
qed

theorem request_forwarded_witness:
  "\<exists>t. udp_reciev True (Some (replicate 77 4 @ [2, 0, 0])) (app_init (\<lambda>_. 0) 0) = Inr t
     \<and> message_from_BKD t ! 5 ! 1 = 2 \<and> message_from_BKD t ! 5 ! 6 = 4"
  using request_forwarded [OF app_init_wf, of "replicate 77 4 @ [2, 0, 0]" True "\<lambda>_. 0" 0]
  by (fastforce simp: nth_append Let_def)

text \<open>
  C29: the frame of the BKHO-A block takes the bytes that follow the arrays it is meant to come
  from: its mask is the low byte of the first angle of block 0, its angles are those of the first
  two external servos, and the mask the host sends for it in byte 0 has no effect on anything.
\<close>

theorem bkho_request_misread:
  assumes "app_wf s" "length rx = 80"
  shows "\<exists>t. udp_reciev alloc_ok (Some rx) s = Inr t
    \<and> (let f = message_from_BKD t ! 12 in f ! 2 = rx ! 13
         \<and> rx_ykp_angle rx 0 0 = Inr (be16 (rx ! 14) (f ! 2))
         \<and> rx_out_ykp_angle rx 0 = Inr (be16 (f ! 5) (f ! 4)) \<and> rx_out_ykp_angle rx 1 = Inr (be16 (f ! 7) (f ! 6)))
    \<and> (\<forall>v. udp_reciev alloc_ok (Some (rx[0 := v])) s = Inr t)"
proof -
  have t: "udp_reciev alloc_ok (Some rx) s = Inr ((request_state rx s)\<lparr> regs := reply_regs (udp_pcb s \<and> alloc_ok) (regs s),
      sent := (if udp_pcb s \<and> alloc_ok then sent s @ [reply_of s] else sent s) \<rparr>)" (is "_ = Inr ?t")
    by (rule udp_reciev_eq [OF assms])
  have "length (message_from_BKD s) = 14" "length (message_from_BKD s ! 12) = 20"
    using assms(1) by (simp_all add: app_wf_def rows_wf_def)
  then have f: "message_from_BKD ?t ! 12 = request_frame rx 12 (message_from_BKD s ! 12)" "length (message_from_BKD s ! 12) = 20"
    by (simp_all add: request_state_def request_rows_nth)
  have "request_frame (rx[0 := v]) i = request_frame rx i" for v i
    by (simp add: request_frame_def fun_eq_iff Let_def)
  then have "request_state (rx[0 := v]) = request_state rx" for v
    by (simp add: request_state_def request_rows_def fun_eq_iff)
  then have "udp_reciev alloc_ok (Some (rx[0 := v])) s = udp_reciev alloc_ok (Some rx) s" for v
    using assms Check_YV_eq [of "s\<lparr> regs := gpio_bit_set Blink_RX_PORT Blink_RX_PIN (regs s) \<rparr>"]
    by (simp add: udp_reciev_def SIZE_MESSAGE_YV_def Let_def)
  with t f request_frame_nth(2,3) [OF f(2), of rx 12] show ?thesis
    using assms(2)
    by (intro exI [of _ ?t]) (simp add: Let_def rx_ykp_angle_def rx_out_ykp_angle_def)
qed

theorem bkho_request_misread_witness:
  "\<exists>t. udp_reciev True (Some (255 # replicate 79 3)) (app_init (\<lambda>_. 0) 0) = Inr t \<and> message_from_BKD t ! 12 ! 2 = 3"
  using bkho_request_misread [OF app_init_wf, of "255 # replicate 79 3" True "\<lambda>_. 0" 0]
  by (fastforce simp: Let_def)

text \<open>
  C17: the double buffer. A request switches the packet that the poll fills, and its reply is made
  of the first 1432 bytes of the packet it switches to, the one that was filled before the
  previous request: nothing that was received since the previous request is in the reply, and
  what is received after it goes into the packet that has just been sent.
\<close>

theorem reply_is_other_packet:
  assumes "app_wf s" "length rx = 80" "udp_pcb s" and "k = unat (current_tick_tx_eth s)"
  shows "\<exists>t. udp_reciev True (Some rx) s = Inr t
    \<and> sent t = sent s @ [take 1432 (packet_bytes (YLSToYVPack s ! (1 - k)))]
    \<and> unat (current_tick_tx_eth t) = 1 - k \<and> YLSToYVPack t = YLSToYVPack s
    \<and> (\<forall>q. packet_wf q \<longrightarrow>
          (\<exists>u. udp_reciev True (Some rx) (s\<lparr> YLSToYVPack := (YLSToYVPack s)[k := q] \<rparr>) = Inr u \<and> sent u = sent t))"
proof -
  have e: "udp_reciev True (Some rx) z = Inr ((request_state rx z)\<lparr> regs := reply_regs True (regs z),
      sent := sent z @ [reply_of z] \<rparr>)" if "app_wf z" "udp_pcb z" for z
    using udp_reciev_eq [OF that(1) assms(2), of True] that(2) by simp
  have k: "1 - k \<noteq> k" "k < 2" using tick_cases [OF assms(1)] assms(4) by arith+
  have "app_wf (s\<lparr> YLSToYVPack := (YLSToYVPack s)[k := q] \<rparr>)" if "packet_wf q" for q
    using assms(1) that by (simp add: app_wf_def packs_wf_update)
  then show ?thesis
    using assms(4) k tick_toggle [OF assms(1)] e [OF assms(1,3)] e assms(3)
    by (simp add: request_state_def reply_of_def REPLY_SIZE_def)
qed

theorem reply_is_other_packet_witness:
  "\<exists>t. udp_reciev True (Some (replicate 80 0)) ((app_init (\<lambda>_. 0) 0)\<lparr> udp_pcb := True \<rparr>) = Inr t
     \<and> current_tick_tx_eth t = 1"
proof -
  let ?s = "(app_init (\<lambda>_. 0) 0)\<lparr> udp_pcb := True \<rparr>"
  have "app_wf ?s" "0 = unat (current_tick_tx_eth ?s)" using app_init_wf [of "\<lambda>_. 0" 0] by (simp_all add: app_wf_def app_init_def)
  with reply_is_other_packet [of ?s "replicate 80 0" 0] show ?thesis by (fastforce simp: word_unat_eq_iff)
qed

text \<open>
  in every reply the bit \<open>n mod 8\<close> of byte \<open>n div 8\<close> is health bit \<open>n\<close> of the packet, for
  all 176 devices in the order of the map, so that the host reads the health of the device with
  address \<open>a\<close> at bit \<open>health_pos a\<close>.
\<close>

theorem reply_health_bits:
  assumes "app_wf s" "length rx = 80" "udp_pcb s" "udp_reciev True (Some rx) s = Inr t" "n < 176"
  shows "bit (last (sent t) ! (n div 8)) (n mod 8) \<longleftrightarrow>
    health_bit (health_abonent (YLSToYVPack s ! (1 - unat (current_tick_tx_eth s)))) n"
proof -
  have "sent t = sent s @ [reply_of s]"
    using udp_reciev_eq [OF assms(1,2), of True] assms(3,4) by (auto simp: request_state_def)
  moreover have "n div 8 < 22" using assms(5) by (simp add: less_mult_imp_div_less)
  ultimately show ?thesis
    by (simp add: reply_of_def REPLY_SIZE_def packet_bytes_def nth_append health_bytes_def bit_health_byte)
qed

theorem reply_health_bits_witness:
  "\<exists>t. udp_reciev True (Some (replicate 80 0)) ((app_init (\<lambda>_. 0) 0)\<lparr> udp_pcb := True \<rparr>) = Inr t
     \<and> \<not> bit (last (sent t) ! 21) 5"
proof -
  let ?s = "(app_init (\<lambda>_. 0) 0)\<lparr> udp_pcb := True \<rparr>"
  have w: "app_wf ?s" "length (replicate 80 0 :: u8 list) = 80" "udp_pcb ?s"
    using app_init_wf [of "\<lambda>_. 0" 0] by (simp_all add: app_wf_def app_init_def)
  obtain t where t: "udp_reciev True (Some (replicate 80 0)) ?s = Inr t"
    using udp_reciev_wf [OF w(1)] by blast
  have "\<not> health_bit (health_abonent (YLSToYVPack ?s ! (1 - unat (current_tick_tx_eth ?s)))) 173"
    by (simp add: app_init_def packet_zero_def health_zero_def health_bit_def servo_fields_def)
  with reply_health_bits [OF w t, of 173] t show ?thesis by auto
qed

lemma take_overlay: "n \<le> off \<Longrightarrow> off \<le> length xs \<Longrightarrow> take n (overlay off bs xs) = take n xs"
  by (simp add: overlay_def)

text \<open>Two requests after each other: the second one sends the packet that was current before the first.\<close>

lemma second_reply:
  assumes "app_wf s" "udp_pcb s" "length rx = 80" "length rx' = 80" and "k = unat (current_tick_tx_eth s)"
  shows "\<exists>u. bind_res (udp_reciev True (Some rx) s) (udp_reciev True (Some rx')) = Inr u
    \<and> last (sent u) = take REPLY_SIZE (packet_bytes (YLSToYVPack s ! k))"
proof -
  let ?t = "(request_state rx s)\<lparr> regs := reply_regs True (regs s), sent := sent s @ [reply_of s] \<rparr>"
  have t: "udp_reciev True (Some rx) s = Inr ?t" using udp_reciev_eq [OF assms(1,3), of True] assms(2) by simp
  have w: "app_wf ?t" "udp_pcb ?t" using request_state_wf [OF assms(1)] assms(2) by (simp_all add: app_wf_def request_state_def)
  have "reply_of ?t = take REPLY_SIZE (packet_bytes (YLSToYVPack s ! k))"
    using tick_toggle [OF assms(1)] tick_cases [OF assms(1)] assms(5)
    by (simp add: reply_of_def request_state_def)
  then show ?thesis using udp_reciev_eq [OF w(1) assms(4), of True] w(2) by (simp add: t)
qed

text \<open>
  C30: the data of the YLK-96 devices never reach the host. A valid answer of such a device is stored
  in the packet, at an offset that is not less than the size of the reply; the reply that is made from
  this packet, by the second request that follows, has the same data bytes as it would have without
  the answer (only the health map in its first 22 bytes can differ).
\<close>

theorem ylk96_data_not_sent:
  assumes "app_wf s" "udp_pcb s" "length bs = 200" "frame_ok bs 32" "current_BKD s < 12" "10 \<le> current_device_in_BKDx s"
    and "length rx = 80" "length rx' = 80" and "k = unat (current_tick_tx_eth s)"
    and "off = off_ylk96_data (unat (current_BKD s)) (unat (current_device_in_BKDx s) - 10) 0"
  shows "\<exists>t u v. Check_message_UART (Some bs) 32 s = Inr t
    \<and> REPLY_SIZE \<le> off \<and> take 24 (drop off (packet_bytes (YLSToYVPack t ! k))) = take 24 bs
    \<and> bind_res (udp_reciev True (Some rx) t) (udp_reciev True (Some rx')) = Inr u
    \<and> bind_res (udp_reciev True (Some rx) s) (udp_reciev True (Some rx')) = Inr v
    \<and> drop 22 (last (sent u)) = drop 22 (last (sent v))"
proof -
  let ?p = "YLSToYVPack s ! k" and ?d = "current_device_in_BKDx s" and ?b = "current_BKD s"
  have p: "packet_wf ?p" "24 \<le> length bs" "k < length (YLSToYVPack s)"
    using cur_pack_wf [OF assms(1)] tick_cases [OF assms(1)] assms(1,3,9) by (simp_all add: app_wf_def packs_wf_def)
  have d: "1 \<le> unat ?d" "unat ?d \<le> 12" "unat ?b \<le> 13" "10 \<le> unat ?d"
    using assms(1,6) by (simp_all add: app_wf_unat u8_le_unat)
  have o: "answer_off (unat ?d) (unat ?b) = off" "answer_payload (unat ?d) bs = take 24 bs"
    using d(4) assms(10) by (simp_all add: answer_off_def answer_payload_def)
  have off: "1577 \<le> off" "off + 24 \<le> 8192"
    using answer_off_bounds [OF d(1-3)] o(1) assms(10) by (simp_all add: layout_simps)
  obtain h where q: "answer_BKD ?d ?b bs 32 ?p = Inr (packet_after h off (take 24 bs) ?p)" (is "_ = Inr ?q")
    using answer_BKD_ok [OF p(1,2) d(1-3)] o by auto
  then have t: "Check_message_UART (Some bs) 32 s = Inr (s\<lparr> YLSToYVPack := (YLSToYVPack s)[k := ?q] \<rparr>)" (is "_ = Inr ?t")
    using assms(3-5,9) by (subst Check_UART_eq) (auto simp: on_pack_ok [OF assms(1)])
  have r: "rest ?q = overlay (off - 22) (take 24 bs) (rest ?p)" "length (rest ?p) = 8170"
    using p(1) by (simp_all add: packet_wf_def layout_simps)
  have "packet_wf ?q" using p(2) off r by (simp add: packet_wf_def layout_simps)
  then have w: "app_wf ?t" "udp_pcb ?t" "k = unat (current_tick_tx_eth ?t)"
    using assms(1,2,9) by (simp_all add: app_wf_def packs_wf_update)
  have "take 24 (drop off (packet_bytes ?q)) = take 24 bs"
    using off r p(2) by (simp add: packet_bytes_def overlay_def health_bytes_def)
  moreover have "drop 22 (take REPLY_SIZE (packet_bytes ?q)) = drop 22 (take REPLY_SIZE (packet_bytes ?p))"
    using off r by (simp add: packet_bytes_def REPLY_SIZE_def take_overlay)
  ultimately show ?thesis
    using second_reply [OF w(1,2) assms(7,8) w(3)] second_reply [OF assms(1,2,7-9)] t p(3) off(1)
    by (auto simp: REPLY_SIZE_def)
qed

theorem ylk96_data_not_sent_witness:
  "\<exists>t. Check_message_UART (Some sample_frame) 32
        ((app_init (\<lambda>_. 0) 0)\<lparr> current_device_in_BKDx := 11, udp_pcb := True \<rparr>) = Inr t
     \<and> take 24 (drop (off_ylk96_data 0 1 0) (packet_bytes (YLSToYVPack t ! 0))) = replicate 24 5
     \<and> (\<exists>u. bind_res (udp_reciev True (Some (replicate 80 0)) t) (udp_reciev True (Some (replicate 80 0))) = Inr u)"
proof -
  let ?s = "(app_init (\<lambda>_. 0) 0)\<lparr> current_device_in_BKDx := 11, udp_pcb := True \<rparr>"
  have w: "app_wf ?s" "udp_pcb ?s" using app_init_wf [of "\<lambda>_. 0" 0] by (simp_all add: app_wf_def)
  have v: "current_BKD ?s < 12" "10 \<le> current_device_in_BKDx ?s" "0 = unat (current_tick_tx_eth ?s)"
    "off_ylk96_data 0 1 0 = off_ylk96_data (unat (current_BKD ?s)) (unat (current_device_in_BKDx ?s) - 10) 0"
    by (simp_all add: app_init_def)
  have z: "length (replicate 80 0 :: u8 list) = 80" "take 24 sample_frame = replicate 24 5" by (simp_all add: sample_frame_def)
  from ylk96_data_not_sent [OF w sample_frame_ok v(1,2) z(1) z(1) v(3,4)] z(2) show ?thesis by auto
qed

text \<open>
  The error paths and the lamps. A datagram of another size, or none, changes no variable of
  the application. On a null packet the receive lamp stays lit, and when there is no socket or no
  buffer the transmit lamp stays lit: the last write to the port register of that lamp is the one
  that set it, and no write to the clear register follows for it.
\<close>

theorem udp_error_paths:
  "(\<forall>rx. length rx \<noteq> 80 \<longrightarrow> udp_reciev alloc_ok (Some rx) s
       = Inr (s\<lparr> regs := (regs s)(GPIO_BOP GPIOE := BIT 2, GPIO_BC GPIOE := BIT 2) \<rparr>))
   \<and> udp_reciev alloc_ok None s = Inr (s\<lparr> regs := (regs s)(GPIO_BOP GPIOE := BIT 2) \<rparr>)
   \<and> (\<not> (udp_pcb s \<and> alloc_ok) \<longrightarrow> udp_send_buf alloc_ok buf len s
       = Inr (s\<lparr> regs := (regs s)(GPIO_BOP GPIOE := BIT 4) \<rparr>))"
  by (auto simp: udp_reciev_def udp_send_buf_def Let_def SIZE_MESSAGE_YV_def Blink_RX_PORT_def Blink_RX_PIN_def
      Blink_TX_PORT_def Blink_TX_PIN_def gpio_bit_set_def gpio_bit_reset_def GPIO_PIN_def reg_wr_def)

theorem udp_error_paths_witness:
  "udp_reciev True (Some [1, 2, 3]) (app_init (\<lambda>_. 0) 0)
     = Inr ((app_init (\<lambda>_. 0) 0)\<lparr> regs := (regs (app_init (\<lambda>_. 0) 0))(GPIO_BOP GPIOE := BIT 2, GPIO_BC GPIOE := BIT 2) \<rparr>)"
  using udp_error_paths [of True "app_init (\<lambda>_. 0) 0" "[]" 0] by simp

text \<open>
  the socket is usable exactly when the function returns 0, and then the receive callback is
  registered; after a failed bind the control block is kept without a callback, so the firmware
  can send and never receives.
\<close>

theorem udp_create_socket_result:
  "fst (udp_create_socket new_ok bind_ok s) = (if new_ok \<and> bind_ok then 0 else 1)
   \<and> udp_pcb (snd (udp_create_socket new_ok bind_ok s)) = new_ok
   \<and> (\<not> udp_callback s \<longrightarrow> udp_callback (snd (udp_create_socket new_ok bind_ok s)) = (new_ok \<and> bind_ok))"
  by (simp add: udp_create_socket_def Let_def)

theorem udp_create_socket_result_witness:
  "\<not> udp_callback (snd (udp_create_socket True False (app_init (\<lambda>_. 0) 0)))"
  using udp_create_socket_result [of True False "app_init (\<lambda>_. 0) 0"] by (simp add: app_init_def)

end
