(* ===== verification/Clock.thy ===== *)
theory Clock
  imports Prelude
begin

text \<open>
  The local time of \<^verbatim>\<open>src/src/main.c\<close>, the interrupt that advances it
  (\<^verbatim>\<open>src/src/gd32f4xx_it.c\<close>) and the two clients: the busy wait \<^verbatim>\<open>delay_10ms\<close>
  and the periodic tasks of lwIP in \<^verbatim>\<open>src/src/netconf.c\<close>. The calls of
  \<^verbatim>\<open>tcp_tmr\<close> and \<^verbatim>\<open>etharp_tmr\<close> are counted.
\<close>

record clock =
  g_localtime :: u32
  g_timedelay :: u32
  tcpcurtime :: u32
  arpcurtime :: u32
  tcp_tmr_calls :: nat
  etharp_tmr_calls :: nat

definition clock_init :: clock where
  "clock_init = \<lparr> g_localtime = 0, g_timedelay = 0, tcpcurtime = 0, arpcurtime = 0,
     tcp_tmr_calls = 0, etharp_tmr_calls = 0 \<rparr>"

definition SYSTEMTICK_PERIOD_MS :: u32 where "SYSTEMTICK_PERIOD_MS = 0"
definition TCP_TMR_INTERVAL :: u32 where "TCP_TMR_INTERVAL = 250"
definition ARP_TMR_INTERVAL :: u32 where "ARP_TMR_INTERVAL = 1000"

definition time_update :: "clock \<Rightarrow> clock" where
  "time_update c = c\<lparr> g_localtime := g_localtime c + SYSTEMTICK_PERIOD_MS \<rparr>"

definition SysTick_Handler :: "clock \<Rightarrow> clock" where
  "SysTick_Handler c = time_update c"

definition sys_now :: "clock \<Rightarrow> u32" where
  "sys_now c = g_localtime c"

text \<open>
  The busy wait: \<open>ticks i\<close> interrupts happen during its \<open>i\<close>-th round, and \<open>None\<close> means that
  the fuel ran out before the condition became false.
\<close>

fun delay_loop :: "(nat \<Rightarrow> nat) \<Rightarrow> nat \<Rightarrow> nat \<Rightarrow> clock \<Rightarrow> clock option" where
  "delay_loop ticks 0 i c = None"
| "delay_loop ticks (Suc fuel) i c =
     (if g_timedelay c > g_localtime c then delay_loop ticks fuel (Suc i) ((SysTick_Handler ^^ ticks i) c)
      else Some c)"

definition delay_10ms :: "(nat \<Rightarrow> nat) \<Rightarrow> nat \<Rightarrow> u32 \<Rightarrow> clock \<Rightarrow> clock option" where
  "delay_10ms ticks fuel ncount c = delay_loop ticks fuel 0 (c\<lparr> g_timedelay := g_localtime c + ncount \<rparr>)"

definition lwip_timeouts_check :: "u32 \<Rightarrow> clock \<Rightarrow> clock" where
  "lwip_timeouts_check curtime c =
     (let c = (if curtime - tcpcurtime c \<ge> TCP_TMR_INTERVAL
               then c\<lparr> tcpcurtime := curtime, tcp_tmr_calls := Suc (tcp_tmr_calls c) \<rparr> else c)
      in if curtime - arpcurtime c \<ge> ARP_TMR_INTERVAL
         then c\<lparr> arpcurtime := curtime, etharp_tmr_calls := Suc (etharp_tmr_calls c) \<rparr> else c)"

section \<open>Every interleaving of the interrupt with the main loop\<close>

inductive clock_reach :: "clock \<Rightarrow> bool" where
  start: "clock_reach clock_init"
| systick: "clock_reach c \<Longrightarrow> clock_reach (SysTick_Handler c)"
| main_loop: "clock_reach c \<Longrightarrow> clock_reach (lwip_timeouts_check (g_localtime c) c)"

lemma SysTick_stands: "SysTick_Handler c = c"
  by (simp add: SysTick_Handler_def time_update_def SYSTEMTICK_PERIOD_MS_def)

lemma clock_reach_init: "clock_reach c \<Longrightarrow> c = clock_init"
  by (induction rule: clock_reach.induct)
    (simp_all add: SysTick_stands lwip_timeouts_check_def clock_init_def TCP_TMR_INTERVAL_def ARP_TMR_INTERVAL_def)

lemma delay_loop_stuck:
  "g_timedelay c > g_localtime c \<Longrightarrow> delay_loop ticks fuel i c = None"
proof (induction fuel arbitrary: i)
  case (Suc fuel)
  have "(SysTick_Handler ^^ n) c = c" for n by (induction n) (simp_all add: SysTick_stands)
  with Suc show ?case by simp
qed simp

section \<open>Properties\<close>

text \<open>
  C31: the local time stands still. The tick of the time base adds a period of 0, so after any
  interleaving of the interrupt and the main loop the time is 0 and neither the TCP timer nor the
  ARP timer of lwIP has ever been dispatched: ARP entries never age.
\<close>

theorem clock_stands:
  "clock_reach c \<Longrightarrow> sys_now c = 0 \<and> tcp_tmr_calls c = 0 \<and> etharp_tmr_calls c = 0"
  by (drule clock_reach_init) (simp add: clock_init_def sys_now_def)

theorem clock_stands_witness:
  "tcp_tmr_calls (lwip_timeouts_check (g_localtime (SysTick_Handler clock_init)) (SysTick_Handler clock_init)) = 0"
  using clock_stands [OF clock_reach.main_loop [OF clock_reach.systick [OF clock_reach.start]]] by simp

text \<open>
  A call of \<^verbatim>\<open>delay_10ms\<close> returns exactly when the requested delay is 0: with any
  other delay the busy wait never ends, however many ticks of the time base pass in its rounds.
\<close>

theorem delay_never_returns:
  "(\<exists>fuel c. delay_10ms ticks fuel ncount clock_init = Some c) \<longleftrightarrow> ncount = 0"
proof (cases "ncount = 0")
  case True
  then have "delay_10ms ticks 1 ncount clock_init = Some clock_init"
    by (simp add: delay_10ms_def clock_init_def)
  with True show ?thesis by blast
next
  case False
  then have "delay_10ms ticks fuel ncount clock_init = None" for fuel
    unfolding delay_10ms_def by (intro delay_loop_stuck) (simp add: clock_init_def word_gt_0)
  with False show ?thesis by simp
qed

end
