(* ===== verification/Misc.thy ===== *)
theory Misc
  imports Prelude
begin

text \<open>
  The interrupt controller part of \<^verbatim>\<open>gd32f4xx_misc.c\<close>. Its registers are byte and word
  arrays of the Cortex-M core, so they have a state of their own. What the calls of the firmware make
  of the priorities is shown in \<open>Irq_Levels\<close>.
\<close>

record nvic_regs =
  SCB_AIRCR :: u32
  SCB_VTOR :: u32
  SCB_SCR :: u32
  SysTick_CTRL :: u32
  NVIC_IP :: "nat \<Rightarrow> u8"
  NVIC_ISER :: "nat \<Rightarrow> u32"
  NVIC_ICER :: "nat \<Rightarrow> u32"

definition nvic_priority_group_set :: "u32 \<Rightarrow> nvic_regs \<Rightarrow> nvic_regs" where
  "nvic_priority_group_set nvic_prigroup s = s\<lparr> SCB_AIRCR := 0x05FA0000 OR nvic_prigroup \<rparr>"

text \<open>The pair \<^verbatim>\<open>(temp_pre, temp_sub)\<close> and the state after a possible default group.\<close>

definition nvic_group :: "nvic_regs \<Rightarrow> nat \<times> nat \<times> nvic_regs" where
  "nvic_group s =
     (let g = SCB_AIRCR s AND 0x700
      in if g = 0x700 then (0, 4, s)
         else if g = 0x600 then (1, 3, s)
         else if g = 0x500 then (2, 2, s)
         else if g = 0x400 then (3, 1, s)
         else if g = 0x300 then (4, 0, s)
         else (2, 2, nvic_priority_group_set 0x500 s))"

definition nvic_irq_enable :: "nat \<Rightarrow> u8 \<Rightarrow> u8 \<Rightarrow> nvic_regs \<Rightarrow> nvic_regs" where
  "nvic_irq_enable nvic_irq pre_priority sub_priority s =
     (let (temp_pre, temp_sub, s) = nvic_group s;
          temp_priority = push_bit (4 - temp_pre) (ucast pre_priority :: u32);
          temp_priority = temp_priority OR (ucast sub_priority AND drop_bit (4 - temp_sub) 0xF);
          temp_priority = push_bit 4 temp_priority
      in s\<lparr> NVIC_IP := (NVIC_IP s)(nvic_irq := ucast temp_priority),
            NVIC_ISER := (NVIC_ISER s)(nvic_irq div 32 := push_bit (nvic_irq mod 32) 1) \<rparr>)"

definition nvic_irq_disable :: "nat \<Rightarrow> nvic_regs \<Rightarrow> nvic_regs" where
  "nvic_irq_disable nvic_irq s =
     s\<lparr> NVIC_ICER := (NVIC_ICER s)(nvic_irq div 32 := push_bit (nvic_irq mod 32) 1) \<rparr>"

definition nvic_vector_table_set :: "u32 \<Rightarrow> u32 \<Rightarrow> nvic_regs \<Rightarrow> nvic_regs" where
  "nvic_vector_table_set nvic_vict_tab offset s = s\<lparr> SCB_VTOR := nvic_vict_tab OR (offset AND 0x1FFFFF80) \<rparr>"

definition system_lowpower_set :: "u8 \<Rightarrow> nvic_regs \<Rightarrow> nvic_regs" where
  "system_lowpower_set lowpower_mode s = s\<lparr> SCB_SCR := SCB_SCR s OR ucast lowpower_mode \<rparr>"

definition system_lowpower_reset :: "u8 \<Rightarrow> nvic_regs \<Rightarrow> nvic_regs" where
  "system_lowpower_reset lowpower_mode s = s\<lparr> SCB_SCR := SCB_SCR s AND NOT (ucast lowpower_mode) \<rparr>"

definition systick_clksource_set :: "u32 \<Rightarrow> nvic_regs \<Rightarrow> nvic_regs" where
  "systick_clksource_set systick_clksource s =
     (if systick_clksource = 4 then s\<lparr> SysTick_CTRL := SysTick_CTRL s OR 4 \<rparr>
      else s\<lparr> SysTick_CTRL := SysTick_CTRL s AND 0xFFFFFFFB \<rparr>)"

section \<open>Preemption\<close>

text \<open>
  The preemption level the core compares: with the group \<open>0x500\<close> the two upper bits of the
  priority byte.
\<close>

definition level_of :: "nvic_regs \<Rightarrow> u8 \<Rightarrow> nat" where
  "level_of s b = (case nvic_group s of (pre, _) \<Rightarrow> unat (drop_bit (8 - pre) b))"

definition preemption_level :: "nvic_regs \<Rightarrow> nat \<Rightarrow> nat" where
  "preemption_level s irq = level_of s (NVIC_IP s irq)"

lemma nvic_group_cases:
  "nvic_group s = (0, 4, s) \<or> nvic_group s = (1, 3, s) \<or> nvic_group s = (2, 2, s)
   \<or> nvic_group s = (3, 1, s) \<or> nvic_group s = (4, 0, s)
   \<or> nvic_group s = (2, 2, nvic_priority_group_set 0x500 s)"
  by (simp add: nvic_group_def Let_def)

lemma nvic_group_after:
  assumes "nvic_group s = (p, q, t)"
  shows "nvic_group (t\<lparr> NVIC_IP := f, NVIC_ISER := g \<rparr>) = (p, q, t\<lparr> NVIC_IP := f, NVIC_ISER := g \<rparr>)"
proof (cases "SCB_AIRCR s AND 0x700 \<in> {0x700, 0x600, 0x500, 0x400, 0x300}")
  case True
  with assms show ?thesis by (auto simp: nvic_group_def)
next
  case False
  with assms show ?thesis by (auto simp: nvic_group_def nvic_priority_group_set_def Let_def)
qed

lemma sub_priority_low:
  "drop_bit (8 - p) (ucast (push_bit 4 (ucast sub AND drop_bit p 0xF :: u32)) :: u8) = 0"
  if "p \<le> 4" for sub :: u8
proof (rule bit_word_eqI)
  fix n
  have "(0xF :: u32) = mask 4" by (simp add: mask_eq_exp_minus_1)
  then have "\<not> bit (0xF :: u32) (p + (8 - p + n - 4))"
    using that by (simp only: bit_mask_iff) simp
  then have "\<not> bit (ucast sub AND drop_bit p 0xF :: u32) (8 - p + n - 4)"
    by (simp only: bit_and_iff bit_drop_bit_eq comp_def) blast
  then show "bit (drop_bit (8 - p) (ucast (push_bit 4 (ucast sub AND drop_bit p 0xF :: u32)) :: u8)) n
      = bit (0 :: u8) n"
    by (simp only: bit_drop_bit_eq comp_def bit_unsigned_iff bit_push_bit_iff bit_0_eq bot_apply bot_bool_def) blast
qed

lemma pre_level_0:
  "preemption_level (nvic_irq_enable irq 0 sub s) irq = 0"
proof -
  obtain p q t where g: "nvic_group s = (p, q, t)" by (cases "nvic_group s")
  have pq: "4 - q = p" "p \<le> 4"
    using nvic_group_cases [of s] g by auto
  have ip: "NVIC_IP (t\<lparr> NVIC_IP := f, NVIC_ISER := h \<rparr>) = f" for f h by simp
  have z: "push_bit k (ucast (0 :: u8)) OR x = x" for k and x :: u32 by simp
  have "nvic_irq_enable irq 0 sub s = t
      \<lparr> NVIC_IP := (NVIC_IP t)(irq := ucast (push_bit 4 (ucast sub AND drop_bit p 0xF :: u32))),
        NVIC_ISER := (NVIC_ISER t)(irq div 32 := push_bit (irq mod 32) 1) \<rparr>"
    by (simp only: nvic_irq_enable_def g prod.case Let_def pq(1) z fst_conv snd_conv)
  then show ?thesis
    by (simp only: preemption_level_def level_of_def nvic_group_after [OF g] prod.case ip
          fun_upd_same sub_priority_low [OF pq(2)] unat_0)
qed

lemma pre_level_other:
  assumes "i \<noteq> j"
  shows "preemption_level (nvic_irq_enable j pre sub s) i = preemption_level s i"
proof -
  obtain p q t where g: "nvic_group s = (p, q, t)" by (cases "nvic_group s")
  have ip: "NVIC_IP t = NVIC_IP s"
    using nvic_group_cases [of s] g by (auto simp: nvic_priority_group_set_def)
  obtain f h where "nvic_irq_enable j pre sub s = t\<lparr> NVIC_IP := (NVIC_IP t)(j := f), NVIC_ISER := h \<rparr>"
    by (simp add: nvic_irq_enable_def g Let_def)
  then show ?thesis
    using assms ip g by (simp add: preemption_level_def level_of_def nvic_group_after [OF g])
qed

end
