(* ===== verification/Main_App.thy ===== *)
theory Main_App
  imports Ethernet Clock Misc
begin

text \<open>
  The running firmware: the main loop of \<^verbatim>\<open>src/src/main.c\<close> hands a datagram to
  \<^verbatim>\<open>udp_reciev\<close>, and the interrupt handlers of \<^verbatim>\<open>uart.c\<close> run between any two
  accesses of it to the shared variables. A handler runs as one step with respect to the other
  handlers: all their interrupts are enabled with pre-emption priority 0 (theory \<open>Irq_Levels\<close>). The
  tick handler has a lower priority and can be interrupted by them; it only counts the local time
  (theory \<open>Clock\<close>), which no other handler uses. The work of the main loop is a list of accesses of
  which each step takes the first.
\<close>

section \<open>The work of a datagram, access by access\<close>

text \<open>
  What the main loop keeps in registers and in the transmit buffer while it works on a datagram: the
  running checksum of \<^verbatim>\<open>Crc8\<close> and the bytes of the reply that \<^verbatim>\<open>udp_sendto\<close> has
  already copied out of the packet. The packet is passed by reference (\<^verbatim>\<open>PBUF_ROM\<close>), and the copy
  reads each of its bytes once, in the order of the addresses. The pass that lwIP makes over the packet
  before the copy, for the UDP checksum, only reads it and is left out; the bytes of a datagram sent are
  those of the copy.
\<close>

record main_local =
  crc_reg :: u8
  copied :: "u8 list"

text \<open>
  One access of the main loop to a variable that an interrupt handler also uses. A handler can run
  between any two of them.
\<close>

datatype main_op =
  Store "app \<Rightarrow> app res" | Crc_start | Crc_round nat nat | Crc_store nat | Copy_start | Copy_byte nat | Copy_end

fun exec_op :: "main_op \<Rightarrow> app \<times> main_local \<Rightarrow> (app \<times> main_local) res" where
  "exec_op (Store f) (a, l) = bind_res (f a) (\<lambda>b. Inr (b, l))"
| "exec_op Crc_start (a, l) = Inr (a, l\<lparr> crc_reg := 0xFF \<rparr>)"
| "exec_op (Crc_round i j) (a, l) =
     bind_res (get_at (message_from_BKD a) i) (\<lambda>row. bind_res (get_at row j) (\<lambda>b.
     Inr (a, l\<lparr> crc_reg := Crc8Table ! unat (crc_reg l XOR b) \<rparr>)))"
| "exec_op (Crc_store i) (a, l) = bind_res (put_msg i 15 (crc_reg l) a) (\<lambda>b. Inr (b, l))"
| "exec_op Copy_start (a, l) = Inr (a, l\<lparr> copied := [] \<rparr>)"
| "exec_op (Copy_byte j) (a, l) =
     bind_res (get_at (YLSToYVPack a) (unat (current_tick_tx_eth a))) (\<lambda>p.
     bind_res (get_at (packet_bytes p) j) (\<lambda>v. Inr (a, l\<lparr> copied := copied l @ [v] \<rparr>)))"
| "exec_op Copy_end (a, l) = Inr (a\<lparr> sent := sent a @ [copied l] \<rparr>, l)"

definition row_ops :: "u8 list \<Rightarrow> u8 \<Rightarrow> nat \<Rightarrow> main_op list" where
  "row_ops rx command i =
     [Store (put_msg i 1 command),
      Store (\<lambda>s. bind_res (rx_yps_mask rx i) (\<lambda>v. put_msg i 2 v s)),
      Store (\<lambda>s. bind_res (rx_ykp_angle rx i 0) (\<lambda>a. put_msg i 4 (lo8 a) s)),
      Store (\<lambda>s. bind_res (rx_ykp_angle rx i 0) (\<lambda>a. put_msg i 5 (hi8 a) s)),
      Store (\<lambda>s. bind_res (rx_ykp_angle rx i 1) (\<lambda>a. put_msg i 6 (lo8 a) s)),
      Store (\<lambda>s. bind_res (rx_ykp_angle rx i 1) (\<lambda>a. put_msg i 7 (hi8 a) s)),
      Crc_start] @ map (Crc_round i) [0..<15] @ [Crc_store i]"

definition toggle_op :: "app \<Rightarrow> app res" where
  "toggle_op s = Inr (s\<lparr> current_tick_tx_eth := (if current_tick_tx_eth s \<noteq> 0 then 0 else 1) \<rparr>)"

definition rx_lamp_on :: "app \<Rightarrow> app res" where
  "rx_lamp_on s = Inr (s\<lparr> regs := gpio_bit_set Blink_RX_PORT Blink_RX_PIN (regs s) \<rparr>)"

definition rx_lamp_off :: "app \<Rightarrow> app res" where
  "rx_lamp_off s = Inr (s\<lparr> regs := gpio_bit_reset Blink_RX_PORT Blink_RX_PIN (regs s) \<rparr>)"

definition tx_lamp_on :: "app \<Rightarrow> app res" where
  "tx_lamp_on s = Inr (s\<lparr> regs := gpio_bit_set Blink_TX_PORT Blink_TX_PIN (regs s) \<rparr>)"

definition tx_lamp_off :: "app \<Rightarrow> app res" where
  "tx_lamp_off s = Inr (s\<lparr> regs := gpio_bit_reset Blink_TX_PORT Blink_TX_PIN (regs s) \<rparr>)"

text \<open>\<open>ok\<close>: there is a socket and a buffer for the reply.\<close>

definition send_ops :: "bool \<Rightarrow> main_op list" where
  "send_ops ok = Store tx_lamp_on #
     (if ok then Copy_start # map Copy_byte [0..<REPLY_SIZE] @ [Copy_end, Store tx_lamp_off] else [])"

definition udp_ops :: "bool \<Rightarrow> u8 list option \<Rightarrow> main_op list" where
  "udp_ops ok p = Store rx_lamp_on # (case p of None \<Rightarrow> []
     | Some rx \<Rightarrow>
         (if length rx = SIZE_MESSAGE_YV
          then concat (map (row_ops rx (yv_command (rx ! 77))) [0..<unat IN_TOTAL_BKD + 1])
                 @ Store toggle_op # send_ops ok
          else []) @ [Store rx_lamp_off])"

abbreviation run_ops :: "main_op list \<Rightarrow> app \<times> main_local \<Rightarrow> (app \<times> main_local) res" where
  "run_ops \<equiv> res_fold exec_op"

lemmas lamp_defs = rx_lamp_on_def rx_lamp_off_def tx_lamp_on_def tx_lamp_off_def

section \<open>Without an interrupt in between\<close>

lemma run_crc:
  assumes "i < length (message_from_BKD a)" "n \<le> length (message_from_BKD a ! i)"
  shows "run_ops (map (Crc_round i) [0..<n]) (a, l)
    = Inr (a, l\<lparr> crc_reg := crc_run poly_step (crc_reg l) (take n (message_from_BKD a ! i)) \<rparr>)"
  using assms(2)
proof (induction n)
  case (Suc n)
  then show ?case
    using assms(1) by (simp add: res_fold_append take_Suc_conv_app_nth Crc8Table_nth crc_run_def)
qed (simp add: crc_run_def)

lemma run_copy:
  assumes "app_wf a" "n \<le> 8192"
  shows "run_ops (map Copy_byte [0..<n]) (a, l\<lparr> copied := [] \<rparr>)
    = Inr (a, l\<lparr> copied := take n (packet_bytes (YLSToYVPack a ! unat (current_tick_tx_eth a))) \<rparr>)"
  using assms(2)
proof (induction n)
  case (Suc n)
  have "length (packet_bytes (YLSToYVPack a ! unat (current_tick_tx_eth a))) = 8192"
    using packet_bytes_length [OF cur_pack_wf [OF assms(1)]] by (simp add: SIZE_MESSAGE_YLS_def)
  moreover have "unat (current_tick_tx_eth a) < length (YLSToYVPack a)"
    using tick_cases [OF assms(1)] assms(1) by (simp add: app_wf_def packs_wf_def)
  ultimately show ?case using Suc by (simp add: res_fold_append take_Suc_conv_app_nth)
qed simp

lemma run_row:
  assumes "rows_wf (message_from_BKD a)" "80 \<le> length rx" "i < 13"
  shows "\<exists>l'. run_ops (row_ops rx (yv_command (rx ! 77)) i) (a, l)
    = Inr (a\<lparr> message_from_BKD := (message_from_BKD a)[i := request_frame rx i (message_from_BKD a ! i)] \<rparr>, l')"
proof -
  have w: "length (message_from_BKD a) = 14" "length (message_from_BKD a ! i) = 20"
    using assms rows_wf_nth [OF assms(1), of i] by (simp_all add: rows_wf_def)
  have p: "put_msg i j v (a\<lparr> message_from_BKD := (message_from_BKD a)[i := r] \<rparr>)
      = Inr (a\<lparr> message_from_BKD := (message_from_BKD a)[i := r[j := v]] \<rparr>)" if "length r = 20" "j < 20" for r j v
    using that w assms(3) by (simp add: put_msg_def)
  have q: "put_msg i 1 v a = Inr (a\<lparr> message_from_BKD := (message_from_BKD a)[i := (message_from_BKD a ! i)[1 := v]] \<rparr>)" for v
    using put_msg_ok [OF assms(1), of i 1 v] assms(3) by simp
  have c: "run_ops (map (Crc_round i) [0..<15]) (a\<lparr> message_from_BKD := (message_from_BKD a)[i := r] \<rparr>, l')
      = Inr (a\<lparr> message_from_BKD := (message_from_BKD a)[i := r] \<rparr>, l'\<lparr> crc_reg := crc_run poly_step (crc_reg l') (take 15 r) \<rparr>)"
    if "length r = 20" for r l'
    using run_crc [of i "a\<lparr> message_from_BKD := (message_from_BKD a)[i := r] \<rparr>" 15 l'] that w assms(3) by simp
  show ?thesis
    using w
    by (simp add: row_ops_def q rx_reads [OF assms(2,3)] p res_fold_append c request_frame_def Let_def crc8_ref_def
        del: One_nat_def upt_rec_numeral)
qed

lemma run_rows:
  assumes "rows_wf (message_from_BKD a)" "80 \<le> length rx" "n \<le> 13"
  shows "\<exists>l'. run_ops (concat (map (row_ops rx (yv_command (rx ! 77))) [0..<n])) (a, l)
    = Inr (a\<lparr> message_from_BKD := request_rows rx n (message_from_BKD a) \<rparr>, l')"
  using assms(3)
proof (induction n)
  case 0
  show ?case by simp
next
  case (Suc n)
  then obtain k where k: "run_ops (concat (map (row_ops rx (yv_command (rx ! 77))) [0..<n])) (a, l)
    = Inr (a\<lparr> message_from_BKD := request_rows rx n (message_from_BKD a) \<rparr>, k)" by auto
  have "length (message_from_BKD a) = 14" using assms(1) by (simp add: rows_wf_def)
  moreover obtain l' where "run_ops (row_ops rx (yv_command (rx ! 77)) n) (a\<lparr> message_from_BKD := request_rows rx n (message_from_BKD a) \<rparr>, k)
    = Inr (a\<lparr> message_from_BKD := (request_rows rx n (message_from_BKD a))[n :=
        request_frame rx n (request_rows rx n (message_from_BKD a) ! n)] \<rparr>, l')"
    using run_row [OF _ assms(2), of "a\<lparr> message_from_BKD := request_rows rx n (message_from_BKD a) \<rparr>" n k]
      request_rows_wf [OF assms(1)] Suc.prems by auto
  ultimately show ?case
    using Suc.prems by (simp add: res_fold_append k request_rows_nth request_rows_Suc)
qed

text \<open>
  Without an interrupt the accesses together are \<^verbatim>\<open>udp_reciev\<close>; up to the copy of the reply
  they leave the state that this lemma gives.
\<close>

lemma run_request:
  assumes "app_wf a" "length rx = 80"
  shows "\<exists>l'. run_ops (Store rx_lamp_on # concat (map (row_ops rx (yv_command (rx ! 77))) [0..<unat IN_TOTAL_BKD + 1])
        @ [Store toggle_op, Store tx_lamp_on, Copy_start]) (a, l)
    = Inr ((request_state rx a)\<lparr> regs := gpio_bit_set Blink_TX_PORT Blink_TX_PIN (gpio_bit_set Blink_RX_PORT Blink_RX_PIN (regs a)) \<rparr>,
        l'\<lparr> copied := [] \<rparr>)"
proof -
  let ?a = "a\<lparr> regs := gpio_bit_set Blink_RX_PORT Blink_RX_PIN (regs a) \<rparr>"
  have "rows_wf (message_from_BKD ?a)" using assms(1) by (simp add: app_wf_def)
  from run_rows [OF this, of rx 13 l] assms(2) obtain l' where
    "run_ops (concat (map (row_ops rx (yv_command (rx ! 77))) [0..<13])) (?a, l)
      = Inr (?a\<lparr> message_from_BKD := request_rows rx 13 (message_from_BKD a) \<rparr>, l')" by auto
  moreover have "unat IN_TOTAL_BKD + 1 = 13" by (simp add: IN_TOTAL_BKD_def)
  ultimately show ?thesis
    by (intro exI [of _ l'])
      (simp add: lamp_defs toggle_op_def res_fold_append request_state_def del: upt_rec_numeral)
qed

lemma udp_ops_request:
  assumes "length rx = 80"
  shows "udp_ops True (Some rx) = (Store rx_lamp_on # concat (map (row_ops rx (yv_command (rx ! 77))) [0..<unat IN_TOTAL_BKD + 1])
        @ [Store toggle_op, Store tx_lamp_on, Copy_start]) @ map Copy_byte [0..<REPLY_SIZE] @ [Copy_end, Store tx_lamp_off, Store rx_lamp_off]"
  using assms by (simp add: udp_ops_def send_ops_def SIZE_MESSAGE_YV_def)

lemma run_udp_ops:
  assumes "app_wf a" "length rx = 80" "udp_pcb a"
  shows "\<exists>b l'. udp_reciev True (Some rx) a = Inr b \<and> run_ops (udp_ops True (Some rx)) (a, l) = Inr (b, l')"
proof -
  let ?m = "gpio_bit_set Blink_TX_PORT Blink_TX_PIN (gpio_bit_set Blink_RX_PORT Blink_RX_PIN (regs a))"
  let ?b = "(request_state rx a)\<lparr> regs := ?m \<rparr>"
  obtain l' where l': "run_ops (Store rx_lamp_on # concat (map (row_ops rx (yv_command (rx ! 77))) [0..<unat IN_TOTAL_BKD + 1])
        @ [Store toggle_op, Store tx_lamp_on, Copy_start]) (a, l) = Inr (?b, l'\<lparr> copied := [] \<rparr>)"
    using run_request [OF assms(1,2)] by blast
  have w: "app_wf ?b" using request_state_wf [OF assms(1)] by simp
  have k: "take REPLY_SIZE (packet_bytes (YLSToYVPack ?b ! unat (current_tick_tx_eth ?b))) = reply_of a"
    using tick_toggle [OF assms(1)] by (simp add: reply_of_def request_state_def)
  have "run_ops (udp_ops True (Some rx)) (a, l) = Inr ((request_state rx a)\<lparr> regs := reply_regs True (regs a),
      sent := sent a @ [reply_of a] \<rparr>, l'\<lparr> copied := reply_of a \<rparr>)"
    unfolding udp_ops_request [OF assms(2)] res_fold_append l' bind_res_simps
    using run_copy [OF w, of REPLY_SIZE l'] k
    by (simp add: REPLY_SIZE_def lamp_defs reply_regs_def Let_def request_state_def)
  with udp_reciev_eq [OF assms(1,2), of True] assms(3) show ?thesis by (cases a) (auto simp: request_state_def)
qed

section \<open>Events\<close>

record sys =
  app_of :: app
  locals :: main_local
  pending :: "main_op list"

datatype event =
  Poll_tick | End_rx5 | End_rx0 | Rx5 u8 | Rx0 u8 | End_tx5 | End_tx0
| Datagram bool "u8 list option" | Main_step

definition on_app :: "(app \<Rightarrow> app res) \<Rightarrow> sys \<Rightarrow> sys res" where
  "on_app f s = bind_res (f (app_of s)) (\<lambda>a. Inr (s\<lparr> app_of := a \<rparr>))"

fun exec :: "event \<Rightarrow> sys \<Rightarrow> sys res" where
  "exec Poll_tick = on_app (\<lambda>a. TIMER6_IRQHandler (a\<lparr> regs := timer_overflow TIMER6 (regs a) \<rparr>))"
| "exec End_rx5 = on_app (\<lambda>a. TIMER4_IRQHandler (a\<lparr> regs := timer_overflow TIMER4 (regs a) \<rparr>))"
| "exec End_rx0 = on_app (\<lambda>a. TIMER2_IRQHandler (a\<lparr> regs := timer_overflow TIMER2 (regs a) \<rparr>))"
| "exec (Rx5 b) = on_app (usart5_byte b)"
| "exec (Rx0 b) = on_app (usart0_byte b)"
| "exec End_tx5 = on_app (\<lambda>a. Inr (DMA1_Channel6_IRQHandler (a\<lparr> regs := dma_finished DMA1 6 (regs a) \<rparr>)))"
| "exec End_tx0 = on_app (\<lambda>a. Inr (DMA1_Channel7_IRQHandler (a\<lparr> regs := dma_finished DMA1 7 (regs a) \<rparr>)))"
| "exec (Datagram alloc_ok p) = (\<lambda>s. Inr (s\<lparr> pending := udp_ops (udp_pcb (app_of s) \<and> alloc_ok) p \<rparr>))"
| "exec Main_step = (\<lambda>s. case pending s of [] \<Rightarrow> Inr s
     | f # fs \<Rightarrow> bind_res (exec_op f (app_of s, locals s)) (\<lambda>(a, l). Inr \<lparr> app_of = a, locals = l, pending = fs \<rparr>))"

text \<open>
  Every interrupt can come at any time, a received byte also while the port transmits: the poll timer
  has the better subpriority, so that it can set the transmit flag in front of a byte that is already
  waiting, and nothing turns the receiver off. Only the next datagram waits until the main loop has
  finished the previous one.
\<close>

definition enabled :: "event \<Rightarrow> sys \<Rightarrow> bool" where
  "enabled e s \<longleftrightarrow> (case e of Datagram _ _ \<Rightarrow> pending s = [] \<and> udp_callback (app_of s) | _ \<Rightarrow> True)"

inductive step :: "sys \<Rightarrow> event \<Rightarrow> sys \<Rightarrow> bool" where
  "enabled e s \<Longrightarrow> exec e s = Inr t \<Longrightarrow> step s e t"

definition initial :: "app \<Rightarrow> sys" where
  "initial a0 = \<lparr> app_of = a0, locals = \<lparr> crc_reg = 0, copied = [] \<rparr>, pending = [] \<rparr>"

inductive reachable :: "app \<Rightarrow> sys \<Rightarrow> bool" for a0 :: app where
  start: "reachable a0 (initial a0)"
| next_step: "reachable a0 s \<Longrightarrow> step s e t \<Longrightarrow> reachable a0 t"

inductive_simps step_simps: "step s e t"

text \<open>The byte that finds the receive counter behind the end of the buffer, with its interrupt on.\<close>

definition overrun :: "event \<Rightarrow> app \<Rightarrow> bool" where
  "overrun e a \<longleftrightarrow> (case e of Rx5 _ \<Rightarrow> usart5_ready a \<and> unat (usart5_counter a) = 200
     | Rx0 _ \<Rightarrow> usart0_ready a \<and> unat (usart0_counter a) = 200 | _ \<Rightarrow> False)"

section \<open>What every operation keeps\<close>

text \<open>
  The copy of a reply in order: the number of bytes copied so far fits the accesses still to come, and
  the copy ends with the whole reply.
\<close>

fun copy_ok :: "nat \<Rightarrow> main_op list \<Rightarrow> bool" where
  "copy_ok n [] = True"
| "copy_ok n (Copy_start # fs) = copy_ok 0 fs"
| "copy_ok n (Copy_byte j # fs) = (n = j \<and> j < REPLY_SIZE \<and> copy_ok (Suc n) fs)"
| "copy_ok n (Copy_end # fs) = (n = REPLY_SIZE \<and> copy_ok n fs)"
| "copy_ok n (f # fs) = copy_ok n fs"

definition copies :: "main_op \<Rightarrow> bool" where
  "copies f \<longleftrightarrow> (case f of Copy_start \<Rightarrow> True | Copy_byte _ \<Rightarrow> True | Copy_end \<Rightarrow> True | _ \<Rightarrow> False)"

lemma copy_ok_skip: "\<forall>f \<in> set fs. \<not> copies f \<Longrightarrow> copy_ok n (fs @ gs) = copy_ok n gs"
proof (induction fs)
  case (Cons f fs)
  then show ?case by (cases f) (simp_all add: copies_def)
qed simp

lemma copy_ok_bytes: "j \<le> n \<Longrightarrow> n \<le> REPLY_SIZE \<Longrightarrow> copy_ok j (map Copy_byte [j..<n] @ fs) = copy_ok n fs"
proof (induction "n - j" arbitrary: j)
  case (Suc k)
  then have "j < n" "j < REPLY_SIZE" by simp_all
  with Suc show ?case by (simp add: upt_conv_Cons)
qed simp

lemma copy_ok_udp: "copy_ok n (udp_ops ok p)"
proof -
  have r: "\<forall>f \<in> set (concat (map (row_ops rx c) is)). \<not> copies f" for rx c "is"
    by (auto simp: row_ops_def copies_def)
  have "copy_ok n (send_ops ok @ [Store rx_lamp_off])" for n
    using copy_ok_bytes [of 0 REPLY_SIZE] by (simp add: send_ops_def)
  then show ?thesis
    by (cases p) (simp_all add: udp_ops_def copy_ok_skip [OF r] del: upt_Suc)
qed

lemma exec_op_copied:
  assumes "copy_ok (length (copied l)) (f # fs)" "exec_op f (a, l) = Inr (b, l')"
  shows "copy_ok (length (copied l')) fs"
  using assms by (cases f) (auto simp: bind_res_eq_Inr)

text \<open>
  Handlers and accesses of the main loop all keep a property of the application and of the main loop's
  own variables; it then holds in every reachable state.
\<close>

locale app_invariant =
  fixes I :: "app \<Rightarrow> main_local \<Rightarrow> bool"
  assumes poll: "I a l \<Longrightarrow> TIMER6_IRQHandler (a\<lparr> regs := timer_overflow TIMER6 (regs a) \<rparr>) = Inr b \<Longrightarrow> I b l"
    and end_rx5: "I a l \<Longrightarrow> TIMER4_IRQHandler (a\<lparr> regs := timer_overflow TIMER4 (regs a) \<rparr>) = Inr b \<Longrightarrow> I b l"
    and end_rx0: "I a l \<Longrightarrow> TIMER2_IRQHandler (a\<lparr> regs := timer_overflow TIMER2 (regs a) \<rparr>) = Inr b \<Longrightarrow> I b l"
    and rx5: "I a l \<Longrightarrow> usart5_byte v a = Inr b \<Longrightarrow> I b l"
    and rx0: "I a l \<Longrightarrow> usart0_byte v a = Inr b \<Longrightarrow> I b l"
    and end_tx5: "I a l \<Longrightarrow> I (DMA1_Channel6_IRQHandler (a\<lparr> regs := dma_finished DMA1 6 (regs a) \<rparr>)) l"
    and end_tx0: "I a l \<Longrightarrow> I (DMA1_Channel7_IRQHandler (a\<lparr> regs := dma_finished DMA1 7 (regs a) \<rparr>)) l"
    and access: "f \<in> set (udp_ops ok p) \<Longrightarrow> copy_ok (length (copied l)) [f] \<Longrightarrow> I a l \<Longrightarrow>
        exec_op f (a, l) = Inr (b, l') \<Longrightarrow> I b l'"
begin

definition inv :: "sys \<Rightarrow> bool" where
  "inv s \<longleftrightarrow> I (app_of s) (locals s) \<and> (\<forall>f \<in> set (pending s). \<exists>ok p. f \<in> set (udp_ops ok p))
     \<and> copy_ok (length (copied (locals s))) (pending s)"

lemma copy_ok_first: "copy_ok n (f # fs) \<Longrightarrow> copy_ok n [f]"
  by (cases f) simp_all

lemma on_app_inv:
  "inv s \<Longrightarrow> on_app h s = Inr t \<Longrightarrow>
     (\<And>b. I (app_of s) (locals s) \<Longrightarrow> h (app_of s) = Inr b \<Longrightarrow> I b (locals s)) \<Longrightarrow> inv t"
  by (auto simp: inv_def on_app_def bind_res_eq_Inr)

lemma exec_inv:
  assumes "inv s" "exec e s = Inr t"
  shows "inv t"
proof (cases e)
  case (Datagram al p)
  then have "t = s\<lparr> pending := udp_ops (udp_pcb (app_of s) \<and> al) p \<rparr>" using assms(2) by simp
  moreover have "\<forall>f \<in> set (udp_ops ok p). \<exists>ok p. f \<in> set (udp_ops ok p)" for ok by blast
  ultimately show ?thesis using assms(1) by (simp add: inv_def copy_ok_udp)
next
  case Main_step
  show ?thesis
  proof (cases "pending s")
    case Nil
    then show ?thesis using Main_step assms by simp
  next
    case (Cons f fs)
    then obtain a l where f: "exec_op f (app_of s, locals s) = Inr (a, l)" "t = \<lparr> app_of = a, locals = l, pending = fs \<rparr>"
      using Main_step assms(2) by (auto simp: bind_res_eq_Inr)
    have c: "copy_ok (length (copied (locals s))) (f # fs)" using assms(1) Cons by (simp add: inv_def)
    obtain ok p where "f \<in> set (udp_ops ok p)" using assms(1) Cons by (auto simp: inv_def)
    then have "I a l" using access [OF _ copy_ok_first [OF c] _ f(1)] assms(1) by (simp add: inv_def)
    then show ?thesis using f(2) assms(1) Cons exec_op_copied [OF c f(1)] by (simp add: inv_def)
  qed
next
  case Poll_tick
  then show ?thesis using on_app_inv [OF assms(1), of _ t] assms(2) poll by simp
next
  case End_rx5
  then show ?thesis using on_app_inv [OF assms(1), of _ t] assms(2) end_rx5 by simp
next
  case End_rx0
  then show ?thesis using on_app_inv [OF assms(1), of _ t] assms(2) end_rx0 by simp
next
  case (Rx5 v)
  then show ?thesis using on_app_inv [OF assms(1), of _ t] assms(2) rx5 by simp
next
  case (Rx0 v)
  then show ?thesis using on_app_inv [OF assms(1), of _ t] assms(2) rx0 by simp
next
  case End_tx5
  then show ?thesis using on_app_inv [OF assms(1), of _ t] assms(2) end_tx5 by fastforce
next
  case End_tx0
  then show ?thesis using on_app_inv [OF assms(1), of _ t] assms(2) end_tx0 by fastforce
qed

lemma run_inv: "inv s \<Longrightarrow> res_fold exec es s = Inr t \<Longrightarrow> inv t"
  by (induction es arbitrary: s) (auto simp: bind_res_eq_Inr dest: exec_inv)

lemma reachable_inv: "reachable a0 s \<Longrightarrow> I a0 \<lparr> crc_reg = 0, copied = [] \<rparr> \<Longrightarrow> inv s"
proof (induction rule: reachable.induct)
  case start
  then show ?case by (simp add: inv_def initial_def)
next
  case (next_step s e t)
  then show ?case by (auto simp: step_simps exec_inv)
qed

end

section \<open>The accesses of the main loop\<close>

lemma put_msg_rows:
  assumes "app_wf a" "i < 14" "j < 20"
  shows "\<exists>rows. put_msg i j v a = Inr (a\<lparr> message_from_BKD := rows \<rparr>) \<and> rows_wf rows"
proof -
  have w: "rows_wf (message_from_BKD a)" using assms(1) by (simp add: app_wf_def)
  then show ?thesis
    using put_msg_ok [OF w assms(2,3), of v] rows_wf_nth [OF w assms(2)]
    by (intro exI [of _ "(message_from_BKD a)[i := (message_from_BKD a ! i)[j := v]]"]) (simp add: rows_wf_update)
qed

text \<open>
  What an access of the main loop does in a well-formed state: it stores into the frames, drives a lamp,
  switches the packets, works on the local variables, or hands over the copied datagram.
\<close>

lemma row_op_effect:
  assumes "f \<in> set (row_ops rx c i)" "app_wf a" "80 \<le> length rx" "i < 13"
  shows "(\<exists>rows. exec_op f (a, l) = Inr (a\<lparr> message_from_BKD := rows \<rparr>, l) \<and> rows_wf rows)
    \<or> (\<exists>v. exec_op f (a, l) = Inr (a, l\<lparr> crc_reg := v \<rparr>))"
proof -
  have i: "i < 14" using assms(4) by simp
  have w: "length (message_from_BKD a) = 14" "length (message_from_BKD a ! i) = 20"
    using assms(2) rows_wf_nth [OF _ i, of "message_from_BKD a"] by (simp_all add: app_wf_def rows_wf_def)
  have "(\<exists>j < 20. \<exists>v. exec_op f (a, l) = bind_res (put_msg i j v a) (\<lambda>b. Inr (b, l)))
      \<or> (\<exists>v. exec_op f (a, l) = Inr (a, l\<lparr> crc_reg := v \<rparr>))"
    using assms(1) w i unfolding row_ops_def rx_reads [OF assms(3,4)]
    by (auto simp del: upt_rec_numeral) (fastforce | force)+
  then show ?thesis
  proof (elim disjE exE conjE)
    fix j v assume "j < 20" "exec_op f (a, l) = bind_res (put_msg i j v a) (\<lambda>b. Inr (b, l))"
    then show ?thesis using put_msg_rows [OF assms(2) i, of j v] by auto
  qed auto
qed

lemma udp_op_effect:
  assumes "f \<in> set (udp_ops ok p)" "app_wf a" "copy_ok (length (copied l)) [f]"
  shows "(\<exists>rows. exec_op f (a, l) = Inr (a\<lparr> message_from_BKD := rows \<rparr>, l) \<and> rows_wf rows)
    \<or> (\<exists>v. exec_op f (a, l) = Inr (a, l\<lparr> crc_reg := v \<rparr>))
    \<or> (\<exists>m. exec_op f (a, l) = Inr (a\<lparr> regs := m \<rparr>, l) \<and> (\<forall>r. r \<noteq> GPIO_BOP GPIOE \<and> r \<noteq> GPIO_BC GPIOE \<longrightarrow> reg_rd r m = reg_rd r (regs a)))
    \<or> f = Store toggle_op
    \<or> exec_op f (a, l) = Inr (a, l\<lparr> copied := [] \<rparr>)
    \<or> exec_op f (a, l) = Inr (a, l\<lparr> copied := copied l @ [packet_bytes (YLSToYVPack a ! unat (current_tick_tx_eth a)) ! length (copied l)] \<rparr>)
    \<or> length (copied l) = REPLY_SIZE \<and> exec_op f (a, l) = Inr (a\<lparr> sent := sent a @ [copied l] \<rparr>, l)"
proof -
  have p: "unat (current_tick_tx_eth a) < length (YLSToYVPack a)"
    "length (packet_bytes (YLSToYVPack a ! unat (current_tick_tx_eth a))) = 8192"
    using tick_cases [OF assms(2)] assms(2) packet_bytes_length [OF cur_pack_wf [OF assms(2)]]
    by (simp_all add: app_wf_def packs_wf_def SIZE_MESSAGE_YLS_def)
  from assms(1) consider (lamp) "f \<in> {Store rx_lamp_on, Store rx_lamp_off, Store tx_lamp_on, Store tx_lamp_off}"
    | "f = Store toggle_op" | "f = Copy_start" | (byte) j where "f = Copy_byte j" "j < REPLY_SIZE" | (sent) "f = Copy_end"
    | (row) rx i where "f \<in> set (row_ops rx (yv_command (rx ! 77)) i)" "length rx = 80" "i < 13"
    by (auto simp: udp_ops_def send_ops_def SIZE_MESSAGE_YV_def IN_TOTAL_BKD_def split: option.splits if_splits)
  then show ?thesis
  proof cases
    case lamp
    then show ?thesis
      by (auto simp: lamp_defs gpio_bit_set_def gpio_bit_reset_def Blink_RX_PORT_def Blink_TX_PORT_def)
  next
    case byte
    then show ?thesis using assms(3) p by (simp add: REPLY_SIZE_def)
  next
    case sent
    then show ?thesis using assms(3) by simp
  next
    case row
    then show ?thesis using row_op_effect [OF _ assms(2), of f rx _ i l] by auto
  qed simp_all
qed

section \<open>Invariants of the whole system\<close>

lemma rx_wf_regs [simp]: "rx_wf (a\<lparr> regs := m \<rparr>) = rx_wf a"
  by (simp add: rx_wf_def)

lemma udp_op_rx_wf:
  assumes "f \<in> set (udp_ops ok p)" "copy_ok (length (copied l)) [f]" "rx_wf a"
  shows "\<exists>b l'. exec_op f (a, l) = Inr (b, l') \<and> rx_wf b"
proof -
  have "app_wf a" using assms(3) by (simp add: rx_wf_def)
  from udp_op_effect [OF assms(1) this assms(2)] show ?thesis
    using assms(3) by (elim disjE exE conjE) (auto simp: rx_wf_def app_wf_def toggle_op_def)
qed

interpretation wf: app_invariant "\<lambda>a l. rx_wf a"
proof
  show "rx_wf b" if "rx_wf a" "usart5_byte v a = Inr b" for a b v
    using usart5_byte_cases [OF that(1), of v] that(2) by auto
  show "rx_wf b" if "rx_wf a" "usart0_byte v a = Inr b" for a b v
    using usart0_byte_cases [OF that(1), of v] that(2) by auto
  show "rx_wf b" if "f \<in> set (udp_ops ok p)" "copy_ok (length (copied l)) [f]" "rx_wf a" "exec_op f (a, l) = Inr (b, l')"
    for f ok p l a b l'
    using udp_op_rx_wf [OF that(1-3)] that(4) by auto
next
  fix a b assume w: "rx_wf a"
  show "rx_wf b" if "TIMER6_IRQHandler (a\<lparr> regs := timer_overflow TIMER6 (regs a) \<rparr>) = Inr b"
    using TIMER6_wf [of "a\<lparr> regs := timer_overflow TIMER6 (regs a) \<rparr>"] w that by auto
  show "rx_wf b" if "TIMER4_IRQHandler (a\<lparr> regs := timer_overflow TIMER4 (regs a) \<rparr>) = Inr b"
    using TIMER4_wf [of "a\<lparr> regs := timer_overflow TIMER4 (regs a) \<rparr>"] w that by auto
  show "rx_wf b" if "TIMER2_IRQHandler (a\<lparr> regs := timer_overflow TIMER2 (regs a) \<rparr>) = Inr b"
    using TIMER2_wf [of "a\<lparr> regs := timer_overflow TIMER2 (regs a) \<rparr>"] w that by auto
qed (simp_all add: DMA1_6_wf DMA1_7_wf)

text \<open>Progress: of all events only a byte behind the end of a receive buffer faults.\<close>

lemma exec_progress:
  assumes "wf.inv s"
  shows "(overrun e (app_of s) \<and> exec e s = Inl Out_Of_Bounds) \<or> (\<not> overrun e (app_of s) \<and> (\<exists>t. exec e s = Inr t))"
proof -
  have w: "rx_wf (app_of s)" "\<And>m. rx_wf ((app_of s)\<lparr> regs := m \<rparr>)" using assms by (simp_all add: wf.inv_def)
  show ?thesis
  proof (cases e)
    case (Rx5 v)
    then show ?thesis using usart5_byte_cases [OF w(1), of v] by (auto simp: overrun_def on_app_def)
  next
    case (Rx0 v)
    then show ?thesis using usart0_byte_cases [OF w(1), of v] by (auto simp: overrun_def on_app_def)
  next
    case Main_step
    show ?thesis
    proof (cases "pending s")
      case Nil
      then show ?thesis using Main_step by (simp add: overrun_def)
    next
      case (Cons f fs)
      then obtain ok p where "f \<in> set (udp_ops ok p)" "copy_ok (length (copied (locals s))) (f # fs)"
        using assms by (auto simp: wf.inv_def)
      with udp_op_rx_wf [OF _ _ w(1), of f ok p] wf.copy_ok_first show ?thesis
        using Main_step Cons by (fastforce simp: overrun_def)
    qed
  next
    case Poll_tick
    then show ?thesis using TIMER6_wf [OF w(2) [of "timer_overflow TIMER6 (regs (app_of s))"]] by (auto simp: overrun_def on_app_def)
  next
    case End_rx5
    then show ?thesis using TIMER4_wf [OF w(2) [of "timer_overflow TIMER4 (regs (app_of s))"]] by (auto simp: overrun_def on_app_def)
  next
    case End_rx0
    then show ?thesis using TIMER2_wf [OF w(2) [of "timer_overflow TIMER2 (regs (app_of s))"]] by (auto simp: overrun_def on_app_def)
  qed (simp_all add: overrun_def on_app_def)
qed

text \<open>The variables when the main loop starts: initialised, with the socket open.\<close>

definition booted :: "mem \<Rightarrow> u32 \<Rightarrow> app" where
  "booted m base = snd (udp_create_socket True True (app_init m base))"

lemma booted_rx_wf: "rx_wf (booted m base)"
  using app_init_rx_wf [of m base] by (simp add: booted_def udp_create_socket_def rx_wf_def app_wf_def)

lemma reachable_wf: "reachable (booted m base) s \<Longrightarrow> wf.inv s"
  by (erule wf.reachable_inv) (rule booted_rx_wf)

lemma reachable_rx_wf: "reachable (booted m base) s \<Longrightarrow> rx_wf (app_of s)"
  by (drule reachable_wf) (simp add: wf.inv_def)

section \<open>Properties\<close>

text \<open>
  C5: where the firmware can fault. In every state reachable by any interleaving of interrupts and
  accesses of the main loop, from the start of the main loop and any register contents, all counters
  and indices are in their ranges (the two receive counters at most at the end of their buffers), and
  an event that can happen runs to its end unless it is a byte received, with the receive interrupt on,
  when the receive counter of its port is 200; that byte is stored outside the buffer. Accesses are
  checked against the whole object: the frames, the packets and the receive buffers.
\<close>

theorem no_fault:
  assumes "reachable (booted m base) s" "enabled e s"
  shows "rx_wf (app_of s) \<and> (if overrun e (app_of s) then exec e s = Inl Out_Of_Bounds else (\<exists>t. step s e t))"
  using exec_progress [OF reachable_wf [OF assms(1)], of e] reachable_wf [OF assms(1)] assms(2)
  by (auto simp: step_simps wf.inv_def)

theorem no_fault_witness:
  "\<exists>t. step (initial (booted (\<lambda>_. 0) 0)) (Rx5 7) t"
  using no_fault [OF reachable.start, of "Rx5 7" "\<lambda>_. 0" 0]
  by (simp add: enabled_def overrun_def initial_def booted_def udp_create_socket_def app_init_def)

text \<open>
  A line that delivers bytes only while its port is not transmitting. The bytes of a run are checked
  at the time they arrive.
\<close>

definition quiet :: "event \<Rightarrow> app \<Rightarrow> bool" where
  "quiet e a \<longleftrightarrow> (case e of Rx5 _ \<Rightarrow> usart5_transmit a = 0 | Rx0 _ \<Rightarrow> usart0_transmit a = 0 | _ \<Rightarrow> True)"

fun half_duplex :: "event list \<Rightarrow> sys \<Rightarrow> bool" where
  "half_duplex [] s = True"
| "half_duplex (e # es) s \<longleftrightarrow> quiet e (app_of s) \<and> (case exec e s of Inl _ \<Rightarrow> True | Inr t \<Rightarrow> half_duplex es t)"

definition rx_inside :: "app \<Rightarrow> bool" where
  "rx_inside a \<longleftrightarrow> unat (usart5_counter a) < 200 \<and> unat (usart0_counter a) < 200"

lemma usart5_byte_inside:
  assumes "rx_wf a" "rx_inside a" "usart5_transmit a = 0" "usart5_byte v a = Inr b"
  shows "rx_inside b"
  using assms
  by (auto simp: rx_inside_def usart5_byte_def USART5_IRQHandler_def Let_def put_at_def rx_wf_def app_wf_def
      USART_RX_BUFFER_SIZE_def u8_succ split: if_splits)

lemma usart0_byte_inside:
  assumes "rx_wf a" "rx_inside a" "usart0_transmit a = 0" "usart0_byte v a = Inr b"
  shows "rx_inside b"
  using assms
  by (auto simp: rx_inside_def usart0_byte_def USART0_IRQHandler_def Let_def put_at_def rx_wf_def app_wf_def
      USART_RX_BUFFER_SIZE_def u8_succ split: if_splits)

lemma handlers_inside:
  assumes "rx_wf a" "rx_inside a"
  shows "TIMER6_IRQHandler a = Inr b \<Longrightarrow> rx_inside b" "TIMER4_IRQHandler a = Inr b \<Longrightarrow> rx_inside b"
    "TIMER2_IRQHandler a = Inr b \<Longrightarrow> rx_inside b" "rx_inside (DMA1_Channel6_IRQHandler a)" "rx_inside (DMA1_Channel7_IRQHandler a)"
proof -
  have w: "app_wf a" "\<And>m. rx_wf (a\<lparr> regs := m \<rparr>)" using assms(1) by (simp_all add: rx_wf_def)
  show "TIMER6_IRQHandler a = Inr b \<Longrightarrow> rx_inside b"
    using assms(2) w(1) by (auto simp: TIMER6_IRQHandler_def rx_inside_def Qwerty_eq split: if_splits)
  show "TIMER4_IRQHandler a = Inr b \<Longrightarrow> rx_inside b"
    using assms(2) Check_UART_rx [OF w(2) [of "timer_interrupt_flag_clear TIMER4 TIMER_INT_FLAG_UP (regs a)"], of "usart5_buffer_rx a" "usart5_counter a"]
    by (auto simp: TIMER4_IRQHandler_def rx_inside_def Let_def split: if_splits)
  show "TIMER2_IRQHandler a = Inr b \<Longrightarrow> rx_inside b"
    using assms(2) Check_UART_rx [OF w(2) [of "timer_interrupt_flag_clear TIMER2 TIMER_INT_FLAG_UP (regs a)"], of "usart0_buffer_rx a" "usart0_counter a"]
    by (auto simp: TIMER2_IRQHandler_def rx_inside_def Let_def split: if_splits)
qed (use assms(2) in \<open>simp_all add: rx_inside_def DMA1_Channel6_IRQHandler_def DMA1_Channel7_IRQHandler_def Let_def\<close>)

lemma access_inside:
  assumes "f \<in> set (udp_ops ok p)" "copy_ok (length (copied l)) [f]" "rx_wf a" "rx_inside a" "exec_op f (a, l) = Inr (b, l')"
  shows "rx_inside b"
proof -
  have "app_wf a" using assms(3) by (simp add: rx_wf_def)
  from udp_op_effect [OF assms(1) this assms(2)] show ?thesis
    using assms(4,5) by (elim disjE exE conjE) (auto simp: rx_inside_def toggle_op_def)
qed

lemma rx_inside_regs [simp]: "rx_inside (a\<lparr> regs := m \<rparr>) = rx_inside a"
  by (simp add: rx_inside_def)

lemma quiet_inside:
  assumes "wf.inv s" "rx_inside (app_of s)" "quiet e (app_of s)" "exec e s = Inr t"
  shows "rx_inside (app_of t)"
proof -
  have w: "rx_wf (app_of s)" using assms(1) by (simp add: wf.inv_def)
  show ?thesis
  proof (cases e)
    case Main_step
    then show ?thesis
    proof (cases "pending s")
      case (Cons f fs)
      then obtain ok p a l where f: "f \<in> set (udp_ops ok p)" "copy_ok (length (copied (locals s))) [f]"
        "exec_op f (app_of s, locals s) = Inr (a, l)" "app_of t = a"
        using Main_step assms(1,4) wf.copy_ok_first by (fastforce simp: wf.inv_def bind_res_eq_Inr)
      then show ?thesis using access_inside [OF f(1,2) w assms(2) f(3)] by simp
    qed (use assms in simp)
  next
    case (Rx5 v)
    then show ?thesis using assms usart5_byte_inside [OF w, of v] by (auto simp: quiet_def on_app_def bind_res_eq_Inr)
  next
    case (Rx0 v)
    then show ?thesis using assms usart0_byte_inside [OF w, of v] by (auto simp: quiet_def on_app_def bind_res_eq_Inr)
  qed (use assms w in \<open>auto simp: on_app_def bind_res_eq_Inr dest: handlers_inside(1-3) [rotated 2] intro!: handlers_inside(4,5)\<close>)
qed

lemma half_duplex_run:
  assumes "wf.inv s" "rx_inside (app_of s)" "half_duplex es s"
  shows "\<exists>t. res_fold exec es s = Inr t \<and> rx_inside (app_of t)"
  using assms
proof (induction es arbitrary: s)
  case (Cons e es)
  have "\<not> overrun e (app_of s)" using Cons.prems(2) by (auto simp: overrun_def rx_inside_def split: event.splits)
  with exec_progress [OF Cons.prems(1), of e] obtain t where t: "exec e s = Inr t" by blast
  with Cons.prems Cons.IH [of t] wf.exec_inv [OF Cons.prems(1) t] quiet_inside [OF Cons.prems(1,2) _ t] show ?case by simp
qed simp

text \<open>
  C22: on a half-duplex line the firmware never faults. Every sequence of events, in any order, in which
  a byte is received only while the transmit flag of its port is clear runs to its end from the start of
  the main loop, whatever the registers hold, and leaves both receive counters inside their buffers.
\<close>

theorem half_duplex_no_fault:
  assumes "half_duplex es (initial (booted m base))"
  shows "\<exists>t. res_fold exec es (initial (booted m base)) = Inr t
    \<and> unat (usart5_counter (app_of t)) < 200 \<and> unat (usart0_counter (app_of t)) < 200"
proof -
  have "rx_inside (app_of (initial (booted m base)))"
    by (simp add: rx_inside_def initial_def booted_def udp_create_socket_def app_init_def)
  with half_duplex_run [OF reachable_wf [OF reachable.start] _ assms] show ?thesis by (simp add: rx_inside_def)
qed

theorem half_duplex_no_fault_witness:
  "\<exists>t. res_fold exec [Rx5 7, Poll_tick, End_tx5, Main_step] (initial (booted (\<lambda>_. 0xFFFFFFFF) 0)) = Inr t
    \<and> unat (usart5_counter (app_of t)) < 200"
proof -
  have "half_duplex [Rx5 7, Poll_tick, End_tx5, Main_step] (initial (booted (\<lambda>_. 0xFFFFFFFF) 0))"
    by (simp add: quiet_def initial_def booted_def udp_create_socket_def app_init_def split: sum.split)
  from half_duplex_no_fault [OF this] show ?thesis by blast
qed

text \<open>
  Both packets report every external servo as silent, and so do every datagram sent so far and the copy
  of the next one.
\<close>

definition servo_silent :: "app \<Rightarrow> bool" where
  "servo_silent a \<longleftrightarrow> rx_wf a
     \<and> (\<forall>p \<in> set (YLSToYVPack a). \<forall>n. 168 \<le> n \<longrightarrow> \<not> health_bit (health_abonent p) n)
     \<and> (\<forall>d \<in> set (sent a). length d = 1432 \<and> d ! 21 = 0)"

lemma servo_silent_regs [simp]: "servo_silent (a\<lparr> regs := m \<rparr>) = servo_silent a"
  by (simp add: servo_silent_def)

lemma servo_silentI:
  assumes "servo_silent a" "rx_wf b" "sent b = sent a"
    "\<And>i n. i < 2 \<Longrightarrow> 168 \<le> n \<Longrightarrow> health_bit (health_abonent (YLSToYVPack b ! i)) n \<Longrightarrow>
       health_bit (health_abonent (YLSToYVPack a ! i)) n"
  shows "servo_silent b"
proof -
  have l: "length (YLSToYVPack a) = 2" "length (YLSToYVPack b) = 2"
    using assms(1,2) by (simp_all add: servo_silent_def rx_wf_def app_wf_def packs_wf_def)
  then have "\<not> health_bit (health_abonent p) n" if p: "p \<in> set (YLSToYVPack b)" and n: "168 \<le> n" for p n
    using assms(1,4) p n by (fastforce simp: servo_silent_def in_set_conv_nth)
  with assms show ?thesis by (simp add: servo_silent_def)
qed

lemma servo_silent_packs: "servo_silent a \<Longrightarrow> rx_wf b \<Longrightarrow> sent b = sent a \<Longrightarrow> YLSToYVPack b = YLSToYVPack a \<Longrightarrow> servo_silent b"
  by (rule servo_silentI) simp_all

lemma poll_silent:
  assumes "servo_silent a" "Qwerty_all_Device a = Inr b" "rx_wf b"
  shows "servo_silent b"
proof (rule servo_silentI [OF assms(1,3)])
  have w: "app_wf a" using assms(1) by (simp add: servo_silent_def rx_wf_def)
  show "sent b = sent a"
    using assms(2) by (auto simp: Qwerty_eq [OF w] poll_state_def tick_counters_def Qwerty_advance_def Let_def)
  fix i n assume h: "health_bit (health_abonent (YLSToYVPack b ! i)) n" "i < 2"
  then show "health_bit (health_abonent (YLSToYVPack a ! i)) n"
    using poll_packs [OF w assms(2)] clear_polled_bit [of b] w
    by (cases "i = unat (current_tick_tx_eth a)") (auto simp: app_wf_def packs_wf_def)
qed

lemma answer_silent:
  assumes "servo_silent a" "Check_message_UART (Some bs) len a = Inr b" "length bs = 200" "unat len \<le> 200"
  shows "servo_silent b"
proof -
  have w: "rx_wf a" "app_wf a" using assms(1) by (simp_all add: servo_silent_def rx_wf_def)
  obtain q where q: "b = a\<lparr> YLSToYVPack := (YLSToYVPack a)[unat (current_tick_tx_eth a) := q] \<rparr>" "packet_wf q"
    using Check_UART_pack [OF w(2) assms(3,4)] assms(2) by auto
  then have "rx_wf b" "sent b = sent a" using w(1) by (simp_all add: rx_wf_def app_wf_def packs_wf_update)
  moreover have "health_bit (health_abonent (YLSToYVPack b ! i)) n = health_bit (health_abonent (YLSToYVPack a ! i)) n"
    if "168 \<le> n" for i n
    using Check_UART_servo_fields [OF w(2) assms(3,4,2), of i] that by (simp add: health_bit_def)
  ultimately show ?thesis using servo_silentI [OF assms(1)] by blast
qed

lemma TIMER4_silent:
  assumes "servo_silent a" "TIMER4_IRQHandler a = Inr b"
  shows "servo_silent b"
proof -
  let ?a = "a\<lparr> regs := timer_interrupt_flag_clear TIMER4 TIMER_INT_FLAG_UP (regs a) \<rparr>"
  have w: "rx_wf b" using TIMER4_wf [of a] assms by (auto simp: servo_silent_def)
  have a: "servo_silent ?a" "length (usart5_buffer_rx ?a) = 200" "unat (usart5_counter ?a) \<le> 200"
    using assms(1) by (simp_all add: servo_silent_def rx_wf_def app_wf_def)
  show ?thesis
    using assms answer_silent [OF a(1) _ a(2,3)] servo_silent_packs [OF _ w]
    by (auto simp: TIMER4_IRQHandler_def Let_def bind_res_eq_Inr split: if_splits)
qed

lemma TIMER2_silent:
  assumes "servo_silent a" "TIMER2_IRQHandler a = Inr b"
  shows "servo_silent b"
proof -
  let ?a = "a\<lparr> regs := timer_interrupt_flag_clear TIMER2 TIMER_INT_FLAG_UP (regs a) \<rparr>"
  have w: "rx_wf b" using TIMER2_wf [of a] assms by (auto simp: servo_silent_def)
  have a: "servo_silent ?a" "length (usart0_buffer_rx ?a) = 200" "unat (usart0_counter ?a) \<le> 200"
    using assms(1) by (simp_all add: servo_silent_def rx_wf_def app_wf_def)
  show ?thesis
    using assms answer_silent [OF a(1) _ a(2,3)] servo_silent_packs [OF _ w]
    by (auto simp: TIMER2_IRQHandler_def Let_def bind_res_eq_Inr split: if_splits)
qed

lemma TIMER6_silent:
  assumes "servo_silent a" "TIMER6_IRQHandler a = Inr b"
  shows "servo_silent b"
proof -
  have "rx_wf b" using TIMER6_wf [of a] assms by (auto simp: servo_silent_def)
  then show ?thesis
    using assms poll_silent [of "a\<lparr> regs := timer_interrupt_flag_clear TIMER6 TIMER_INT_FLAG_UP (regs a) \<rparr>" b]
    by (auto simp: TIMER6_IRQHandler_def split: if_splits)
qed

lemma silent_byte:
  assumes "servo_silent a"
  shows "packet_bytes (YLSToYVPack a ! unat (current_tick_tx_eth a)) ! 21 = 0"
proof (rule bit_word_eqI)
  fix j assume j: "j < LENGTH(8)"
  have w: "app_wf a" using assms by (simp add: servo_silent_def rx_wf_def)
  have "YLSToYVPack a ! unat (current_tick_tx_eth a) \<in> set (YLSToYVPack a)"
    using tick_cases [OF w] w by (intro nth_mem) (simp add: app_wf_def packs_wf_def)
  then have "\<not> health_bit (health_abonent (YLSToYVPack a ! unat (current_tick_tx_eth a))) (8 * 21 + j)"
    using assms by (simp add: servo_silent_def)
  with j show "bit (packet_bytes (YLSToYVPack a ! unat (current_tick_tx_eth a)) ! 21) j = bit (0 :: u8) j"
    by (simp add: packet_bytes_def nth_append health_bytes_def bit_health_byte)
qed

definition copy_silent :: "main_local \<Rightarrow> bool" where
  "copy_silent l \<longleftrightarrow> (21 < length (copied l) \<longrightarrow> copied l ! 21 = 0)"

lemma access_silent:
  assumes "f \<in> set (udp_ops ok p)" "copy_ok (length (copied l)) [f]" "servo_silent a" "copy_silent l" "exec_op f (a, l) = Inr (b, l')"
  shows "servo_silent b \<and> copy_silent l'"
proof -
  have w: "rx_wf a" "app_wf a" using assms(3) by (simp_all add: servo_silent_def rx_wf_def)
  have b: "rx_wf b" using udp_op_rx_wf [OF assms(1,2) w(1)] assms(5) by auto
  from udp_op_effect [OF assms(1) w(2) assms(2)] show ?thesis
  proof (elim disjE exE conjE)
    assume "exec_op f (a, l) = Inr (a, l\<lparr> copied := copied l @ [packet_bytes (YLSToYVPack a ! unat (current_tick_tx_eth a)) ! length (copied l)] \<rparr>)"
    then have e: "b = a" "l' = l\<lparr> copied := copied l @ [packet_bytes (YLSToYVPack a ! unat (current_tick_tx_eth a)) ! length (copied l)] \<rparr>"
      using assms(5) by simp_all
    have "copy_silent l'"
      using assms(4) silent_byte [OF assms(3)] unfolding e(2) copy_silent_def
      by (cases "length (copied l) = 21") (auto simp: nth_append)
    then show ?thesis using assms(3) e(1) by simp
  next
    assume "length (copied l) = REPLY_SIZE" "exec_op f (a, l) = Inr (a\<lparr> sent := sent a @ [copied l] \<rparr>, l)"
    then show ?thesis using assms(3-5) b by (auto simp: servo_silent_def copy_silent_def REPLY_SIZE_def)
  qed (use assms(3-5) b servo_silent_packs [OF assms(3) b] in \<open>auto simp: toggle_op_def copy_silent_def\<close>)
qed

lemma USART5_frame: "USART5_IRQHandler a = Inr b \<Longrightarrow> sent b = sent a \<and> YLSToYVPack b = YLSToYVPack a"
  by (cases "unat (usart5_counter a) < length (usart5_buffer_rx a)")
    (auto simp: USART5_IRQHandler_def Let_def put_at_def split: if_split_asm)

lemma USART0_frame: "USART0_IRQHandler a = Inr b \<Longrightarrow> sent b = sent a \<and> YLSToYVPack b = YLSToYVPack a"
  by (cases "unat (usart0_counter a) < length (usart0_buffer_rx a)")
    (auto simp: USART0_IRQHandler_def Let_def put_at_def split: if_split_asm)

lemma byte_silent:
  assumes "servo_silent a" "usart5_byte v a = Inr b \<or> usart0_byte v a = Inr b"
  shows "servo_silent b"
proof -
  have "rx_wf a" using assms(1) by (simp add: servo_silent_def)
  then have "rx_wf b" using assms(2) wf.rx5 wf.rx0 by blast
  then show ?thesis
    using assms(2) USART5_frame USART0_frame
    by (intro servo_silent_packs [OF assms(1)]) (fastforce simp: usart5_byte_def usart0_byte_def)+
qed

interpretation silent: app_invariant "\<lambda>a l. servo_silent a \<and> copy_silent l"
proof
  show "servo_silent (DMA1_Channel6_IRQHandler (a\<lparr> regs := dma_finished DMA1 6 (regs a) \<rparr>)) \<and> copy_silent l"
    if "servo_silent a \<and> copy_silent l" for a l
    using that wf.end_tx5 [of a]
    by (auto intro!: servo_silent_packs [of a] simp: servo_silent_def DMA1_Channel6_IRQHandler_def Let_def)
  show "servo_silent (DMA1_Channel7_IRQHandler (a\<lparr> regs := dma_finished DMA1 7 (regs a) \<rparr>)) \<and> copy_silent l"
    if "servo_silent a \<and> copy_silent l" for a l
    using that wf.end_tx0 [of a]
    by (auto intro!: servo_silent_packs [of a] simp: servo_silent_def DMA1_Channel7_IRQHandler_def Let_def)
  show "servo_silent b \<and> copy_silent l'"
    if "f \<in> set (udp_ops ok p)" "copy_ok (length (copied l)) [f]" "servo_silent a \<and> copy_silent l" "exec_op f (a, l) = Inr (b, l')"
    for f ok p l a b l'
    using access_silent [OF that(1,2) _ _ that(4)] that(3) by blast
qed (auto dest: TIMER6_silent [rotated] TIMER4_silent [rotated] TIMER2_silent [rotated] byte_silent)

lemma booted_silent: "servo_silent (booted m base)"
  using booted_rx_wf [of m base]
  by (auto simp: servo_silent_def booted_def udp_create_socket_def app_init_def packet_zero_def health_zero_def
      health_bit_def servo_fields_def nth_Cons' set_replicate_conv_if)

lemma copy_silent_start: "copy_silent \<lparr> crc_reg = c, copied = [] \<rparr>"
  by (simp add: copy_silent_def)

lemma reachable_silent: "reachable (booted m base) s \<Longrightarrow> servo_silent (app_of s)"
  using silent.reachable_inv [of "booted m base" s] booted_silent [of m base] copy_silent_start
  by (simp add: silent.inv_def)

text \<open>
  C32: the host never sees an external servo alive. In every reachable state, every datagram that
  was ever sent has 1432 bytes and byte 21, which carries the health of the eight servos, is 0,
  whatever the servos answered.
\<close>

theorem servos_reported_dead:
  assumes "reachable (booted m base) s" "d \<in> set (sent (app_of s))"
  shows "length d = 1432 \<and> d ! 21 = 0"
  using reachable_silent [OF assms(1)] assms(2) by (simp add: servo_silent_def)

text \<open>The main loop can always finish what it has to do without being interrupted.\<close>

lemma main_steps:
  "res_fold exec (replicate (length fs) Main_step) \<lparr> app_of = a, locals = l, pending = fs @ gs \<rparr>
    = map_sum id (\<lambda>(a, l). \<lparr> app_of = a, locals = l, pending = gs \<rparr>) (run_ops fs (a, l))"
proof (induction fs arbitrary: a l)
  case (Cons f fs)
  then show ?case by (cases "exec_op f (a, l)") auto
qed simp

lemma reachable_run: "reachable a0 s \<Longrightarrow> res_fold exec (replicate n Main_step) s = Inr t \<Longrightarrow> reachable a0 t"
proof (induction n arbitrary: s)
  case (Suc n)
  then obtain u where u: "exec Main_step s = Inr u" "res_fold exec (replicate n Main_step) u = Inr t"
    by (auto simp: bind_res_eq_Inr)
  then have "step s Main_step u" by (simp add: step_simps enabled_def)
  with Suc u show ?case by (blast intro: reachable.next_step)
qed simp

lemma reachable_ops:
  assumes "reachable a0 \<lparr> app_of = a, locals = l, pending = fs @ gs \<rparr>" "run_ops fs (a, l) = Inr (b, l')"
  shows "reachable a0 \<lparr> app_of = b, locals = l', pending = gs \<rparr>"
  by (rule reachable_run [OF assms(1), where n = "length fs"]) (simp add: main_steps assms(2))

text \<open>A whole request that is not interrupted.\<close>

lemma reachable_request:
  assumes "reachable (booted m base) \<lparr> app_of = a, locals = l, pending = [] \<rparr>" "length rx = 80" "udp_callback a" "udp_pcb a"
  shows "reachable (booted m base) \<lparr> app_of = a, locals = l, pending = udp_ops True (Some rx) \<rparr>"
    and "\<exists>b l'. udp_reciev True (Some rx) a = Inr b \<and> reachable (booted m base) \<lparr> app_of = b, locals = l', pending = [] \<rparr>"
proof -
  have "step \<lparr> app_of = a, locals = l, pending = [] \<rparr> (Datagram True (Some rx)) \<lparr> app_of = a, locals = l, pending = udp_ops True (Some rx) \<rparr>"
    using assms(3,4) by (simp add: step_simps enabled_def)
  then show r: "reachable (booted m base) \<lparr> app_of = a, locals = l, pending = udp_ops True (Some rx) \<rparr>"
    by (rule reachable.next_step [OF assms(1)])
  have "app_wf a" using reachable_rx_wf [OF assms(1)] by (simp add: rx_wf_def)
  from run_udp_ops [OF this assms(2,4)] obtain b l' where
    b: "udp_reciev True (Some rx) a = Inr b" "run_ops (udp_ops True (Some rx)) (a, l) = Inr (b, l')" by blast
  then show "\<exists>b l'. udp_reciev True (Some rx) a = Inr b \<and> reachable (booted m base) \<lparr> app_of = b, locals = l', pending = [] \<rparr>"
    using reachable_ops [of "booted m base" a l "udp_ops True (Some rx)" "[]"] r by auto
qed

lemma booted_socket: "udp_pcb (booted m base)" "udp_callback (booted m base)"
  by (simp_all add: booted_def udp_create_socket_def)

theorem servos_reported_dead_witness:
  "\<exists>s d. reachable (booted (\<lambda>_. 0) 0) s \<and> d \<in> set (sent (app_of s)) \<and> length d = 1432 \<and> d ! 21 = 0"
proof -
  let ?a = "booted (\<lambda>_. 0) 0" and ?rx = "replicate 80 0"
  have w: "app_wf ?a" using booted_rx_wf [of "\<lambda>_. 0" 0] by (simp add: rx_wf_def)
  obtain b l' where b: "udp_reciev True (Some ?rx) ?a = Inr b" "reachable ?a \<lparr> app_of = b, locals = l', pending = [] \<rparr>"
    using reachable_request(2) [OF reachable.start [unfolded initial_def], where rx = ?rx and m = "\<lambda>_. 0" and base = 0] booted_socket by auto
  then have "reply_of ?a \<in> set (sent b)"
    using udp_reciev_eq [OF w, of ?rx True] booted_socket(1) [of "\<lambda>_. 0" 0] by auto
  with servos_reported_dead [OF b(2)] b(2) show ?thesis
    by (intro exI [of _ "\<lparr> app_of = b, locals = l', pending = [] \<rparr>"] exI [of _ "reply_of ?a"]) simp
qed

end
