(* ===== verification/Main_Race.thy ===== *)
theory Main_Race
  imports Main_App
begin

text \<open>
  Two runs of the whole firmware that do not do what is meant, from every start with the interrupts on:
  the receive buffer that overflows on a line that echoes, and the reply that a poll changes while it is
  copied. Both rest on the invariant that no handler switches an interrupt off.
\<close>

section \<open>The interrupts stay enabled\<close>

text \<open>No handler and no access of the main loop writes an interrupt enable register that matters here.\<close>

definition irq_regs :: "u32 set" where
  "irq_regs = {USART_CTL0 USART5, TIMER_DMAINTEN TIMER4, TIMER_DMAINTEN TIMER6}"

definition irqs_on :: "app \<Rightarrow> bool" where
  "irqs_on a \<longleftrightarrow> rx_wf a \<and> bit (reg_rd (USART_CTL0 USART5) (regs a)) 5
     \<and> bit (reg_rd (TIMER_DMAINTEN TIMER4) (regs a)) 0 \<and> bit (reg_rd (TIMER_DMAINTEN TIMER6) (regs a)) 0"

lemma irqs_onI:
  assumes "irqs_on a" "rx_wf b" "\<And>r. r \<in> irq_regs \<Longrightarrow> reg_rd r (regs b) = reg_rd r (regs a)"
  shows "irqs_on b"
  using assms by (simp add: irqs_on_def irq_regs_def)

lemma irq_regs_apart:
  assumes "r \<in> irq_regs"
  shows "r \<notin> {GPIO_BOP GPIOA, GPIO_BC GPIOA, GPIO_BOP GPIOC, GPIO_BC GPIOC, GPIO_BOP GPIOE, GPIO_BC GPIOE}"
    "r \<notin> {DMA_CHCTL DMA1 6, DMA_CHCTL DMA1 7, DMA_CHM0ADDR DMA1 6, DMA_CHCNT DMA1 6, DMA_INTC1 DMA1, DMA_INTF1 DMA1}"
    "r \<notin> {TIMER_INTF TIMER2, TIMER_INTF TIMER4, TIMER_INTF TIMER6, TIMER_CTL0 TIMER2, TIMER_CTL0 TIMER4, TIMER_CNT TIMER2, TIMER_CNT TIMER4}"
    "r \<notin> {USART_STAT0 USART0, USART_DATA USART0, USART_STAT0 USART5, USART_DATA USART5}"
  using assms by (auto simp: irq_regs_def reg_simps)

lemma poll_regs:
  assumes "app_wf a" "TIMER6_IRQHandler (a\<lparr> regs := timer_overflow TIMER6 (regs a) \<rparr>) = Inr b" "r \<in> irq_regs"
  shows "reg_rd r (regs b) = reg_rd r (regs a)"
proof -
  have "regs (poll_state s) = regs s" for s by (simp add: poll_state_def tick_counters_def Qwerty_advance_def Let_def)
  then show ?thesis
    using assms(1,2) irq_regs_apart [OF assms(3)]
    by (auto simp: TIMER6_IRQHandler_def Qwerty_eq Qwerty_transmit_def Let_def USART0_def USART5_def USART5_TX_def gpio_bit_set_def
        dma_ops DMA_MEMORY_0_def timer_overflow_def timer_interrupt_flag_clear_def split: if_splits)
qed

lemma end_rx_regs:
  assumes "r \<in> irq_regs"
  shows "TIMER4_IRQHandler (a\<lparr> regs := timer_overflow TIMER4 (regs a) \<rparr>) = Inr b \<Longrightarrow> rx_wf a \<Longrightarrow> reg_rd r (regs b) = reg_rd r (regs a)"
    and "TIMER2_IRQHandler (a\<lparr> regs := timer_overflow TIMER2 (regs a) \<rparr>) = Inr b \<Longrightarrow> rx_wf a \<Longrightarrow> reg_rd r (regs b) = reg_rd r (regs a)"
proof -
  note n = irq_regs_apart [OF assms]
  let ?a4 = "a\<lparr> regs := timer_interrupt_flag_clear TIMER4 TIMER_INT_FLAG_UP (timer_overflow TIMER4 (regs a)) \<rparr>"
  show "reg_rd r (regs b) = reg_rd r (regs a)"
    if h: "TIMER4_IRQHandler (a\<lparr> regs := timer_overflow TIMER4 (regs a) \<rparr>) = Inr b" "rx_wf a"
    using h n Check_UART_rx [of ?a4 "usart5_buffer_rx a" "usart5_counter a"]
    by (auto simp: TIMER4_IRQHandler_def Let_def timer_overflow_def timer_interrupt_flag_clear_def timer_disable_def split: if_splits)
  let ?a2 = "a\<lparr> regs := timer_interrupt_flag_clear TIMER2 TIMER_INT_FLAG_UP (timer_overflow TIMER2 (regs a)) \<rparr>"
  show "reg_rd r (regs b) = reg_rd r (regs a)"
    if h: "TIMER2_IRQHandler (a\<lparr> regs := timer_overflow TIMER2 (regs a) \<rparr>) = Inr b" "rx_wf a"
    using h n Check_UART_rx [of ?a2 "usart0_buffer_rx a" "usart0_counter a"]
    by (auto simp: TIMER2_IRQHandler_def Let_def timer_overflow_def timer_interrupt_flag_clear_def timer_disable_def split: if_splits)
qed

lemma byte_regs:
  assumes "usart5_byte v a = Inr b \<or> usart0_byte v a = Inr b" "rx_wf a" "r \<in> irq_regs"
  shows "reg_rd r (regs b) = reg_rd r (regs a)"
  using assms(1,2) irq_regs_apart [OF assms(3)]
  by (auto simp: usart5_byte_def usart0_byte_def USART5_IRQHandler_def USART0_IRQHandler_def Let_def put_at_def
      rx_latch_def usart_rbne_clear timer_enable_def bind_res_eq_Inr split: if_splits)

lemma end_tx_regs:
  assumes "r \<in> irq_regs"
  shows "reg_rd r (regs (DMA1_Channel6_IRQHandler (a\<lparr> regs := dma_finished DMA1 6 (regs a) \<rparr>))) = reg_rd r (regs a)"
    and "reg_rd r (regs (DMA1_Channel7_IRQHandler (a\<lparr> regs := dma_finished DMA1 7 (regs a) \<rparr>))) = reg_rd r (regs a)"
  using irq_regs_apart [OF assms]
  by (simp_all add: DMA1_Channel6_IRQHandler_def DMA1_Channel7_IRQHandler_def Let_def dma_finished_def dma_flag_clear_def
      USART5_RX_def USART0_RX_def gpio_bit_reset_def dma_channel_disable_def)

lemma access_irqs:
  assumes "f \<in> set (udp_ops ok p)" "copy_ok (length (copied l)) [f]" "irqs_on a" "exec_op f (a, l) = Inr (b, l')"
  shows "irqs_on b"
proof (rule irqs_onI [OF assms(3)])
  have w: "rx_wf a" "app_wf a" using assms(3) by (simp_all add: irqs_on_def rx_wf_def)
  show "rx_wf b" using udp_op_rx_wf [OF assms(1,2) w(1)] assms(4) by auto
  fix r assume "r \<in> irq_regs"
  from udp_op_effect [OF assms(1) w(2) assms(2)] irq_regs_apart(1) [OF this] show "reg_rd r (regs b) = reg_rd r (regs a)"
    using assms(4) by (elim disjE exE conjE) (auto simp: toggle_op_def)
qed

interpretation irqs: app_invariant "\<lambda>a l. irqs_on a"
proof
  fix a b v l assume i: "irqs_on a"
  then have w: "rx_wf a" "app_wf a" by (simp_all add: irqs_on_def rx_wf_def)
  show "irqs_on b" if "TIMER6_IRQHandler (a\<lparr> regs := timer_overflow TIMER6 (regs a) \<rparr>) = Inr b"
    by (rule irqs_onI [OF i wf.poll [OF w(1) that]]) (rule poll_regs [OF w(2) that])
  show "irqs_on b" if "TIMER4_IRQHandler (a\<lparr> regs := timer_overflow TIMER4 (regs a) \<rparr>) = Inr b"
    by (rule irqs_onI [OF i wf.end_rx5 [OF w(1) that]]) (rule end_rx_regs(1) [OF _ that w(1)])
  show "irqs_on b" if "TIMER2_IRQHandler (a\<lparr> regs := timer_overflow TIMER2 (regs a) \<rparr>) = Inr b"
    by (rule irqs_onI [OF i wf.end_rx0 [OF w(1) that]]) (rule end_rx_regs(2) [OF _ that w(1)])
  show "irqs_on b" if "usart5_byte v a = Inr b"
    by (rule irqs_onI [OF i wf.rx5 [OF w(1) that]]) (rule byte_regs [OF disjI1 [OF that] w(1)])
  show "irqs_on b" if "usart0_byte v a = Inr b"
    by (rule irqs_onI [OF i wf.rx0 [OF w(1) that]]) (rule byte_regs [OF disjI2 [OF that] w(1)])
  show "irqs_on (DMA1_Channel6_IRQHandler (a\<lparr> regs := dma_finished DMA1 6 (regs a) \<rparr>))"
    by (rule irqs_onI [OF i wf.end_tx5 [OF w(1)]]) (rule end_tx_regs(1))
  show "irqs_on (DMA1_Channel7_IRQHandler (a\<lparr> regs := dma_finished DMA1 7 (regs a) \<rparr>))"
    by (rule irqs_onI [OF i wf.end_tx0 [OF w(1)]]) (rule end_tx_regs(2))
qed (rule access_irqs)

section \<open>An echo of the own frames\<close>

text \<open>What a poll tick leaves of the rest of the state, when its interrupt is on.\<close>

lemma poll_event:
  assumes "irqs_on (app_of s)"
  shows "\<exists>b. exec Poll_tick s = Inr (s\<lparr> app_of := b \<rparr>) \<and> app_wf b
    \<and> YLSToYVPack b = (YLSToYVPack (app_of s))[unat (current_tick_tx_eth (app_of s)) :=
        health_abonent_update (clear_polled b) (YLSToYVPack (app_of s) ! unat (current_tick_tx_eth (app_of s)))]
    \<and> current_tick_tx_eth b = current_tick_tx_eth (app_of s) \<and> cycle_index b = (cycle_index (app_of s) + 1) mod 168
    \<and> usart5_counter b = usart5_counter (app_of s) \<and> usart5_transmit b = 1
    \<and> udp_pcb b = udp_pcb (app_of s) \<and> udp_callback b = udp_callback (app_of s) \<and> sent b = sent (app_of s)"
proof -
  let ?a = "(app_of s)\<lparr> regs := timer_interrupt_flag_clear TIMER6 TIMER_INT_FLAG_UP (timer_overflow TIMER6 (regs (app_of s))) \<rparr>"
  have w: "app_wf ?a" using assms by (simp add: irqs_on_def rx_wf_def)
  let ?b = "Qwerty_transmit USART5 (poll_state ?a)"
  have "timer_interrupt_flag_get TIMER6 TIMER_INT_FLAG_UP (timer_overflow TIMER6 (regs (app_of s)))"
    using assms by (simp add: irqs_on_def timer_update_get timer_overflow_def timer_regs timer_periphs TIMER_INTF_UPIF_def bit_or_iff)
  then have e: "exec Poll_tick s = Inr (s\<lparr> app_of := ?b \<rparr>)"
    by (simp add: on_app_def TIMER6_IRQHandler_def Qwerty_eq [OF w, simplified])
  note p = poll_packs [OF w Qwerty_eq [OF w]]
  have tick_kept: "current_tick_tx_eth ?b = current_tick_tx_eth (app_of s)" "usart5_counter ?b = usart5_counter (app_of s)"
    by (simp_all add: poll_state_def tick_counters_def Qwerty_advance_def Let_def)
  have "cycle_index ?b = (cycle_index (app_of s) + 1) mod 168"
    using cycle_index_poll [OF w] by (simp add: cycle_index_def)
  moreover have "udp_pcb ?b = udp_pcb (app_of s)" "udp_callback ?b = udp_callback (app_of s)" "sent ?b = sent (app_of s)"
    by (simp_all add: Qwerty_transmit_def poll_state_def tick_counters_def Qwerty_advance_def Let_def)
  moreover have "YLSToYVPack ?b = (YLSToYVPack (app_of s))[unat (current_tick_tx_eth (app_of s)) :=
      health_abonent_update (clear_polled ?b) (YLSToYVPack (app_of s) ! unat (current_tick_tx_eth (app_of s)))]"
    using p(1) by simp
  ultimately show ?thesis by (intro exI [of _ ?b] conjI e p(2) tick_kept) (simp_all only: transmit_regs)
qed

lemma rx5_events:
  "res_fold exec (map Rx5 bs) s = map_sum id (\<lambda>a. s\<lparr> app_of := a \<rparr>) (res_fold usart5_byte bs (app_of s))"
proof (induction bs arbitrary: s)
  case (Cons b bs)
  then show ?case by (cases "usart5_byte b (app_of s)") (simp_all add: on_app_def)
qed simp

lemma irqs_ready: "irqs_on a \<Longrightarrow> usart5_ready a"
  by (simp add: irqs_on_def usart5_ready_def rx_wf_def app_wf_def)

lemma end_tx5_event:
  "\<exists>b. exec End_tx5 s = Inr (s\<lparr> app_of := b \<rparr>) \<and> b = (app_of s)\<lparr> usart5_transmit := 0, regs := regs b \<rparr>"
proof -
  have "DMA_FLAG_ADD DMA_FLAG_FTF 2 \<noteq> 0"
    by (simp add: DMA_FLAG_ADD_def DMA_FLAG_FTF_def DMA_INTF_FTFIF_def BIT_def)
  moreover have "(x OR y) AND y = y" for x y :: u32 by (rule bit_word_eqI) (auto simp: bit_simps)
  ultimately show ?thesis
    by (simp add: on_app_def DMA1_Channel6_IRQHandler_def dma_flag_get_def dma_finished_def Let_def)
      (rule exI, rule conjI [OF refl], simp)
qed




lemma booted_irqs:
  assumes "irqs_on (booted m base)" "reachable (booted m base) s"
  shows "irqs.inv s"
  by (rule irqs.reachable_inv [OF assms(2,1)])


lemma all_irqs_on: "irqs_on (booted (\<lambda>_. 0xFFFFFFFF) base)"
proof -
  have "regs (booted (\<lambda>_. 0xFFFFFFFF) base) = (\<lambda>_. 0xFFFFFFFF)"
    by (simp add: booted_def udp_create_socket_def app_init_def)
  then show ?thesis using booted_rx_wf by (simp add: irqs_on_def reg_rd_def bit_all_ones)
qed


section \<open>A poll during the reply\<close>

text \<open>The rest of a copy, from the first byte not yet copied.\<close>

lemma run_copy_from:
  assumes "app_wf a" "j \<le> n" "n \<le> 8192"
  shows "run_ops (map Copy_byte [j..<n]) (a, l)
    = Inr (a, l\<lparr> copied := copied l @ map ((!) (packet_bytes (YLSToYVPack a ! unat (current_tick_tx_eth a)))) [j..<n] \<rparr>)"
  using assms(2,3)
proof (induction n)
  case (Suc n)
  have "length (packet_bytes (YLSToYVPack a ! unat (current_tick_tx_eth a))) = 8192"
    using packet_bytes_length [OF cur_pack_wf [OF assms(1)]] by (simp add: SIZE_MESSAGE_YLS_def)
  moreover have "unat (current_tick_tx_eth a) < length (YLSToYVPack a)"
    using tick_cases [OF assms(1)] assms(1) by (simp add: app_wf_def packs_wf_def)
  ultimately show ?case using Suc by (cases "j = Suc n") (simp_all add: res_fold_append)
qed simp

abbreviation copy_rest :: "nat \<Rightarrow> main_op list" where
  "copy_rest j \<equiv> map Copy_byte [j..<REPLY_SIZE] @ [Copy_end, Store tx_lamp_off, Store rx_lamp_off]"

abbreviation finish :: "sys \<Rightarrow> sys res" where
  "finish s \<equiv> res_fold exec (replicate (length (pending s)) Main_step) s"

lemma finish_copy:
  assumes "wf.inv s" "pending s = copy_rest j" "j \<le> n div 8" "n < 176"
  shows "\<exists>u. finish s = Inr u \<and> pending u = [] \<and> length (sent (app_of u)) = Suc (length (sent (app_of s)))
    \<and> bit (last (sent (app_of u)) ! (n div 8)) (n mod 8)
      = health_bit (health_abonent (YLSToYVPack (app_of s) ! unat (current_tick_tx_eth (app_of s)))) n"
proof -
  let ?a = "app_of s" and ?l = "locals s"
  let ?p = "YLSToYVPack ?a ! unat (current_tick_tx_eth ?a)"
  have "rx_wf ?a" using assms(1) by (simp add: wf.inv_def)
  then have w: "app_wf ?a" by (simp add: rx_wf_def)
  have n: "n div 8 < 22" using assms(4) by (simp add: less_mult_imp_div_less)
  have "copy_ok (length (copied ?l)) (copy_rest j)" using assms(1,2) by (simp add: wf.inv_def)
  then have j: "length (copied ?l) = j" using assms(3) n by (simp add: REPLY_SIZE_def upt_conv_Cons [of j])
  let ?d = "copied ?l @ map ((!) (packet_bytes ?p)) [j..<REPLY_SIZE]"
  have "run_ops (copy_rest j) (?a, ?l) = Inr (?a\<lparr> sent := sent ?a @ [?d],
      regs := gpio_bit_reset Blink_RX_PORT Blink_RX_PIN (gpio_bit_reset Blink_TX_PORT Blink_TX_PIN (regs ?a)) \<rparr>, ?l\<lparr> copied := ?d \<rparr>)"
    unfolding res_fold_append using run_copy_from [OF w, of j REPLY_SIZE ?l] assms(3) n by (simp add: REPLY_SIZE_def lamp_defs)
  then have u: "finish s = Inr \<lparr> app_of = ?a\<lparr> sent := sent ?a @ [?d],
      regs := gpio_bit_reset Blink_RX_PORT Blink_RX_PIN (gpio_bit_reset Blink_TX_PORT Blink_TX_PIN (regs ?a)) \<rparr>,
      locals = ?l\<lparr> copied := ?d \<rparr>, pending = [] \<rparr>"
    using main_steps [of "copy_rest j" ?a ?l "[]"] assms(2) by (cases s) simp
  have "?d ! (n div 8) = packet_bytes ?p ! (n div 8)"
    using j assms(3) n by (simp add: nth_append REPLY_SIZE_def)
  then have "bit (?d ! (n div 8)) (n mod 8) = health_bit (health_abonent ?p) n"
    using n by (simp add: packet_bytes_def nth_append health_bytes_def bit_health_byte)
  with u show ?thesis by simp
qed

text \<open>
  The states of the run below: the place in the poll cycle, the current packet, and that the bit of
  device 13, the first YKP of block 1, is set in the second packet. No poll at another place of the
  cycle touches this bit.
\<close>

definition run_state :: "nat \<Rightarrow> nat \<Rightarrow> bool \<Rightarrow> app \<Rightarrow> bool" where
  "run_state c k h a \<longleftrightarrow> udp_pcb a \<and> udp_callback a \<and> usart5_counter a = 0 \<and> cycle_index a = c
     \<and> unat (current_tick_tx_eth a) = k \<and> (h \<longrightarrow> health_bit (health_abonent (YLSToYVPack a ! 1)) 1)"

lemma polled_place:
  assumes "app_wf b" "polls_device b" "health_pos (unat (polled_address b)) = 1"
  shows "cycle_index b = 1"
proof -
  let ?d = "unat (current_device_in_BKDx b)" and ?b = "unat (current_BKD b)"
  have w: "1 \<le> ?d" "?d \<le> 12" "unat (current_device_in_BKHO_A b) \<le> 168" "unat (current_device_in_OUT_SERVO b) \<le> 176"
    using assms(1) by (simp_all add: app_wf_unat)
  have "current_BKD b < 12"
    using assms(2,3) unat_polled_address [OF assms(1)] w by (auto simp: polls_device_def health_pos_def split: if_splits)
  then have b: "?b < 12" "health_pos (?d + 12 * ?b) = 1" using assms(3) unat_polled_address [OF assms(1)] by (simp_all add: u8_le_unat)
  have "12 * (?d - 1) + ?b = 1" using b(2) unfolding health_pos_bkd [OF w(1,2) b(1)] .
  then have "?d - 1 = 0" "?b = 1" by arith+
  then show ?thesis by (simp add: cycle_index_def)
qed

lemma poll_run_state:
  assumes "reachable (booted m base) s" "irqs_on (booted m base)" "run_state c k h (app_of s)"
  shows "\<exists>b. reachable (booted m base) (s\<lparr> app_of := b \<rparr>) \<and> exec Poll_tick s = Inr (s\<lparr> app_of := b \<rparr>) \<and> app_wf b
    \<and> run_state ((c + 1) mod 168) k (h \<and> (c + 1) mod 168 \<noteq> 1) b
    \<and> YLSToYVPack b = (YLSToYVPack (app_of s))[k := health_abonent_update (clear_polled b) (YLSToYVPack (app_of s) ! k)]"
proof -
  have i: "irqs_on (app_of s)" using booted_irqs [OF assms(2,1)] by (simp add: irqs.inv_def)
  from poll_event [OF i] assms(3) obtain b where b: "exec Poll_tick s = Inr (s\<lparr> app_of := b \<rparr>)" "app_wf b"
    "YLSToYVPack b = (YLSToYVPack (app_of s))[k := health_abonent_update (clear_polled b) (YLSToYVPack (app_of s) ! k)]"
    "unat (current_tick_tx_eth b) = k" "cycle_index b = (c + 1) mod 168" "usart5_counter b = 0" "udp_pcb b" "udp_callback b"
    unfolding run_state_def by auto
  have "length (YLSToYVPack (app_of s)) = 2" using i by (simp add: irqs_on_def rx_wf_def app_wf_def packs_wf_def)
  then have "health_bit (health_abonent (YLSToYVPack b ! 1)) 1" if "h" "(c + 1) mod 168 \<noteq> 1"
    using that assms(3) polled_place [OF b(2)] b(5) clear_polled_bit [OF b(2)] b(3)
    by (cases "k = 1") (auto simp: run_state_def)
  then have "run_state ((c + 1) mod 168) k (h \<and> (c + 1) mod 168 \<noteq> 1) b" using b by (simp add: run_state_def)
  moreover have "step s Poll_tick (s\<lparr> app_of := b \<rparr>)" using b(1) by (simp add: step_simps enabled_def del: exec.simps)
  ultimately show ?thesis using b(1-3) reachable.next_step [OF assms(1)] by blast
qed

lemma polls_run_state:
  assumes "irqs_on (booted m base)" "reachable (booted m base) s" "run_state 1 k True (app_of s)" "n < 168"
  shows "\<exists>b. reachable (booted m base) (s\<lparr> app_of := b \<rparr>) \<and> run_state ((1 + n) mod 168) k True b"
  using assms(4)
proof (induction n)
  case 0
  show ?case using assms(2,3) by (intro exI [of _ "app_of s"]) simp
next
  case (Suc n)
  then obtain b where b: "reachable (booted m base) (s\<lparr> app_of := b \<rparr>)" "run_state ((1 + n) mod 168) k True b" by auto
  have "((1 + n) mod 168 + 1) mod 168 = (1 + Suc n) mod 168" "(1 + Suc n) mod 168 \<noteq> 1"
    using Suc.prems by (auto simp: mod_if)
  with poll_run_state [OF b(1) assms(1), of "(1 + n) mod 168" k True] b(2) show ?case by auto
qed

lemma request_run_state:
  assumes "reachable (booted m base) \<lparr> app_of = a, locals = l, pending = [] \<rparr>" "run_state c k h a"
  shows "\<exists>b l'. reachable (booted m base) \<lparr> app_of = b, locals = l', pending = [] \<rparr> \<and> run_state c (1 - k) h b"
    and "\<exists>b l'. reachable (booted m base) \<lparr> app_of = b, locals = l', pending = copy_rest 0 \<rparr> \<and> run_state c (1 - k) h b"
proof -
  let ?rx = "replicate 80 0 :: u8 list"
  have s: "length ?rx = 80" "udp_callback a" "udp_pcb a" using assms(2) by (simp_all add: run_state_def)
  have w: "app_wf a" using reachable_rx_wf [OF assms(1)] by (simp add: rx_wf_def)
  have k: "run_state c (1 - k) h ((request_state ?rx a)\<lparr> regs := r, sent := d \<rparr>)" for r d
    using assms(2) tick_toggle [OF w] by (simp add: run_state_def request_state_def cycle_index_def)
  obtain b l' where "udp_reciev True (Some ?rx) a = Inr b" "reachable (booted m base) \<lparr> app_of = b, locals = l', pending = [] \<rparr>"
    using reachable_request(2) [OF assms(1) s] by blast
  then show "\<exists>b l'. reachable (booted m base) \<lparr> app_of = b, locals = l', pending = [] \<rparr> \<and> run_state c (1 - k) h b"
    using udp_reciev_eq [OF w s(1), of True] k by auto
  let ?pre = "Store rx_lamp_on # concat (map (row_ops ?rx (yv_command (?rx ! 77))) [0..<unat IN_TOTAL_BKD + 1])
        @ [Store toggle_op, Store tx_lamp_on, Copy_start]"
  let ?b = "(request_state ?rx a)\<lparr> regs := gpio_bit_set Blink_TX_PORT Blink_TX_PIN (gpio_bit_set Blink_RX_PORT Blink_RX_PIN (regs a)) \<rparr>"
  have "reachable (booted m base) \<lparr> app_of = a, locals = l, pending = ?pre @ copy_rest 0 \<rparr>"
    using reachable_request(1) [OF assms(1) s] unfolding udp_ops_request [OF s(1)] .
  moreover obtain l' where "run_ops ?pre (a, l) = Inr (?b, l'\<lparr> copied := [] \<rparr>)" using run_request [OF w s(1)] by blast
  ultimately have "reachable (booted m base) \<lparr> app_of = ?b, locals = l'\<lparr> copied := [] \<rparr>, pending = copy_rest 0 \<rparr>"
    by (rule reachable_ops)
  moreover have "run_state c (1 - k) h ?b" using k [where d = "sent a"] by (cases a) (simp add: request_state_def)
  ultimately show "\<exists>b l'. reachable (booted m base) \<lparr> app_of = b, locals = l', pending = copy_rest 0 \<rparr> \<and> run_state c (1 - k) h b"
    by blast
qed

lemma reachable_events:
  "reachable a0 s \<Longrightarrow> \<forall>e \<in> set es. \<forall>u. enabled e u \<Longrightarrow> res_fold exec es s = Inr t \<Longrightarrow> reachable a0 t"
proof (induction es arbitrary: s)
  case (Cons e es)
  then obtain u where u: "exec e s = Inr u" "res_fold exec es u = Inr t" by (auto simp: bind_res_eq_Inr simp del: exec.simps)
  with Cons.prems(2) have "step s e u" by (simp add: step_simps)
  with Cons u show ?case by (auto intro: reachable.next_step)
qed simp

text \<open>The answer of device 13.\<close>

lemma answer_run_state:
  assumes "reachable (booted m base) s" "irqs_on (booted m base)" "run_state 1 1 False (app_of s)"
  shows "\<exists>b. reachable (booted m base) (s\<lparr> app_of := b \<rparr>) \<and> run_state 1 1 True b"
proof -
  obtain a where a: "exec End_tx5 s = Inr (s\<lparr> app_of := a \<rparr>)" "a = (app_of s)\<lparr> usart5_transmit := 0, regs := regs a \<rparr>"
    using end_tx5_event by blast
  have r: "reachable (booted m base) (s\<lparr> app_of := a \<rparr>)"
    using reachable_events [OF assms(1), of "[End_tx5]"] a(1) by (simp add: enabled_def del: exec.simps)
  have i: "irqs_on a" using booted_irqs [OF assms(2) r] by (simp add: irqs.inv_def)
  have v: "run_state 1 1 False a" "usart5_transmit a = 0"
    using assms(3) by (subst a(2), simp add: run_state_def cycle_index_def)+
  have w: "app_wf a" "usart5_ready a" "bit (reg_rd (TIMER_DMAINTEN TIMER4) (regs a)) 0"
    using i irqs_ready [OF i] by (simp_all add: irqs_on_def rx_wf_def)
  let ?f = "take 32 sample_frame"
  have l: "length ?f = 32" by (simp add: sample_frame_ok(1))
  obtain t b q where t: "res_fold usart5_byte ?f a = Inr t"
    "TIMER4_IRQHandler (t\<lparr> regs := timer_overflow TIMER4 (regs t) \<rparr>) = Inr b"
    "Check_message_UART (Some (?f @ drop 32 (usart5_buffer_rx a))) 32 a = Inr q"
    "b = a\<lparr> regs := regs b, YLSToYVPack := YLSToYVPack q, usart5_counter := 0, timer4En := False,
            usart5_buffer_rx := ?f @ drop 32 (usart5_buffer_rx a) \<rparr>"
    using frame_reception [OF w(1,2) _ v(2) w(3), of ?f] v(1) l by (auto simp: run_state_def)
  have c: "unat (current_BKD a) = 1" "unat (current_device_in_BKDx a) = 1" "current_BKD a < 12"
    using cycle_index_split [OF w(1)] v(1) by (simp_all add: run_state_def u8_le_unat)
  have "frame_ok (?f @ drop 32 (usart5_buffer_rx a)) 32"
    using sample_frame_ok(2) l by (simp add: frame_ok_def)
  moreover have "length (?f @ drop 32 (usart5_buffer_rx a)) = 200" using w(2) l by (simp add: usart5_ready_def)
  ultimately obtain p where p: "Check_message_UART (Some (?f @ drop 32 (usart5_buffer_rx a))) 32 a
      = Inr (a\<lparr> YLSToYVPack := (YLSToYVPack a)[1 := p] \<rparr>)" "health_bit (health_abonent p) (health_pos (unat (polled_address a)))"
    using bkd_answer [OF w(1) _ _ c(3) refl refl, of "?f @ drop 32 (usart5_buffer_rx a)"] v(1) by (auto simp: run_state_def)
  have "health_pos (unat (polled_address a)) = 1"
    using unat_polled_address [OF w(1)] c by (simp add: health_pos_def)
  then have "run_state 1 1 True b"
    using v(1) p t(3) w(1) by (subst t(4)) (auto simp: run_state_def cycle_index_def app_wf_def packs_wf_def)
  moreover have "res_fold exec (map Rx5 ?f @ [End_rx5]) (s\<lparr> app_of := a \<rparr>) = Inr (s\<lparr> app_of := b \<rparr>)"
    using t(1,2) by (simp add: res_fold_append rx5_events on_app_def)
  ultimately show ?thesis
    using reachable_events [OF r, of "map Rx5 ?f @ [End_rx5]"] by (auto simp: enabled_def)
qed

text \<open>
  C33: the packet is still being filled while it is sent. From every start with the interrupts on there
  is a reachable state in the middle of a reply in which a poll makes the difference: if the main loop
  goes on undisturbed, the datagram it sends reports device 13 as alive, as its answer was stored; if
  one poll comes first, the datagram reports the same device as silent.
\<close>

theorem reply_race:
  assumes "irqs_on (booted m base)"
  shows "\<exists>s t u v. reachable (booted m base) s \<and> step s Poll_tick t \<and> finish s = Inr u \<and> finish t = Inr v
    \<and> length (sent (app_of u)) = Suc (length (sent (app_of s))) \<and> length (sent (app_of v)) = Suc (length (sent (app_of s)))
    \<and> bit (last (sent (app_of u)) ! 0) 1 \<and> \<not> bit (last (sent (app_of v)) ! 0) 1"
proof -
  let ?R = "reachable (booted m base)"
  have "run_state 0 0 False (booted m base)"
    by (simp add: run_state_def booted_def udp_create_socket_def app_init_def cycle_index_def)
  then obtain a l where a: "?R \<lparr> app_of = a, locals = l, pending = [] \<rparr>" "run_state 0 1 False a"
    using request_run_state(1) [OF reachable.start [unfolded initial_def], where m = m and base = base and c = 0 and k = 0 and h = False] by auto
  then obtain b where b: "?R \<lparr> app_of = b, locals = l, pending = [] \<rparr>" "run_state 1 1 False b"
    using poll_run_state [OF a(1) assms, of 0 1 False] by auto
  then obtain c where c: "?R \<lparr> app_of = c, locals = l, pending = [] \<rparr>" "run_state 1 1 True c"
    using answer_run_state [OF b(1) assms] by auto
  then obtain d where d: "?R \<lparr> app_of = d, locals = l, pending = [] \<rparr>" "run_state 0 1 True d"
    using polls_run_state [OF assms c(1), of 1 167] by auto
  then obtain e k where e: "?R \<lparr> app_of = e, locals = k, pending = [] \<rparr>" "run_state 0 0 True e"
    using request_run_state(1) [OF d] by auto
  then obtain f j where f: "?R \<lparr> app_of = f, locals = j, pending = copy_rest 0 \<rparr>" and g: "run_state 0 1 True f"
    using request_run_state(2) [OF e] by auto
  let ?s = "\<lparr> app_of = f, locals = j, pending = copy_rest 0 \<rparr>"
  obtain p where p: "?R (?s\<lparr> app_of := p \<rparr>)" "exec Poll_tick ?s = Inr (?s\<lparr> app_of := p \<rparr>)" "app_wf p" "run_state 1 1 False p"
    "YLSToYVPack p = (YLSToYVPack f)[1 := health_abonent_update (clear_polled p) (YLSToYVPack f ! 1)]"
    using poll_run_state [OF f assms, of 0 1 True] g by auto
  have l: "length (YLSToYVPack f) = 2" using reachable_rx_wf [OF f] by (simp add: rx_wf_def app_wf_def packs_wf_def)
  have q: "unat (current_BKD p) = 1" "unat (current_device_in_BKDx p) = 1"
    using cycle_index_split [OF p(3)] p(4) by (simp_all add: run_state_def)
  then have "polls_device p" "health_pos (unat (polled_address p)) = 1"
    using unat_polled_address [OF p(3)] by (simp_all add: polls_device_def u8_le_unat health_pos_def)
  then have h: "\<not> health_bit (health_abonent (YLSToYVPack p ! 1)) 1" using clear_polled_bit [OF p(3)] p(5) l by simp
  obtain u where u: "finish ?s = Inr u" "length (sent (app_of u)) = Suc (length (sent f))" "bit (last (sent (app_of u)) ! 0) 1"
    using finish_copy [OF reachable_wf [OF f], of 0 1] g by (auto simp: run_state_def)
  obtain v where v: "finish (?s\<lparr> app_of := p \<rparr>) = Inr v" "length (sent (app_of v)) = Suc (length (sent p))" "\<not> bit (last (sent (app_of v)) ! 0) 1"
    using finish_copy [OF reachable_wf [OF p(1)], of 0 1] h p(4) by (auto simp: run_state_def)
  have "irqs_on f" using booted_irqs [OF assms f] by (simp add: irqs.inv_def)
  then have "sent p = sent f" using poll_event [of ?s] p(2) by auto
  moreover have "step ?s Poll_tick (?s\<lparr> app_of := p \<rparr>)" using p(2) by (simp add: step_simps enabled_def del: exec.simps)
  ultimately show ?thesis
    using f u v by (intro exI [of _ ?s] exI [of _ "?s\<lparr> app_of := p \<rparr>"] exI [of _ u] exI [of _ v]) simp
qed

theorem reply_race_witness:
  "\<exists>s t u v. reachable (booted (\<lambda>_. 0xFFFFFFFF) 0x20000000) s \<and> step s Poll_tick t \<and> finish s = Inr u \<and> finish t = Inr v
    \<and> last (sent (app_of u)) \<noteq> last (sent (app_of v))"
  using reply_race [OF all_irqs_on, of "0x20000000"] by metis

end
