(* ===== verification/Board.thy ===== *)
theory Board
  imports Gpio Dma Usart Timer Misc
begin

text \<open>
  The board as the configuration code sees it: the peripheral registers and the interrupt
  controller, and the busy waits on a hardware flag. The hardware is a function \<open>hw\<close> applied
  before each read of a polled register; a wait that uses up its fuel, and the endless loops
  written \<^verbatim>\<open>while(1){}\<close>, are the fault \<open>Hang\<close>.
\<close>

record board =
  periph :: mem
  nvic :: nvic_regs

definition on_periph :: "(mem \<Rightarrow> mem) \<Rightarrow> board \<Rightarrow> board" where
  "on_periph f s = s\<lparr> periph := f (periph s) \<rparr>"

definition on_nvic :: "(nvic_regs \<Rightarrow> nvic_regs) \<Rightarrow> board \<Rightarrow> board" where
  "on_nvic f s = s\<lparr> nvic := f (nvic s) \<rparr>"

lemma on_periph_sel [simp]: "periph (on_periph f s) = f (periph s)" "nvic (on_periph f s) = nvic s"
  by (simp_all add: on_periph_def)

lemma on_nvic_sel [simp]: "periph (on_nvic f s) = periph s" "nvic (on_nvic f s) = f (nvic s)"
  by (simp_all add: on_nvic_def)

fun wait_until :: "nat \<Rightarrow> (mem \<Rightarrow> mem) \<Rightarrow> (mem \<Rightarrow> bool) \<Rightarrow> mem \<Rightarrow> mem res" where
  "wait_until 0 hw P m = Inl Hang"
| "wait_until (Suc fuel) hw P m = (let m = hw m in if P m then Inr m else wait_until fuel hw P m)"

lemma wait_until_first: "P (hw m) \<Longrightarrow> 0 < fuel \<Longrightarrow> wait_until fuel hw P m = Inr (hw m)"
  by (cases fuel) simp_all

text \<open>A wait that succeeds within its fuel ends at the first step at which the condition holds.\<close>

lemma wait_until_least:
  assumes "\<exists>k < fuel. P ((hw ^^ Suc k) m)"
  shows "wait_until fuel hw P m = Inr ((hw ^^ Suc (LEAST k. P ((hw ^^ Suc k) m))) m)"
  using assms
proof (induction fuel arbitrary: m)
  case (Suc fuel)
  show ?case
  proof (cases "P (hw m)")
    case True
    then have "(LEAST k. P ((hw ^^ Suc k) m)) = 0" by (simp add: Least_eq_0)
    with True show ?thesis by simp
  next
    case False
    from Suc.prems obtain k where k: "k < Suc fuel" "P ((hw ^^ Suc k) m)" by blast
    with False obtain i where i: "k = Suc i" by (cases k) auto
    with k have "\<exists>k < fuel. P ((hw ^^ Suc k) (hw m))" by (intro exI [of _ i]) (simp add: funpow_swap1)
    moreover have "(LEAST k. P ((hw ^^ Suc k) m)) = Suc (LEAST k. P ((hw ^^ Suc (Suc k)) m))"
      using k(2) False by (intro Least_Suc [where n = k]) simp_all
    ultimately show ?thesis using Suc.IH [of "hw m"] False by (simp add: funpow_swap1 Let_def)
  qed
qed simp

lemma wait_until_result: "wait_until fuel hw P m = Inr t \<Longrightarrow> P t"
  by (induction fuel hw P m rule: wait_until.induct) (auto simp: Let_def split: if_splits)

lemma wait_until_never:
  assumes "\<And>k. \<not> P ((hw ^^ Suc k) m)"
  shows "wait_until fuel hw P m = Inl Hang"
  using assms
proof (induction fuel arbitrary: m)
  case (Suc fuel)
  have "\<not> P ((hw ^^ Suc k) (hw m))" for k
    using Suc.prems [of "Suc k"] by (simp add: funpow_swap1)
  moreover have "\<not> P (hw m)" using Suc.prems [of 0] by simp
  ultimately show ?case using Suc.IH [of "hw m"] by simp
qed simp

end
