(* ===== verification/Config_Usart.thy ===== *)
theory Config_Usart
  imports Board
begin

text \<open>
  \<^verbatim>\<open>src/src/ConfigurationUSARTn.c\<close>, the part compiled for the GD32F450: the set-up of a
  serial port, of its transmit and receive DMA channels, and the sending functions without DMA.
\<close>

section \<open>Constants of \<^verbatim>\<open>ConfigurationUSARTn.h\<close>\<close>

definition non :: u8 where "non = 0"
definition receiveRBNE :: u8 where "receiveRBNE = 1"
definition transmissionTBE :: u8 where "transmissionTBE = 2"
definition transmissionTC :: u8 where "transmissionTC = 4"
definition iRQn_non_Rx :: u8 where "iRQn_non_Rx = 0"
definition iRQn_receiv_Uart :: u8 where "iRQn_receiv_Uart = 0x80"
definition iRQn_half_receiv_Dma :: u8 where "iRQn_half_receiv_Dma = 1"
definition iRQn_full_receiv_Dma :: u8 where "iRQn_full_receiv_Dma = 8"
definition iRQn_non_Tx :: u8 where "iRQn_non_Tx = 0"
definition iRQn_half_transmit_Dma :: u8 where "iRQn_half_transmit_Dma = 1"
definition iRQn_full_transmit_Dma :: u8 where "iRQn_full_transmit_Dma = 8"

lemmas config_bits =
  non_def receiveRBNE_def transmissionTBE_def transmissionTC_def iRQn_non_Rx_def iRQn_receiv_Uart_def
  iRQn_half_receiv_Dma_def iRQn_full_receiv_Dma_def iRQn_non_Tx_def iRQn_half_transmit_Dma_def
  iRQn_full_transmit_Dma_def

definition USARTn_DATA_ADDRESS :: "u32 \<Rightarrow> u32" where "USARTn_DATA_ADDRESS = USART_DATA"

section \<open>The tables of the switches\<close>

text \<open>The clock gate of a port; \<open>None\<close> is the default case, an endless loop.\<close>

definition usart_clock :: "u32 \<Rightarrow> u32 option" where
  "usart_clock usart =
     (if usart = USART0 then Some RCU_USART0
      else if usart = USART1 then Some RCU_USART1
      else if usart = USART2 then Some RCU_USART2
      else if usart = UART3 then Some RCU_UART3
      else if usart = UART4 then Some RCU_UART4
      else if usart = USART5 then Some RCU_USART5
      else if usart = UART6 then Some RCU_UART6
      else if usart = UART7 then Some RCU_UART7
      else None)"

text \<open>The interrupt numbers of the ports.\<close>

definition usart_irqn :: "u32 \<Rightarrow> nat option" where
  "usart_irqn usart =
     (if usart = USART0 then Some 37
      else if usart = USART1 then Some 38
      else if usart = USART2 then Some 39
      else if usart = UART3 then Some 52
      else if usart = UART4 then Some 53
      else if usart = USART5 then Some 71
      else if usart = UART6 then Some 82
      else if usart = UART7 then Some 83
      else None)"

text \<open>The transmit channel of a port: controller, channel, subperipheral.\<close>

definition tx_dma :: "u32 \<Rightarrow> (u32 \<times> nat \<times> u32) option" where
  "tx_dma usart =
     (if usart = USART0 then Some (DMA1, 7, 4)
      else if usart = USART1 then Some (DMA0, 6, 4)
      else if usart = USART2 then Some (DMA0, 3, 4)
      else if usart = UART3 then Some (DMA0, 4, 4)
      else if usart = UART4 then Some (DMA0, 7, 4)
      else if usart = USART5 then Some (DMA1, 6, 5)
      else if usart = UART6 then Some (DMA0, 1, 5)
      else if usart = UART7 then Some (DMA0, 0, 5)
      else None)"

definition tx_irqn :: "u32 \<Rightarrow> nat option" where
  "tx_irqn usart =
     (if usart = USART0 then Some 70
      else if usart = USART1 then Some 17
      else if usart = USART2 then Some 14
      else if usart = UART3 then Some 15
      else if usart = UART4 then Some 47
      else if usart = USART5 then Some 69
      else if usart = UART6 then Some 12
      else if usart = UART7 then Some 11
      else None)"

text \<open>The receive channel of a port.\<close>

definition rx_dma :: "u32 \<Rightarrow> (u32 \<times> nat \<times> u32) option" where
  "rx_dma usart =
     (if usart = USART0 then Some (DMA1, 5, 4)
      else if usart = USART1 then Some (DMA0, 5, 4)
      else if usart = USART2 then Some (DMA0, 1, 4)
      else if usart = UART3 then Some (DMA0, 2, 4)
      else if usart = UART4 then Some (DMA0, 0, 4)
      else if usart = USART5 then Some (DMA1, 1, 5)
      else if usart = UART6 then Some (DMA0, 3, 5)
      else if usart = UART7 then Some (DMA0, 6, 5)
      else None)"

definition rx_irqn :: "u32 \<Rightarrow> nat option" where
  "rx_irqn usart =
     (if usart = USART0 then Some 68
      else if usart = USART1 then Some 16
      else if usart = USART2 then Some 12
      else if usart = UART3 then Some 13
      else if usart = UART4 then Some 11
      else if usart = USART5 then Some 57
      else if usart = UART6 then Some 14
      else if usart = UART7 then Some 17
      else None)"

text \<open>A switch whose default case never ends.\<close>

definition or_hang :: "'a option \<Rightarrow> ('a \<Rightarrow> 'b res) \<Rightarrow> 'b res" where
  "or_hang x k = (case x of None \<Rightarrow> Inl Hang | Some y \<Rightarrow> k y)"

lemma or_hang_simps [simp]: "or_hang None k = Inl Hang" "or_hang (Some y) k = k y"
  by (simp_all add: or_hang_def)

section \<open>Set-up of a port\<close>

text \<open>The calls between the clock gate and the interrupt enables.\<close>

definition usart_line :: "u32 \<Rightarrow> u32 \<Rightarrow> u32 \<Rightarrow> u32 \<Rightarrow> mem \<Rightarrow> mem res" where
  "usart_line usart baudrate msbf oversample m =
     (let m = usart_deinit usart m;
          m = usart_data_first_config usart msbf m;
          m = usart_oversample_config usart oversample m
      in bind_res (usart_baudrate_set usart baudrate m) (\<lambda>m.
         let m = usart_word_length_set usart USART_WL_8BIT m;
             m = usart_stop_bit_set usart USART_STB_1BIT m;
             m = usart_parity_config usart USART_PM_NONE m;
             m = usart_hardware_flow_rts_config usart USART_RTS_DISABLE m;
             m = usart_hardware_flow_cts_config usart USART_CTS_DISABLE m;
             m = usart_receive_config usart USART_RECEIVE_ENABLE m
         in Inr (usart_transmit_config usart USART_TRANSMIT_ENABLE m)))"

definition usart_irqs :: "u32 \<Rightarrow> u8 \<Rightarrow> mem \<Rightarrow> mem" where
  "usart_irqs usart configIrqn m =
     (let m = (if receiveRBNE AND configIrqn \<noteq> 0
               then usart_interrupt_flag_clear usart USART_INT_FLAG_RBNE (usart_interrupt_enable usart USART_INT_RBNE m)
               else m);
          m = (if transmissionTBE AND configIrqn \<noteq> 0
               then usart_interrupt_flag_clear usart USART_INT_FLAG_TBE (usart_interrupt_enable usart USART_INT_TBE m)
               else m)
      in if transmissionTC AND configIrqn \<noteq> 0
         then usart_interrupt_flag_clear usart USART_INT_FLAG_TC (usart_interrupt_enable usart USART_INT_TC m)
         else m)"

definition ConfigUsart :: "u32 \<Rightarrow> u32 \<Rightarrow> u32 \<Rightarrow> u32 \<Rightarrow> u8 \<Rightarrow> u8 \<Rightarrow> u8 \<Rightarrow> board \<Rightarrow> board res" where
  "ConfigUsart usart baudrate msbf oversample configIrqn pre_priority sub_priority s =
     or_hang (usart_clock usart) (\<lambda>clk.
     let s = on_periph (rcu_periph_clock_enable clk) s
     in bind_res (usart_line usart baudrate msbf oversample (periph s)) (\<lambda>m.
        let s = s\<lparr> periph := usart_irqs usart configIrqn m \<rparr>
        in bind_res (if configIrqn \<noteq> non
                     then or_hang (usart_irqn usart) (\<lambda>n. Inr (on_nvic (nvic_irq_enable n pre_priority sub_priority) s))
                     else Inr s) (\<lambda>s.
           Inr (on_periph (usart_enable usart) s))))"

section \<open>Set-up of the DMA channels\<close>

definition dma_stream :: "u32 \<Rightarrow> u32 \<Rightarrow> u32 \<Rightarrow> bool \<Rightarrow> u32 \<Rightarrow> u32 \<Rightarrow> dma_single_data_parameter_struct" where
  "dma_stream usart buf lenBuf circulationEnable prio dir =
     \<lparr> periph_addr = USARTn_DATA_ADDRESS usart, periph_inc = DMA_PERIPH_INCREASE_DISABLE,
       memory0_addr = buf, memory_inc = DMA_MEMORY_INCREASE_ENABLE,
       periph_memory_width = DMA_PERIPH_WIDTH_8BIT,
       circular_mode = (if circulationEnable then DMA_CIRCULAR_MODE_ENABLE else DMA_CIRCULAR_MODE_DISABLE),
       direction = dir, dma_number = lenBuf, priority = prio \<rparr>"

definition dma_irq :: "u32 \<Rightarrow> nat \<Rightarrow> u32 \<Rightarrow> mem \<Rightarrow> mem" where
  "dma_irq d c i m = dma_interrupt_flag_clear d c i (dma_interrupt_enable d c i m)"

definition ConfigUsartDMA_Tx :: "u32 \<Rightarrow> u32 \<Rightarrow> u32 \<Rightarrow> bool \<Rightarrow> u32 \<Rightarrow> u8 \<Rightarrow> u8 \<Rightarrow> u8 \<Rightarrow> board \<Rightarrow> board res" where
  "ConfigUsartDMA_Tx usart buf lenBuf circulationEnable channelPriorityDMA pre_priority sub_priority iRQn s =
     (let m = usart_disable usart (periph s)
      in or_hang (tx_dma usart) (\<lambda>(d, c, sub).
         let m = dma_channel_disable d c m;
             m = dma_deinit d c m;
             m = dma_single_data_mode_init d c
                   (dma_stream usart buf lenBuf circulationEnable channelPriorityDMA DMA_MEMORY_TO_PERIPH) m;
             m = dma_channel_subperipheral_select d c sub m
         in bind_res (if iRQn \<noteq> iRQn_non_Tx then
              let m = (if iRQn AND iRQn_full_transmit_Dma \<noteq> 0 then dma_irq d c DMA_INT_FTF m else m);
                  m = (if iRQn AND iRQn_half_transmit_Dma \<noteq> 0 then dma_irq d c DMA_INT_HTF m else m)
              in or_hang (tx_irqn usart) (\<lambda>n. Inr (n, m))
              else Inr (0, m)) (\<lambda>(TX_irqn, m).
            let m = dma_channel_enable d c m;
                m = usart_dma_transmit_config usart USART_TRANSMIT_DMA_ENABLE m;
                s = s\<lparr> periph := m \<rparr>;
                s = (if iRQn_non_Tx \<noteq> iRQn then on_nvic (nvic_irq_enable TX_irqn pre_priority sub_priority) s else s)
            in Inr (on_periph (usart_enable usart) s))))"

definition ConfigUsartDMA_Rx :: "u32 \<Rightarrow> u32 \<Rightarrow> u32 \<Rightarrow> bool \<Rightarrow> u32 \<Rightarrow> u8 \<Rightarrow> u8 \<Rightarrow> u8 \<Rightarrow> board \<Rightarrow> board res" where
  "ConfigUsartDMA_Rx usart buf lenBuf circulationEnable channelPriorityDMA pre_priority sub_priority iRQn s =
     (let m = usart_disable usart (periph s)
      in or_hang (rx_dma usart) (\<lambda>(d, c, sub).
         let m = dma_deinit d c m;
             m = dma_single_data_mode_init d c
                   (dma_stream usart buf lenBuf circulationEnable channelPriorityDMA DMA_PERIPH_TO_MEMORY) m;
             m = dma_channel_subperipheral_select d c sub m;
             m = usart_dma_receive_config usart USART_RECEIVE_DMA_ENABLE m
         in bind_res (if iRQn_receiv_Uart AND iRQn \<noteq> 0 then
              or_hang (usart_irqn usart) (\<lambda>n.
              Inr (n, usart_interrupt_flag_clear usart USART_INT_FLAG_IDLE (usart_interrupt_enable usart USART_INT_IDLE m)))
              else Inr (0, m)) (\<lambda>(RX_irqn, m).
            bind_res (if iRQn \<noteq> iRQn_receiv_Uart \<and> iRQn \<noteq> iRQn_non_Rx then
              or_hang (rx_irqn usart) (\<lambda>n.
              let m = (if iRQn AND iRQn_full_receiv_Dma \<noteq> 0 then dma_irq d c DMA_INT_FTF m else m)
              in Inr (n, if iRQn AND iRQn_half_receiv_Dma \<noteq> 0 then dma_irq d c DMA_INT_HTF m else m))
              else Inr (RX_irqn, m)) (\<lambda>(RX_irqn, m).
            let s = s\<lparr> periph := dma_channel_enable d c m \<rparr>;
                s = (if iRQn_non_Rx \<noteq> iRQn then on_nvic (nvic_irq_enable RX_irqn pre_priority sub_priority) s else s)
            in Inr (on_periph (usart_enable usart) s)))))"

section \<open>Sending without DMA\<close>

definition Usart_send_byte :: "nat \<Rightarrow> (mem \<Rightarrow> mem) \<Rightarrow> u8 \<Rightarrow> u32 \<Rightarrow> mem \<Rightarrow> mem res" where
  "Usart_send_byte fuel hw byte usart_perith m =
     wait_until fuel hw (usart_flag_get usart_perith USART_FLAG_TBE)
       (usart_data_transmit usart_perith (ucast byte) m)"

definition Usart_send_buf :: "nat \<Rightarrow> (mem \<Rightarrow> mem) \<Rightarrow> u8 list option \<Rightarrow> u32 \<Rightarrow> u32 \<Rightarrow> mem \<Rightarrow> mem res" where
  "Usart_send_buf fuel hw buf usart_perith len m =
     (case buf of None \<Rightarrow> Inr m
      | Some pbuf \<Rightarrow> res_fold (\<lambda>k m. bind_res (get_at pbuf k) (\<lambda>v. Usart_send_byte fuel hw v usart_perith m))
          [0..<unat len] m)"

text \<open>The text ends at its first zero byte; a text without one is read past its end.\<close>

definition Usart_send_string :: "nat \<Rightarrow> (mem \<Rightarrow> mem) \<Rightarrow> u8 list option \<Rightarrow> u32 \<Rightarrow> mem \<Rightarrow> mem res" where
  "Usart_send_string fuel hw str usart_perith m =
     (case str of None \<Rightarrow> Inr m
      | Some pbuf \<Rightarrow>
          bind_res (res_fold (\<lambda>v m. Usart_send_byte fuel hw v usart_perith m) (takeWhile (\<lambda>v. v \<noteq> 0) pbuf) m) (\<lambda>m.
          if 0 \<in> set pbuf then Inr m else Inl Out_Of_Bounds))"

section \<open>Properties\<close>

text \<open>The vector table of \<^verbatim>\<open>gd32f4xx.h\<close> for the DMA channels.\<close>

definition dma_channel_irqn :: "u32 \<Rightarrow> nat \<Rightarrow> nat" where
  "dma_channel_irqn d c =
     (if d = DMA0 then if c < 7 then 11 + c else 47 else if c < 5 then 56 + c else 63 + c)"

definition serial_ports :: "u32 list" where
  "serial_ports = [USART0, USART1, USART2, UART3, UART4, USART5, UART6, UART7]"

lemmas port_tables = usart_clock_def usart_irqn_def tx_dma_def tx_irqn_def rx_dma_def rx_irqn_def

text \<open>
  The interrupt tables agree with the channel tables. For every serial port the interrupt
  number enabled for the end of its transfers is the one of the DMA channel that carries them,
  for sending and for receiving; every other port number leads into the endless loop in all three
  functions.
\<close>

theorem dma_tables_agree:
  "(\<forall>u \<in> set serial_ports. \<exists>d c k. tx_dma u = Some (d, c, k) \<and> tx_irqn u = Some (dma_channel_irqn d c))
   \<and> (\<forall>u \<in> set serial_ports. \<exists>d c k. rx_dma u = Some (d, c, k) \<and> rx_irqn u = Some (dma_channel_irqn d c))
   \<and> (\<forall>u. u \<notin> set serial_ports \<longrightarrow>
        ConfigUsart u b msbf ov i p q s = Inl Hang \<and> ConfigUsartDMA_Tx u a n circ prio p q i s = Inl Hang
        \<and> ConfigUsartDMA_Rx u a n circ prio p q i s = Inl Hang)"
proof (intro conjI)
  show "\<forall>u \<in> set serial_ports. \<exists>d c k. tx_dma u = Some (d, c, k) \<and> tx_irqn u = Some (dma_channel_irqn d c)"
    by (simp add: serial_ports_def port_tables usart_periphs dma_channel_irqn_def dma_regs)
  show "\<forall>u \<in> set serial_ports. \<exists>d c k. rx_dma u = Some (d, c, k) \<and> rx_irqn u = Some (dma_channel_irqn d c)"
    by (simp add: serial_ports_def port_tables usart_periphs dma_channel_irqn_def dma_regs)
  show "\<forall>u. u \<notin> set serial_ports \<longrightarrow>
        ConfigUsart u b msbf ov i p q s = Inl Hang \<and> ConfigUsartDMA_Tx u a n circ prio p q i s = Inl Hang
        \<and> ConfigUsartDMA_Rx u a n circ prio p q i s = Inl Hang"
    by (simp add: serial_ports_def ConfigUsart_def ConfigUsartDMA_Tx_def ConfigUsartDMA_Rx_def port_tables)
qed

theorem dma_tables_agree_witness:
  "tx_irqn USART5 = Some (dma_channel_irqn DMA1 6)
   \<and> ConfigUsart 0 9600 0 0 0 0 0 \<lparr> periph = (\<lambda>_. 0), nvic = undefined \<rparr> = Inl Hang"
proof -
  have "USART5 \<in> set serial_ports" "0 \<notin> set serial_ports" "tx_dma USART5 = Some (DMA1, 6, 5)"
    by (simp_all add: serial_ports_def usart_periphs tx_dma_def)
  with dma_tables_agree [of 9600 0 0 0 0 0 "\<lparr> periph = (\<lambda>_. 0), nvic = undefined \<rparr>" 0 0 False 0]
  show ?thesis by auto
qed

lemma freq_cong:
  "reg_rd RCU_CFG0 m = reg_rd RCU_CFG0 n \<Longrightarrow> reg_rd RCU_PLL m = reg_rd RCU_PLL n \<Longrightarrow>
     rcu_clock_freq_get c m = rcu_clock_freq_get c n"
  by (simp add: rcu_clock_freq_get_def cksys_freq_get_def Let_def)

lemmas usart_line_ops =
  usart_data_first_config_def usart_oversample_config_def usart_word_length_set_def usart_stop_bit_set_def
  usart_parity_config_def usart_hardware_flow_rts_config_def usart_hardware_flow_cts_config_def
  usart_receive_config_def usart_transmit_config_def usart_field_def

lemma usart_deinit_5: "usart_deinit USART5 m = reg_clr RCU_APB2RST (BIT 5) (reg_set RCU_APB2RST (BIT 5) m)"
  by (simp add: usart_deinit_def Let_def usart_periphs rcu_periph_reset_enable_def rcu_periph_reset_disable_def
      RCU_USART5RST_def RCU_REG_VAL_def RCU_BIT_POS_def RCU_REGIDX_BIT_def rcu_regs)

lemma line_distinct:
  "RCU_CFG0 \<notin> {RCU_APB2RST, USART_CTL0 USART5, USART_CTL3 USART5}"
  "RCU_PLL \<notin> {RCU_APB2RST, USART_CTL0 USART5, USART_CTL3 USART5}"
  "USART_CTL0 USART5 \<notin> {RCU_APB2RST, USART_CTL1 USART5, USART_CTL2 USART5, USART_CTL3 USART5, USART_BAUD USART5}"
  "USART_BAUD USART5 \<notin> {RCU_APB2RST, USART_CTL0 USART5, USART_CTL1 USART5, USART_CTL2 USART5, USART_CTL3 USART5}"
  by (simp_all add: reg_simps)

lemma baud_5M: "(USART_BAUD_FRADIV OR USART_BAUD_INTDIV) AND
    ((2 * 100000000 + 5000000 div 2) div 5000000 AND 0xfff0 OR (drop_bit 1 ((2 * 100000000 + 5000000 div 2) div 5000000) AND 7)) = (36 :: u32)"
  by (simp add: usart_bits BITS_def)

lemma usart5_line:
  assumes "rcu_clock_freq_get CK_APB2 m = Inr 100000000"
  shows "\<exists>n. usart_line USART5 5000000 USART_MSBF_LSB USART_OVSMOD_8 m = Inr n
    \<and> reg_rd (USART_BAUD USART5) n = 36
    \<and> bit (reg_rd (USART_CTL0 USART5) n) 2 \<and> bit (reg_rd (USART_CTL0 USART5) n) 3
    \<and> bit (reg_rd (USART_CTL0 USART5) n) 15
    \<and> \<not> bit (reg_rd (USART_CTL0 USART5) n) 10 \<and> \<not> bit (reg_rd (USART_CTL0 USART5) n) 12"
proof -
  define k where "k = usart_oversample_config USART5 USART_OVSMOD_8
    (usart_data_first_config USART5 USART_MSBF_LSB (usart_deinit USART5 m))"
  have "rcu_clock_freq_get CK_APB2 k = rcu_clock_freq_get CK_APB2 m"
    using line_distinct by (intro freq_cong) (simp_all add: k_def usart_line_ops usart_deinit_5)
  moreover have "bit (reg_rd (USART_CTL0 USART5) k) 15"
    by (simp add: k_def usart_line_ops usart_consts bit_or_iff bit_and_iff)
  then have "reg_rd (USART_CTL0 USART5) k AND USART_CTL0_OVSMOD \<noteq> 0"
    by (simp add: usart_bits and_BIT_eq_0)
  ultimately have "usart_baudrate_set USART5 5000000 k = Inr (reg_wr (USART_BAUD USART5) 36 k)"
    using assms baud_5M by (simp add: usart_baudrate_set_def usart_uclk_def Let_def)
  then show ?thesis
    using line_distinct
    by (simp add: usart_line_def Let_def flip: k_def) (simp add: k_def usart_line_ops usart_consts usart_bits bit_or_iff bit_and_iff bit_not_iff bit_BITS)
qed

lemma rcu_usart5_gate: "rcu_periph_clock_enable RCU_USART5 m = reg_set RCU_APB2EN (BIT 5) m"
  by (simp add: rcu_periph_clock_enable_def RCU_USART5_def RCU_REG_VAL_def RCU_BIT_POS_def RCU_REGIDX_BIT_def rcu_regs)

lemma usart_rbne_enable: "usart_interrupt_enable u USART_INT_RBNE = reg_set (USART_CTL0 u) (BIT 5)"
  by (simp add: usart_interrupt_enable_def usart_flags usart_regs)

lemma usart5_irqs: "usart_irqs USART5 receiveRBNE m = reg_clr (USART_STAT0 USART5) (BIT 5) (reg_set (USART_CTL0 USART5) (BIT 5) m)"
  by (simp add: usart_irqs_def config_bits Let_def usart_rbne_enable usart_rbne_clear)

lemma ConfigUsart5:
  assumes "rcu_clock_freq_get CK_APB2 (periph s) = Inr 100000000"
  shows "\<exists>t. ConfigUsart USART5 5000000 USART_MSBF_LSB USART_OVSMOD_8 receiveRBNE 0 3 s = Inr t
    \<and> nvic t = nvic_irq_enable 71 0 3 (nvic s)
    \<and> reg_rd (USART_BAUD USART5) (periph t) = 36
    \<and> (\<forall>n \<in> {2, 3, 5, 13, 15}. bit (reg_rd (USART_CTL0 USART5) (periph t)) n)
    \<and> (\<forall>n \<in> {10, 12}. \<not> bit (reg_rd (USART_CTL0 USART5) (periph t)) n)"
proof -
  let ?m = "rcu_periph_clock_enable RCU_USART5 (periph s)"
  have "RCU_CFG0 \<noteq> RCU_APB2EN" "RCU_PLL \<noteq> RCU_APB2EN" by (simp_all add: rcu_regs)
  then have "rcu_clock_freq_get CK_APB2 ?m = rcu_clock_freq_get CK_APB2 (periph s)"
    by (intro freq_cong) (simp_all add: rcu_usart5_gate)
  with usart5_line [of ?m] assms obtain n where n:
    "usart_line USART5 5000000 USART_MSBF_LSB USART_OVSMOD_8 ?m = Inr n" "reg_rd (USART_BAUD USART5) n = 36"
    "bit (reg_rd (USART_CTL0 USART5) n) 2" "bit (reg_rd (USART_CTL0 USART5) n) 3" "bit (reg_rd (USART_CTL0 USART5) n) 15"
    "\<not> bit (reg_rd (USART_CTL0 USART5) n) 10" "\<not> bit (reg_rd (USART_CTL0 USART5) n) 12"
    by auto
  have d: "USART_BAUD USART5 \<noteq> USART_STAT0 USART5" "USART_BAUD USART5 \<noteq> USART_CTL0 USART5"
    "USART_CTL0 USART5 \<noteq> USART_STAT0 USART5" "usart_clock USART5 = Some RCU_USART5" "usart_irqn USART5 = Some 71"
    by (simp_all add: usart_regs usart_clock_def usart_irqn_def usart_periphs)
  show ?thesis
    using n d
    by (simp add: ConfigUsart_def Let_def usart5_irqs usart_enable_def)
      (simp add: config_bits usart_bits bit_or_iff)
qed

text \<open>The registers of channel 6 and of USART5 are different registers.\<close>

lemma chan6_distinct:
  "distinct [DMA_CHCTL DMA1 6, DMA_CHCNT DMA1 6, DMA_CHPADDR DMA1 6, DMA_CHM0ADDR DMA1 6, DMA_CHM1ADDR DMA1 6,
     DMA_CHFCTL DMA1 6, DMA_INTC1 DMA1, USART_CTL0 USART5, USART_CTL2 USART5, USART_BAUD USART5]"
  "distinct [USART_BAUD USART5, USART_CTL2 USART5, USART_CTL0 USART5, DMA_INTC1 DMA1, DMA_CHFCTL DMA1 6,
     DMA_CHM1ADDR DMA1 6, DMA_CHM0ADDR DMA1 6, DMA_CHPADDR DMA1 6, DMA_CHCNT DMA1 6, DMA_CHCTL DMA1 6]"
  by (simp_all add: reg_simps)

lemmas chan6_ne = chan6_distinct [simplified distinct.simps list.set, simplified]

text \<open>What the reset and the set-up of the channel leave in it.\<close>

lemma dma6_init:
  fixes m :: mem and buf :: u32
  defines "n \<equiv> dma_channel_subperipheral_select DMA1 6 5 (dma_single_data_mode_init DMA1 6
     (dma_stream USART5 buf 20 False DMA_PRIORITY_HIGH DMA_MEMORY_TO_PERIPH) (dma_deinit DMA1 6 (dma_channel_disable DMA1 6 m)))"
  shows "reg_rd (DMA_CHPADDR DMA1 6) n = USART_DATA USART5" "reg_rd (DMA_CHM0ADDR DMA1 6) n = buf"
    "reg_rd (DMA_CHCNT DMA1 6) n = 20" "reg_rd (DMA_CHCTL DMA1 6) n = push_bit 25 5 OR push_bit 16 2 OR BIT 10 OR BIT 6"
    "a \<in> {USART_CTL0 USART5, USART_CTL2 USART5, USART_BAUD USART5} \<Longrightarrow> reg_rd a n = reg_rd a m"
proof -
  note c = chan6_ne
  note o = n_def dma_ops dma_stream_def Let_def USARTn_DATA_ADDRESS_def
  show "reg_rd (DMA_CHPADDR DMA1 6) n = USART_DATA USART5" "reg_rd (DMA_CHM0ADDR DMA1 6) n = buf"
    "reg_rd (DMA_CHCNT DMA1 6) n = 20"
    using c by (simp_all add: o dma_consts)
  show "reg_rd a n = reg_rd a m" if "a \<in> {USART_CTL0 USART5, USART_CTL2 USART5, USART_BAUD USART5}"
    using c that by (elim insertE emptyE) (simp_all add: o dma_consts)
  show "reg_rd (DMA_CHCTL DMA1 6) n = push_bit 25 5 OR push_bit 16 2 OR BIT 10 OR BIT 6"
    using c by (simp add: o dma_consts) (simp add: dma_bits BITS_def BIT_def)
qed

lemma ConfigDMA5:
  "\<exists>t. ConfigUsartDMA_Tx USART5 buf 20 False DMA_PRIORITY_HIGH 0 6 iRQn_full_transmit_Dma s = Inr t
    \<and> nvic t = nvic_irq_enable 69 0 6 (nvic s)
    \<and> reg_rd (USART_BAUD USART5) (periph t) = reg_rd (USART_BAUD USART5) (periph s)
    \<and> reg_rd (USART_CTL0 USART5) (periph t) = reg_rd (USART_CTL0 USART5) (periph s) OR BIT 13
    \<and> bit (reg_rd (USART_CTL2 USART5) (periph t)) 7
    \<and> reg_rd (DMA_CHPADDR DMA1 6) (periph t) = USART_DATA USART5
    \<and> reg_rd (DMA_CHM0ADDR DMA1 6) (periph t) = buf \<and> reg_rd (DMA_CHCNT DMA1 6) (periph t) = 20
    \<and> reg_rd (DMA_CHCTL DMA1 6) (periph t) = push_bit 25 5 OR push_bit 16 2 OR BIT 10 OR BIT 6 OR BIT 4 OR BIT 0"
proof -
  have d: "tx_dma USART5 = Some (DMA1, 6, 5)" "tx_irqn USART5 = Some 69"
    by (simp_all add: tx_dma_def tx_irqn_def usart_periphs)
  have w: "(w AND NOT (BIT 13)) OR BIT 13 = w OR BIT 13" for w :: u32
    by (rule bit_word_eqI) (auto simp: bit_or_iff bit_and_iff bit_not_iff)
  have b: "USART_CTL2_DENT AND USART_TRANSMIT_DMA_ENABLE = BIT 7"
    by (simp add: usart_bits usart_consts BIT_def)
  let ?k = "usart_disable USART5 (periph s)"
  define n where "n = dma_channel_subperipheral_select DMA1 6 5 (dma_single_data_mode_init DMA1 6
     (dma_stream USART5 buf 20 False DMA_PRIORITY_HIGH DMA_MEMORY_TO_PERIPH) (dma_deinit DMA1 6 (dma_channel_disable DMA1 6 ?k)))"
  have i: "dma_irq DMA1 6 DMA_INT_FTF n = reg_set (DMA_INTC1 DMA1) (DMA_FLAG_ADD DMA_INT_FTF 2) (reg_set (DMA_CHCTL DMA1 6) (BIT 4) n)"
    by (simp add: dma_irq_def dma_interrupt_enable_def dma_interrupt_flag_clear_def dma_bits BIT_def)
  have e: "ConfigUsartDMA_Tx USART5 buf 20 False DMA_PRIORITY_HIGH 0 6 iRQn_full_transmit_Dma s
      = Inr (on_periph (usart_enable USART5) (on_nvic (nvic_irq_enable 69 0 6)
          (s\<lparr> periph := usart_dma_transmit_config USART5 USART_TRANSMIT_DMA_ENABLE (dma_channel_enable DMA1 6
             (dma_irq DMA1 6 DMA_INT_FTF n)) \<rparr>)))"
    by (simp add: ConfigUsartDMA_Tx_def d Let_def config_bits n_def)
  note r = dma6_init [where m = ?k and buf = buf, folded n_def]
  show ?thesis
    unfolding e i using chan6_ne r
    by (simp add: usart_enable_def usart_dma_transmit_config_def usart_field_def dma_channel_enable_def
        usart_disable_def b USART_CTL0_UEN_def dma_bits w bit_or_iff or.assoc)
qed

text \<open>
  C34: the two calls of \<^verbatim>\<open>main\<close> that set up USART5, with APB2 at 100 MHz, end without a
  fault from any register contents and leave: the port on, sending and receiving 8 bits without
  parity, with its receive interrupt on, at a divider that gives exactly 5 Mbit/s
  (\<open>divider * 5000000 = 2 * 100000000\<close>); DMA1 channel 6 on, from the buffer to the data register,
  20 bytes, memory incremented, subperipheral 5, end-of-transfer interrupt on; the transfer
  requests of the port on; and the end-of-transfer interrupt at pre-emption level 0.
\<close>

theorem usart5_configured:
  assumes "rcu_clock_freq_get CK_APB2 (periph s) = Inr 100000000"
  shows "\<exists>t. bind_res (ConfigUsart USART5 5000000 USART_MSBF_LSB USART_OVSMOD_8 receiveRBNE 0 3 s)
      (ConfigUsartDMA_Tx USART5 buf 20 False DMA_PRIORITY_HIGH 0 6 iRQn_full_transmit_Dma) = Inr t
    \<and> (let b = reg_rd (USART_BAUD USART5) (periph t) in ((b AND 0xfff0) + 2 * (b AND 7)) * 5000000 = 2 * 100000000)
    \<and> (\<forall>n \<in> {2, 3, 5, 13, 15}. bit (reg_rd (USART_CTL0 USART5) (periph t)) n)
    \<and> (\<forall>n \<in> {10, 12}. \<not> bit (reg_rd (USART_CTL0 USART5) (periph t)) n)
    \<and> bit (reg_rd (USART_CTL2 USART5) (periph t)) 7
    \<and> reg_rd (DMA_CHPADDR DMA1 6) (periph t) = USART_DATA USART5
    \<and> reg_rd (DMA_CHM0ADDR DMA1 6) (periph t) = buf \<and> reg_rd (DMA_CHCNT DMA1 6) (periph t) = 20
    \<and> reg_rd (DMA_CHCTL DMA1 6) (periph t) = push_bit 25 5 OR push_bit 16 2 OR BIT 10 OR BIT 6 OR BIT 4 OR BIT 0
    \<and> preemption_level (nvic t) 69 = 0"
proof -
  obtain u where u: "ConfigUsart USART5 5000000 USART_MSBF_LSB USART_OVSMOD_8 receiveRBNE 0 3 s = Inr u"
    "reg_rd (USART_BAUD USART5) (periph u) = 36"
    "\<forall>n \<in> {2, 3, 5, 13, 15}. bit (reg_rd (USART_CTL0 USART5) (periph u)) n"
    "\<forall>n \<in> {10, 12}. \<not> bit (reg_rd (USART_CTL0 USART5) (periph u)) n"
    using ConfigUsart5 [OF assms] by blast
  obtain t where t: "ConfigUsartDMA_Tx USART5 buf 20 False DMA_PRIORITY_HIGH 0 6 iRQn_full_transmit_Dma u = Inr t"
    "nvic t = nvic_irq_enable 69 0 6 (nvic u)"
    "reg_rd (USART_BAUD USART5) (periph t) = reg_rd (USART_BAUD USART5) (periph u)"
    "reg_rd (USART_CTL0 USART5) (periph t) = reg_rd (USART_CTL0 USART5) (periph u) OR BIT 13"
    "bit (reg_rd (USART_CTL2 USART5) (periph t)) 7" "reg_rd (DMA_CHPADDR DMA1 6) (periph t) = USART_DATA USART5"
    "reg_rd (DMA_CHM0ADDR DMA1 6) (periph t) = buf" "reg_rd (DMA_CHCNT DMA1 6) (periph t) = 20"
    "reg_rd (DMA_CHCTL DMA1 6) (periph t) = push_bit 25 5 OR push_bit 16 2 OR BIT 10 OR BIT 6 OR BIT 4 OR BIT 0"
    using ConfigDMA5 [of buf u] by blast
  have c: "\<forall>n \<in> {2, 3, 5, 13, 15}. bit (reg_rd (USART_CTL0 USART5) (periph t)) n"
    "\<forall>n \<in> {10, 12}. \<not> bit (reg_rd (USART_CTL0 USART5) (periph t)) n"
    using t(4) u(3,4) by (simp_all add: bit_or_iff)
  show ?thesis
    unfolding u(1) bind_res_simps t(1)
    by (rule exI [of _ t], intro conjI refl c t) (simp_all add: t(2,3) u(2) pre_level_0)
qed

text \<open>A board whose clock registers are those of the 200 MHz set-up.\<close>

definition clocked :: board where
  "clocked = \<lparr> periph = (\<lambda>a. if a = RCU_CFG0 then 0x940A else if a = RCU_PLL then 0x9406419 else 0),
     nvic = \<lparr> SCB_AIRCR = 0, SCB_VTOR = 0, SCB_SCR = 0, SysTick_CTRL = 0, NVIC_IP = (\<lambda>_. 0), NVIC_ISER = (\<lambda>_. 0), NVIC_ICER = (\<lambda>_. 0) \<rparr> \<rparr>"

lemma clocked_apb2: "rcu_clock_freq_get CK_APB2 (periph clocked) = Inr 100000000"
  by (simp add: clocked_def rcu_clock_freq_get_def cksys_freq_get_def reg_rd_def rcu_regs GET_BITS_def BITS_def Let_def
      ahb_exp_def apb_exp_def RCU_PLLSRC_HXTAL_def RCU_PLL_PLLSEL_def BIT_def HXTAL_VALUE_def IRC16M_VALUE_def)

theorem usart5_configured_witness:
  "\<exists>t. bind_res (ConfigUsart USART5 5000000 USART_MSBF_LSB USART_OVSMOD_8 receiveRBNE 0 3 clocked)
      (ConfigUsartDMA_Tx USART5 0x20000100 20 False DMA_PRIORITY_HIGH 0 6 iRQn_full_transmit_Dma) = Inr t
    \<and> reg_rd (DMA_CHM0ADDR DMA1 6) (periph t) = 0x20000100"
  using usart5_configured [OF clocked_apb2, of "0x20000100"] by blast

text \<open>
  The two set-up functions clear the wrong flag. Asked to clear the full-transfer flag they
  pass the position of the enable bit, which is the position of the half-transfer flag: on every
  channel the clear register receives the half-transfer bit and the full-transfer bit is left.
\<close>

theorem ftf_clears_htf:
  assumes "c < 8"
  shows "dma_interrupt_flag_clear d c DMA_INT_FTF m = dma_flag_clear d c DMA_INTF_HTFIF m
    \<and> (let clear = (if c < 4 then DMA_INTC0 d else DMA_INTC1 d)
       in reg_rd clear (dma_interrupt_flag_clear d c DMA_INT_FTF m) AND DMA_FLAG_ADD DMA_FLAG_FTF (c mod 4)
          = reg_rd clear m AND DMA_FLAG_ADD DMA_FLAG_FTF (c mod 4))"
proof -
  have f: "DMA_INT_FTF = DMA_INTF_HTFIF" by (simp add: dma_bits)
  have z: "DMA_FLAG_ADD DMA_INTF_HTFIF k AND DMA_FLAG_ADD DMA_FLAG_FTF k = 0" for k
    by (rule bit_word_eqI) (auto simp: DMA_FLAG_ADD_def dma_bits bit_and_iff bit_push_bit_iff bit_BIT)
  have "(w OR DMA_FLAG_ADD DMA_INTF_HTFIF k) AND DMA_FLAG_ADD DMA_FLAG_FTF k = w AND DMA_FLAG_ADD DMA_FLAG_FTF k" for w k
    using z [of k] by (simp add: and.commute [of _ "DMA_FLAG_ADD DMA_FLAG_FTF k"] bit.conj_disj_distrib)
  then show ?thesis
    using assms
    by (cases "c < 4") (simp_all add: f dma_interrupt_flag_clear_def dma_flag_clear_def Let_def le_mod_geq mod_if [of c 4])
qed

theorem ftf_clears_htf_witness:
  "dma_interrupt_flag_clear DMA1 6 DMA_INT_FTF (\<lambda>_. 0) = dma_flag_clear DMA1 6 DMA_INTF_HTFIF (\<lambda>_. 0)"
  using ftf_clears_htf [of 6 DMA1 "\<lambda>_. 0"] by simp

text \<open>
  C28: a receive set-up that asks for the idle interrupt of the port together with an interrupt of
  the DMA channel turns on the idle interrupt in the port and enables only interrupt 57, the DMA
  channel, in the interrupt controller: the second choice of the interrupt number overwrites the
  first. The enable word with interrupt 71, the port's own, which would serve the idle interrupt, is
  not written.
\<close>

theorem rx_irq_overwritten:
  assumes "iRQn \<in> {iRQn_receiv_Uart OR iRQn_full_receiv_Dma, iRQn_receiv_Uart OR iRQn_half_receiv_Dma}"
  shows "\<exists>t. ConfigUsartDMA_Rx USART5 buf len circ prio p q iRQn s = Inr t
    \<and> nvic t = nvic_irq_enable 57 p q (nvic s)
    \<and> bit (NVIC_ISER (nvic t) 1) 25 \<and> NVIC_ISER (nvic t) 2 = NVIC_ISER (nvic s) 2
    \<and> bit (reg_rd (USART_CTL0 USART5) (periph t)) 4"
proof -
  have d: "rx_dma USART5 = Some (DMA1, 1, 5)" "rx_irqn USART5 = Some 57" "usart_irqn USART5 = Some 71"
    by (simp_all add: rx_dma_def rx_irqn_def usart_irqn_def usart_periphs)
  have e: "usart_interrupt_enable USART5 USART_INT_IDLE m = reg_set (USART_CTL0 USART5) (BIT 4) m"
    "usart_interrupt_flag_clear USART5 USART_INT_FLAG_IDLE m = reg_clr (USART_STAT0 USART5) (BIT 4) m" for m
    by (simp_all add: usart_interrupt_enable_def usart_interrupt_flag_clear_def usart_flags usart_regs)
  have n: "USART_CTL0 USART5 \<notin> {USART_STAT0 USART5, DMA_CHCTL DMA1 (Suc 0), DMA_INTC0 DMA1}" by (simp add: reg_simps)
  have i: "reg_rd (USART_CTL0 USART5) (dma_irq DMA1 (Suc 0) x m) = reg_rd (USART_CTL0 USART5) m"
    if "x \<noteq> DMA_CHXFCTL_FEEIE" for x m
    using n that by (simp add: dma_irq_def dma_interrupt_enable_def dma_interrupt_flag_clear_def)
  have x: "DMA_INT_FTF \<noteq> DMA_CHXFCTL_FEEIE" "DMA_INT_HTF \<noteq> DMA_CHXFCTL_FEEIE" by (simp_all add: dma_bits BIT_def)
  have v: "bit (NVIC_ISER (nvic_irq_enable 57 p q k) 1) 25" "NVIC_ISER (nvic_irq_enable 57 p q k) 2 = NVIC_ISER k 2" for k
    by (simp_all add: nvic_irq_enable_def nvic_group_def nvic_priority_group_set_def Let_def bit_simps)
  show ?thesis
    using assms n v [of "nvic s"]
    by (elim insertE emptyE)
      (simp_all add: ConfigUsartDMA_Rx_def d Let_def config_bits e usart_enable_def dma_channel_enable_def i x bit_or_iff)
qed

theorem rx_irq_overwritten_witness:
  "\<exists>t. ConfigUsartDMA_Rx USART5 0x20000000 200 False DMA_PRIORITY_HIGH 0 3 0x88 clocked = Inr t
     \<and> nvic t = nvic_irq_enable 57 0 3 (nvic clocked)"
  using rx_irq_overwritten [of "0x88" "0x20000000" 200 False DMA_PRIORITY_HIGH 0 3 clocked] by (auto simp: config_bits)

text \<open>
  What the transmitter makes of a byte: it is written into the data register, and the program goes on
  at the first step of the hardware that shows the transmit buffer empty.
\<close>

definition byte_sent :: "(mem \<Rightarrow> mem) \<Rightarrow> u32 \<Rightarrow> u8 \<Rightarrow> mem \<Rightarrow> mem" where
  "byte_sent hw u v m = (let m = reg_wr (USART_DATA u) (ucast v) m
     in (hw ^^ Suc (LEAST k. usart_flag_get u USART_FLAG_TBE ((hw ^^ Suc k) m))) m)"

lemma data_transmit_byte: "usart_data_transmit u (ucast (v :: u8)) m = reg_wr (USART_DATA u) (ucast v) m"
proof -
  have "USART_DATA_DATA AND ucast (ucast v :: u16) = (ucast v :: u32)"
    by (rule bit_word_eqI) (auto simp: USART_DATA_DATA_def bit_and_iff bit_unsigned_iff dest: bit_imp_le_length)
  then show ?thesis by (simp add: usart_data_transmit_def)
qed

lemma send_byte_sent:
  assumes "\<exists>k < fuel. usart_flag_get u USART_FLAG_TBE ((hw ^^ Suc k) (reg_wr (USART_DATA u) (ucast v) m))"
  shows "Usart_send_byte fuel hw v u m = Inr (byte_sent hw u v m)"
  unfolding Usart_send_byte_def data_transmit_byte byte_sent_def Let_def by (rule wait_until_least [OF assms])

text \<open>
  C35: sending without DMA, on a port whose transmit buffer becomes empty within a bounded number of
  steps, ends for every buffer: the first \<open>len\<close> bytes of it are written into the data register one after
  the other, in order, each when the previous one has left the transmit buffer, and nothing else is
  written. The function faults exactly when the given length exceeds the buffer; a null buffer sends
  nothing. On a port whose flag never comes, the first byte waits for ever.
\<close>

theorem send_buf_writes:
  "((\<forall>m. \<exists>k < fuel. usart_flag_get u USART_FLAG_TBE ((hw ^^ Suc k) m)) \<longrightarrow>
      Usart_send_buf fuel hw (Some bs) u len m =
        (if unat len \<le> length bs then Inr (fold (byte_sent hw u) (take (unat len) bs) m) else Inl Out_Of_Bounds))
    \<and> Usart_send_buf fuel hw None u len m = Inr m
    \<and> ((\<forall>m. \<not> usart_flag_get u USART_FLAG_TBE (hw m)) \<longrightarrow> bs \<noteq> [] \<longrightarrow> 0 < len \<longrightarrow>
      Usart_send_buf fuel hw (Some bs) u len m = Inl Hang)"
proof (intro conjI impI)
  let ?f = "\<lambda>k m. bind_res (get_at bs k) (\<lambda>v. Usart_send_byte fuel hw v u m)"
  assume "\<forall>m. \<exists>k < fuel. usart_flag_get u USART_FLAG_TBE ((hw ^^ Suc k) m)"
  then have s: "Usart_send_byte fuel hw v u m = Inr (byte_sent hw u v m)" for v m by (intro send_byte_sent) blast
  have "res_fold ?f [0..<n] m = (if n \<le> length bs then Inr (fold (byte_sent hw u) (take n bs) m) else Inl Out_Of_Bounds)" for n
  proof (induction n)
    case (Suc n)
    then show ?case by (auto simp: res_fold_append s get_at_def take_Suc_conv_app_nth)
  qed simp
  then show "Usart_send_buf fuel hw (Some bs) u len m =
      (if unat len \<le> length bs then Inr (fold (byte_sent hw u) (take (unat len) bs) m) else Inl Out_Of_Bounds)"
    by (simp add: Usart_send_buf_def)
next
  assume n: "\<forall>m. \<not> usart_flag_get u USART_FLAG_TBE (hw m)" and b: "bs \<noteq> []" and l: "0 < len"
  have "Usart_send_byte fuel hw v u m = Inl Hang" for v m
    unfolding Usart_send_byte_def using n by (intro wait_until_never) simp
  moreover have "[0..<unat len] = 0 # [1..<unat len]"
    using l by (simp add: upt_rec [of 0] unat_gt_0 word_gt_0)
  ultimately show "Usart_send_buf fuel hw (Some bs) u len m = Inl Hang"
    using b by (simp add: Usart_send_buf_def get_at_def)
qed (simp add: Usart_send_buf_def)

text \<open>A port that shifts every byte into a word that stands for the line, and is ready at the next step.\<close>

definition line_hw :: "mem \<Rightarrow> mem" where
  "line_hw m = reg_set (USART_STAT0 USART0) (BIT 7) (reg_wr 0 (push_bit 8 (reg_rd 0 m) OR reg_rd (USART_DATA USART0) m) m)"

theorem send_buf_writes_witness:
  "\<exists>m. Usart_send_buf 1 line_hw (Some [1, 2, 3]) USART0 3 (\<lambda>_. 0) = Inr m \<and> reg_rd 0 m = 0x010203"
proof -
  have r: "usart_flag_get USART0 USART_FLAG_TBE (line_hw m)" for m
    by (simp add: line_hw_def usart_flag_get_def usart_flags usart_regs BIT_def)
  then have l: "(LEAST k. usart_flag_get USART0 USART_FLAG_TBE ((line_hw ^^ Suc k) m)) = 0" for m
    by (intro Least_eq_0) simp
  have "\<forall>m. \<exists>k < 1. usart_flag_get USART0 USART_FLAG_TBE ((line_hw ^^ Suc k) m)" using r by simp
  with send_buf_writes [of 1 USART0 line_hw "[1, 2, 3]" 3 "\<lambda>_. 0"]
  have "Usart_send_buf 1 line_hw (Some [1, 2, 3]) USART0 3 (\<lambda>_. 0) = Inr (fold (byte_sent line_hw USART0) [1, 2, 3] (\<lambda>_. 0))"
    by simp
  moreover have "reg_rd 0 (fold (byte_sent line_hw USART0) [1, 2, 3] (\<lambda>_. 0)) = 0x010203"
    by (simp add: byte_sent_def l del: funpow.simps) (simp add: line_hw_def usart_regs usart_periphs, simp add: reg_rd_def)
  ultimately show ?thesis by blast
qed

end
