(* ===== verification/Init_Config.thy ===== *)
theory Init_Config
  imports Config_Usart Uart_Poll
begin

text \<open>
  \<^verbatim>\<open>src/src/init_config.c\<close>: the system clock, the clock gates, the pins and the four
  timers. The function \<open>hw\<close> is what the hardware does to the registers between two polls of a
  flag; a poll that never succeeds is the fault \<open>Hang\<close>. The structures that the C code fills
  field by field are written as records with all their fields.
\<close>

section \<open>Constants\<close>

definition PMU_CTL :: u32 where "PMU_CTL = 0x40007000"
definition PMU_CS :: u32 where "PMU_CS = 0x40007004"
definition PMU_CTL_LDOVS :: u32 where "PMU_CTL_LDOVS = BITS 14 15"
definition PMU_CTL_HDEN :: u32 where "PMU_CTL_HDEN = BIT 16"
definition PMU_CTL_HDS :: u32 where "PMU_CTL_HDS = BIT 17"
definition PMU_CS_HDRF :: u32 where "PMU_CS_HDRF = BIT 16"
definition PMU_CS_HDSRF :: u32 where "PMU_CS_HDSRF = BIT 17"

definition SHIM_PRESC :: u16 where "SHIM_PRESC = 50"
definition SHIM_PERIOD :: u32 where "SHIM_PERIOD = 20"
definition PRESCALER_USAT_TIM :: u16 where "PRESCALER_USAT_TIM = 5"
definition USART_BAUDRATE :: u32 where "USART_BAUDRATE = 5000000"
definition TIMERATE_USART :: u32 where "TIMERATE_USART = 24 * (10000000 div USART_BAUDRATE) - 1"

lemmas init_consts =
  PMU_CTL_def PMU_CS_def PMU_CTL_LDOVS_def PMU_CTL_HDEN_def PMU_CTL_HDS_def PMU_CS_HDRF_def PMU_CS_HDSRF_def

section \<open>System clock\<close>

text \<open>The wait for the crystal: a bounded \<^verbatim>\<open>do\<close> loop, then an unbounded one if it failed.\<close>

fun hxtal_loop :: "nat \<Rightarrow> (mem \<Rightarrow> mem) \<Rightarrow> mem \<Rightarrow> mem" where
  "hxtal_loop 0 hw m = m"
| "hxtal_loop (Suc left) hw m =
     (let m = hw m in if reg_rd RCU_CTL m AND RCU_CTL_HXTALSTB = 0 then hxtal_loop left hw m else m)"

definition hxtal_wait :: "nat \<Rightarrow> (mem \<Rightarrow> mem) \<Rightarrow> mem \<Rightarrow> mem res" where
  "hxtal_wait fuel hw m =
     (let m = hw (hxtal_loop HXTAL_STARTUP_TIMEOUT hw m)
      in if reg_rd RCU_CTL m AND RCU_CTL_HXTALSTB = 0
         then wait_until fuel hw (\<lambda>m. reg_rd RCU_CTL m AND RCU_CTL_HXTALSTB \<noteq> 0) m
         else Inr m)"

definition SettingSystemClock25MHz :: "nat \<Rightarrow> (mem \<Rightarrow> mem) \<Rightarrow> mem \<Rightarrow> mem res" where
  "SettingSystemClock25MHz fuel hw m =
     bind_res (hxtal_wait fuel hw (reg_set RCU_CTL RCU_CTL_HXTALEN m)) (\<lambda>m.
     let m = reg_set RCU_APB1EN RCU_APB1EN_PMUEN m;
         m = reg_set PMU_CTL PMU_CTL_LDOVS m;
         m = reg_set RCU_CFG0 RCU_AHB_CKSYS_DIV1 m;
         m = reg_set RCU_CFG0 RCU_APB2_CKAHB_DIV2 m;
         m = reg_set RCU_CFG0 RCU_APB1_CKAHB_DIV4 m;
         m = reg_wr RCU_PLL (25 OR push_bit 6 400 OR push_bit 16 (drop_bit 1 2 - 1) OR RCU_PLLSRC_HXTAL OR push_bit 24 9) m;
         m = reg_set RCU_CTL RCU_CTL_PLLEN m
     in bind_res (wait_until fuel hw (\<lambda>m. reg_rd RCU_CTL m AND RCU_CTL_PLLSTB \<noteq> 0) m) (\<lambda>m.
        bind_res (wait_until fuel hw (\<lambda>m. reg_rd PMU_CS m AND PMU_CS_HDRF \<noteq> 0) (reg_set PMU_CTL PMU_CTL_HDEN m)) (\<lambda>m.
        bind_res (wait_until fuel hw (\<lambda>m. reg_rd PMU_CS m AND PMU_CS_HDSRF \<noteq> 0) (reg_set PMU_CTL PMU_CTL_HDS m)) (\<lambda>m.
        let reg_temp = (reg_rd RCU_CFG0 m AND NOT RCU_CFG0_SCS) OR RCU_CKSYSSRC_PLLP
        in wait_until fuel hw (\<lambda>m. reg_rd RCU_CFG0 m AND RCU_SCSS_PLLP \<noteq> 0) (reg_wr RCU_CFG0 reg_temp m)))))"

definition SettingSystemClock16MHz :: "nat \<Rightarrow> (mem \<Rightarrow> mem) \<Rightarrow> mem \<Rightarrow> mem res" where
  "SettingSystemClock16MHz fuel hw m =
     bind_res (wait_until fuel hw (\<lambda>m. reg_rd RCU_CTL m AND push_bit 17 1 \<noteq> 0) (reg_set RCU_CTL (push_bit 16 1) m)) (\<lambda>m.
     let m = reg_set RCU_APB1EN (push_bit 28 1) m;
         m = reg_set PMU_CTL (push_bit 14 1 OR push_bit 15 1) m;
         m = reg_set RCU_CFG0 RCU_AHB_CKSYS_DIV1 m;
         m = reg_set RCU_CFG0 RCU_APB2_CKAHB_DIV2 m;
         m = reg_set RCU_CFG0 RCU_APB1_CKAHB_DIV4 m;
         m = reg_wr RCU_PLL (8 OR push_bit 6 200 OR push_bit 16 0 OR push_bit 22 1 OR push_bit 24 9) m;
         m = reg_set RCU_CTL (push_bit 24 1) m
     in bind_res (wait_until fuel hw (\<lambda>m. reg_rd RCU_CTL m AND push_bit 25 1 \<noteq> 0) m) (\<lambda>m.
        bind_res (wait_until fuel hw (\<lambda>m. reg_rd PMU_CS m AND PMU_CS_HDRF \<noteq> 0) (reg_set PMU_CTL PMU_CTL_HDEN m)) (\<lambda>m.
        bind_res (wait_until fuel hw (\<lambda>m. reg_rd PMU_CS m AND PMU_CS_HDSRF \<noteq> 0) (reg_set PMU_CTL PMU_CTL_HDS m)) (\<lambda>m.
        wait_until fuel hw (\<lambda>m. reg_rd RCU_CFG0 m AND RCU_SCSS_PLLP \<noteq> 0)
          (reg_set RCU_CFG0 RCU_CKSYSSRC_PLLP (reg_clr RCU_CFG0 RCU_CFG0_SCS m))))))"

section \<open>Clock gates and pins\<close>

definition Rcu_config :: "mem \<Rightarrow> mem" where
  "Rcu_config m = fold rcu_periph_clock_enable
     [RCU_GPIOA, RCU_GPIOB, RCU_GPIOC, RCU_GPIOD, RCU_GPIOE,
      RCU_TIMER1, RCU_TIMER2, RCU_TIMER3, RCU_TIMER4, RCU_TIMER6,
      RCU_USART0, RCU_USART5, RCU_DMA0, RCU_DMA1] m"

text \<open>\<^verbatim>\<open>gpio_af_set\<close>, \<^verbatim>\<open>gpio_mode_set\<close>, \<^verbatim>\<open>gpio_output_options_set\<close> for one pin.\<close>

definition af_pin :: "u32 \<Rightarrow> u32 \<Rightarrow> u32 \<Rightarrow> u32 \<Rightarrow> mem \<Rightarrow> mem" where
  "af_pin port af pull pin m =
     (let m = gpio_af_set port af pin m;
          m = gpio_mode_set port GPIO_MODE_AF pull pin m
      in gpio_output_options_set port GPIO_OTYPE_PP GPIO_OSPEED_50MHZ pin m)"

definition out_pin :: "u32 \<Rightarrow> u32 \<Rightarrow> u32 \<Rightarrow> mem \<Rightarrow> mem" where
  "out_pin port pull pin m =
     gpio_output_options_set port GPIO_OTYPE_PP GPIO_OSPEED_50MHZ pin (gpio_mode_set port GPIO_MODE_OUTPUT pull pin m)"

definition Gpio_config :: "mem \<Rightarrow> mem" where
  "Gpio_config m =
     (let m = af_pin GPIOB 2 GPIO_PUPD_NONE (GPIO_PIN 6) m;
          m = af_pin GPIOB 2 GPIO_PUPD_NONE (GPIO_PIN 7) m;
          m = out_pin GPIOA GPIO_PUPD_NONE (GPIO_PIN 11) m;
          m = af_pin GPIOA 7 GPIO_PUPD_PULLUP (GPIO_PIN 9) m;
          m = af_pin GPIOA 7 GPIO_PUPD_NONE (GPIO_PIN 10) m;
          m = USART0_RX m;
          m = out_pin GPIOC GPIO_PUPD_NONE (GPIO_PIN 8) m;
          m = af_pin GPIOC 8 GPIO_PUPD_PULLUP (GPIO_PIN 6) m;
          m = af_pin GPIOC 8 GPIO_PUPD_NONE (GPIO_PIN 7) m
      in USART5_RX m)"

section \<open>Timers\<close>

definition timer_irq :: "nat \<Rightarrow> u8 \<Rightarrow> u32 \<Rightarrow> board \<Rightarrow> board" where
  "timer_irq irqn sub t s =
     on_periph (\<lambda>m. timer_enable t (timer_interrupt_flag_clear t TIMER_INT_FLAG_UP (timer_interrupt_enable t TIMER_INT_UP m)))
       (on_nvic (nvic_irq_enable irqn 0 sub) s)"

definition rx_end_para :: timer_parameter_struct where
  "rx_end_para = \<lparr> prescaler = PRESCALER_USAT_TIM - 1, alignedmode = TIMER_COUNTER_EDGE,
     counterdirection = TIMER_COUNTER_UP, clockdivision = TIMER_CKDIV_DIV1, period = TIMERATE_USART, repetitioncounter = 0 \<rparr>"

text \<open>\<^verbatim>\<open>Timer2_config\<close> fills its structure and does not pass it to \<^verbatim>\<open>timer_init\<close>.\<close>

definition Timer2_config :: "board \<Rightarrow> board" where
  "Timer2_config s = timer_irq 29 4 TIMER2 s"

definition Timer4_config :: "board \<Rightarrow> board" where
  "Timer4_config s = timer_irq 50 4 TIMER4 (on_periph (timer_init TIMER4 rx_end_para) s)"

definition Timer6_config :: "board \<Rightarrow> board" where
  "Timer6_config s = timer_irq 55 2 TIMER6 (on_periph (timer_init TIMER6
     \<lparr> prescaler = 100 - 1, alignedmode = TIMER_COUNTER_EDGE, counterdirection = TIMER_COUNTER_UP,
       clockdivision = TIMER_CKDIV_DIV1, period = 125, repetitioncounter = 0 \<rparr>) s)"

definition pwm_channel :: "u16 \<Rightarrow> u16 \<Rightarrow> mem \<Rightarrow> mem" where
  "pwm_channel ch mode m =
     (let m = timer_channel_output_config TIMER3 ch
                \<lparr> outputstate = TIMER_CCX_ENABLE, outputnstate = 0, ocpolarity = 0, ocnpolarity = 0,
                  ocidlestate = 0, ocnidlestate = 0 \<rparr> m;
          m = timer_channel_output_pulse_value_config TIMER3 ch (SHIM_PERIOD div 2) m;
          m = timer_channel_output_mode_config TIMER3 ch mode m
      in timer_channel_output_shadow_config TIMER3 ch 0 m)"

definition Timer3_config :: "mem \<Rightarrow> mem" where
  "Timer3_config m =
     (let m = timer_deinit TIMER3 m;
          m = timer_init TIMER3
                \<lparr> prescaler = SHIM_PRESC - 1, alignedmode = TIMER_COUNTER_CENTER_BOTH, counterdirection = TIMER_COUNTER_UP,
                  clockdivision = TIMER_CKDIV_DIV1, period = SHIM_PERIOD, repetitioncounter = 0 \<rparr> m;
          m = pwm_channel 0 TIMER_OC_MODE_PWM0 m;
          m = pwm_channel 1 TIMER_OC_MODE_PWM1 m;
          m = timer_primary_output_config TIMER3 True m;
          m = timer_auto_reload_shadow_enable TIMER3 m
      in timer_enable TIMER3 m)"

section \<open>The clock the code relies on\<close>

text \<open>
  What the reference manual says of the status bits, for a crystal and a PLL that work: a ready bit
  follows its enable bit within \<open>d\<close> reads, the status field of the clock switch follows its control
  field and never shows the reserved value, and the hardware changes no control bit of the
  registers involved.
\<close>

definition rd_bit :: "u32 \<Rightarrow> nat \<Rightarrow> mem \<Rightarrow> bool" where
  "rd_bit a n m = bit (reg_rd a m) n"

definition follows :: "nat \<Rightarrow> (mem \<Rightarrow> mem) \<Rightarrow> (mem \<Rightarrow> bool) \<Rightarrow> (mem \<Rightarrow> bool) \<Rightarrow> bool" where
  "follows d hw en rdy \<longleftrightarrow> (\<forall>m. en m \<longrightarrow> (\<exists>k < d. rdy ((hw ^^ Suc k) m)))"

definition clock_hw :: "nat \<Rightarrow> (mem \<Rightarrow> mem) \<Rightarrow> bool" where
  "clock_hw d hw \<longleftrightarrow>
     follows d hw (rd_bit RCU_CTL 16) (rd_bit RCU_CTL 17)
   \<and> follows d hw (rd_bit RCU_CTL 24) (rd_bit RCU_CTL 25)
   \<and> follows d hw (rd_bit PMU_CTL 16) (rd_bit PMU_CS 16)
   \<and> follows d hw (rd_bit PMU_CTL 17) (rd_bit PMU_CS 17)
   \<and> follows d hw (\<lambda>m. rd_bit RCU_CFG0 1 m \<and> \<not> rd_bit RCU_CFG0 0 m) (rd_bit RCU_CFG0 3)
   \<and> (\<forall>m. rd_bit RCU_CFG0 3 (hw m) \<longrightarrow> \<not> rd_bit RCU_CFG0 2 (hw m))
   \<and> (\<forall>m. reg_rd RCU_PLL (hw m) = reg_rd RCU_PLL m
        \<and> reg_rd PMU_CTL (hw m) = reg_rd PMU_CTL m
        \<and> (\<forall>n. n \<noteq> 17 \<and> n \<noteq> 25 \<longrightarrow> rd_bit RCU_CTL n (hw m) = rd_bit RCU_CTL n m)
        \<and> (\<forall>n. n \<noteq> 2 \<and> n \<noteq> 3 \<longrightarrow> rd_bit RCU_CFG0 n (hw m) = rd_bit RCU_CFG0 n m))"

lemma wait_until_within:
  assumes "\<exists>k < d. P ((hw ^^ Suc k) m)" "d \<le> fuel"
  shows "\<exists>j. wait_until fuel hw P m = Inr ((hw ^^ Suc j) m) \<and> P ((hw ^^ Suc j) m)"
  using assms
proof (induction fuel arbitrary: m d)
  case (Suc fuel)
  show ?case
  proof (cases "P (hw m)")
    case True
    then show ?thesis by (intro exI [of _ 0]) simp
  next
    case False
    from Suc.prems(1) obtain k where k: "k < d" "P ((hw ^^ Suc k) m)" by blast
    with False obtain i where i: "k = Suc i" by (cases k) auto
    with k have "\<exists>k < d - 1. P ((hw ^^ Suc k) (hw m))" by (intro exI [of _ i]) (simp add: funpow_swap1)
    moreover have "d - 1 \<le> fuel" using Suc.prems(2) by simp
    ultimately obtain j where j: "wait_until fuel hw P (hw m) = Inr ((hw ^^ Suc j) (hw m))" "P ((hw ^^ Suc j) (hw m))"
      using Suc.IH by blast
    then show ?thesis using False by (intro exI [of _ "Suc j"]) (simp add: funpow_swap1)
  qed
qed simp

lemma funpow_keep: "(\<And>m. f (hw m) = f m) \<Longrightarrow> f ((hw ^^ n) m) = f m"
  by (induction n) simp_all

lemma clock_hw_keep:
  assumes "clock_hw d hw"
  shows "reg_rd RCU_PLL ((hw ^^ n) m) = reg_rd RCU_PLL m"
    and "reg_rd PMU_CTL ((hw ^^ n) m) = reg_rd PMU_CTL m"
    and "k \<noteq> 17 \<Longrightarrow> k \<noteq> 25 \<Longrightarrow> rd_bit RCU_CTL k ((hw ^^ n) m) = rd_bit RCU_CTL k m"
    and "k \<noteq> 2 \<Longrightarrow> k \<noteq> 3 \<Longrightarrow> rd_bit RCU_CFG0 k ((hw ^^ n) m) = rd_bit RCU_CFG0 k m"
  using assms by (simp_all add: clock_hw_def funpow_keep)

lemma clock_hw_follows:
  assumes "clock_hw d hw"
  shows "follows d hw (rd_bit RCU_CTL 16) (rd_bit RCU_CTL 17)"
    and "follows d hw (rd_bit RCU_CTL 24) (rd_bit RCU_CTL 25)"
    and "follows d hw (rd_bit PMU_CTL 16) (rd_bit PMU_CS 16)"
    and "follows d hw (rd_bit PMU_CTL 17) (rd_bit PMU_CS 17)"
    and "follows d hw (\<lambda>m. rd_bit RCU_CFG0 1 m \<and> \<not> rd_bit RCU_CFG0 0 m) (rd_bit RCU_CFG0 3)"
    and "rd_bit RCU_CFG0 3 (hw m) \<Longrightarrow> \<not> rd_bit RCU_CFG0 2 (hw m)"
  using assms by (simp_all add: clock_hw_def)

lemma wait_follows:
  assumes "follows d hw en rdy" "en m" "d \<le> fuel"
  shows "\<exists>j. wait_until fuel hw rdy m = Inr ((hw ^^ Suc j) m) \<and> rdy ((hw ^^ Suc j) m)"
  using wait_until_within [of d rdy hw m fuel] assms by (simp add: follows_def)

lemma hxtal_loop_pow: "\<exists>n. hxtal_loop left hw m = (hw ^^ n) m"
proof (induction "left" arbitrary: m)
  case 0
  show ?case by (rule exI [of _ 0]) simp
next
  case (Suc left)
  obtain n where "hxtal_loop left hw (hw m) = (hw ^^ n) (hw m)" using Suc.IH by blast
  then have "hxtal_loop left hw (hw m) = (hw ^^ Suc n) m" by (simp add: funpow_swap1)
  moreover have "hw m = (hw ^^ Suc 0) m" by simp
  ultimately show ?case unfolding hxtal_loop.simps Let_def by metis
qed

lemma flag_tests:
  "reg_rd RCU_CTL m AND RCU_CTL_HXTALSTB = 0 \<longleftrightarrow> \<not> rd_bit RCU_CTL 17 m"
  "reg_rd RCU_CTL m AND RCU_CTL_PLLSTB = 0 \<longleftrightarrow> \<not> rd_bit RCU_CTL 25 m"
  "reg_rd PMU_CS m AND PMU_CS_HDRF = 0 \<longleftrightarrow> \<not> rd_bit PMU_CS 16 m"
  "reg_rd PMU_CS m AND PMU_CS_HDSRF = 0 \<longleftrightarrow> \<not> rd_bit PMU_CS 17 m"
  by (simp_all add: rd_bit_def RCU_CTL_HXTALSTB_def RCU_CTL_PLLSTB_def PMU_CS_HDRF_def PMU_CS_HDSRF_def and_BIT_eq_0)

lemma scss_test: "reg_rd RCU_CFG0 m AND RCU_SCSS_PLLP = 0 \<longleftrightarrow> \<not> rd_bit RCU_CFG0 3 m"
proof -
  have e: "RCU_SCSS_PLLP = BIT 3"
    by (simp add: RCU_SCSS_PLLP_def BITS_def BIT_def)
  show ?thesis unfolding e by (simp add: rd_bit_def and_BIT_eq_0)
qed

lemma hxtal_wait_ok:
  assumes "clock_hw d hw" "rd_bit RCU_CTL 16 m" "d \<le> fuel"
  shows "\<exists>n. hxtal_wait fuel hw m = Inr ((hw ^^ n) m)"
proof -
  obtain n where n: "hw (hxtal_loop HXTAL_STARTUP_TIMEOUT hw m) = (hw ^^ n) m"
    using hxtal_loop_pow [of HXTAL_STARTUP_TIMEOUT hw m] by (metis funpow.simps(2) o_apply)
  have "rd_bit RCU_CTL 16 ((hw ^^ n) m)" using assms(1,2) clock_hw_keep(3) [of d hw 16] by simp
  then obtain j where "wait_until fuel hw (rd_bit RCU_CTL 17) ((hw ^^ n) m) = Inr ((hw ^^ Suc j) ((hw ^^ n) m))"
    using wait_follows [OF clock_hw_follows(1) [OF assms(1)] _ assms(3)] by blast
  then have "wait_until fuel hw (rd_bit RCU_CTL 17) ((hw ^^ n) m) = Inr ((hw ^^ (Suc j + n)) m)"
    by (simp only: funpow_add o_apply)
  then show ?thesis using n by (auto simp only: hxtal_wait_def flag_tests Let_def not_not split: if_split)
qed

lemma pll_word:
  "(25 OR push_bit 6 400 OR push_bit 16 (drop_bit 1 2 - 1) OR RCU_PLLSRC_HXTAL OR push_bit 24 9 :: u32) = 0x9406419"
  by (simp add: RCU_PLLSRC_HXTAL_def RCU_PLL_PLLSEL_def BIT_def)

lemma freq_200:
  assumes "reg_rd RCU_PLL m = 0x9406419" "GET_BITS (reg_rd RCU_CFG0 m) 2 3 = 2" "GET_BITS (reg_rd RCU_CFG0 m) 4 7 = 0"
    "GET_BITS (reg_rd RCU_CFG0 m) 10 12 = 5" "GET_BITS (reg_rd RCU_CFG0 m) 13 15 = 4"
  shows "rcu_clock_freq_get CK_SYS m = Inr 200000000 \<and> rcu_clock_freq_get CK_AHB m = Inr 200000000
    \<and> rcu_clock_freq_get CK_APB1 m = Inr 50000000 \<and> rcu_clock_freq_get CK_APB2 m = Inr 100000000"
proof -
  have "cksys_freq_get m = Inr 200000000"
    using assms(1,2) by (simp add: cksys_freq_get_def Let_def GET_BITS_def BITS_def RCU_PLLSRC_HXTAL_def
        RCU_PLL_PLLSEL_def BIT_def HXTAL_VALUE_def)
  then show ?thesis
    using assms(3-5) by (simp add: rcu_clock_freq_get_def Let_def ahb_exp_def apb_exp_def)
qed

lemma GET_BITS_horner:
  "e < 32 \<Longrightarrow> s \<le> e \<Longrightarrow> GET_BITS r s e = horner_sum of_bool 2 (map (bit r) [s..<Suc e])"
  by (rule bit_word_eqI) (auto simp: bit_GET_BITS bit_horner_sum_bit_iff possible_bit_word nth_append add.commute simp del: upt_Suc)

definition prescaler_bits :: "nat set" where
  "prescaler_bits = {4, 5, 6, 7, 10, 11, 12, 13, 14, 15}"

definition prescaled :: "mem \<Rightarrow> bool" where
  "prescaled m \<longleftrightarrow> reg_rd RCU_PLL m = 0x9406419
     \<and> (\<forall>n \<in> prescaler_bits. rd_bit RCU_CFG0 n m = (n \<in> {10, 12, 15}))"

lemma clock_regs_distinct:
  "RCU_CFG0 \<noteq> RCU_CTL" "RCU_CFG0 \<noteq> RCU_PLL" "RCU_CFG0 \<noteq> PMU_CTL" "RCU_CFG0 \<noteq> RCU_APB1EN" "RCU_PLL \<noteq> RCU_CTL"
  "RCU_PLL \<noteq> RCU_CFG0" "RCU_PLL \<noteq> PMU_CTL" "RCU_CTL \<noteq> PMU_CTL" "PMU_CTL \<noteq> RCU_CTL" "RCU_CTL \<noteq> RCU_CFG0"
  by (simp_all add: rcu_regs PMU_CTL_def)

lemma rd_bit_set: "a \<noteq> b \<Longrightarrow> rd_bit a n (reg_set b v m) = rd_bit a n m"
  by (simp add: rd_bit_def)

lemma prescaled_hw: "clock_hw d hw \<Longrightarrow> prescaled ((hw ^^ n) m) = prescaled m"
  by (auto simp: prescaled_def prescaler_bits_def clock_hw_keep)

lemma prescaled_set [simp]:
  "prescaled (reg_set RCU_CTL v m) = prescaled m" "prescaled (reg_set PMU_CTL v m) = prescaled m"
  using clock_regs_distinct by (simp_all add: prescaled_def rd_bit_def)

lemma prescaler_words:
  "RCU_AHB_CKSYS_DIV1 = 0" "RCU_APB2_CKAHB_DIV2 = BIT 15" "RCU_APB1_CKAHB_DIV4 = BIT 10 OR BIT 12"
  by (simp_all add: RCU_AHB_CKSYS_DIV1_def RCU_APB2_CKAHB_DIV2_def RCU_APB1_CKAHB_DIV4_def BITS_def BIT_def)

lemma prescaled_written:
  assumes "\<forall>n \<in> prescaler_bits. \<not> rd_bit RCU_CFG0 n m"
  shows "prescaled (reg_wr RCU_PLL 0x9406419 (reg_set RCU_CFG0 RCU_APB1_CKAHB_DIV4 (reg_set RCU_CFG0 RCU_APB2_CKAHB_DIV2
    (reg_set RCU_CFG0 RCU_AHB_CKSYS_DIV1 (reg_set PMU_CTL PMU_CTL_LDOVS (reg_set RCU_APB1EN RCU_APB1EN_PMUEN m))))))"
  using clock_regs_distinct assms
  by (auto simp: prescaled_def prescaler_bits_def rd_bit_def prescaler_words bit_or_iff)

lemma wait_stage:
  assumes "clock_hw d hw" "follows d hw en rdy" "en m" "d \<le> fuel" "prescaled m"
  shows "\<exists>t. wait_until fuel hw rdy m = Inr t \<and> prescaled t"
  using wait_follows [OF assms(2-4)] prescaled_hw [OF assms(1)] assms(5) by blast

lemma switch_word:
  defines "v \<equiv> \<lambda>r. (r AND NOT RCU_CFG0_SCS) OR RCU_CKSYSSRC_PLLP"
  shows "bit (v r) n = (if n = 0 then False else if n = 1 then True else bit r n)"
proof -
  have e: "RCU_CKSYSSRC_PLLP = BIT 1" by (simp add: RCU_CKSYSSRC_PLLP_def BITS_def BIT_def)
  show ?thesis unfolding v_def e RCU_CFG0_SCS_def
    by (auto simp: bit_or_iff bit_and_iff bit_not_iff dest: bit_imp_le_length)
qed

lemma switch_stage:
  assumes "clock_hw d hw" "d \<le> fuel" "prescaled m"
  shows "\<exists>t. wait_until fuel hw (rd_bit RCU_CFG0 3) (reg_wr RCU_CFG0 ((reg_rd RCU_CFG0 m AND NOT RCU_CFG0_SCS) OR RCU_CKSYSSRC_PLLP) m) = Inr t
    \<and> prescaled t \<and> rd_bit RCU_CFG0 3 t \<and> \<not> rd_bit RCU_CFG0 2 t"
proof -
  let ?m = "reg_wr RCU_CFG0 ((reg_rd RCU_CFG0 m AND NOT RCU_CFG0_SCS) OR RCU_CKSYSSRC_PLLP) m"
  have "prescaled ?m" using assms(3) clock_regs_distinct by (auto simp: prescaled_def rd_bit_def switch_word prescaler_bits_def)
  moreover have "rd_bit RCU_CFG0 1 ?m \<and> \<not> rd_bit RCU_CFG0 0 ?m" by (simp add: rd_bit_def switch_word)
  then obtain j where "wait_until fuel hw (rd_bit RCU_CFG0 3) ?m = Inr ((hw ^^ Suc j) ?m)" "rd_bit RCU_CFG0 3 ((hw ^^ Suc j) ?m)"
    using wait_follows [OF clock_hw_follows(5) [OF assms(1)] _ assms(2)] by blast
  ultimately show ?thesis
    using prescaled_hw [OF assms(1), of "Suc j" ?m] clock_hw_follows(6) [OF assms(1), of "(hw ^^ j) ?m"] by simp
qed

lemma prescaled_fields:
  assumes "prescaled m" "rd_bit RCU_CFG0 3 m" "\<not> rd_bit RCU_CFG0 2 m"
  shows "GET_BITS (reg_rd RCU_CFG0 m) 2 3 = 2" "GET_BITS (reg_rd RCU_CFG0 m) 4 7 = 0"
    "GET_BITS (reg_rd RCU_CFG0 m) 10 12 = 5" "GET_BITS (reg_rd RCU_CFG0 m) 13 15 = 4"
proof -
  let ?r = "reg_rd RCU_CFG0 m"
  have b: "bit ?r 3" "\<not> bit ?r 2" "\<forall>n \<in> prescaler_bits. bit ?r n = (n \<in> {10, 12, 15})"
    using assms by (simp_all add: prescaled_def rd_bit_def)
  show "GET_BITS ?r 2 3 = 2" "GET_BITS ?r 4 7 = 0" "GET_BITS ?r 10 12 = 5" "GET_BITS ?r 13 15 = 4"
    using b by (simp_all add: GET_BITS_horner upt_rec prescaler_bits_def)
qed

lemma clock_25MHz:
  assumes "clock_hw d hw" "d \<le> fuel" "\<forall>n \<in> prescaler_bits. \<not> rd_bit RCU_CFG0 n m"
  shows "\<exists>t. SettingSystemClock25MHz fuel hw m = Inr t \<and> prescaled t \<and> rd_bit RCU_CFG0 3 t \<and> \<not> rd_bit RCU_CFG0 2 t"
proof -
  have en: "rd_bit RCU_CTL 16 (reg_set RCU_CTL RCU_CTL_HXTALEN k)" "rd_bit RCU_CTL 24 (reg_set RCU_CTL RCU_CTL_PLLEN k)"
    "rd_bit PMU_CTL 16 (reg_set PMU_CTL PMU_CTL_HDEN k)" "rd_bit PMU_CTL 17 (reg_set PMU_CTL PMU_CTL_HDS k)" for k
    by (simp_all add: rd_bit_def bit_or_iff RCU_CTL_HXTALEN_def RCU_CTL_PLLEN_def PMU_CTL_HDEN_def PMU_CTL_HDS_def)
  obtain n where n: "hxtal_wait fuel hw (reg_set RCU_CTL RCU_CTL_HXTALEN m) = Inr ((hw ^^ n) (reg_set RCU_CTL RCU_CTL_HXTALEN m))"
    using hxtal_wait_ok [OF assms(1) en(1) assms(2)] by blast
  have "\<forall>k \<in> prescaler_bits. \<not> rd_bit RCU_CFG0 k ((hw ^^ n) (reg_set RCU_CTL RCU_CTL_HXTALEN m))"
    using assms(3) clock_regs_distinct by (auto simp: clock_hw_keep(4) [OF assms(1)] rd_bit_set prescaler_bits_def)
  note w = prescaled_written [OF this]
  note ws = wait_stage [OF assms(1) _ _ assms(2)] and f = clock_hw_follows [OF assms(1)]
  obtain a where a: "wait_until fuel hw (rd_bit RCU_CTL 25) (reg_set RCU_CTL RCU_CTL_PLLEN
      (reg_wr RCU_PLL 0x9406419 (reg_set RCU_CFG0 RCU_APB1_CKAHB_DIV4 (reg_set RCU_CFG0 RCU_APB2_CKAHB_DIV2
      (reg_set RCU_CFG0 RCU_AHB_CKSYS_DIV1 (reg_set PMU_CTL PMU_CTL_LDOVS (reg_set RCU_APB1EN RCU_APB1EN_PMUEN
      ((hw ^^ n) (reg_set RCU_CTL RCU_CTL_HXTALEN m))))))))) = Inr a" "prescaled a"
    using ws [OF f(2) en(2) iffD2 [OF prescaled_set(1) w]] by blast
  obtain b where b: "wait_until fuel hw (rd_bit PMU_CS 16) (reg_set PMU_CTL PMU_CTL_HDEN a) = Inr b" "prescaled b"
    using ws [OF f(3) en(3) iffD2 [OF prescaled_set(2) a(2)]] by blast
  obtain c where c: "wait_until fuel hw (rd_bit PMU_CS 17) (reg_set PMU_CTL PMU_CTL_HDS b) = Inr c" "prescaled c"
    using ws [OF f(4) en(4) iffD2 [OF prescaled_set(2) b(2)]] by blast
  show ?thesis
    using switch_stage [OF assms(1,2) c(2)]
    by (simp only: SettingSystemClock25MHz_def n bind_res_simps Let_def pll_word flag_tests scss_test not_not a b c)
qed

section \<open>Properties\<close>

text \<open>
  C21: the clock set-up. With a crystal and a PLL whose ready bits come within \<open>d\<close> reads, fuel \<open>d\<close> is
  enough for every busy wait, and from the reset value of the prescalers the function returns with
  a core and AHB clock of 200 MHz, 50 MHz on APB1 and 100 MHz on APB2, the bus of USART0 and USART5,
  as \<^verbatim>\<open>rcu_clock_freq_get\<close> reports them.
\<close>

theorem clock_set_up:
  assumes "clock_hw d hw" "d \<le> fuel" "\<forall>n \<in> prescaler_bits. \<not> rd_bit RCU_CFG0 n m"
  shows "\<exists>t. SettingSystemClock25MHz fuel hw m = Inr t
    \<and> rcu_clock_freq_get CK_SYS t = Inr 200000000 \<and> rcu_clock_freq_get CK_AHB t = Inr 200000000
    \<and> rcu_clock_freq_get CK_APB1 t = Inr 50000000 \<and> rcu_clock_freq_get CK_APB2 t = Inr 100000000"
proof -
  obtain t where t: "SettingSystemClock25MHz fuel hw m = Inr t" "prescaled t" "rd_bit RCU_CFG0 3 t" "\<not> rd_bit RCU_CFG0 2 t"
    using clock_25MHz [OF assms] by blast
  with freq_200 [OF _ prescaled_fields [OF t(2-4)]] show ?thesis by (simp add: prescaled_def)
qed

text \<open>A board whose ready bits follow at the next read.\<close>

definition prompt_hw :: "mem \<Rightarrow> mem" where
  "prompt_hw m = m
     (RCU_CTL := (m RCU_CTL AND NOT (BIT 17 OR BIT 25)) OR (if bit (m RCU_CTL) 16 then BIT 17 else 0) OR (if bit (m RCU_CTL) 24 then BIT 25 else 0),
      PMU_CS := (if bit (m PMU_CTL) 16 then BIT 16 else 0) OR (if bit (m PMU_CTL) 17 then BIT 17 else 0),
      RCU_CFG0 := (m RCU_CFG0 AND NOT (BIT 2 OR BIT 3)) OR
        (if bit (m RCU_CFG0) 1 \<and> \<not> bit (m RCU_CFG0) 0 then BIT 3 else 0))"

lemma prompt_hw_regs:
  "reg_rd RCU_CTL (prompt_hw m) = (m RCU_CTL AND NOT (BIT 17 OR BIT 25)) OR (if bit (m RCU_CTL) 16 then BIT 17 else 0) OR (if bit (m RCU_CTL) 24 then BIT 25 else 0)"
  "reg_rd PMU_CS (prompt_hw m) = (if bit (m PMU_CTL) 16 then BIT 16 else 0) OR (if bit (m PMU_CTL) 17 then BIT 17 else 0)"
  "reg_rd RCU_CFG0 (prompt_hw m) = (m RCU_CFG0 AND NOT (BIT 2 OR BIT 3)) OR (if bit (m RCU_CFG0) 1 \<and> \<not> bit (m RCU_CFG0) 0 then BIT 3 else 0)"
  "reg_rd RCU_PLL (prompt_hw m) = reg_rd RCU_PLL m" "reg_rd PMU_CTL (prompt_hw m) = reg_rd PMU_CTL m"
  by (simp_all add: prompt_hw_def reg_rd_def rcu_regs PMU_CTL_def PMU_CS_def)

lemma prompt_hw: "clock_hw 1 prompt_hw"
proof -
  have b: "bit (NOT (BIT i)) n \<longleftrightarrow> n < 32 \<and> n \<noteq> i" for i n
    by (auto simp: bit_not_iff possible_bit_word)
  have lt: "bit (w :: u32) n \<Longrightarrow> n < 32" for w n using bit_imp_le_length [of w n] by simp
  have f: "follows 1 prompt_hw en rdy" if "\<And>m. en m \<Longrightarrow> rdy (prompt_hw m)" for en rdy
    using that by (simp add: follows_def)
  have k: "rd_bit RCU_CTL n (prompt_hw m) = rd_bit RCU_CTL n m" if "n \<noteq> 17" "n \<noteq> 25" for n m
    using that unfolding rd_bit_def prompt_hw_regs by (auto simp: reg_rd_def bit_or_iff bit_and_iff b lt)
  have c: "rd_bit RCU_CFG0 n (prompt_hw m) = rd_bit RCU_CFG0 n m" if "n \<noteq> 2" "n \<noteq> 3" for n m
    using that unfolding rd_bit_def prompt_hw_regs by (auto simp: reg_rd_def bit_or_iff bit_and_iff b lt)
  have e: "\<not> rd_bit RCU_CFG0 2 (prompt_hw m)" for m
    by (auto simp: rd_bit_def prompt_hw_regs bit_or_iff bit_and_iff b)
  show ?thesis
    unfolding clock_hw_def
    by (intro conjI allI f impI) (auto simp: k c e prompt_hw_regs(4,5), auto simp: rd_bit_def prompt_hw_regs bit_or_iff, auto simp: reg_rd_def)
qed

theorem clock_set_up_witness:
  "\<exists>t. SettingSystemClock25MHz 1 prompt_hw (\<lambda>_. 0) = Inr t \<and> rcu_clock_freq_get CK_APB2 t = Inr 100000000"
  using clock_set_up [OF prompt_hw order.refl, of "\<lambda>_. 0"] by (auto simp: rd_bit_def reg_rd_def)

text \<open>
  C36: there is no fall-back clock. When the crystal never becomes ready the set-up never returns:
  the bounded wait of \<^verbatim>\<open>HXTAL_STARTUP_TIMEOUT\<close> reads is followed by an unbounded one, whatever
  the fuel.
\<close>

theorem clock_hangs_without_crystal:
  assumes "\<And>k. \<not> rd_bit RCU_CTL 17 ((hw ^^ Suc k) (reg_set RCU_CTL RCU_CTL_HXTALEN m))"
  shows "SettingSystemClock25MHz fuel hw m = Inl Hang"
proof -
  let ?m = "reg_set RCU_CTL RCU_CTL_HXTALEN m"
  obtain n where "hxtal_loop HXTAL_STARTUP_TIMEOUT hw ?m = (hw ^^ n) ?m"
    using hxtal_loop_pow by blast
  then have n: "hw (hxtal_loop HXTAL_STARTUP_TIMEOUT hw ?m) = (hw ^^ Suc n) ?m" by simp
  have "wait_until fuel hw (rd_bit RCU_CTL 17) ((hw ^^ Suc n) ?m) = Inl Hang"
  proof (rule wait_until_never)
    show "\<not> rd_bit RCU_CTL 17 ((hw ^^ Suc k) ((hw ^^ Suc n) ?m))" for k
      using assms [of "k + Suc n"] funpow_add [of "Suc k" "Suc n" hw] by (simp only: o_apply add_Suc not_False_eq_True)
  qed
  then show ?thesis
    using assms [of n]
    by (simp only: SettingSystemClock25MHz_def hxtal_wait_def Let_def n flag_tests not_not if_True not_False_eq_True bind_res_simps)
qed

theorem clock_hangs_without_crystal_witness:
  "SettingSystemClock25MHz 1000000 (\<lambda>m. m) (\<lambda>_. 0) = Inl Hang"
proof (rule clock_hangs_without_crystal)
  fix k
  have "((\<lambda>m. m) ^^ Suc k) = (\<lambda>m. m :: mem)" by (induction k) (simp_all add: fun_eq_iff)
  then show "\<not> rd_bit RCU_CTL 17 (((\<lambda>m. m) ^^ Suc k) (reg_set RCU_CTL RCU_CTL_HXTALEN (\<lambda>_. 0)))"
    by (simp only:) (simp add: rd_bit_def bit_or_iff RCU_CTL_HXTALEN_def, simp add: reg_rd_def)
qed

lemma timer_init_regs:
  assumes "t \<in> {TIMER4, TIMER6}"
  shows "reg_rd (TIMER_PSC t) (timer_init t p m) = ucast (prescaler p)"
    and "reg_rd (TIMER_CAR t) (timer_init t p m) = period p"
  using assms by (auto simp: timer_init_def Let_def timer_regs timer_periphs)

lemma timer_irq_regs:
  "reg_rd (TIMER_PSC t) (periph (timer_irq n k t s)) = reg_rd (TIMER_PSC t) (periph s)"
  "reg_rd (TIMER_CAR t) (periph (timer_irq n k t s)) = reg_rd (TIMER_CAR t) (periph s)"
  "bit (reg_rd (TIMER_CTL0 t) (periph (timer_irq n k t s))) 0"
  "bit (reg_rd (TIMER_DMAINTEN t) (periph (timer_irq n k t s))) 0"
  "\<not> bit (reg_rd (TIMER_INTF t) (periph (timer_irq n k t s))) 0"
  by (simp_all add: timer_irq_def timer_enable_def timer_interrupt_flag_clear_def timer_interrupt_enable_def timer_regs
      TIMER_CTL0_CEN_def TIMER_INT_UP_def TIMER_INT_FLAG_UP_def TIMER_DMAINTEN_UPIE_def TIMER_INTF_UPIF_def bit_or_iff bit_not_iff)

text \<open>
  The clock of the timers on APB1. With the bit \<^verbatim>\<open>TIMERSEL\<close> of \<^verbatim>\<open>RCU_CFG1\<close> clear (the comment of
  \<^verbatim>\<open>rcu_timer_clock_prescaler_config\<close>, \<^verbatim>\<open>RCU_TIMER_PSC_MUL2\<close>): the AHB clock when the APB1 divider is 1 or
  2, and twice the APB1 clock otherwise. The program never writes \<^verbatim>\<open>RCU_CFG1\<close>.
\<close>

definition apb1_timer_clock :: "mem \<Rightarrow> u32 res" where
  "apb1_timer_clock m =
     (let psc = GET_BITS (reg_rd RCU_CFG0 m) 10 12;
          four = bit (reg_rd RCU_CFG1 m) 24
      in if psc < 4 \<or> psc = 4 \<or> (four \<and> psc = 5) then rcu_clock_freq_get CK_AHB m
         else bind_res (rcu_clock_freq_get CK_APB1 m) (\<lambda>f. Inr ((if four then 4 else 2) * f)))"

text \<open>Ticks of the timer clock from a restart of the counter to its update event.\<close>

definition timer_ticks :: "u32 \<Rightarrow> mem \<Rightarrow> nat" where
  "timer_ticks t m = (unat (reg_rd (TIMER_PSC t) m) + 1) * (unat (reg_rd (TIMER_CAR t) m) + 1)"

text \<open>A register that neither the hardware nor the clock set-up writes keeps its value.\<close>

lemma wait_until_keep:
  "wait_until fuel hw P m = Inr t \<Longrightarrow> (\<And>m. f (hw m) = f m) \<Longrightarrow> f t = f m"
  by (induction fuel hw P m rule: wait_until.induct) (auto simp: Let_def split: if_splits)

lemma hxtal_wait_keep:
  assumes "hxtal_wait fuel hw m = Inr t" "\<And>m. f (hw m) = f m"
  shows "f t = f m"
proof -
  obtain n where "hxtal_loop HXTAL_STARTUP_TIMEOUT hw m = (hw ^^ n) m" using hxtal_loop_pow by blast
  then show ?thesis
    using assms(1) wait_until_keep [of fuel hw _ _ t f, OF _ assms(2)]
    by (auto simp: hxtal_wait_def Let_def assms(2) funpow_keep [where f = f, OF assms(2)] split: if_splits)
qed

lemma clock_25MHz_keep:
  assumes "SettingSystemClock25MHz fuel hw m = Inr t" "\<And>m. reg_rd a (hw m) = reg_rd a m"
    "a \<notin> {RCU_CTL, RCU_CFG0, RCU_PLL, RCU_APB1EN, PMU_CTL}"
  shows "reg_rd a t = reg_rd a m"
  using assms(1,3)
  by (auto simp: SettingSystemClock25MHz_def Let_def bind_res_eq_Inr
      dest!: hxtal_wait_keep [where f = "reg_rd a", OF _ assms(2)] wait_until_keep [where f = "reg_rd a", OF _ assms(2)])

text \<open>
  C37: the two end-of-frame timers, on the clock that \<^verbatim>\<open>SettingSystemClock25MHz\<close> leaves. From the reset value of
  the prescalers and of \<^verbatim>\<open>TIMERSEL\<close>, with ready bits that come within \<open>d\<close> reads, the clock set-up
  returns, the timers of APB1 run at \<open>f\<close> ticks a second, and the time from a restart of TIMER4 to its
  update event lies strictly between one and two characters of 10 bits at \<^verbatim>\<open>USART_BAUDRATE\<close> (\<open>ticks / f\<close>
  against \<open>10 / baud\<close> and \<open>20 / baud\<close>, multiplied out), on whatever board the configuration runs: the
  frame of USART5 does not end between two characters sent back to back, and ends before a second
  character time has gone by. TIMER2, the timer of USART0, is started and its interrupt enabled in
  the same way, but its prescaler and reload registers keep the values they had, whatever they were.
\<close>

theorem end_of_frame_timers:
  assumes "clock_hw d hw" "d \<le> fuel" "\<forall>n \<in> prescaler_bits. \<not> rd_bit RCU_CFG0 n m"
    "\<And>m. reg_rd RCU_CFG1 (hw m) = reg_rd RCU_CFG1 m" "\<not> rd_bit RCU_CFG1 24 m"
  shows "\<exists>t f. SettingSystemClock25MHz fuel hw m = Inr t \<and> apb1_timer_clock t = Inr f
    \<and> (let u = periph (Timer4_config \<lparr> periph = t, nvic = n \<rparr>);
           baud = unat USART_BAUDRATE
       in 10 * unat f < timer_ticks TIMER4 u * baud \<and> timer_ticks TIMER4 u * baud < 20 * unat f
        \<and> bit (reg_rd (TIMER_CTL0 TIMER4) u) 0 \<and> bit (reg_rd (TIMER_DMAINTEN TIMER4) u) 0 \<and> \<not> bit (reg_rd (TIMER_INTF TIMER4) u) 0)
    \<and> (let u = periph (Timer2_config \<lparr> periph = t, nvic = n \<rparr>)
       in reg_rd (TIMER_PSC TIMER2) u = reg_rd (TIMER_PSC TIMER2) t \<and> reg_rd (TIMER_CAR TIMER2) u = reg_rd (TIMER_CAR TIMER2) t
        \<and> bit (reg_rd (TIMER_CTL0 TIMER2) u) 0 \<and> bit (reg_rd (TIMER_DMAINTEN TIMER2) u) 0)"
proof -
  obtain t where t: "SettingSystemClock25MHz fuel hw m = Inr t" "prescaled t" "rd_bit RCU_CFG0 3 t" "\<not> rd_bit RCU_CFG0 2 t"
    using clock_25MHz [OF assms(1-3)] by blast
  have "reg_rd RCU_CFG1 t = reg_rd RCU_CFG1 m"
    by (rule clock_25MHz_keep [OF t(1) assms(4)]) (simp add: rcu_regs PMU_CTL_def)
  then have c: "\<not> bit (reg_rd RCU_CFG1 t) 24" using assms(5) by (simp add: rd_bit_def)
  have "rcu_clock_freq_get CK_APB1 t = Inr 50000000"
    using freq_200 [OF _ prescaled_fields [OF t(2-4)]] t(2) by (simp add: prescaled_def)
  then have "apb1_timer_clock t = Inr 100000000"
    using c prescaled_fields(3) [OF t(2-4)] by (simp add: apb1_timer_clock_def)
  then show ?thesis using t(1)
    by (simp add: timer_ticks_def Timer4_config_def Timer2_config_def timer_irq_regs timer_init_regs rx_end_para_def
      PRESCALER_USAT_TIM_def TIMERATE_USART_def USART_BAUDRATE_def Let_def)
qed

theorem end_of_frame_timers_witness:
  "\<exists>t f. SettingSystemClock25MHz 1 prompt_hw (\<lambda>_. 0) = Inr t \<and> apb1_timer_clock t = Inr f
     \<and> 10 * unat f < timer_ticks TIMER4 (periph (Timer4_config \<lparr> periph = t, nvic = nvic clocked \<rparr>)) * 5000000"
proof -
  have k: "reg_rd RCU_CFG1 (prompt_hw m) = reg_rd RCU_CFG1 m" for m
    by (simp add: prompt_hw_def reg_rd_def rcu_regs PMU_CS_def)
  show ?thesis
    using end_of_frame_timers [OF prompt_hw order.refl _ k, of "\<lambda>_. 0" "nvic clocked"]
    by (auto simp: rd_bit_def reg_rd_def USART_BAUDRATE_def Let_def)
qed

end
