(* ===== verification/Enet.thy ===== *)
theory Enet
  imports Mmio
begin

text \<open>
  The descriptor rings of the Ethernet controller, \<^verbatim>\<open>gd32f4xx_enet.c\<close>, in the normal
  descriptor mode of this build. The two descriptor tables and the two buffer arrays are lists with
  the addresses where the linker puts them; a pointer is a 32-bit address, and following one that does
  not point at a descriptor of the table, or reading outside a buffer array, is the fault
  \<open>Out_Of_Bounds\<close>. The controller itself is the environment: it fills and releases the
  descriptors it owns.
\<close>

section \<open>Registers and constants of \<^verbatim>\<open>gd32f4xx_enet.h\<close>\<close>

definition ENET :: u32 where "ENET = 0x40028000"
definition ENET_MAC_CFG :: u32 where "ENET_MAC_CFG = ENET + 0x0000"
definition ENET_DMA_BCTL :: u32 where "ENET_DMA_BCTL = ENET + 0x1000"
definition ENET_DMA_TPEN :: u32 where "ENET_DMA_TPEN = ENET + 0x1004"
definition ENET_DMA_RPEN :: u32 where "ENET_DMA_RPEN = ENET + 0x1008"
definition ENET_DMA_RDTADDR :: u32 where "ENET_DMA_RDTADDR = ENET + 0x100C"
definition ENET_DMA_TDTADDR :: u32 where "ENET_DMA_TDTADDR = ENET + 0x1010"
definition ENET_DMA_STAT :: u32 where "ENET_DMA_STAT = ENET + 0x1014"
definition ENET_DMA_CRDADDR :: u32 where "ENET_DMA_CRDADDR = ENET + 0x104C"
definition ENET_ADDRH_BASE :: u32 where "ENET_ADDRH_BASE = ENET + 0x40"
definition ENET_ADDRL_BASE :: u32 where "ENET_ADDRL_BASE = ENET + 0x44"

lemmas enet_regs [reg_simps] =
  ENET_def ENET_MAC_CFG_def ENET_DMA_BCTL_def ENET_DMA_TPEN_def ENET_DMA_RPEN_def ENET_DMA_RDTADDR_def
  ENET_DMA_TDTADDR_def ENET_DMA_STAT_def ENET_DMA_CRDADDR_def ENET_ADDRH_BASE_def ENET_ADDRL_BASE_def

definition ENET_MAC_CFG_TFCD :: u32 where "ENET_MAC_CFG_TFCD = BIT 25"
definition ENET_DMA_BCTL_DPSL :: u32 where "ENET_DMA_BCTL_DPSL = BITS 2 6"
definition ENET_DMA_STAT_TBU :: u32 where "ENET_DMA_STAT_TBU = BIT 2"
definition ENET_DMA_STAT_TU :: u32 where "ENET_DMA_STAT_TU = BIT 5"
definition ENET_DMA_STAT_RBU :: u32 where "ENET_DMA_STAT_RBU = BIT 7"
definition ENET_TDES0_TCHM :: u32 where "ENET_TDES0_TCHM = BIT 20"
definition ENET_TDES0_TERM :: u32 where "ENET_TDES0_TERM = BIT 21"
definition ENET_TDES0_CM :: u32 where "ENET_TDES0_CM = BITS 22 23"
definition ENET_TDES0_FSG :: u32 where "ENET_TDES0_FSG = BIT 28"
definition ENET_TDES0_LSG :: u32 where "ENET_TDES0_LSG = BIT 29"
definition ENET_TDES0_DAV :: u32 where "ENET_TDES0_DAV = BIT 31"
definition ENET_RDES0_PCERR :: u32 where "ENET_RDES0_PCERR = BIT 0"
definition ENET_RDES0_FRMT :: u32 where "ENET_RDES0_FRMT = BIT 5"
definition ENET_RDES0_LDES :: u32 where "ENET_RDES0_LDES = BIT 8"
definition ENET_RDES0_FDES :: u32 where "ENET_RDES0_FDES = BIT 9"
definition ENET_RDES0_ERRS :: u32 where "ENET_RDES0_ERRS = BIT 15"
definition ENET_RDES0_DAV :: u32 where "ENET_RDES0_DAV = BIT 31"
definition ENET_RDES1_RCHM :: u32 where "ENET_RDES1_RCHM = BIT 14"
definition ENET_RDES1_RERM :: u32 where "ENET_RDES1_RERM = BIT 15"
definition ENET_RDES1_DINTC :: u32 where "ENET_RDES1_DINTC = BIT 31"

lemmas enet_bits =
  ENET_MAC_CFG_TFCD_def ENET_DMA_STAT_TBU_def ENET_DMA_STAT_TU_def ENET_DMA_STAT_RBU_def ENET_TDES0_TCHM_def
  ENET_TDES0_TERM_def ENET_TDES0_FSG_def ENET_TDES0_LSG_def ENET_TDES0_DAV_def ENET_RDES0_PCERR_def ENET_RDES0_FRMT_def
  ENET_RDES0_LDES_def ENET_RDES0_FDES_def ENET_RDES0_ERRS_def ENET_RDES0_DAV_def ENET_RDES1_RCHM_def ENET_RDES1_RERM_def
  ENET_RDES1_DINTC_def

definition GET_RDES0_FRML :: "u32 \<Rightarrow> u32" where "GET_RDES0_FRML regval = GET_BITS regval 16 29"
definition GET_RDES1_RB1S :: "u32 \<Rightarrow> u32" where "GET_RDES1_RB1S regval = GET_BITS regval 0 12"
definition GET_RDES1_RB2S :: "u32 \<Rightarrow> u32" where "GET_RDES1_RB2S regval = GET_BITS regval 16 28"
definition GET_TDES0_COCNT :: "u32 \<Rightarrow> u32" where "GET_TDES0_COCNT regval = GET_BITS regval 3 6"
definition GET_DMA_BCTL_DPSL :: "u32 \<Rightarrow> u32" where "GET_DMA_BCTL_DPSL regval = GET_BITS regval 2 6"
definition DMA_BCTL_DPSL :: "u32 \<Rightarrow> u32" where "DMA_BCTL_DPSL regval = BITS 2 6 AND push_bit 2 regval"

definition ENET_RXBUF_NUM :: nat where "ENET_RXBUF_NUM = 5"
definition ENET_TXBUF_NUM :: nat where "ENET_TXBUF_NUM = 5"
definition ENET_MAX_FRAME_SIZE :: nat where "ENET_MAX_FRAME_SIZE = 1524"
definition ENET_RXBUF_SIZE :: nat where "ENET_RXBUF_SIZE = ENET_MAX_FRAME_SIZE"
definition ENET_TXBUF_SIZE :: nat where "ENET_TXBUF_SIZE = ENET_MAX_FRAME_SIZE"
definition ETH_DMATXDESC_SIZE :: u32 where "ETH_DMATXDESC_SIZE = 0x10"
definition ETH_DMARXDESC_SIZE :: u32 where "ETH_DMARXDESC_SIZE = 0x10"

lemmas enet_sizes =
  ENET_RXBUF_NUM_def ENET_TXBUF_NUM_def ENET_MAX_FRAME_SIZE_def ENET_RXBUF_SIZE_def ENET_TXBUF_SIZE_def
  ETH_DMATXDESC_SIZE_def ETH_DMARXDESC_SIZE_def

section \<open>State\<close>

record enet_descriptors_struct =
  desc_status :: u32
  control_buffer_size :: u32
  buffer1_addr :: u32
  buffer2_next_desc_addr :: u32

record enet =
  enet_mem :: mem
  rxdesc_tab :: "enet_descriptors_struct list"
  txdesc_tab :: "enet_descriptors_struct list"
  rx_buff :: "u8 list"
  tx_buff :: "u8 list"
  dma_current_rxdesc :: u32
  dma_current_txdesc :: u32
  dma_current_ptp_rxdesc :: u32
  dma_current_ptp_txdesc :: u32
  ptp_desc :: "u32 \<Rightarrow> enet_descriptors_struct option"
  enet_unknow_err :: u32
  rxdesc_at :: u32
  txdesc_at :: u32
  rx_buff_at :: u32
  tx_buff_at :: u32

text \<open>Following a pointer into a descriptor table.\<close>

definition desc_index :: "u32 \<Rightarrow> 'a list \<Rightarrow> u32 \<Rightarrow> nat res" where
  "desc_index base tab p =
     (let off = unat (p - base)
      in if off mod 16 = 0 \<and> off div 16 < length tab then Inr (off div 16) else Inl Out_Of_Bounds)"

definition rx_desc :: "enet \<Rightarrow> enet_descriptors_struct res" where
  "rx_desc s = bind_res (desc_index (rxdesc_at s) (rxdesc_tab s) (dma_current_rxdesc s)) (\<lambda>i. Inr (rxdesc_tab s ! i))"

definition tx_desc :: "enet \<Rightarrow> enet_descriptors_struct res" where
  "tx_desc s = bind_res (desc_index (txdesc_at s) (txdesc_tab s) (dma_current_txdesc s)) (\<lambda>i. Inr (txdesc_tab s ! i))"

definition set_rx_desc :: "(enet_descriptors_struct \<Rightarrow> enet_descriptors_struct) \<Rightarrow> enet \<Rightarrow> enet res" where
  "set_rx_desc f s = bind_res (desc_index (rxdesc_at s) (rxdesc_tab s) (dma_current_rxdesc s)) (\<lambda>i.
     Inr (s\<lparr> rxdesc_tab := (rxdesc_tab s)[i := f (rxdesc_tab s ! i)] \<rparr>))"

definition set_tx_desc :: "(enet_descriptors_struct \<Rightarrow> enet_descriptors_struct) \<Rightarrow> enet \<Rightarrow> enet res" where
  "set_tx_desc f s = bind_res (desc_index (txdesc_at s) (txdesc_tab s) (dma_current_txdesc s)) (\<lambda>i.
     Inr (s\<lparr> txdesc_tab := (txdesc_tab s)[i := f (txdesc_tab s ! i)] \<rparr>))"

text \<open>Copying \<open>n\<close> bytes from, or the bytes \<open>bs\<close> to, the address \<open>a\<close> of a buffer array.\<close>

definition buf_read :: "u32 \<Rightarrow> u8 list \<Rightarrow> u32 \<Rightarrow> nat \<Rightarrow> u8 list res" where
  "buf_read base buf a n =
     (let off = unat (a - base) in if off + n \<le> length buf then Inr (take n (drop off buf)) else Inl Out_Of_Bounds)"

definition buf_write :: "u32 \<Rightarrow> u8 list \<Rightarrow> u32 \<Rightarrow> u8 list \<Rightarrow> u8 list res" where
  "buf_write base buf a bs =
     (let off = unat (a - base)
      in if off + length bs \<le> length buf then Inr (take off buf @ bs @ drop (off + length bs) buf) else Inl Out_Of_Bounds)"

section \<open>Initialisation of the tables\<close>

datatype enet_dmadirection_enum = ENET_DMA_TX | ENET_DMA_RX

definition chain_desc :: "u32 \<Rightarrow> u32 \<Rightarrow> nat \<Rightarrow> nat \<Rightarrow> u32 \<Rightarrow> u32 \<Rightarrow> nat \<Rightarrow> enet_descriptors_struct" where
  "chain_desc desc_tab buf count maxsize st bufsize num =
     \<lparr> desc_status = st, control_buffer_size = bufsize, buffer1_addr = buf + of_nat (num * maxsize),
       buffer2_next_desc_addr = (if num < count - 1 then desc_tab + 16 * of_nat (num + 1) else desc_tab) \<rparr>"

definition enet_descriptors_chain_init :: "enet_dmadirection_enum \<Rightarrow> enet \<Rightarrow> enet" where
  "enet_descriptors_chain_init direction s =
     (let s = (case direction of
        ENET_DMA_TX \<Rightarrow>
          s\<lparr> enet_mem := reg_wr ENET_DMA_TDTADDR (txdesc_at s) (enet_mem s), dma_current_txdesc := txdesc_at s,
             txdesc_tab := map (chain_desc (txdesc_at s) (tx_buff_at s) ENET_TXBUF_NUM ENET_TXBUF_SIZE ENET_TDES0_TCHM 0)
               [0..<ENET_TXBUF_NUM] \<rparr>
      | ENET_DMA_RX \<Rightarrow>
          s\<lparr> enet_mem := reg_wr ENET_DMA_RDTADDR (rxdesc_at s) (enet_mem s), dma_current_rxdesc := rxdesc_at s,
             rxdesc_tab := map (chain_desc (rxdesc_at s) (rx_buff_at s) ENET_RXBUF_NUM ENET_RXBUF_SIZE ENET_RDES0_DAV
               (ENET_RDES1_RCHM OR of_nat ENET_RXBUF_SIZE)) [0..<ENET_RXBUF_NUM] \<rparr>)
      in s\<lparr> dma_current_ptp_rxdesc := 0, dma_current_ptp_txdesc := 0 \<rparr>)"

definition ring_desc :: "u32 \<Rightarrow> nat \<Rightarrow> nat \<Rightarrow> u32 \<Rightarrow> u32 \<Rightarrow> u32 \<Rightarrow> u32 \<Rightarrow> enet_descriptors_struct \<Rightarrow> nat \<Rightarrow> enet_descriptors_struct" where
  "ring_desc buf count maxsize st bufsize st_last size_last old num =
     old\<lparr> desc_status := (if num = count - 1 then st OR st_last else st),
          control_buffer_size := (if num = count - 1 then bufsize OR size_last else bufsize),
          buffer1_addr := buf + of_nat (num * maxsize) \<rparr>"

definition enet_descriptors_ring_init :: "enet_dmadirection_enum \<Rightarrow> enet \<Rightarrow> enet" where
  "enet_descriptors_ring_init direction s =
     (let s = s\<lparr> enet_mem := reg_set ENET_DMA_BCTL (DMA_BCTL_DPSL 0) (reg_clr ENET_DMA_BCTL ENET_DMA_BCTL_DPSL (enet_mem s)) \<rparr>;
          s = (case direction of
        ENET_DMA_TX \<Rightarrow>
          s\<lparr> enet_mem := reg_wr ENET_DMA_TDTADDR (txdesc_at s) (enet_mem s), dma_current_txdesc := txdesc_at s,
             txdesc_tab := map2 (ring_desc (tx_buff_at s) ENET_TXBUF_NUM ENET_TXBUF_SIZE 0 0 ENET_TDES0_TERM 0)
               (txdesc_tab s) [0..<ENET_TXBUF_NUM] \<rparr>
      | ENET_DMA_RX \<Rightarrow>
          s\<lparr> enet_mem := reg_wr ENET_DMA_RDTADDR (rxdesc_at s) (enet_mem s), dma_current_rxdesc := rxdesc_at s,
             rxdesc_tab := map2 (ring_desc (rx_buff_at s) ENET_RXBUF_NUM ENET_RXBUF_SIZE ENET_RDES0_DAV (of_nat ENET_RXBUF_SIZE)
               0 ENET_RDES1_RERM) (rxdesc_tab s) [0..<ENET_RXBUF_NUM] \<rparr>)
      in s\<lparr> dma_current_ptp_rxdesc := 0, dma_current_ptp_txdesc := 0 \<rparr>)"

section \<open>Reception\<close>

definition has :: "u32 \<Rightarrow> u32 \<Rightarrow> bool" where
  "has flags f \<longleftrightarrow> flags AND f \<noteq> 0"

text \<open>The step to the next receive descriptor, in chained and in ring mode.\<close>

definition rx_advance :: "enet \<Rightarrow> enet res" where
  "rx_advance s = bind_res (rx_desc s) (\<lambda>d.
     Inr (s\<lparr> dma_current_rxdesc :=
       (if has (control_buffer_size d) ENET_RDES1_RCHM then buffer2_next_desc_addr d
        else if has (control_buffer_size d) ENET_RDES1_RERM then reg_rd ENET_DMA_RDTADDR (enet_mem s)
        else dma_current_rxdesc s + ETH_DMARXDESC_SIZE + GET_DMA_BCTL_DPSL (reg_rd ENET_DMA_BCTL (enet_mem s))) \<rparr>))"

definition enet_rxframe_drop :: "enet \<Rightarrow> enet res" where
  "enet_rxframe_drop s =
     bind_res (set_rx_desc (\<lambda>d. d\<lparr> desc_status := ENET_RDES0_DAV \<rparr>) s) (\<lambda>s.
     if dma_current_ptp_rxdesc s = 0 then rx_advance s
     else bind_res (rx_desc s) (\<lambda>d.
       case ptp_desc s (dma_current_ptp_rxdesc s) of None \<Rightarrow> Inl Out_Of_Bounds
       | Some p \<Rightarrow>
         if has (control_buffer_size d) ENET_RDES1_RCHM then
           Inr (s\<lparr> dma_current_rxdesc := buffer2_next_desc_addr p,
                  dma_current_ptp_rxdesc := (if desc_status p \<noteq> 0 then desc_status p else dma_current_ptp_rxdesc s + 16) \<rparr>)
         else if has (control_buffer_size d) ENET_RDES1_RERM then
           bind_res (rx_advance s) (\<lambda>s. Inr (s\<lparr> dma_current_ptp_rxdesc := desc_status p \<rparr>))
         else bind_res (rx_advance s) (\<lambda>s. Inr (s\<lparr> dma_current_ptp_rxdesc := dma_current_ptp_rxdesc s + 16 \<rparr>))))"

text \<open>The length of a frame without its CRC.\<close>

definition frame_size :: "u32 \<Rightarrow> mem \<Rightarrow> u32" where
  "frame_size st m =
     (let size = GET_RDES0_FRML st - 4
      in if has (reg_rd ENET_MAC_CFG m) ENET_MAC_CFG_TFCD \<and> has st ENET_RDES0_FRMT then size + 4 else size)"

definition enet_rxframe_size_get :: "enet \<Rightarrow> (u32 \<times> enet) res" where
  "enet_rxframe_size_get s = bind_res (rx_desc s) (\<lambda>d.
     let st = desc_status d
     in if has st ENET_RDES0_DAV then Inr (0, s)
        else if has st ENET_RDES0_ERRS \<or> \<not> has st ENET_RDES0_LDES \<or> \<not> has st ENET_RDES0_FDES
        then bind_res (enet_rxframe_drop s) (\<lambda>s. Inr (1, s))
        else if has st ENET_RDES0_FRMT \<and> has st ENET_RDES0_PCERR
        then bind_res (enet_rxframe_drop s) (\<lambda>s. Inr (1, s))
        else if \<not> has st ENET_RDES0_DAV \<and> \<not> has st ENET_RDES0_ERRS \<and> has st ENET_RDES0_LDES \<and> has st ENET_RDES0_FDES
        then Inr (frame_size st (enet_mem s), s)
        else bind_res (enet_rxframe_drop (s\<lparr> enet_unknow_err := enet_unknow_err s + 1 \<rparr>)) (\<lambda>s. Inr (1, s)))"

text \<open>
  \<^verbatim>\<open>enet_frame_receive\<close>: the application buffer is \<open>None\<close> for a null pointer; the result is
  the status (\<open>True\<close> for \<^verbatim>\<open>SUCCESS\<close>), the buffer and the state.
\<close>

definition rx_release :: "enet \<Rightarrow> enet res" where
  "rx_release s = bind_res (set_rx_desc (\<lambda>d. d\<lparr> desc_status := ENET_RDES0_DAV \<rparr>) s) (\<lambda>s.
     rx_advance (if has (reg_rd ENET_DMA_STAT (enet_mem s)) ENET_DMA_STAT_RBU
       then s\<lparr> enet_mem := reg_wr ENET_DMA_RPEN 0 (reg_wr ENET_DMA_STAT ENET_DMA_STAT_RBU (enet_mem s)) \<rparr> else s))"

definition enet_frame_receive :: "u8 list option \<Rightarrow> u32 \<Rightarrow> enet \<Rightarrow> (bool \<times> u8 list option \<times> enet) res" where
  "enet_frame_receive buffer bufsize s = bind_res (rx_desc s) (\<lambda>d.
     let st = desc_status d
     in if has st ENET_RDES0_DAV then Inr (False, buffer, s)
        else case buffer of
          None \<Rightarrow> bind_res (rx_release s) (\<lambda>s. Inr (True, None, s))
        | Some b \<Rightarrow>
            if \<not> has st ENET_RDES0_ERRS \<and> has st ENET_RDES0_LDES \<and> has st ENET_RDES0_FDES then
              let size = frame_size st (enet_mem s)
              in if size > bufsize then Inr (False, buffer, s)
                 else bind_res (buf_read (rx_buff_at s) (rx_buff s) (buffer1_addr d) (unat size)) (\<lambda>bs.
                      if length bs \<le> length b
                      then bind_res (rx_release s) (\<lambda>s. Inr (True, Some (bs @ drop (length bs) b), s))
                      else Inl Out_Of_Bounds)
            else Inr (False, buffer, s))"

datatype enet_descstate_enum = RXDESC_BUFFER_1_SIZE | RXDESC_BUFFER_2_SIZE | RXDESC_FRAME_LENGTH
  | TXDESC_COLLISION_COUNT | RXDESC_BUFFER_1_ADDR | TXDESC_BUFFER_1_ADDR

definition enet_desc_information_get :: "enet_descriptors_struct \<Rightarrow> enet_descstate_enum \<Rightarrow> mem \<Rightarrow> u32" where
  "enet_desc_information_get d info_get m =
     (case info_get of
        RXDESC_BUFFER_1_SIZE \<Rightarrow> GET_RDES1_RB1S (control_buffer_size d)
      | RXDESC_BUFFER_2_SIZE \<Rightarrow> GET_RDES1_RB2S (control_buffer_size d)
      | RXDESC_FRAME_LENGTH \<Rightarrow> if GET_RDES0_FRML (desc_status d) > 4 then frame_size (desc_status d) m else 0
      | RXDESC_BUFFER_1_ADDR \<Rightarrow> buffer1_addr d
      | TXDESC_BUFFER_1_ADDR \<Rightarrow> buffer1_addr d
      | TXDESC_COLLISION_COUNT \<Rightarrow> GET_TDES0_COCNT (desc_status d))"

section \<open>Transmission\<close>

definition tx_advance :: "enet \<Rightarrow> enet res" where
  "tx_advance s = bind_res (tx_desc s) (\<lambda>d.
     Inr (s\<lparr> dma_current_txdesc :=
       (if has (desc_status d) ENET_TDES0_TCHM then buffer2_next_desc_addr d
        else if has (desc_status d) ENET_TDES0_TERM then reg_rd ENET_DMA_TDTADDR (enet_mem s)
        else dma_current_txdesc s + ETH_DMATXDESC_SIZE + GET_DMA_BCTL_DPSL (reg_rd ENET_DMA_BCTL (enet_mem s))) \<rparr>))"

definition tx_resume :: "mem \<Rightarrow> mem" where
  "tx_resume m =
     (let tbu = reg_rd ENET_DMA_STAT m AND ENET_DMA_STAT_TBU;
          tu = reg_rd ENET_DMA_STAT m AND ENET_DMA_STAT_TU
      in if tbu \<noteq> 0 \<or> tu \<noteq> 0 then reg_wr ENET_DMA_TPEN 0 (reg_wr ENET_DMA_STAT (tbu OR tu) m) else m)"

definition enet_frame_transmit :: "u8 list option \<Rightarrow> u32 \<Rightarrow> enet \<Rightarrow> (bool \<times> enet) res" where
  "enet_frame_transmit buffer len s = bind_res (tx_desc s) (\<lambda>d.
     if has (desc_status d) ENET_TDES0_DAV then Inr (False, s)
     else if unat len > ENET_MAX_FRAME_SIZE then Inr (False, s)
     else bind_res (case buffer of None \<Rightarrow> Inr s
         | Some b \<Rightarrow> if length b < unat len then Inl Out_Of_Bounds
             else bind_res (buf_write (tx_buff_at s) (tx_buff s) (buffer1_addr d) (take (unat len) b)) (\<lambda>t.
                  Inr (s\<lparr> tx_buff := t \<rparr>))) (\<lambda>s.
       bind_res (set_tx_desc (\<lambda>d. d\<lparr> control_buffer_size := len,
           desc_status := desc_status d OR (ENET_TDES0_LSG OR ENET_TDES0_FSG) OR ENET_TDES0_DAV \<rparr>) s) (\<lambda>s.
       bind_res (tx_advance (s\<lparr> enet_mem := tx_resume (enet_mem s) \<rparr>)) (\<lambda>s. Inr (True, s)))))"

section \<open>Single descriptors and addresses\<close>

definition enet_transmit_checksum_config :: "u32 \<Rightarrow> enet_descriptors_struct \<Rightarrow> enet_descriptors_struct" where
  "enet_transmit_checksum_config checksum d = d\<lparr> desc_status := (desc_status d AND NOT ENET_TDES0_CM) OR checksum \<rparr>"

definition enet_desc_flag_get :: "enet_descriptors_struct \<Rightarrow> u32 \<Rightarrow> bool" where
  "enet_desc_flag_get d f = has (desc_status d) f"

definition enet_desc_flag_set :: "u32 \<Rightarrow> enet_descriptors_struct \<Rightarrow> enet_descriptors_struct" where
  "enet_desc_flag_set f d = d\<lparr> desc_status := desc_status d OR f \<rparr>"

definition enet_desc_flag_clear :: "u32 \<Rightarrow> enet_descriptors_struct \<Rightarrow> enet_descriptors_struct" where
  "enet_desc_flag_clear f d = d\<lparr> desc_status := desc_status d AND NOT f \<rparr>"

definition enet_rx_desc_immediate_receive_complete_interrupt :: "enet_descriptors_struct \<Rightarrow> enet_descriptors_struct" where
  "enet_rx_desc_immediate_receive_complete_interrupt d =
     d\<lparr> control_buffer_size := control_buffer_size d AND NOT ENET_RDES1_DINTC \<rparr>"

definition enet_rxprocess_check_recovery :: "enet \<Rightarrow> enet res" where
  "enet_rxprocess_check_recovery s = bind_res (rx_desc s) (\<lambda>d.
     let crd = reg_rd ENET_DMA_CRDADDR (enet_mem s)
     in if crd \<noteq> dma_current_rxdesc s \<and> desc_status d AND ENET_RDES0_DAV = ENET_RDES0_DAV
        then Inr (s\<lparr> dma_current_rxdesc := crd \<rparr>) else Inr s)"

definition ENET_SET_MACADDRH :: "u8 list \<Rightarrow> u32" where
  "ENET_SET_MACADDRH p = push_bit 8 (ucast (p ! 5)) OR ucast (p ! 4)"

definition ENET_SET_MACADDRL :: "u8 list \<Rightarrow> u32" where
  "ENET_SET_MACADDRL p = push_bit 24 (ucast (p ! 3)) OR push_bit 16 (ucast (p ! 2)) OR push_bit 8 (ucast (p ! 1)) OR ucast (p ! 0)"

definition ENET_GET_MACADDR :: "u32 \<Rightarrow> nat \<Rightarrow> mem \<Rightarrow> u8" where
  "ENET_GET_MACADDR offset n m =
     ucast (drop_bit (8 * (n mod 4)) (reg_rd (ENET_ADDRL_BASE + offset - of_nat ((n div 4) * 4)) m) AND 0xFF)"

definition enet_mac_address_set :: "u32 \<Rightarrow> u8 list \<Rightarrow> mem \<Rightarrow> mem" where
  "enet_mac_address_set mac_addr paddr m =
     reg_wr (ENET_ADDRL_BASE + mac_addr) (ENET_SET_MACADDRL paddr)
       (reg_wr (ENET_ADDRH_BASE + mac_addr) (ENET_SET_MACADDRH paddr) m)"

definition enet_mac_address_get :: "u32 \<Rightarrow> mem \<Rightarrow> u8 list" where
  "enet_mac_address_get mac_addr m = map (\<lambda>n. ENET_GET_MACADDR mac_addr n m) [0..<6]"

end
