(* ===== verification/Enet_Mac.thy ===== *)
theory Enet_Mac
  imports Enet Rcu
begin

text \<open>
  The part of \<^verbatim>\<open>gd32f4xx_enet.c\<close> that sets the Ethernet controller up: flags and features,
  the transceiver behind the management interface and \<^verbatim>\<open>enet_init\<close>. The polling loops give up
  after a count, so every function here returns. The definitions of the first section are the
  constants of \<^verbatim>\<open>gd32f4xx_enet.h\<close> that the functions use.
\<close>

section \<open>Registers and constants\<close>

definition ENET_NO_AUTOCHECKSUM :: u32 where "ENET_NO_AUTOCHECKSUM = 0x00000000"
definition ENET_BROADCAST_FRAMES_PASS :: u32 where "ENET_BROADCAST_FRAMES_PASS = 0x00000000"
definition DMA_INTEN_REG_OFFSET :: u32 where "DMA_INTEN_REG_OFFSET = 0x101C"
definition ENET_MAC_DBG :: u32 where "ENET_MAC_DBG = ENET + 0x0034"
definition ENET_MAC_DBG_RXAFS :: u32 where "ENET_MAC_DBG_RXAFS = BITS 1 2"
definition ENET_RX_ASYNCHRONOUS_FIFO_STATE :: u32 where "ENET_RX_ASYNCHRONOUS_FIFO_STATE = ENET_MAC_DBG_RXAFS"
definition GET_MAC_DBG_RXAFS :: "u32 \<Rightarrow> u32" where "GET_MAC_DBG_RXAFS regval = GET_BITS regval 1 2"
definition ENET_MAC_DBG_RXFRS :: u32 where "ENET_MAC_DBG_RXFRS = BITS 5 6"
definition ENET_RXFIFO_READ_STATUS :: u32 where "ENET_RXFIFO_READ_STATUS = ENET_MAC_DBG_RXFRS"
definition GET_MAC_DBG_RXFRS :: "u32 \<Rightarrow> u32" where "GET_MAC_DBG_RXFRS regval = GET_BITS regval 5 6"
definition ENET_MAC_DBG_RXFS :: u32 where "ENET_MAC_DBG_RXFS = BITS 8 9"
definition ENET_RXFIFO_STATE :: u32 where "ENET_RXFIFO_STATE = ENET_MAC_DBG_RXFS"
definition GET_MAC_DBG_RXFS :: "u32 \<Rightarrow> u32" where "GET_MAC_DBG_RXFS regval = GET_BITS regval 8 9"
definition ENET_MAC_DBG_SOMT :: u32 where "ENET_MAC_DBG_SOMT = BITS 17 18"
definition ENET_MAC_TRANSMITTER_STATUS :: u32 where "ENET_MAC_TRANSMITTER_STATUS = ENET_MAC_DBG_SOMT"
definition GET_MAC_DBG_SOMT :: "u32 \<Rightarrow> u32" where "GET_MAC_DBG_SOMT regval = GET_BITS regval 17 18"
definition ENET_MAC_DBG_TXFRS :: u32 where "ENET_MAC_DBG_TXFRS = BITS 20 21"
definition ENET_TXFIFO_READ_STATUS :: u32 where "ENET_TXFIFO_READ_STATUS = ENET_MAC_DBG_TXFRS"
definition GET_MAC_DBG_TXFRS :: "u32 \<Rightarrow> u32" where "GET_MAC_DBG_TXFRS regval = GET_BITS regval 20 21"
definition ENET_MAC_ADDR1H_AFE :: u32 where "ENET_MAC_ADDR1H_AFE = BIT 31"
definition ENET_MAC_ADDR1H_MB :: u32 where "ENET_MAC_ADDR1H_MB = BITS 24 29"
definition ENET_MAC_ADDR1H_SAF :: u32 where "ENET_MAC_ADDR1H_SAF = BIT 30"
definition ENET_DMA_CTL :: u32 where "ENET_DMA_CTL = ENET + 0x1018"
definition ENET_MAC_CFG_APCD :: u32 where "ENET_MAC_CFG_APCD = BIT 7"
definition ENET_AUTO_PADCRC_DROP :: u32 where "ENET_AUTO_PADCRC_DROP = ENET_MAC_CFG_APCD"
definition ENET_TYPEFRAME_CRC_DROP :: u32 where "ENET_TYPEFRAME_CRC_DROP = ENET_MAC_CFG_TFCD"
definition ENET_DMA_CTL_FERF :: u32 where "ENET_DMA_CTL_FERF = BIT 7"
definition ENET_FORWARD_ERRFRAMES :: u32 where "ENET_FORWARD_ERRFRAMES = (push_bit 2 ENET_DMA_CTL_FERF)"
definition ENET_DMA_CTL_FUF :: u32 where "ENET_DMA_CTL_FUF = BIT 6"
definition ENET_FORWARD_UNDERSZ_GOODFRAMES :: u32 where "ENET_FORWARD_UNDERSZ_GOODFRAMES = (push_bit 2 ENET_DMA_CTL_FUF)"
definition ENET_MAC_FRMF :: u32 where "ENET_MAC_FRMF = ENET + 0x0004"
definition ENET_MAC_FCTL :: u32 where "ENET_MAC_FCTL = ENET + 0x0018"
definition ENET_MAC_FCTL_FLCBBKPA :: u32 where "ENET_MAC_FCTL_FLCBBKPA = BIT 0"
definition ENET_MAC_FCTL_UPFDT :: u32 where "ENET_MAC_FCTL_UPFDT = BIT 3"
definition MAC_FCTL_PTM :: "u32 \<Rightarrow> u32" where "MAC_FCTL_PTM regval = ((BITS 16 31) AND (push_bit 16 regval))"
definition ENET_MAC_FCTL_PTM :: u32 where "ENET_MAC_FCTL_PTM = BITS 16 31"
definition ENET_MAC_FCTL_PLTS :: u32 where "ENET_MAC_FCTL_PLTS = BITS 4 5"
definition ENET_MAC_FCTH :: u32 where "ENET_MAC_FCTH = ENET + 0x1080"
definition ENET_MAC_FCTL_DZQP :: u32 where "ENET_MAC_FCTL_DZQP = BIT 7"
definition ENET_ZERO_QUANTA_PAUSE :: u32 where "ENET_ZERO_QUANTA_PAUSE = ENET_MAC_FCTL_DZQP"
definition ENET_DMA_STAT_TP :: u32 where "ENET_DMA_STAT_TP = BITS 20 22"
definition ENET_DMA_STAT_RP :: u32 where "ENET_DMA_STAT_RP = BITS 17 19"
definition ENET_DMA_MFBOCNT :: u32 where "ENET_DMA_MFBOCNT = ENET + 0x1020"
definition GET_DMA_MFBOCNT_MSFA :: "u32 \<Rightarrow> u32" where "GET_DMA_MFBOCNT_MSFA regval = GET_BITS regval 17 27"
definition GET_DMA_MFBOCNT_MSFC :: "u32 \<Rightarrow> u32" where "GET_DMA_MFBOCNT_MSFC regval = GET_BITS regval 0 15"
definition ENET_DELAY_TO :: nat where "ENET_DELAY_TO = 0x0004FFFF"
definition ENET_DMA_BCTL_SWR :: u32 where "ENET_DMA_BCTL_SWR = BIT 0"
definition ENET_DMA_CTL_FTF :: u32 where "ENET_DMA_CTL_FTF = BIT 20"
definition ENET_DMA_CTL_STE :: u32 where "ENET_DMA_CTL_STE = BIT 13"
definition ENET_MAC_CFG_TEN :: u32 where "ENET_MAC_CFG_TEN = BIT 3"
definition ENET_DMA_CTL_SRE :: u32 where "ENET_DMA_CTL_SRE = BIT 1"
definition ENET_MAC_CFG_REN :: u32 where "ENET_MAC_CFG_REN = BIT 2"
definition ENET_MAC_PHY_CTL :: u32 where "ENET_MAC_PHY_CTL = ENET + 0x0010"
definition ENET_MAC_PHY_CTL_PB :: u32 where "ENET_MAC_PHY_CTL_PB = BIT 0"
definition ENET_MAC_PHY_CTL_PW :: u32 where "ENET_MAC_PHY_CTL_PW = BIT 1"
definition ENET_MAC_PHY_CTL_PR :: u32 where "ENET_MAC_PHY_CTL_PR = BITS 6 10"
definition ENET_MAC_PHY_CTL_PA :: u32 where "ENET_MAC_PHY_CTL_PA = BITS 11 15"
definition MAC_PHY_CTL_PR :: "u32 \<Rightarrow> u32" where "MAC_PHY_CTL_PR regval = ((BITS 6 10) AND (push_bit 6 regval))"
definition MAC_PHY_CTL_PA :: "u32 \<Rightarrow> u32" where "MAC_PHY_CTL_PA regval = ((BITS 11 15) AND (push_bit 11 regval))"
definition ENET_PHY_WRITE :: u32 where "ENET_PHY_WRITE = ENET_MAC_PHY_CTL_PW"
definition ENET_MAC_PHY_DATA :: u32 where "ENET_MAC_PHY_DATA = ENET + 0x0014"
definition ENET_PHY_READ :: u32 where "ENET_PHY_READ = 0x00000000"
definition PHY_ADDRESS :: u16 where "PHY_ADDRESS = 0"
definition PHY_REG_BCR :: u16 where "PHY_REG_BCR = 0"
definition PHY_LOOPBACK :: u16 where "PHY_LOOPBACK = 0x4000"
definition MAC_PHY_CTL_CLR :: "u32 \<Rightarrow> u32" where "MAC_PHY_CTL_CLR regval = ((BITS 2 4) AND (push_bit 2 regval))"
definition ENET_MDC_HCLK_DIV16 :: u32 where "ENET_MDC_HCLK_DIV16 = MAC_PHY_CTL_CLR 2"
definition ENET_MDC_HCLK_DIV26 :: u32 where "ENET_MDC_HCLK_DIV26 = MAC_PHY_CTL_CLR 3"
definition ENET_MDC_HCLK_DIV42 :: u32 where "ENET_MDC_HCLK_DIV42 = MAC_PHY_CTL_CLR 0"
definition ENET_MDC_HCLK_DIV62 :: u32 where "ENET_MDC_HCLK_DIV62 = MAC_PHY_CTL_CLR 1"
definition ENET_MDC_HCLK_DIV102 :: u32 where "ENET_MDC_HCLK_DIV102 = MAC_PHY_CTL_CLR 4"
definition ENET_MAC_PHY_CTL_CLR :: u32 where "ENET_MAC_PHY_CTL_CLR = BITS 2 4"
definition PHY_RESET :: u16 where "PHY_RESET = 0x8000"
definition FORWARD_OPTION :: u32 where "FORWARD_OPTION = BIT 0"
definition DMABUS_OPTION :: u32 where "DMABUS_OPTION = BIT 1"
definition DMA_MAXBURST_OPTION :: u32 where "DMA_MAXBURST_OPTION = BIT 2"
definition DMA_ARBITRATION_OPTION :: u32 where "DMA_ARBITRATION_OPTION = BIT 3"
definition STORE_OPTION :: u32 where "STORE_OPTION = BIT 4"
definition DMA_OPTION :: u32 where "DMA_OPTION = BIT 5"
definition ENET_DMA_BCTL_DFM :: u32 where "ENET_DMA_BCTL_DFM = BIT 7"
definition ENET_ENHANCED_DESCRIPTOR :: u32 where "ENET_ENHANCED_DESCRIPTOR = ENET_DMA_BCTL_DFM"
definition VLAN_OPTION :: u32 where "VLAN_OPTION = BIT 6"
definition FLOWCTL_OPTION :: u32 where "FLOWCTL_OPTION = BIT 7"
definition HASHH_OPTION :: u32 where "HASHH_OPTION = BIT 8"
definition HASHL_OPTION :: u32 where "HASHL_OPTION = BIT 9"
definition FILTER_OPTION :: u32 where "FILTER_OPTION = BIT 10"
definition HALFDUPLEX_OPTION :: u32 where "HALFDUPLEX_OPTION = BIT 11"
definition TIMER_OPTION :: u32 where "TIMER_OPTION = BIT 12"
definition INTERFRAMEGAP_OPTION :: u32 where "INTERFRAMEGAP_OPTION = BIT 13"
definition MAC_CFG_MASK :: u32 where "MAC_CFG_MASK = 0xFD30810F"
definition ENET_WATCHDOG_ENABLE :: u32 where "ENET_WATCHDOG_ENABLE = 0x00000000"
definition ENET_JABBER_ENABLE :: u32 where "ENET_JABBER_ENABLE = 0x00000000"
definition MAC_CFG_IGBS :: "u32 \<Rightarrow> u32" where "MAC_CFG_IGBS regval = ((BITS 17 19) AND (push_bit 17 regval))"
definition ENET_INTERFRAMEGAP_96BIT :: u32 where "ENET_INTERFRAMEGAP_96BIT = MAC_CFG_IGBS 0"
definition ENET_SPEEDMODE_10M :: u32 where "ENET_SPEEDMODE_10M = 0x00000000"
definition ENET_MODE_HALFDUPLEX :: u32 where "ENET_MODE_HALFDUPLEX = 0x00000000"
definition ENET_LOOPBACKMODE_DISABLE :: u32 where "ENET_LOOPBACKMODE_DISABLE = 0x00000000"
definition ENET_MAC_CFG_CSD :: u32 where "ENET_MAC_CFG_CSD = BIT 16"
definition ENET_CARRIERSENSE_DISABLE :: u32 where "ENET_CARRIERSENSE_DISABLE = ENET_MAC_CFG_CSD"
definition ENET_RECEIVEOWN_ENABLE :: u32 where "ENET_RECEIVEOWN_ENABLE = 0x00000000"
definition ENET_RETRYTRANSMISSION_ENABLE :: u32 where "ENET_RETRYTRANSMISSION_ENABLE = 0x00000000"
definition MAC_CFG_BOL :: "u32 \<Rightarrow> u32" where "MAC_CFG_BOL regval = ((BITS 5 6) AND (push_bit 5 regval))"
definition ENET_BACKOFFLIMIT_10 :: u32 where "ENET_BACKOFFLIMIT_10 = MAC_CFG_BOL 0"
definition ENET_DEFERRALCHECK_DISABLE :: u32 where "ENET_DEFERRALCHECK_DISABLE = 0x00000000"
definition ENET_TYPEFRAME_CRC_DROP_DISABLE :: u32 where "ENET_TYPEFRAME_CRC_DROP_DISABLE = 0x00000000"
definition ENET_AUTO_PADCRC_DROP_DISABLE :: u32 where "ENET_AUTO_PADCRC_DROP_DISABLE = 0x00000000"
definition ENET_CHECKSUMOFFLOAD_DISABLE :: u32 where "ENET_CHECKSUMOFFLOAD_DISABLE = 0x00000000"
definition ENET_SRC_FILTER_DISABLE :: u32 where "ENET_SRC_FILTER_DISABLE = 0x00000000"
definition ENET_DEST_FILTER_INVERSE_DISABLE :: u32 where "ENET_DEST_FILTER_INVERSE_DISABLE = 0x00000000"
definition ENET_MULTICAST_FILTER_PERFECT :: u32 where "ENET_MULTICAST_FILTER_PERFECT = 0x00000000"
definition ENET_UNICAST_FILTER_PERFECT :: u32 where "ENET_UNICAST_FILTER_PERFECT = 0x00000000"
definition MAC_FRMF_PCFRM :: "u32 \<Rightarrow> u32" where "MAC_FRMF_PCFRM regval = ((BITS 6 7) AND (push_bit 6 regval))"
definition ENET_PCFRM_PREVENT_ALL :: u32 where "ENET_PCFRM_PREVENT_ALL = MAC_FRMF_PCFRM 0"
definition ENET_BROADCASTFRAMES_ENABLE :: u32 where "ENET_BROADCASTFRAMES_ENABLE = 0x00000000"
definition ENET_PROMISCUOUS_DISABLE :: u32 where "ENET_PROMISCUOUS_DISABLE = 0x00000000"
definition ENET_RX_FILTER_ENABLE :: u32 where "ENET_RX_FILTER_ENABLE = 0x00000000"
definition ENET_MAC_HLL :: u32 where "ENET_MAC_HLL = ENET + 0x000C"
definition ENET_MAC_HLH :: u32 where "ENET_MAC_HLH = ENET + 0x0008"
definition MAC_FCTL_MASK :: u32 where "MAC_FCTL_MASK = 0x0000FF41"
definition ENET_ZERO_QUANTA_PAUSE_DISABLE :: u32 where "ENET_ZERO_QUANTA_PAUSE_DISABLE = ENET_MAC_FCTL_DZQP"
definition MAC_FCTL_PLTS :: "u32 \<Rightarrow> u32" where "MAC_FCTL_PLTS regval = ((BITS 4 5) AND (push_bit 4 regval))"
definition ENET_PAUSETIME_MINUS4 :: u32 where "ENET_PAUSETIME_MINUS4 = MAC_FCTL_PLTS 0"
definition ENET_UNIQUE_PAUSEDETECT :: u32 where "ENET_UNIQUE_PAUSEDETECT = 0x00000000"
definition ENET_RX_FLOWCONTROL_DISABLE :: u32 where "ENET_RX_FLOWCONTROL_DISABLE = 0x00000000"
definition ENET_TX_FLOWCONTROL_DISABLE :: u32 where "ENET_TX_FLOWCONTROL_DISABLE = 0x00000000"
definition ENET_MAC_VLT :: u32 where "ENET_MAC_VLT = ENET + 0x001C"
definition ENET_VLANTAGCOMPARISON_16BIT :: u32 where "ENET_VLANTAGCOMPARISON_16BIT = 0x00000000"
definition MAC_VLT_VLTI :: "u32 \<Rightarrow> u32" where "MAC_VLT_VLTI regval = ((BITS 0 15) AND (push_bit 0 regval))"
definition ENET_MAC_INTMSK :: u32 where "ENET_MAC_INTMSK = ENET + 0x003C"
definition ENET_MAC_INTMSK_TMSTIM :: u32 where "ENET_MAC_INTMSK_TMSTIM = BIT 9"
definition ENET_MAC_INTMSK_WUMIM :: u32 where "ENET_MAC_INTMSK_WUMIM = BIT 3"
definition ENET_MSC_RINTMSK :: u32 where "ENET_MSC_RINTMSK = ENET + 0x010C"
definition ENET_MSC_RINTMSK_RFAEIM :: u32 where "ENET_MSC_RINTMSK_RFAEIM = BIT 6"
definition ENET_MSC_RINTMSK_RFCEIM :: u32 where "ENET_MSC_RINTMSK_RFCEIM = BIT 5"
definition ENET_MSC_RINTMSK_RGUFIM :: u32 where "ENET_MSC_RINTMSK_RGUFIM = BIT 17"
definition ENET_MSC_TINTMSK :: u32 where "ENET_MSC_TINTMSK = ENET + 0x0110"
definition ENET_MSC_TINTMSK_TGFIM :: u32 where "ENET_MSC_TINTMSK_TGFIM = BIT 21"
definition ENET_MSC_TINTMSK_TGFMSCIM :: u32 where "ENET_MSC_TINTMSK_TGFMSCIM = BIT 15"
definition ENET_MSC_TINTMSK_TGFSCIM :: u32 where "ENET_MSC_TINTMSK_TGFSCIM = BIT 14"
definition DMA_CTL_MASK :: u32 where "DMA_CTL_MASK = 0xF8DE3F23"
definition ENET_TCPIP_CKSUMERROR_DROP :: u32 where "ENET_TCPIP_CKSUMERROR_DROP = 0x00000000"
definition ENET_DMA_CTL_RSFD :: u32 where "ENET_DMA_CTL_RSFD = BIT 25"
definition ENET_RX_MODE_STOREFORWARD :: u32 where "ENET_RX_MODE_STOREFORWARD = ENET_DMA_CTL_RSFD"
definition ENET_FLUSH_RXFRAME_ENABLE :: u32 where "ENET_FLUSH_RXFRAME_ENABLE = 0x00000000"
definition ENET_DMA_CTL_TSFD :: u32 where "ENET_DMA_CTL_TSFD = BIT 21"
definition ENET_TX_MODE_STOREFORWARD :: u32 where "ENET_TX_MODE_STOREFORWARD = ENET_DMA_CTL_TSFD"
definition DMA_CTL_TTHC :: "u32 \<Rightarrow> u32" where "DMA_CTL_TTHC regval = ((BITS 14 16) AND (push_bit 14 regval))"
definition ENET_TX_THRESHOLD_64BYTES :: u32 where "ENET_TX_THRESHOLD_64BYTES = DMA_CTL_TTHC 0"
definition DMA_CTL_RTHC :: "u32 \<Rightarrow> u32" where "DMA_CTL_RTHC regval = ((BITS 3 4) AND (push_bit 3 regval))"
definition ENET_RX_THRESHOLD_64BYTES :: u32 where "ENET_RX_THRESHOLD_64BYTES = DMA_CTL_RTHC 0"
definition ENET_SECONDFRAME_OPT_DISABLE :: u32 where "ENET_SECONDFRAME_OPT_DISABLE = 0x00000000"
definition ENET_DMA_BCTL_AA :: u32 where "ENET_DMA_BCTL_AA = BIT 25"
definition ENET_ADDRESS_ALIGN_ENABLE :: u32 where "ENET_ADDRESS_ALIGN_ENABLE = ENET_DMA_BCTL_AA"
definition DMA_BCTL_RTPR :: "u32 \<Rightarrow> u32" where "DMA_BCTL_RTPR regval = ((BITS 14 15) AND (push_bit 14 regval))"
definition ENET_ARBITRATION_RXTX_2_1 :: u32 where "ENET_ARBITRATION_RXTX_2_1 = DMA_BCTL_RTPR 1"
definition DMA_BCTL_RXDP :: "u32 \<Rightarrow> u32" where "DMA_BCTL_RXDP regval = ((BITS 17 22) AND (push_bit 17 regval))"
definition ENET_RXDP_32BEAT :: u32 where "ENET_RXDP_32BEAT = DMA_BCTL_RXDP 32"
definition DMA_BCTL_PGBL :: "u32 \<Rightarrow> u32" where "DMA_BCTL_PGBL regval = ((BITS 8 13) AND (push_bit 8 regval))"
definition ENET_PGBL_32BEAT :: u32 where "ENET_PGBL_32BEAT = DMA_BCTL_PGBL 32"
definition ENET_DMA_BCTL_UIP :: u32 where "ENET_DMA_BCTL_UIP = BIT 23"
definition ENET_RXTX_DIFFERENT_PGBL :: u32 where "ENET_RXTX_DIFFERENT_PGBL = ENET_DMA_BCTL_UIP"
definition ENET_DMA_BCTL_FB :: u32 where "ENET_DMA_BCTL_FB = BIT 16"
definition ENET_FIXED_BURST_ENABLE :: u32 where "ENET_FIXED_BURST_ENABLE = ENET_DMA_BCTL_FB"
definition ENET_MIXED_BURST_DISABLE :: u32 where "ENET_MIXED_BURST_DISABLE = 0x00000000"
definition ENET_NORMAL_DESCRIPTOR :: u32 where "ENET_NORMAL_DESCRIPTOR = 0x00000000"
definition PHY_REG_BSR :: u16 where "PHY_REG_BSR = 1"
definition ENET_AUTO_NEGOTIATION :: u32 where "ENET_AUTO_NEGOTIATION = 0x01"
definition PHY_READ_TO :: nat where "PHY_READ_TO = 0x0000FFFF"
definition PHY_LINKED_STATUS :: u16 where "PHY_LINKED_STATUS = 0x0004"
definition PHY_AUTONEGOTIATION :: u16 where "PHY_AUTONEGOTIATION = 0x1000"
definition PHY_AUTONEGO_COMPLETE :: u16 where "PHY_AUTONEGO_COMPLETE = 0x0020"
definition PHY_SR :: u16 where "PHY_SR = 31"
definition PHY_DUPLEX_STATUS :: u16 where "PHY_DUPLEX_STATUS = 0x0004"
definition ENET_MAC_CFG_DPM :: u32 where "ENET_MAC_CFG_DPM = BIT 11"
definition ENET_MODE_FULLDUPLEX :: u32 where "ENET_MODE_FULLDUPLEX = ENET_MAC_CFG_DPM"
definition PHY_SPEED_STATUS :: u16 where "PHY_SPEED_STATUS = 0x0002"
definition ENET_MAC_CFG_SPD :: u32 where "ENET_MAC_CFG_SPD = BIT 14"
definition ENET_SPEEDMODE_100M :: u32 where "ENET_SPEEDMODE_100M = ENET_MAC_CFG_SPD"
definition PHY_CONFIGDELAY :: nat where "PHY_CONFIGDELAY = 0x00FFFFFF"
definition ENET_DMA_BCTL_FPBL :: u32 where "ENET_DMA_BCTL_FPBL = BIT 24"
definition ENET_DMA_BCTL_MB :: u32 where "ENET_DMA_BCTL_MB = BIT 26"
definition ENET_DMA_BCTL_RXDP :: u32 where "ENET_DMA_BCTL_RXDP = BITS 17 22"
definition ENET_DMA_BCTL_PGBL :: u32 where "ENET_DMA_BCTL_PGBL = BITS 8 13"
definition ENET_DMA_BCTL_RTPR :: u32 where "ENET_DMA_BCTL_RTPR = BITS 14 15"
definition ENET_DMA_BCTL_DAB :: u32 where "ENET_DMA_BCTL_DAB = BIT 1"
definition ENET_DMA_CTL_RTHC :: u32 where "ENET_DMA_CTL_RTHC = BITS 3 4"
definition ENET_DMA_CTL_TTHC :: u32 where "ENET_DMA_CTL_TTHC = BITS 14 16"
definition ENET_DMA_CTL_DAFRF :: u32 where "ENET_DMA_CTL_DAFRF = BIT 24"
definition ENET_DMA_CTL_OSF :: u32 where "ENET_DMA_CTL_OSF = BIT 2"
definition ENET_MAC_VLT_VLTI :: u32 where "ENET_MAC_VLT_VLTI = BITS 0 15"
definition ENET_MAC_VLT_VLTC :: u32 where "ENET_MAC_VLT_VLTC = BIT 16"
definition ENET_MAC_FCTH_RFA :: u32 where "ENET_MAC_FCTH_RFA = BITS 0 2"
definition ENET_MAC_FCTH_RFD :: u32 where "ENET_MAC_FCTH_RFD = BITS 4 6"
definition ENET_MAC_FCTL_RFCEN :: u32 where "ENET_MAC_FCTL_RFCEN = BIT 2"
definition ENET_MAC_FCTL_TFCEN :: u32 where "ENET_MAC_FCTL_TFCEN = BIT 1"
definition ENET_MAC_FRMF_SAFLT :: u32 where "ENET_MAC_FRMF_SAFLT = BIT 9"
definition ENET_MAC_FRMF_SAIFLT :: u32 where "ENET_MAC_FRMF_SAIFLT = BIT 8"
definition ENET_MAC_FRMF_DAIFLT :: u32 where "ENET_MAC_FRMF_DAIFLT = BIT 3"
definition ENET_MAC_FRMF_HMF :: u32 where "ENET_MAC_FRMF_HMF = BIT 2"
definition ENET_MAC_FRMF_HPFLT :: u32 where "ENET_MAC_FRMF_HPFLT = BIT 10"
definition ENET_MAC_FRMF_MFD :: u32 where "ENET_MAC_FRMF_MFD = BIT 4"
definition ENET_MAC_FRMF_HUF :: u32 where "ENET_MAC_FRMF_HUF = BIT 1"
definition ENET_MAC_FRMF_PCFRM :: u32 where "ENET_MAC_FRMF_PCFRM = BITS 6 7"
definition ENET_MAC_CFG_ROD :: u32 where "ENET_MAC_CFG_ROD = BIT 13"
definition ENET_MAC_CFG_RTD :: u32 where "ENET_MAC_CFG_RTD = BIT 9"
definition ENET_MAC_CFG_BOL :: u32 where "ENET_MAC_CFG_BOL = BITS 5 6"
definition ENET_MAC_CFG_DFC :: u32 where "ENET_MAC_CFG_DFC = BIT 4"
definition ENET_MAC_CFG_WDD :: u32 where "ENET_MAC_CFG_WDD = BIT 23"
definition ENET_MAC_CFG_JBD :: u32 where "ENET_MAC_CFG_JBD = BIT 22"
definition ENET_MAC_CFG_IGBS :: u32 where "ENET_MAC_CFG_IGBS = BITS 17 19"
definition PHY_RESETDELAY :: nat where "PHY_RESETDELAY = 0x008FFFFF"
definition ENET_MAC_CFG_LBM :: u32 where "ENET_MAC_CFG_LBM = BIT 12"
definition ENET_MAC_CFG_IPFCO :: u32 where "ENET_MAC_CFG_IPFCO = BIT 10"
definition ENET_CHECKSUMOFFLOAD_ENABLE :: u32 where "ENET_CHECKSUMOFFLOAD_ENABLE = ENET_MAC_CFG_IPFCO"
definition ENET_DMA_CTL_DTCERFD :: u32 where "ENET_DMA_CTL_DTCERFD = BIT 26"

lemmas enet_mac_regs [reg_simps] =
  ENET_MAC_DBG_def ENET_DMA_CTL_def ENET_MAC_FRMF_def ENET_MAC_FCTL_def ENET_MAC_FCTH_def ENET_DMA_MFBOCNT_def
  ENET_MAC_PHY_CTL_def ENET_MAC_PHY_DATA_def ENET_MAC_HLL_def ENET_MAC_HLH_def ENET_MAC_VLT_def ENET_MAC_INTMSK_def
  ENET_MSC_RINTMSK_def ENET_MSC_TINTMSK_def

lemmas enet_mac_bits =
  ENET_NO_AUTOCHECKSUM_def ENET_BROADCAST_FRAMES_PASS_def DMA_INTEN_REG_OFFSET_def ENET_MAC_DBG_RXAFS_def
  ENET_RX_ASYNCHRONOUS_FIFO_STATE_def GET_MAC_DBG_RXAFS_def ENET_MAC_DBG_RXFRS_def ENET_RXFIFO_READ_STATUS_def
  GET_MAC_DBG_RXFRS_def ENET_MAC_DBG_RXFS_def ENET_RXFIFO_STATE_def GET_MAC_DBG_RXFS_def ENET_MAC_DBG_SOMT_def
  ENET_MAC_TRANSMITTER_STATUS_def GET_MAC_DBG_SOMT_def ENET_MAC_DBG_TXFRS_def ENET_TXFIFO_READ_STATUS_def
  GET_MAC_DBG_TXFRS_def ENET_MAC_ADDR1H_AFE_def ENET_MAC_ADDR1H_MB_def ENET_MAC_ADDR1H_SAF_def ENET_MAC_CFG_APCD_def
  ENET_AUTO_PADCRC_DROP_def ENET_TYPEFRAME_CRC_DROP_def ENET_DMA_CTL_FERF_def ENET_FORWARD_ERRFRAMES_def
  ENET_DMA_CTL_FUF_def ENET_FORWARD_UNDERSZ_GOODFRAMES_def ENET_MAC_FCTL_FLCBBKPA_def ENET_MAC_FCTL_UPFDT_def
  MAC_FCTL_PTM_def ENET_MAC_FCTL_PTM_def ENET_MAC_FCTL_PLTS_def ENET_MAC_FCTL_DZQP_def ENET_ZERO_QUANTA_PAUSE_def
  ENET_DMA_STAT_TP_def ENET_DMA_STAT_RP_def GET_DMA_MFBOCNT_MSFA_def GET_DMA_MFBOCNT_MSFC_def ENET_DELAY_TO_def
  ENET_DMA_BCTL_SWR_def ENET_DMA_CTL_FTF_def ENET_DMA_CTL_STE_def ENET_MAC_CFG_TEN_def ENET_DMA_CTL_SRE_def
  ENET_MAC_CFG_REN_def ENET_MAC_PHY_CTL_PB_def ENET_MAC_PHY_CTL_PW_def ENET_MAC_PHY_CTL_PR_def
  ENET_MAC_PHY_CTL_PA_def MAC_PHY_CTL_PR_def MAC_PHY_CTL_PA_def ENET_PHY_WRITE_def ENET_PHY_READ_def PHY_ADDRESS_def
  PHY_REG_BCR_def PHY_LOOPBACK_def MAC_PHY_CTL_CLR_def ENET_MDC_HCLK_DIV16_def ENET_MDC_HCLK_DIV26_def
  ENET_MDC_HCLK_DIV42_def ENET_MDC_HCLK_DIV62_def ENET_MDC_HCLK_DIV102_def ENET_MAC_PHY_CTL_CLR_def PHY_RESET_def
  FORWARD_OPTION_def DMABUS_OPTION_def DMA_MAXBURST_OPTION_def DMA_ARBITRATION_OPTION_def STORE_OPTION_def
  DMA_OPTION_def ENET_DMA_BCTL_DFM_def ENET_ENHANCED_DESCRIPTOR_def VLAN_OPTION_def FLOWCTL_OPTION_def
  HASHH_OPTION_def HASHL_OPTION_def FILTER_OPTION_def HALFDUPLEX_OPTION_def TIMER_OPTION_def INTERFRAMEGAP_OPTION_def
  MAC_CFG_MASK_def ENET_WATCHDOG_ENABLE_def ENET_JABBER_ENABLE_def MAC_CFG_IGBS_def ENET_INTERFRAMEGAP_96BIT_def
  ENET_SPEEDMODE_10M_def ENET_MODE_HALFDUPLEX_def ENET_LOOPBACKMODE_DISABLE_def ENET_MAC_CFG_CSD_def
  ENET_CARRIERSENSE_DISABLE_def ENET_RECEIVEOWN_ENABLE_def ENET_RETRYTRANSMISSION_ENABLE_def MAC_CFG_BOL_def
  ENET_BACKOFFLIMIT_10_def ENET_DEFERRALCHECK_DISABLE_def ENET_TYPEFRAME_CRC_DROP_DISABLE_def
  ENET_AUTO_PADCRC_DROP_DISABLE_def ENET_CHECKSUMOFFLOAD_DISABLE_def ENET_SRC_FILTER_DISABLE_def
  ENET_DEST_FILTER_INVERSE_DISABLE_def ENET_MULTICAST_FILTER_PERFECT_def ENET_UNICAST_FILTER_PERFECT_def
  MAC_FRMF_PCFRM_def ENET_PCFRM_PREVENT_ALL_def ENET_BROADCASTFRAMES_ENABLE_def ENET_PROMISCUOUS_DISABLE_def
  ENET_RX_FILTER_ENABLE_def MAC_FCTL_MASK_def ENET_ZERO_QUANTA_PAUSE_DISABLE_def MAC_FCTL_PLTS_def
  ENET_PAUSETIME_MINUS4_def ENET_UNIQUE_PAUSEDETECT_def ENET_RX_FLOWCONTROL_DISABLE_def
  ENET_TX_FLOWCONTROL_DISABLE_def ENET_VLANTAGCOMPARISON_16BIT_def MAC_VLT_VLTI_def ENET_MAC_INTMSK_TMSTIM_def
  ENET_MAC_INTMSK_WUMIM_def ENET_MSC_RINTMSK_RFAEIM_def ENET_MSC_RINTMSK_RFCEIM_def ENET_MSC_RINTMSK_RGUFIM_def
  ENET_MSC_TINTMSK_TGFIM_def ENET_MSC_TINTMSK_TGFMSCIM_def ENET_MSC_TINTMSK_TGFSCIM_def DMA_CTL_MASK_def
  ENET_TCPIP_CKSUMERROR_DROP_def ENET_DMA_CTL_RSFD_def ENET_RX_MODE_STOREFORWARD_def ENET_FLUSH_RXFRAME_ENABLE_def
  ENET_DMA_CTL_TSFD_def ENET_TX_MODE_STOREFORWARD_def DMA_CTL_TTHC_def ENET_TX_THRESHOLD_64BYTES_def DMA_CTL_RTHC_def
  ENET_RX_THRESHOLD_64BYTES_def ENET_SECONDFRAME_OPT_DISABLE_def ENET_DMA_BCTL_AA_def ENET_ADDRESS_ALIGN_ENABLE_def
  DMA_BCTL_RTPR_def ENET_ARBITRATION_RXTX_2_1_def DMA_BCTL_RXDP_def ENET_RXDP_32BEAT_def DMA_BCTL_PGBL_def
  ENET_PGBL_32BEAT_def ENET_DMA_BCTL_UIP_def ENET_RXTX_DIFFERENT_PGBL_def ENET_DMA_BCTL_FB_def
  ENET_FIXED_BURST_ENABLE_def ENET_MIXED_BURST_DISABLE_def ENET_NORMAL_DESCRIPTOR_def PHY_REG_BSR_def
  ENET_AUTO_NEGOTIATION_def PHY_READ_TO_def PHY_LINKED_STATUS_def PHY_AUTONEGOTIATION_def PHY_AUTONEGO_COMPLETE_def
  PHY_SR_def PHY_DUPLEX_STATUS_def ENET_MAC_CFG_DPM_def ENET_MODE_FULLDUPLEX_def PHY_SPEED_STATUS_def
  ENET_MAC_CFG_SPD_def ENET_SPEEDMODE_100M_def PHY_CONFIGDELAY_def ENET_DMA_BCTL_FPBL_def ENET_DMA_BCTL_MB_def
  ENET_DMA_BCTL_RXDP_def ENET_DMA_BCTL_PGBL_def ENET_DMA_BCTL_RTPR_def ENET_DMA_BCTL_DAB_def ENET_DMA_CTL_RTHC_def
  ENET_DMA_CTL_TTHC_def ENET_DMA_CTL_DAFRF_def ENET_DMA_CTL_OSF_def ENET_MAC_VLT_VLTI_def ENET_MAC_VLT_VLTC_def
  ENET_MAC_FCTH_RFA_def ENET_MAC_FCTH_RFD_def ENET_MAC_FCTL_RFCEN_def ENET_MAC_FCTL_TFCEN_def ENET_MAC_FRMF_SAFLT_def
  ENET_MAC_FRMF_SAIFLT_def ENET_MAC_FRMF_DAIFLT_def ENET_MAC_FRMF_HMF_def ENET_MAC_FRMF_HPFLT_def
  ENET_MAC_FRMF_MFD_def ENET_MAC_FRMF_HUF_def ENET_MAC_FRMF_PCFRM_def ENET_MAC_CFG_ROD_def ENET_MAC_CFG_RTD_def
  ENET_MAC_CFG_BOL_def ENET_MAC_CFG_DFC_def ENET_MAC_CFG_WDD_def ENET_MAC_CFG_JBD_def ENET_MAC_CFG_IGBS_def
  PHY_RESETDELAY_def ENET_MAC_CFG_LBM_def ENET_MAC_CFG_IPFCO_def ENET_CHECKSUMOFFLOAD_ENABLE_def
  ENET_DMA_CTL_DTCERFD_def

section \<open>Flags, interrupts and simple settings\<close>

definition ENET_REG_VAL :: "u32 \<Rightarrow> u32" where "ENET_REG_VAL periph = ENET + drop_bit 6 periph"
definition ENET_BIT_POS :: "u32 \<Rightarrow> nat" where "ENET_BIT_POS v = unat (v AND 0x1F)"

definition enet_flag_get :: "u32 \<Rightarrow> mem \<Rightarrow> bool" where
  "enet_flag_get enet_flag m = has (reg_rd (ENET_REG_VAL enet_flag) m) (BIT (ENET_BIT_POS enet_flag))"

definition enet_flag_clear :: "u32 \<Rightarrow> mem \<Rightarrow> mem" where
  "enet_flag_clear enet_flag = reg_wr (ENET_REG_VAL enet_flag) (BIT (ENET_BIT_POS enet_flag))"

definition enet_interrupt_enable :: "u32 \<Rightarrow> mem \<Rightarrow> mem" where
  "enet_interrupt_enable enet_int =
     (if DMA_INTEN_REG_OFFSET = drop_bit 6 enet_int
      then reg_set (ENET_REG_VAL enet_int) (BIT (ENET_BIT_POS enet_int))
      else reg_clr (ENET_REG_VAL enet_int) (BIT (ENET_BIT_POS enet_int)))"

definition enet_interrupt_disable :: "u32 \<Rightarrow> mem \<Rightarrow> mem" where
  "enet_interrupt_disable enet_int =
     (if DMA_INTEN_REG_OFFSET = drop_bit 6 enet_int
      then reg_clr (ENET_REG_VAL enet_int) (BIT (ENET_BIT_POS enet_int))
      else reg_set (ENET_REG_VAL enet_int) (BIT (ENET_BIT_POS enet_int)))"

definition enet_interrupt_flag_get :: "u32 \<Rightarrow> mem \<Rightarrow> bool" where
  "enet_interrupt_flag_get int_flag m = has (reg_rd (ENET_REG_VAL int_flag) m) (BIT (ENET_BIT_POS int_flag))"

definition enet_interrupt_flag_clear :: "u32 \<Rightarrow> mem \<Rightarrow> mem" where
  "enet_interrupt_flag_clear int_flag_clear = reg_wr (ENET_REG_VAL int_flag_clear) (BIT (ENET_BIT_POS int_flag_clear))"

definition enet_debug_status_get :: "u32 \<Rightarrow> mem \<Rightarrow> u32" where
  "enet_debug_status_get mac_debug m =
     (let dbg = reg_rd ENET_MAC_DBG m
      in if mac_debug = ENET_RX_ASYNCHRONOUS_FIFO_STATE then GET_MAC_DBG_RXAFS dbg
         else if mac_debug = ENET_RXFIFO_READ_STATUS then GET_MAC_DBG_RXFRS dbg
         else if mac_debug = ENET_RXFIFO_STATE then GET_MAC_DBG_RXFS dbg
         else if mac_debug = ENET_MAC_TRANSMITTER_STATUS then GET_MAC_DBG_SOMT dbg
         else if mac_debug = ENET_TXFIFO_READ_STATUS then GET_MAC_DBG_TXFRS dbg
         else if has dbg mac_debug then 1 else 0)"

definition enet_address_filter_enable :: "u32 \<Rightarrow> mem \<Rightarrow> mem" where
  "enet_address_filter_enable mac_addr = reg_set (ENET_ADDRH_BASE + mac_addr) ENET_MAC_ADDR1H_AFE"

definition enet_address_filter_disable :: "u32 \<Rightarrow> mem \<Rightarrow> mem" where
  "enet_address_filter_disable mac_addr = reg_clr (ENET_ADDRH_BASE + mac_addr) ENET_MAC_ADDR1H_AFE"

text \<open>Clear the bits \<open>k\<close> of a register and put the bits \<open>v\<close> there.\<close>

definition enet_field :: "u32 \<Rightarrow> u32 \<Rightarrow> u32 \<Rightarrow> mem \<Rightarrow> mem" where
  "enet_field a k v m = reg_wr a ((reg_rd a m AND NOT k) OR v) m"

definition enet_address_filter_config :: "u32 \<Rightarrow> u32 \<Rightarrow> u32 \<Rightarrow> mem \<Rightarrow> mem" where
  "enet_address_filter_config mac_addr addr_mask filter_type =
     enet_field (ENET_ADDRH_BASE + mac_addr) (ENET_MAC_ADDR1H_MB OR ENET_MAC_ADDR1H_SAF) (addr_mask OR filter_type)"

definition enet_forward_feature_enable :: "u32 \<Rightarrow> mem \<Rightarrow> mem" where
  "enet_forward_feature_enable feature m =
     reg_set ENET_DMA_CTL (drop_bit 2 (feature AND NOT (ENET_AUTO_PADCRC_DROP OR ENET_TYPEFRAME_CRC_DROP)))
       (reg_set ENET_MAC_CFG (feature AND NOT (ENET_FORWARD_ERRFRAMES OR ENET_FORWARD_UNDERSZ_GOODFRAMES)) m)"

definition enet_forward_feature_disable :: "u32 \<Rightarrow> mem \<Rightarrow> mem" where
  "enet_forward_feature_disable feature m =
     reg_clr ENET_DMA_CTL (drop_bit 2 (feature AND NOT (ENET_AUTO_PADCRC_DROP OR ENET_TYPEFRAME_CRC_DROP)))
       (reg_clr ENET_MAC_CFG (feature AND NOT (ENET_FORWARD_ERRFRAMES OR ENET_FORWARD_UNDERSZ_GOODFRAMES)) m)"

definition enet_fliter_feature_enable :: "u32 \<Rightarrow> mem \<Rightarrow> mem" where
  "enet_fliter_feature_enable feature = reg_set ENET_MAC_FRMF feature"

definition enet_fliter_feature_disable :: "u32 \<Rightarrow> mem \<Rightarrow> mem" where
  "enet_fliter_feature_disable feature = reg_clr ENET_MAC_FRMF feature"

definition enet_pauseframe_generate :: "mem \<Rightarrow> bool \<times> mem" where
  "enet_pauseframe_generate m =
     (if reg_rd ENET_MAC_FCTL m AND ENET_MAC_FCTL_FLCBBKPA = 0 then (True, reg_set ENET_MAC_FCTL ENET_MAC_FCTL_FLCBBKPA m)
      else (False, m))"

definition enet_pauseframe_detect_config :: "u32 \<Rightarrow> mem \<Rightarrow> mem" where
  "enet_pauseframe_detect_config detect m = reg_set ENET_MAC_FCTL detect (reg_clr ENET_MAC_FCTL ENET_MAC_FCTL_UPFDT m)"

definition enet_pauseframe_config :: "u32 \<Rightarrow> u32 \<Rightarrow> mem \<Rightarrow> mem" where
  "enet_pauseframe_config pausetime pause_threshold m =
     reg_set ENET_MAC_FCTL (MAC_FCTL_PTM pausetime OR pause_threshold)
       (reg_clr ENET_MAC_FCTL (ENET_MAC_FCTL_PTM OR ENET_MAC_FCTL_PLTS) m)"

definition enet_flowcontrol_threshold_config :: "u32 \<Rightarrow> u32 \<Rightarrow> mem \<Rightarrow> mem" where
  "enet_flowcontrol_threshold_config deactive active = reg_wr ENET_MAC_FCTH (drop_bit 8 (deactive OR active))"

definition enet_flowcontrol_feature_enable :: "u32 \<Rightarrow> mem \<Rightarrow> mem" where
  "enet_flowcontrol_feature_enable feature m =
     reg_set ENET_MAC_FCTL (feature AND NOT ENET_ZERO_QUANTA_PAUSE)
       (if has feature ENET_ZERO_QUANTA_PAUSE then reg_clr ENET_MAC_FCTL ENET_ZERO_QUANTA_PAUSE m else m)"

definition enet_flowcontrol_feature_disable :: "u32 \<Rightarrow> mem \<Rightarrow> mem" where
  "enet_flowcontrol_feature_disable feature m =
     reg_clr ENET_MAC_FCTL (feature AND NOT ENET_ZERO_QUANTA_PAUSE)
       (if has feature ENET_ZERO_QUANTA_PAUSE then reg_set ENET_MAC_FCTL ENET_ZERO_QUANTA_PAUSE m else m)"

definition enet_dmaprocess_state_get :: "enet_dmadirection_enum \<Rightarrow> mem \<Rightarrow> u32" where
  "enet_dmaprocess_state_get direction m =
     reg_rd ENET_DMA_STAT m AND (case direction of ENET_DMA_TX \<Rightarrow> ENET_DMA_STAT_TP | ENET_DMA_RX \<Rightarrow> ENET_DMA_STAT_RP)"

definition enet_dmaprocess_resume :: "enet_dmadirection_enum \<Rightarrow> mem \<Rightarrow> mem" where
  "enet_dmaprocess_resume direction = (case direction of ENET_DMA_TX \<Rightarrow> reg_wr ENET_DMA_TPEN 0 | ENET_DMA_RX \<Rightarrow> reg_wr ENET_DMA_RPEN 0)"

definition enet_current_desc_address_get :: "u32 \<Rightarrow> mem \<Rightarrow> u32" where
  "enet_current_desc_address_get addr_get m = reg_rd (ENET + addr_get) m"

definition enet_missed_frame_counter_get :: "mem \<Rightarrow> u32 \<times> u32" where
  "enet_missed_frame_counter_get m =
     (let temp_counter = reg_rd ENET_DMA_MFBOCNT m in (GET_DMA_MFBOCNT_MSFA temp_counter, GET_DMA_MFBOCNT_MSFC temp_counter))"

definition enet_dma_feature_enable :: "u32 \<Rightarrow> mem \<Rightarrow> mem" where
  "enet_dma_feature_enable feature = reg_set ENET_DMA_CTL feature"

definition enet_dma_feature_disable :: "u32 \<Rightarrow> mem \<Rightarrow> mem" where
  "enet_dma_feature_disable feature = reg_clr ENET_DMA_CTL feature"

section \<open>Waiting for the controller\<close>

text \<open>
  The polling loops read a register until a bit of it is clear or the count is used up. The
  environment \<open>hw\<close> moves before every read of a register that the controller changes on its own;
  the result is the memory at the last read.
\<close>

fun poll_clear :: "nat \<Rightarrow> (mem \<Rightarrow> mem) \<Rightarrow> u32 \<Rightarrow> u32 \<Rightarrow> mem \<Rightarrow> mem" where
  "poll_clear 0 hw a f m = m"
| "poll_clear (Suc n) hw a f m = (let m = hw m in if reg_rd a m AND f = 0 then m else poll_clear n hw a f m)"

definition enet_software_reset :: "(mem \<Rightarrow> mem) \<Rightarrow> mem \<Rightarrow> bool \<times> mem" where
  "enet_software_reset hw m =
     (let m = hw (poll_clear ENET_DELAY_TO hw ENET_DMA_BCTL ENET_DMA_BCTL_SWR (reg_set ENET_DMA_BCTL ENET_DMA_BCTL_SWR m))
      in (reg_rd ENET_DMA_BCTL m AND ENET_DMA_BCTL_SWR = 0, m))"

definition enet_txfifo_flush :: "(mem \<Rightarrow> mem) \<Rightarrow> mem \<Rightarrow> bool \<times> mem" where
  "enet_txfifo_flush hw m =
     (let m = poll_clear ENET_DELAY_TO hw ENET_DMA_CTL ENET_DMA_CTL_FTF (reg_set ENET_DMA_CTL ENET_DMA_CTL_FTF m)
      in (reg_rd ENET_DMA_CTL m AND ENET_DMA_CTL_FTF = 0, m))"

definition enet_tx_enable :: "(mem \<Rightarrow> mem) \<Rightarrow> mem \<Rightarrow> mem" where
  "enet_tx_enable hw m =
     reg_set ENET_DMA_CTL ENET_DMA_CTL_STE (snd (enet_txfifo_flush hw (reg_set ENET_MAC_CFG ENET_MAC_CFG_TEN m)))"

definition enet_tx_disable :: "(mem \<Rightarrow> mem) \<Rightarrow> mem \<Rightarrow> mem" where
  "enet_tx_disable hw m =
     reg_clr ENET_MAC_CFG ENET_MAC_CFG_TEN (snd (enet_txfifo_flush hw (reg_clr ENET_DMA_CTL ENET_DMA_CTL_STE m)))"

definition enet_rx_enable :: "mem \<Rightarrow> mem" where
  "enet_rx_enable m = reg_set ENET_DMA_CTL ENET_DMA_CTL_SRE (reg_set ENET_MAC_CFG ENET_MAC_CFG_REN m)"

definition enet_rx_disable :: "mem \<Rightarrow> mem" where
  "enet_rx_disable m = reg_clr ENET_MAC_CFG ENET_MAC_CFG_REN (reg_clr ENET_DMA_CTL ENET_DMA_CTL_SRE m)"

definition enet_enable :: "(mem \<Rightarrow> mem) \<Rightarrow> mem \<Rightarrow> mem" where
  "enet_enable hw m = enet_rx_enable (enet_tx_enable hw m)"

definition enet_disable :: "(mem \<Rightarrow> mem) \<Rightarrow> mem \<Rightarrow> mem" where
  "enet_disable hw m = enet_rx_disable (enet_tx_disable hw m)"

fun enet_delay :: "nat \<Rightarrow> (mem \<Rightarrow> mem) \<Rightarrow> mem \<Rightarrow> mem" where
  "enet_delay 0 hw m = m"
| "enet_delay (Suc ncount) hw m = enet_delay ncount hw (hw m)"

section \<open>The transceiver\<close>

text \<open>One access over the management interface: status, value and memory afterwards.\<close>

definition enet_phy_write_read :: "(mem \<Rightarrow> mem) \<Rightarrow> u32 \<Rightarrow> u16 \<Rightarrow> u16 \<Rightarrow> u16 \<Rightarrow> mem \<Rightarrow> bool \<times> u16 \<times> mem" where
  "enet_phy_write_read hw direction phy_address phy_reg pvalue m =
     (let reg = reg_rd ENET_MAC_PHY_CTL m AND NOT (ENET_MAC_PHY_CTL_PB OR ENET_MAC_PHY_CTL_PW OR ENET_MAC_PHY_CTL_PR OR ENET_MAC_PHY_CTL_PA);
          reg = reg OR (direction OR MAC_PHY_CTL_PR (ucast phy_reg) OR MAC_PHY_CTL_PA (ucast phy_address) OR ENET_MAC_PHY_CTL_PB);
          m = (if ENET_PHY_WRITE = direction then reg_wr ENET_MAC_PHY_DATA (ucast pvalue) m else m);
          m = poll_clear ENET_DELAY_TO hw ENET_MAC_PHY_CTL ENET_MAC_PHY_CTL_PB (reg_wr ENET_MAC_PHY_CTL reg m);
          m = hw m;
          enet_state = (reg_rd ENET_MAC_PHY_CTL m AND ENET_MAC_PHY_CTL_PB = 0);
          m = hw m
      in (enet_state, if ENET_PHY_READ = direction then ucast (reg_rd ENET_MAC_PHY_DATA m) else pvalue, m))"

definition enet_phyloopback_enable :: "(mem \<Rightarrow> mem) \<Rightarrow> mem \<Rightarrow> bool \<times> mem" where
  "enet_phyloopback_enable hw m =
     (let (_, temp_phy, m) = enet_phy_write_read hw ENET_PHY_READ PHY_ADDRESS PHY_REG_BCR 0 m;
          (phy_state, _, m) = enet_phy_write_read hw ENET_PHY_WRITE PHY_ADDRESS PHY_REG_BCR (temp_phy OR PHY_LOOPBACK) m
      in (phy_state, m))"

definition enet_phyloopback_disable :: "(mem \<Rightarrow> mem) \<Rightarrow> mem \<Rightarrow> bool \<times> mem" where
  "enet_phyloopback_disable hw m =
     (let (_, temp_phy, m) = enet_phy_write_read hw ENET_PHY_READ PHY_ADDRESS PHY_REG_BCR 0 m;
          (phy_state, _, m) = enet_phy_write_read hw ENET_PHY_WRITE PHY_ADDRESS PHY_REG_BCR (temp_phy AND NOT PHY_LOOPBACK) m
      in (phy_state, m))"

definition mdc_divider :: "u32 \<Rightarrow> u32 option" where
  "mdc_divider ahbclk =
     (if 20000000 \<le> ahbclk \<and> ahbclk < 35000000 then Some ENET_MDC_HCLK_DIV16
      else if 35000000 \<le> ahbclk \<and> ahbclk < 60000000 then Some ENET_MDC_HCLK_DIV26
      else if 60000000 \<le> ahbclk \<and> ahbclk < 100000000 then Some ENET_MDC_HCLK_DIV42
      else if 100000000 \<le> ahbclk \<and> ahbclk < 150000000 then Some ENET_MDC_HCLK_DIV62
      else if 150000000 \<le> ahbclk \<and> ahbclk < 240000000 \<or> 240000000 = ahbclk then Some ENET_MDC_HCLK_DIV102
      else None)"

definition enet_phy_config :: "(mem \<Rightarrow> mem) \<Rightarrow> mem \<Rightarrow> (bool \<times> mem) res" where
  "enet_phy_config hw m =
     (let reg = reg_rd ENET_MAC_PHY_CTL m AND NOT ENET_MAC_PHY_CTL_CLR
      in bind_res (rcu_clock_freq_get CK_AHB m) (\<lambda>ahbclk.
         case mdc_divider ahbclk of None \<Rightarrow> Inr (False, m)
         | Some dv \<Rightarrow>
             let m = reg_wr ENET_MAC_PHY_CTL (reg OR dv) m;
                 (ok, _, m) = enet_phy_write_read hw ENET_PHY_WRITE PHY_ADDRESS PHY_REG_BCR PHY_RESET m
             in if \<not> ok then Inr (False, m)
                else let m = enet_delay ENET_DELAY_TO hw m;
                         (ok, phy_value, m) = enet_phy_write_read hw ENET_PHY_READ PHY_ADDRESS PHY_REG_BCR PHY_RESET m
                     in if \<not> ok then Inr (False, m) else Inr (phy_value AND PHY_RESET = 0, m)))"

section \<open>Initialisation\<close>

record enet_initpara_struct =
  option_enable :: u32
  forward_frame :: u32
  dmabus_mode :: u32
  dma_maxburst :: u32
  dma_arbitration :: u32
  store_forward_mode :: u32
  dma_function :: u32
  vlan_config :: u32
  flow_control :: u32
  hashtable_high :: u32
  hashtable_low :: u32
  framesfilter_mode :: u32
  halfduplex_param :: u32
  timer_config :: u32
  interframegap :: u32

definition enet_initpara_reset :: enet_initpara_struct where
  "enet_initpara_reset = \<lparr> option_enable = 0, forward_frame = 0, dmabus_mode = 0, dma_maxburst = 0, dma_arbitration = 0,
     store_forward_mode = 0, dma_function = 0, vlan_config = 0, flow_control = 0, hashtable_high = 0, hashtable_low = 0,
     framesfilter_mode = 0, halfduplex_param = 0, timer_config = 0, interframegap = 0 \<rparr>"

definition enet_initpara_config :: "u32 \<Rightarrow> u32 \<Rightarrow> enet_initpara_struct \<Rightarrow> enet_initpara_struct" where
  "enet_initpara_config opt para p =
     (let q = p\<lparr> option_enable := option_enable p OR opt \<rparr>
      in if opt = FORWARD_OPTION then q\<lparr> forward_frame := para \<rparr>
         else if opt = DMABUS_OPTION then q\<lparr> dmabus_mode := para \<rparr>
         else if opt = DMA_MAXBURST_OPTION then q\<lparr> dma_maxburst := para \<rparr>
         else if opt = DMA_ARBITRATION_OPTION then q\<lparr> dma_arbitration := para \<rparr>
         else if opt = STORE_OPTION then q\<lparr> store_forward_mode := para \<rparr>
         else if opt = DMA_OPTION then q\<lparr> dma_function := para AND NOT ENET_ENHANCED_DESCRIPTOR \<rparr>
         else if opt = VLAN_OPTION then q\<lparr> vlan_config := para \<rparr>
         else if opt = FLOWCTL_OPTION then q\<lparr> flow_control := para \<rparr>
         else if opt = HASHH_OPTION then q\<lparr> hashtable_high := para \<rparr>
         else if opt = HASHL_OPTION then q\<lparr> hashtable_low := para \<rparr>
         else if opt = FILTER_OPTION then q\<lparr> framesfilter_mode := para \<rparr>
         else if opt = HALFDUPLEX_OPTION then q\<lparr> halfduplex_param := para \<rparr>
         else if opt = TIMER_OPTION then q\<lparr> timer_config := para \<rparr>
         else if opt = INTERFRAMEGAP_OPTION then q\<lparr> interframegap := para \<rparr>
         else p)"

definition RCU_ENETRST :: u32 where "RCU_ENETRST = RCU_REGIDX_BIT 0x10 25"

definition enet_deinit :: "mem \<Rightarrow> enet_initpara_struct \<times> mem" where
  "enet_deinit m = (enet_initpara_reset, rcu_periph_reset_disable RCU_ENETRST (rcu_periph_reset_enable RCU_ENETRST m))"

definition enet_default_init :: "mem \<Rightarrow> mem" where
  "enet_default_init m =
     (let m = reg_wr ENET_MAC_CFG ((reg_rd ENET_MAC_CFG m AND MAC_CFG_MASK) OR (ENET_WATCHDOG_ENABLE OR ENET_JABBER_ENABLE
            OR ENET_INTERFRAMEGAP_96BIT OR ENET_SPEEDMODE_10M OR ENET_MODE_HALFDUPLEX OR ENET_LOOPBACKMODE_DISABLE
            OR ENET_CARRIERSENSE_DISABLE OR ENET_RECEIVEOWN_ENABLE OR ENET_RETRYTRANSMISSION_ENABLE OR ENET_BACKOFFLIMIT_10
            OR ENET_DEFERRALCHECK_DISABLE OR ENET_TYPEFRAME_CRC_DROP_DISABLE OR ENET_AUTO_PADCRC_DROP_DISABLE
            OR ENET_CHECKSUMOFFLOAD_DISABLE)) m;
          m = reg_wr ENET_MAC_FRMF (ENET_SRC_FILTER_DISABLE OR ENET_DEST_FILTER_INVERSE_DISABLE OR ENET_MULTICAST_FILTER_PERFECT
            OR ENET_UNICAST_FILTER_PERFECT OR ENET_PCFRM_PREVENT_ALL OR ENET_BROADCASTFRAMES_ENABLE OR ENET_PROMISCUOUS_DISABLE
            OR ENET_RX_FILTER_ENABLE) m;
          m = reg_wr ENET_MAC_HLL 0 (reg_wr ENET_MAC_HLH 0 m);
          m = reg_wr ENET_MAC_FCTL ((reg_rd ENET_MAC_FCTL m AND MAC_FCTL_MASK) OR (MAC_FCTL_PTM 0 OR ENET_ZERO_QUANTA_PAUSE_DISABLE
            OR ENET_PAUSETIME_MINUS4 OR ENET_UNIQUE_PAUSEDETECT OR ENET_RX_FLOWCONTROL_DISABLE OR ENET_TX_FLOWCONTROL_DISABLE)) m;
          m = reg_wr ENET_MAC_VLT (ENET_VLANTAGCOMPARISON_16BIT OR MAC_VLT_VLTI 0) m;
          m = reg_set ENET_MAC_INTMSK (ENET_MAC_INTMSK_TMSTIM OR ENET_MAC_INTMSK_WUMIM) m;
          m = reg_set ENET_MSC_RINTMSK (ENET_MSC_RINTMSK_RFAEIM OR ENET_MSC_RINTMSK_RFCEIM OR ENET_MSC_RINTMSK_RGUFIM) m;
          m = reg_set ENET_MSC_TINTMSK (ENET_MSC_TINTMSK_TGFIM OR ENET_MSC_TINTMSK_TGFMSCIM OR ENET_MSC_TINTMSK_TGFSCIM) m;
          m = reg_wr ENET_DMA_CTL ((reg_rd ENET_DMA_CTL m AND DMA_CTL_MASK) OR (ENET_TCPIP_CKSUMERROR_DROP OR ENET_RX_MODE_STOREFORWARD
            OR ENET_FLUSH_RXFRAME_ENABLE OR ENET_TX_MODE_STOREFORWARD OR ENET_TX_THRESHOLD_64BYTES OR ENET_RX_THRESHOLD_64BYTES
            OR ENET_SECONDFRAME_OPT_DISABLE)) m
      in reg_wr ENET_DMA_BCTL (ENET_ADDRESS_ALIGN_ENABLE OR ENET_ARBITRATION_RXTX_2_1 OR ENET_RXDP_32BEAT OR ENET_PGBL_32BEAT
           OR ENET_RXTX_DIFFERENT_PGBL OR ENET_FIXED_BURST_ENABLE OR ENET_MIXED_BURST_DISABLE OR ENET_NORMAL_DESCRIPTOR) m)"

text \<open>Reading a status bit of the transceiver until it is set; \<open>True\<close> when the count is used up.\<close>

fun phy_poll :: "nat \<Rightarrow> (mem \<Rightarrow> mem) \<Rightarrow> u16 \<Rightarrow> u16 \<Rightarrow> mem \<Rightarrow> bool \<times> mem" where
  "phy_poll 0 hw bits v m = (True, m)"
| "phy_poll (Suc left) hw bits v m =
     (let (_, v, m) = enet_phy_write_read hw ENET_PHY_READ PHY_ADDRESS PHY_REG_BSR v m; v = v AND bits
      in if left = 0 then (True, m) else if v \<noteq> 0 then (False, m) else phy_poll left hw bits v m)"

text \<open>The media part: the bits for \<^verbatim>\<open>ENET_MAC_CFG\<close>, or \<open>None\<close> after an error.\<close>

definition enet_media :: "(mem \<Rightarrow> mem) \<Rightarrow> u32 \<Rightarrow> mem \<Rightarrow> u32 option \<times> mem" where
  "enet_media hw mediamode m =
     (if ENET_AUTO_NEGOTIATION = mediamode then
        let (late, m) = phy_poll PHY_READ_TO hw PHY_LINKED_STATUS 0 m
        in if late then (None, m)
           else let (phy_state, _, m) = enet_phy_write_read hw ENET_PHY_WRITE PHY_ADDRESS PHY_REG_BCR PHY_AUTONEGOTIATION m
        in if \<not> phy_state then (None, m)
           else let (late, m) = phy_poll PHY_READ_TO hw PHY_AUTONEGO_COMPLETE PHY_AUTONEGOTIATION m
        in if late then (None, m)
           else let (_, phy_value, m) = enet_phy_write_read hw ENET_PHY_READ PHY_ADDRESS PHY_SR 0 m
        in (Some ((if phy_value AND PHY_DUPLEX_STATUS \<noteq> 0 then ENET_MODE_FULLDUPLEX else ENET_MODE_HALFDUPLEX)
               OR (if phy_value AND PHY_SPEED_STATUS \<noteq> 0 then ENET_SPEEDMODE_10M else ENET_SPEEDMODE_100M)), m)
      else
        let phy_value = (ucast (drop_bit 3 (mediamode AND ENET_MAC_CFG_DPM)) :: u16) OR ucast (drop_bit 1 (mediamode AND ENET_MAC_CFG_SPD));
            (phy_state, _, m) = enet_phy_write_read hw ENET_PHY_WRITE PHY_ADDRESS PHY_REG_BCR phy_value m
        in if \<not> phy_state then (None, m) else (Some mediamode, enet_delay PHY_CONFIGDELAY hw m))"

text \<open>The optional parts: each is applied when its bit is set in \<^verbatim>\<open>option_enable\<close>.\<close>

definition enet_options :: "enet_initpara_struct \<Rightarrow> mem \<Rightarrow> mem" where
  "enet_options p m =
     (let enabled = (\<lambda>opt f m. if has (option_enable p) opt then f m else m);
          m = enabled FORWARD_OPTION (\<lambda>m.
            enet_field ENET_DMA_CTL (ENET_DMA_CTL_FERF OR ENET_DMA_CTL_FUF)
              (drop_bit 2 (forward_frame p AND push_bit 2 (ENET_DMA_CTL_FERF OR ENET_DMA_CTL_FUF)))
              (enet_field ENET_MAC_CFG (ENET_MAC_CFG_TFCD OR ENET_MAC_CFG_APCD)
                (forward_frame p AND (ENET_MAC_CFG_TFCD OR ENET_MAC_CFG_APCD)) m)) m;
          m = enabled DMABUS_OPTION (enet_field ENET_DMA_BCTL
            (ENET_DMA_BCTL_AA OR ENET_DMA_BCTL_FB OR ENET_DMA_BCTL_FPBL OR ENET_DMA_BCTL_MB) (dmabus_mode p)) m;
          m = enabled DMA_MAXBURST_OPTION (enet_field ENET_DMA_BCTL
            (ENET_DMA_BCTL_RXDP OR ENET_DMA_BCTL_PGBL OR ENET_DMA_BCTL_UIP) (dma_maxburst p)) m;
          m = enabled DMA_ARBITRATION_OPTION (enet_field ENET_DMA_BCTL (ENET_DMA_BCTL_RTPR OR ENET_DMA_BCTL_DAB) (dma_arbitration p)) m;
          m = enabled STORE_OPTION (enet_field ENET_DMA_CTL
            (ENET_DMA_CTL_RSFD OR ENET_DMA_CTL_TSFD OR ENET_DMA_CTL_RTHC OR ENET_DMA_CTL_TTHC) (store_forward_mode p)) m;
          m = enabled DMA_OPTION (\<lambda>m.
            enet_field ENET_DMA_BCTL ENET_DMA_BCTL_DFM (dma_function p AND ENET_DMA_BCTL_DFM)
              (enet_field ENET_DMA_CTL (ENET_DMA_CTL_DAFRF OR ENET_DMA_CTL_OSF)
                (dma_function p AND (ENET_DMA_CTL_DAFRF OR ENET_DMA_CTL_OSF)) m)) m;
          m = enabled VLAN_OPTION (enet_field ENET_MAC_VLT (ENET_MAC_VLT_VLTI OR ENET_MAC_VLT_VLTC) (vlan_config p)) m;
          m = enabled FLOWCTL_OPTION (\<lambda>m.
            enet_field ENET_MAC_FCTH (ENET_MAC_FCTH_RFA OR ENET_MAC_FCTH_RFD)
              (drop_bit 8 (flow_control p AND push_bit 8 (ENET_MAC_FCTH_RFA OR ENET_MAC_FCTH_RFD)))
              (enet_field ENET_MAC_FCTL
                (ENET_MAC_FCTL_PTM OR ENET_MAC_FCTL_DZQP OR ENET_MAC_FCTL_PLTS OR ENET_MAC_FCTL_UPFDT OR ENET_MAC_FCTL_RFCEN OR ENET_MAC_FCTL_TFCEN)
                (flow_control p AND (ENET_MAC_FCTL_PTM OR ENET_MAC_FCTL_DZQP OR ENET_MAC_FCTL_PLTS OR ENET_MAC_FCTL_UPFDT OR ENET_MAC_FCTL_RFCEN
                  OR ENET_MAC_FCTL_TFCEN)) m)) m;
          m = enabled HASHH_OPTION (reg_wr ENET_MAC_HLH (hashtable_high p)) m;
          m = enabled HASHL_OPTION (reg_wr ENET_MAC_HLL (hashtable_low p)) m;
          m = enabled FILTER_OPTION (enet_field ENET_MAC_FRMF
            (ENET_MAC_FRMF_SAFLT OR ENET_MAC_FRMF_SAIFLT OR ENET_MAC_FRMF_DAIFLT OR ENET_MAC_FRMF_HMF OR ENET_MAC_FRMF_HPFLT
              OR ENET_MAC_FRMF_MFD OR ENET_MAC_FRMF_HUF OR ENET_MAC_FRMF_PCFRM) (framesfilter_mode p)) m;
          m = enabled HALFDUPLEX_OPTION (enet_field ENET_MAC_CFG
            (ENET_MAC_CFG_CSD OR ENET_MAC_CFG_ROD OR ENET_MAC_CFG_RTD OR ENET_MAC_CFG_BOL OR ENET_MAC_CFG_DFC) (halfduplex_param p)) m;
          m = enabled TIMER_OPTION (enet_field ENET_MAC_CFG (ENET_MAC_CFG_WDD OR ENET_MAC_CFG_JBD) (timer_config p)) m
      in enabled INTERFRAMEGAP_OPTION (enet_field ENET_MAC_CFG ENET_MAC_CFG_IGBS (interframegap p)) m)"

definition enet_init :: "(mem \<Rightarrow> mem) \<Rightarrow> enet_initpara_struct \<Rightarrow> u32 \<Rightarrow> u32 \<Rightarrow> u32 \<Rightarrow> mem \<Rightarrow> (bool \<times> mem) res" where
  "enet_init hw p mediamode checksum recept m =
     bind_res (enet_phy_config hw m) (\<lambda>(ok, m).
     bind_res (if ok then Inr (ok, m) else enet_phy_config hw (enet_delay PHY_RESETDELAY hw m)) (\<lambda>(ok, m).
     if \<not> ok then Inr (False, m)
     else let (media, m) = enet_media hw mediamode (enet_default_init m)
     in case media of None \<Rightarrow> Inr (False, m)
        | Some media_temp \<Rightarrow>
            let m = enet_field ENET_MAC_CFG (ENET_MAC_CFG_SPD OR ENET_MAC_CFG_DPM OR ENET_MAC_CFG_LBM) media_temp m;
                m = (if has checksum ENET_CHECKSUMOFFLOAD_ENABLE
                     then enet_field ENET_DMA_CTL ENET_DMA_CTL_DTCERFD (checksum AND ENET_DMA_CTL_DTCERFD)
                       (reg_set ENET_MAC_CFG ENET_CHECKSUMOFFLOAD_ENABLE m)
                     else m);
                m = reg_set ENET_MAC_FRMF recept m
            in Inr (True, enet_options p m)))"

end
