(* ===== verification/Enet_Phy.thy ===== *)
theory Enet_Phy
  imports Enet_Mac
begin

text \<open>
  What \<^verbatim>\<open>enet_init\<close> does with the transceiver: with a transceiver that answers and has a link it
  sets the speed and duplex bits of the controller from two bits of the status register of the
  transceiver, and without a link it fails.
\<close>

section \<open>A transceiver that answers\<close>

text \<open>
  An assumption on the environment, not a translation of code: the controller completes a
  management access at once, reading register \<open>r\<close> of the transceiver as \<open>phy r\<close>, which does not change
  in the meantime, and clears the two bits that clear themselves. Statements that use it hold for a
  board that behaves like this; the statement about a board without a link holds for every \<open>hw\<close> that
  never shows the link bit.
\<close>

definition enet_hw :: "(u16 \<Rightarrow> u16) \<Rightarrow> mem \<Rightarrow> mem" where
  "enet_hw phy m =
     (let m = reg_clr ENET_DMA_CTL ENET_DMA_CTL_FTF (reg_clr ENET_DMA_BCTL ENET_DMA_BCTL_SWR m);
          c = reg_rd ENET_MAC_PHY_CTL m
      in if has c ENET_MAC_PHY_CTL_PB then
           reg_clr ENET_MAC_PHY_CTL ENET_MAC_PHY_CTL_PB
             (if has c ENET_MAC_PHY_CTL_PW then m else reg_wr ENET_MAC_PHY_DATA (ucast (phy (ucast (GET_BITS c 6 10)))) m)
         else m)"

definition hw_regs :: "u32 set" where
  "hw_regs = {ENET_MAC_PHY_CTL, ENET_MAC_PHY_DATA, ENET_DMA_BCTL, ENET_DMA_CTL}"

definition same_but_hw :: "mem \<Rightarrow> mem \<Rightarrow> bool" where
  "same_but_hw m t \<longleftrightarrow> (\<forall>a. a \<notin> hw_regs \<longrightarrow> reg_rd a t = reg_rd a m)"

lemma same_but_hw_refl [simp]: "same_but_hw m m" by (simp add: same_but_hw_def)

lemma same_but_hw_trans: "same_but_hw m t \<Longrightarrow> same_but_hw t u \<Longrightarrow> same_but_hw m u" by (simp add: same_but_hw_def)

lemma same_but_hw_wr: "a \<in> hw_regs \<Longrightarrow> same_but_hw m (reg_wr a v m)" by (auto simp: same_but_hw_def)

lemma enet_hw_same: "same_but_hw m (enet_hw phy m)"
  by (auto simp: enet_hw_def Let_def same_but_hw_def hw_regs_def)

lemma enet_delay_same: "same_but_hw m (enet_delay n (enet_hw phy) m)"
proof (induction n arbitrary: m)
  case (Suc n)
  then show ?case using same_but_hw_trans [OF enet_hw_same Suc [of "enet_hw phy m"]] by simp
qed simp

lemma poll_clear_first: "0 < n \<Longrightarrow> reg_rd a (hw m) AND f = 0 \<Longrightarrow> poll_clear n hw a f m = hw m"
  by (cases n) (simp_all add: Let_def)

definition phy_command :: "u32 \<Rightarrow> u16 \<Rightarrow> u16 \<Rightarrow> mem \<Rightarrow> u32" where
  "phy_command direction phy_address phy_reg m =
     (reg_rd ENET_MAC_PHY_CTL m AND NOT (ENET_MAC_PHY_CTL_PB OR ENET_MAC_PHY_CTL_PW OR ENET_MAC_PHY_CTL_PR OR ENET_MAC_PHY_CTL_PA))
       OR (direction OR MAC_PHY_CTL_PR (ucast phy_reg) OR MAC_PHY_CTL_PA (ucast phy_address) OR ENET_MAC_PHY_CTL_PB)"

lemmas phy_bits = ENET_MAC_PHY_CTL_PB_def ENET_MAC_PHY_CTL_PW_def ENET_MAC_PHY_CTL_PR_def ENET_MAC_PHY_CTL_PA_def
  MAC_PHY_CTL_PR_def MAC_PHY_CTL_PA_def ENET_PHY_READ_def ENET_PHY_WRITE_def

lemma phy_command_bits:
  "d \<in> {ENET_PHY_READ, ENET_PHY_WRITE} \<Longrightarrow> bit (phy_command d pa r m) 0"
  "d \<in> {ENET_PHY_READ, ENET_PHY_WRITE} \<Longrightarrow> bit (phy_command d pa r m) 1 \<longleftrightarrow> d = ENET_PHY_WRITE"
proof -
  have n: "(0::u32) \<noteq> BIT 1" by (simp add: BIT_def)
  assume "d \<in> {ENET_PHY_READ, ENET_PHY_WRITE}"
  then show "bit (phy_command d pa r m) 0" "bit (phy_command d pa r m) 1 \<longleftrightarrow> d = ENET_PHY_WRITE"
    using n by (auto simp: phy_command_def phy_bits bit_simps)
qed

lemma phy_command_reg:
  assumes "d \<in> {ENET_PHY_READ, ENET_PHY_WRITE}" "r < 32"
  shows "ucast (GET_BITS (phy_command d pa r m) 6 10) = r"
proof (rule bit_word_eqI)
  fix n assume n: "n < LENGTH(16)"
  have hi: "\<not> bit r n" if "5 \<le> n"
  proof -
    have "unat (take_bit 5 r) = unat r"
      using assms(2) by (simp add: unsigned_take_bit_eq take_bit_nat_eq_self word_less_nat_alt)
    then have "r = take_bit 5 r" by (simp add: word_unat_eq_iff)
    then show ?thesis using that by (metis bit_take_bit_iff leD)
  qed
  show "bit (ucast (GET_BITS (phy_command d pa r m) 6 10) :: u16) n = bit r n"
    using n hi assms(1) by (cases "n < 5") (auto simp: phy_command_def phy_bits bit_simps bit_GET_BITS)
qed


lemma enet_hw_command:
  fixes phy pa m0 m
  assumes "d \<in> {ENET_PHY_READ, ENET_PHY_WRITE}" "r < 32"
  defines "t \<equiv> enet_hw phy (reg_wr ENET_MAC_PHY_CTL (phy_command d pa r m0) m)"
  shows "reg_rd ENET_MAC_PHY_CTL t AND ENET_MAC_PHY_CTL_PB = 0"
    and "d = ENET_PHY_READ \<Longrightarrow> reg_rd ENET_MAC_PHY_DATA t = ucast (phy r)"
proof -
  note b = phy_command_bits [OF assms(1), of pa r m0] and g = phy_command_reg [OF assms(1,2), of pa m0]
  have p: "has (phy_command d pa r m0) ENET_MAC_PHY_CTL_PB" "has (phy_command d pa r m0) ENET_MAC_PHY_CTL_PW \<longleftrightarrow> d = ENET_PHY_WRITE"
    using b by (simp_all add: has_def phy_bits and_BIT_eq_0)
  have rw: "ENET_PHY_READ \<noteq> ENET_PHY_WRITE" by (simp add: phy_bits BIT_def)
  show "reg_rd ENET_MAC_PHY_CTL t AND ENET_MAC_PHY_CTL_PB = 0"
    using p by (simp add: t_def enet_hw_def Let_def enet_regs enet_mac_regs phy_bits and_BIT_eq_0 bit_simps)
  show "d = ENET_PHY_READ \<Longrightarrow> reg_rd ENET_MAC_PHY_DATA t = ucast (phy r)"
    using p rw g by (simp add: t_def enet_hw_def Let_def enet_regs enet_mac_regs)
qed

lemma enet_hw_idle:
  assumes "reg_rd ENET_MAC_PHY_CTL m AND ENET_MAC_PHY_CTL_PB = 0"
  shows "reg_rd ENET_MAC_PHY_CTL (enet_hw phy m) = reg_rd ENET_MAC_PHY_CTL m"
    and "reg_rd ENET_MAC_PHY_DATA (enet_hw phy m) = reg_rd ENET_MAC_PHY_DATA m"
  using assms by (simp_all add: enet_hw_def Let_def enet_regs enet_mac_regs has_def)

lemma phy_access:
  assumes "d \<in> {ENET_PHY_READ, ENET_PHY_WRITE}" "r < 32"
  shows "\<exists>t. enet_phy_write_read (enet_hw phy) d pa r v m = (True, if ENET_PHY_READ = d then phy r else v, t) \<and> same_but_hw m t"
proof -
  let ?m1 = "if ENET_PHY_WRITE = d then reg_wr ENET_MAC_PHY_DATA (ucast v) m else m"
  let ?m2 = "reg_wr ENET_MAC_PHY_CTL (phy_command d pa r m) ?m1"
  let ?m3 = "enet_hw phy ?m2"
  let ?t = "enet_hw phy (enet_hw phy ?m3)"
  note c = enet_hw_command [OF assms, of phy pa m ?m1]
  have i: "poll_clear ENET_DELAY_TO (enet_hw phy) ENET_MAC_PHY_CTL ENET_MAC_PHY_CTL_PB ?m2 = ?m3"
    using c(1) by (intro poll_clear_first) (simp_all add: ENET_DELAY_TO_def)
  have uu: "ucast (ucast x :: u32) = x" for x :: u16 by (rule bit_word_eqI) (simp add: bit_simps)
  note a = enet_hw_idle [OF c(1), of phy]
  have e: "reg_rd ENET_MAC_PHY_CTL (enet_hw phy ?m3) AND ENET_MAC_PHY_CTL_PB = 0" using a c(1) by simp
  have "ENET_PHY_READ = d \<longrightarrow> reg_rd ENET_MAC_PHY_DATA ?t = ucast (phy r)" using enet_hw_idle(2) [OF e] a(2) c(2) by auto
  then have "enet_phy_write_read (enet_hw phy) d pa r v m = (True, if ENET_PHY_READ = d then phy r else v, ?t)"
    unfolding enet_phy_write_read_def Let_def phy_command_def [symmetric] i using e by (simp add: uu)
  moreover have "same_but_hw m ?t"
  proof -
    have "same_but_hw m ?m1" "same_but_hw ?m1 ?m2" by (auto intro!: same_but_hw_wr simp: hw_regs_def)
    then show ?thesis by (meson same_but_hw_trans enet_hw_same)
  qed
  ultimately show ?thesis by auto
qed

lemma phy_consts: "PHY_REG_BCR < 32" "PHY_REG_BSR < 32" "PHY_SR < 32"
  "ENET_PHY_READ \<in> {ENET_PHY_READ, ENET_PHY_WRITE}" "ENET_PHY_WRITE \<in> {ENET_PHY_READ, ENET_PHY_WRITE}" "ENET_PHY_READ \<noteq> ENET_PHY_WRITE"
  by (simp_all add: PHY_REG_BCR_def PHY_REG_BSR_def PHY_SR_def phy_bits BIT_def)

lemma phy_read: "r < 32 \<Longrightarrow> \<exists>t. enet_phy_write_read (enet_hw phy) ENET_PHY_READ pa r v m = (True, phy r, t) \<and> same_but_hw m t"
  using phy_access [OF phy_consts(4)] by simp

lemma phy_write: "r < 32 \<Longrightarrow> \<exists>t. enet_phy_write_read (enet_hw phy) ENET_PHY_WRITE pa r v m = (True, v, t) \<and> same_but_hw m t"
  using phy_access [OF phy_consts(5)] phy_consts(6) by simp

lemma phy_config_ok:
  assumes "phy PHY_REG_BCR AND PHY_RESET = 0" "rcu_clock_freq_get CK_AHB m = Inr f" "mdc_divider f \<noteq> None"
  shows "\<exists>t. enet_phy_config (enet_hw phy) m = Inr (True, t) \<and> same_but_hw m t"
proof -
  obtain dv where d: "mdc_divider f = Some dv" using assms(3) by auto
  let ?m1 = "reg_wr ENET_MAC_PHY_CTL ((reg_rd ENET_MAC_PHY_CTL m AND NOT ENET_MAC_PHY_CTL_CLR) OR dv) m"
  obtain t1 where t1: "enet_phy_write_read (enet_hw phy) ENET_PHY_WRITE PHY_ADDRESS PHY_REG_BCR PHY_RESET ?m1 = (True, PHY_RESET, t1)"
    "same_but_hw ?m1 t1" using phy_write [OF phy_consts(1), of phy PHY_ADDRESS PHY_RESET ?m1] by auto
  let ?t2 = "enet_delay ENET_DELAY_TO (enet_hw phy) t1"
  obtain t3 where t3: "enet_phy_write_read (enet_hw phy) ENET_PHY_READ PHY_ADDRESS PHY_REG_BCR PHY_RESET ?t2 = (True, phy PHY_REG_BCR, t3)"
    "same_but_hw ?t2 t3" using phy_read [OF phy_consts(1), of phy PHY_ADDRESS PHY_RESET ?t2] by auto
  have "same_but_hw m ?m1" by (auto intro!: same_but_hw_wr simp: hw_regs_def)
  then have "same_but_hw m t3" by (rule same_but_hw_trans [OF same_but_hw_trans [OF same_but_hw_trans [OF _ t1(2)] enet_delay_same] t3(2)])
  then show ?thesis using assms(1,2) d t1(1) t3(1) by (simp add: enet_phy_config_def Let_def del: enet_delay.simps)
qed

lemma phy_poll_ok: "phy PHY_REG_BSR AND bits \<noteq> 0 \<Longrightarrow> 1 < n \<Longrightarrow> \<exists>t. phy_poll n (enet_hw phy) bits v m = (False, t) \<and> same_but_hw m t"
proof -
  assume a: "phy PHY_REG_BSR AND bits \<noteq> 0" "1 < n"
  then obtain k where k: "n = Suc k" "k \<noteq> 0" by (cases n) auto
  obtain t where "enet_phy_write_read (enet_hw phy) ENET_PHY_READ PHY_ADDRESS PHY_REG_BSR v m = (True, phy PHY_REG_BSR, t)" "same_but_hw m t"
    using phy_read [OF phy_consts(2), of phy PHY_ADDRESS v m] by auto
  then show ?thesis using a k by simp
qed

section \<open>The result of the initialisation\<close>

lemma enet_media_auto:
  assumes "phy PHY_REG_BSR AND PHY_LINKED_STATUS \<noteq> 0" "phy PHY_REG_BSR AND PHY_AUTONEGO_COMPLETE \<noteq> 0"
  shows "\<exists>t. enet_media (enet_hw phy) ENET_AUTO_NEGOTIATION m =
    (Some ((if phy PHY_SR AND PHY_DUPLEX_STATUS \<noteq> 0 then ENET_MODE_FULLDUPLEX else ENET_MODE_HALFDUPLEX)
        OR (if phy PHY_SR AND PHY_SPEED_STATUS \<noteq> 0 then ENET_SPEEDMODE_10M else ENET_SPEEDMODE_100M)), t) \<and> same_but_hw m t"
proof -
  have n: "1 < PHY_READ_TO" by (simp add: PHY_READ_TO_def)
  obtain t1 where t1: "phy_poll PHY_READ_TO (enet_hw phy) PHY_LINKED_STATUS 0 m = (False, t1)" "same_but_hw m t1"
    using phy_poll_ok [where phy = phy and bits = PHY_LINKED_STATUS, OF assms(1) n] by blast
  obtain t2 where t2: "enet_phy_write_read (enet_hw phy) ENET_PHY_WRITE PHY_ADDRESS PHY_REG_BCR PHY_AUTONEGOTIATION t1 = (True, PHY_AUTONEGOTIATION, t2)"
    "same_but_hw t1 t2" using phy_write [OF phy_consts(1), of phy PHY_ADDRESS PHY_AUTONEGOTIATION t1] by auto
  obtain t3 where t3: "phy_poll PHY_READ_TO (enet_hw phy) PHY_AUTONEGO_COMPLETE PHY_AUTONEGOTIATION t2 = (False, t3)" "same_but_hw t2 t3"
    using phy_poll_ok [where phy = phy and bits = PHY_AUTONEGO_COMPLETE, OF assms(2) n] by blast
  obtain t4 where t4: "enet_phy_write_read (enet_hw phy) ENET_PHY_READ PHY_ADDRESS PHY_SR 0 t3 = (True, phy PHY_SR, t4)" "same_but_hw t3 t4"
    using phy_read [OF phy_consts(3), of phy PHY_ADDRESS 0 t3] by auto
  have "same_but_hw m t4"
    by (rule same_but_hw_trans [OF same_but_hw_trans [OF same_but_hw_trans [OF t1(2) t2(2)] t3(2)] t4(2)])
  then show ?thesis unfolding enet_media_def using t1(1) t2(1) t3(1) t4(1) by (simp del: phy_poll.simps)
qed

lemma enet_options_reset: "enet_options enet_initpara_reset m = m"
  by (simp add: enet_options_def Let_def enet_initpara_reset_def has_def)

lemma rcu_not_hw: "RCU_CFG0 \<notin> hw_regs" "RCU_PLL \<notin> hw_regs"
  by (simp_all add: hw_regs_def enet_regs enet_mac_regs rcu_regs)

lemma enet_init_auto:
  assumes "phy PHY_REG_BCR AND PHY_RESET = 0"
    "phy PHY_REG_BSR AND PHY_LINKED_STATUS \<noteq> 0" "phy PHY_REG_BSR AND PHY_AUTONEGO_COMPLETE \<noteq> 0"
    "rcu_clock_freq_get CK_AHB m = Inr f" "20000000 \<le> f" "f \<le> 240000000"
  shows "\<exists>t. enet_init (enet_hw phy) enet_initpara_reset ENET_AUTO_NEGOTIATION ENET_NO_AUTOCHECKSUM ENET_BROADCAST_FRAMES_PASS m = Inr (True, t)
    \<and> has (reg_rd ENET_MAC_CFG t) ENET_MAC_CFG_DPM = (phy PHY_SR AND PHY_DUPLEX_STATUS \<noteq> 0)
    \<and> has (reg_rd ENET_MAC_CFG t) ENET_MAC_CFG_SPD = (phy PHY_SR AND PHY_SPEED_STATUS = 0)
    \<and> \<not> has (reg_rd ENET_MAC_CFG t) ENET_MAC_CFG_LBM
    \<and> reg_rd RCU_CFG0 t = reg_rd RCU_CFG0 m \<and> reg_rd RCU_PLL t = reg_rd RCU_PLL m"
proof -
  have "mdc_divider f \<noteq> None" using assms(5,6) by (auto simp: mdc_divider_def)
  then obtain t1 where t1: "enet_phy_config (enet_hw phy) m = Inr (True, t1)" "same_but_hw m t1"
    using phy_config_ok [where phy = phy, OF assms(1,4)] by blast
  obtain t2 where t2: "enet_media (enet_hw phy) ENET_AUTO_NEGOTIATION (enet_default_init t1) =
    (Some ((if phy PHY_SR AND PHY_DUPLEX_STATUS \<noteq> 0 then ENET_MODE_FULLDUPLEX else ENET_MODE_HALFDUPLEX)
        OR (if phy PHY_SR AND PHY_SPEED_STATUS \<noteq> 0 then ENET_SPEEDMODE_10M else ENET_SPEEDMODE_100M)), t2)"
    "same_but_hw (enet_default_init t1) t2"
    using enet_media_auto [of phy, OF assms(2,3)] by blast
  have r: "reg_rd a t2 = reg_rd a m" if "a \<in> {RCU_CFG0, RCU_PLL}" for a
    using that t1(2) t2(2) rcu_not_hw
    by (auto simp: same_but_hw_def enet_default_init_def Let_def enet_regs enet_mac_regs rcu_regs)
  have c: "\<not> has ENET_NO_AUTOCHECKSUM x" for x by (simp add: ENET_NO_AUTOCHECKSUM_def has_def)
  have b: "has x (BIT n) = bit x n" if "n < 32" for x n using that by (simp add: has_def and_BIT_eq_0)
  have f: "ENET_MAC_FRMF \<noteq> ENET_MAC_CFG" "RCU_CFG0 \<noteq> ENET_MAC_FRMF" "RCU_CFG0 \<noteq> ENET_MAC_CFG" "RCU_PLL \<noteq> ENET_MAC_FRMF" "RCU_PLL \<noteq> ENET_MAC_CFG"
    by (simp_all add: enet_regs enet_mac_regs rcu_regs)
  show ?thesis
    unfolding enet_init_def t1(1) bind_res_simps
    using t2(1) f r
    by (simp add: c enet_options_reset Let_def enet_field_def ENET_MAC_CFG_DPM_def ENET_MAC_CFG_SPD_def ENET_MAC_CFG_LBM_def b bit_simps
      ENET_MODE_FULLDUPLEX_def ENET_MODE_HALFDUPLEX_def ENET_SPEEDMODE_10M_def ENET_SPEEDMODE_100M_def del: phy_poll.simps enet_delay.simps)
qed

text \<open>
  The speed indication that the LAN8700, the transceiver selected by \<^verbatim>\<open>PHY_TYPE\<close>, gives in bits 4 to 2
  of register 31: 1 and 5 for 10 Mbit/s half and full duplex, 2 and 6 for 100 Mbit/s half and full
  duplex. This is the documented behaviour of the part, not code of the program.
\<close>

definition lan8700_speed :: "bool \<Rightarrow> bool \<Rightarrow> u16" where
  "lan8700_speed fast full = (if fast then 2 else 1) OR (if full then 4 else 0)"

lemma lan8700_bit_2:
  assumes "drop_bit 2 v AND 7 = lan8700_speed fast full"
  shows "bit v 2 = (\<not> fast)"
proof -
  have "bit (drop_bit 2 v AND 7 :: u16) 0 = bit v 2" by (simp add: bit_and_iff bit_drop_bit_eq)
  then show ?thesis unfolding assms by (simp add: lan8700_speed_def split: if_splits)
qed

text \<open>
  C38: what \<^verbatim>\<open>enet_init\<close> makes of the mode that the LAN8700 has negotiated. The hypotheses: the
  transceiver answers every access, has come out of reset, has a link and has finished the
  negotiation, the AHB clock is between 20 and 240 MHz, and bits 4 to 2 of register 31 hold the speed
  indication for a link at 100 Mbit/s (\<open>fast\<close>) or at 10, in full duplex (\<open>full\<close>) or not. Then
  \<^verbatim>\<open>enet_init\<close> succeeds with the loop-back off, but the duplex bit of the controller is set exactly
  when the link runs at 10 Mbit/s, whatever its duplex mode, because \<^verbatim>\<open>PHY_DUPLEX_STATUS\<close> is bit 2, a bit
  of the rate; and the speed bit is the complement of bit 1 of register 31, which is no part of the
  speed indication. A link at 100 Mbit/s in full duplex is thus driven in half duplex.
\<close>
theorem duplex_follows_rate:
  assumes "phy PHY_REG_BCR AND PHY_RESET = 0"
    "phy PHY_REG_BSR AND PHY_LINKED_STATUS \<noteq> 0" "phy PHY_REG_BSR AND PHY_AUTONEGO_COMPLETE \<noteq> 0"
    "rcu_clock_freq_get CK_AHB m = Inr f" "20000000 \<le> f" "f \<le> 240000000"
    "drop_bit 2 (phy 31) AND 7 = lan8700_speed fast full"
  shows "\<exists>t. enet_init (enet_hw phy) enet_initpara_reset ENET_AUTO_NEGOTIATION ENET_NO_AUTOCHECKSUM ENET_BROADCAST_FRAMES_PASS m = Inr (True, t)
    \<and> has (reg_rd ENET_MAC_CFG t) ENET_MAC_CFG_DPM = (\<not> fast)
    \<and> has (reg_rd ENET_MAC_CFG t) ENET_MAC_CFG_SPD = (\<not> bit (phy 31) 1)
    \<and> \<not> has (reg_rd ENET_MAC_CFG t) ENET_MAC_CFG_LBM"
proof -
  have w: "v AND 4 \<noteq> 0 \<longleftrightarrow> bit v 2" "v AND 2 = 0 \<longleftrightarrow> \<not> bit v 1" for v :: u16
    using and_exp_eq_0_iff_not_bit [of v 2] and_exp_eq_0_iff_not_bit [of v 1] by simp_all
  show ?thesis
    using enet_init_auto [of phy m f] assms lan8700_bit_2 [OF assms(7)]
    by (simp add: PHY_SR_def PHY_DUPLEX_STATUS_def PHY_SPEED_STATUS_def w) blast
qed

text \<open>Without a link the count of \<^verbatim>\<open>phy_poll\<close> is always used up.\<close>

lemma phy_poll_no_link:
  assumes "\<And>m. reg_rd ENET_MAC_PHY_DATA (hw m) AND ucast bits = 0"
  shows "fst (phy_poll n hw bits v m)"
proof (induction n arbitrary: v m)
  case (Suc n)
  obtain ok w t where p: "enet_phy_write_read hw ENET_PHY_READ PHY_ADDRESS PHY_REG_BSR v m = (ok, w, t)" by (metis surj_pair)
  then have "\<exists>k. w = ucast (reg_rd ENET_MAC_PHY_DATA (hw k))"
    by (auto simp: enet_phy_write_read_def Let_def)
  then obtain k where k: "w = ucast (reg_rd ENET_MAC_PHY_DATA (hw k))" ..
  have "w AND bits = 0"
  proof (rule bit_word_eqI)
    fix n assume "n < LENGTH(16)"
    moreover have "\<not> bit (reg_rd ENET_MAC_PHY_DATA (hw k) AND ucast bits) n" using assms [of k] by simp
    ultimately show "bit (w AND bits) n = bit 0 n" by (auto simp: k bit_simps)
  qed
  then show ?case using p Suc by simp
qed simp

lemma enet_init_no_link:
  assumes "\<And>m. reg_rd ENET_MAC_PHY_DATA (hw m) AND ucast PHY_LINKED_STATUS = 0"
  shows "enet_init hw p ENET_AUTO_NEGOTIATION checksum recept m \<noteq> Inr (True, t)"
proof -
  have "fst (enet_media hw ENET_AUTO_NEGOTIATION k) = None" for k
    using phy_poll_no_link [where hw = hw and bits = PHY_LINKED_STATUS and n = PHY_READ_TO and v = 0 and m = k, OF assms]
    by (auto simp: enet_media_def split: prod.splits simp del: phy_poll.simps)
  then have "\<exists>u. enet_media hw ENET_AUTO_NEGOTIATION k = (None, u)" for k by (metis prod.collapse)
  then show ?thesis
    by (auto simp: enet_init_def bind_res_eq_Inr Let_def split: if_splits prod.splits option.splits) (metis option.distinct(1) fst_conv)+
qed


definition phy_sample :: "u16 \<Rightarrow> u16" where
  "phy_sample r = (if r = 1 then 0x24 else if r = 31 then 0x18 else 0)"

text \<open>A transceiver with a link at 100 Mbit/s in full duplex, and the half duplex it gets.\<close>

theorem duplex_follows_rate_witness:
  "\<exists>t. drop_bit 2 (phy_sample 31) AND 7 = lan8700_speed True True
     \<and> enet_init (enet_hw phy_sample) enet_initpara_reset ENET_AUTO_NEGOTIATION ENET_NO_AUTOCHECKSUM ENET_BROADCAST_FRAMES_PASS
         (reg_wr RCU_CFG0 4 (\<lambda>_. 0)) = Inr (True, t)
     \<and> \<not> has (reg_rd ENET_MAC_CFG t) ENET_MAC_CFG_DPM \<and> has (reg_rd ENET_MAC_CFG t) ENET_MAC_CFG_SPD"
proof -
  have f: "rcu_clock_freq_get CK_AHB (reg_wr RCU_CFG0 4 (\<lambda>_. 0)) = Inr 25000000"
    by (simp add: rcu_clock_freq_get_def cksys_freq_get_def Let_def GET_BITS_def BITS_def HXTAL_VALUE_def ahb_exp_def)
  have c: "drop_bit 2 (phy_sample 31) AND 7 = lan8700_speed True True"
    by (simp add: phy_sample_def lan8700_speed_def)
  show ?thesis
    using duplex_follows_rate [where phy = phy_sample, OF _ _ _ f _ _ c] c
    by (simp add: phy_sample_def PHY_REG_BCR_def PHY_REG_BSR_def PHY_RESET_def PHY_LINKED_STATUS_def
      PHY_AUTONEGO_COMPLETE_def) blast
qed

end
