(* ===== verification/Enet_Eval.thy ===== *)
theory Enet_Eval
  imports Enet_Phy Board Gpio
begin

text \<open>
  The start of the network hardware, \<^verbatim>\<open>gd32f4xx_enet_eval.c\<close>, in the RMII mode of this build and
  without the Ethernet interrupt. \<^verbatim>\<open>enet_system_setup\<close> repeats \<^verbatim>\<open>enet_mac_dma_config\<close> until it
  succeeds; the loop is given a number of rounds, and running out of them is the fault \<open>Hang\<close>. The
  statements hold for every number of rounds. The tick timer registers of the core are added to the
  board.
\<close>

section \<open>Pins\<close>

definition RCU_GPIOG :: u32 where "RCU_GPIOG = RCU_REGIDX_BIT 0x30 6"
definition GPIO_AF_0 :: u32 where "GPIO_AF_0 = 0"
definition GPIO_AF_11 :: u32 where "GPIO_AF_11 = 11"
definition RCU_CKOUT0SRC_PLLP :: u32 where "RCU_CKOUT0SRC_PLLP = BITS 21 22 AND push_bit 21 3"
definition RCU_CKOUT0_DIV4 :: u32 where "RCU_CKOUT0_DIV4 = BITS 24 26 AND push_bit 24 6"
definition SYSCFG_CFG1 :: u32 where "SYSCFG_CFG1 = 0x40013804"
definition SYSCFG_CFG1_ENET_PHY_SEL :: u32 where "SYSCFG_CFG1_ENET_PHY_SEL = BIT 23"
definition SYSCFG_ENET_PHY_RMII :: u32 where "SYSCFG_ENET_PHY_RMII = 0x00800000"

definition syscfg_enet_phy_interface_config :: "u32 \<Rightarrow> mem \<Rightarrow> mem" where
  "syscfg_enet_phy_interface_config syscfg_enet_phy_interface m =
     (let reg = reg_rd SYSCFG_CFG1 m AND NOT SYSCFG_CFG1_ENET_PHY_SEL
      in reg_wr SYSCFG_CFG1 (reg OR syscfg_enet_phy_interface) m)"

text \<open>The pins of one port: mode and driver of each, then the alternate function of each.\<close>

definition rmii_pins :: "u32 \<Rightarrow> u32 list \<Rightarrow> mem \<Rightarrow> mem" where
  "rmii_pins port pins m =
     fold (gpio_af_set port GPIO_AF_11) pins
       (fold (\<lambda>pin m. gpio_output_options_set port GPIO_OTYPE_PP GPIO_OSPEED_MAX pin
          (gpio_mode_set port GPIO_MODE_AF GPIO_PUPD_NONE pin m)) pins m)"

definition enet_gpio_config :: "mem \<Rightarrow> mem" where
  "enet_gpio_config m =
     (let m = fold rcu_periph_clock_enable [RCU_GPIOA, RCU_GPIOB, RCU_GPIOC, RCU_GPIOD, RCU_GPIOG, RCU_GPIOE] m;
          m = gpio_af_set GPIOA GPIO_AF_0 (GPIO_PIN 8) m;
          m = gpio_mode_set GPIOA GPIO_MODE_AF GPIO_PUPD_NONE (GPIO_PIN 8) m;
          m = gpio_output_options_set GPIOA GPIO_OTYPE_PP GPIO_OSPEED_MAX (GPIO_PIN 8) m;
          m = rcu_periph_clock_enable RCU_SYSCFG m;
          m = rcu_ckout0_config RCU_CKOUT0SRC_PLLP RCU_CKOUT0_DIV4 m;
          m = syscfg_enet_phy_interface_config SYSCFG_ENET_PHY_RMII m;
          m = rmii_pins GPIOA [GPIO_PIN 1, GPIO_PIN 2, GPIO_PIN 7] m;
          m = rmii_pins GPIOB [GPIO_PIN 11, GPIO_PIN 12, GPIO_PIN 13] m
      in rmii_pins GPIOC [GPIO_PIN 1, GPIO_PIN 4, GPIO_PIN 5] m)"

section \<open>The controller\<close>

definition enet_mac_dma_config :: "(mem \<Rightarrow> mem) \<Rightarrow> mem \<Rightarrow> (bool \<times> mem) res" where
  "enet_mac_dma_config hw m =
     (let m = fold rcu_periph_clock_enable [RCU_ENET, RCU_ENETTX, RCU_ENETRX] m;
          (initpara, m) = enet_deinit m;
          (ok, m) = enet_software_reset hw m
      in if \<not> ok then Inl System_Reset
         else enet_init hw initpara ENET_AUTO_NEGOTIATION ENET_NO_AUTOCHECKSUM ENET_BROADCAST_FRAMES_PASS m)"

fun setup_loop :: "nat \<Rightarrow> (mem \<Rightarrow> mem) \<Rightarrow> mem \<Rightarrow> mem res" where
  "setup_loop 0 hw m = Inl Hang"
| "setup_loop (Suc fuel) hw m = bind_res (enet_mac_dma_config hw m) (\<lambda>(enet_init_status, m).
     if enet_init_status then Inr m else setup_loop fuel hw m)"

section \<open>The tick timer\<close>

record start_up = board +
  SysTick_LOAD :: u32
  SysTick_VAL :: u32
  SCB_SHP :: "nat \<Rightarrow> u8"

definition SYSTICK_CLKSOURCE_HCLK :: u32 where "SYSTICK_CLKSOURCE_HCLK = 4"

definition SysTick_Config :: "u32 \<Rightarrow> start_up \<Rightarrow> u32 \<times> start_up" where
  "SysTick_Config ticks s =
     (if ticks - 1 > 0xFFFFFF then (1, s)
      else (0, s\<lparr> SysTick_LOAD := ticks - 1, SCB_SHP := (SCB_SHP s)(11 := 0xF0), SysTick_VAL := 0,
                  nvic := (nvic s)\<lparr> SysTick_CTRL := 7 \<rparr> \<rparr>))"

definition enet_system_setup :: "nat \<Rightarrow> (mem \<Rightarrow> mem) \<Rightarrow> start_up \<Rightarrow> start_up res" where
  "enet_system_setup fuel hw s =
     bind_res (setup_loop fuel hw (enet_gpio_config (periph s))) (\<lambda>m.
     let s = s\<lparr> periph := m, nvic := systick_clksource_set SYSTICK_CLKSOURCE_HCLK (nvic s) \<rparr>
     in bind_res (rcu_clock_freq_get CK_AHB (periph s)) (\<lambda>ahb_frequency.
        Inr (snd (SysTick_Config (ahb_frequency div 100) s))))"

section \<open>With a cable it does\<close>

text \<open>The frequencies depend on two registers, of one of them on the lower half only.\<close>

definition clock_same :: "mem \<Rightarrow> mem \<Rightarrow> bool" where
  "clock_same m t \<longleftrightarrow> reg_rd RCU_PLL t = reg_rd RCU_PLL m \<and> take_bit 16 (reg_rd RCU_CFG0 t) = take_bit 16 (reg_rd RCU_CFG0 m)"

lemma clock_same_trans: "clock_same m t \<Longrightarrow> clock_same t u \<Longrightarrow> clock_same m u" by (simp add: clock_same_def)

lemma clock_same_freq: "clock_same m t \<Longrightarrow> rcu_clock_freq_get CK_AHB t = rcu_clock_freq_get CK_AHB m"
proof -
  assume a: "clock_same m t"
  have "GET_BITS x i j = GET_BITS (take_bit 16 x) i j" if "j < 16" for x i j
    using that by (intro bit_word_eqI) (auto simp: bit_GET_BITS bit_take_bit_iff)
  then have "GET_BITS (reg_rd RCU_CFG0 t) i j = GET_BITS (reg_rd RCU_CFG0 m) i j" if "j < 16" for i j
    using a that by (metis clock_same_def)
  then show ?thesis using a by (simp add: rcu_clock_freq_get_def cksys_freq_get_def clock_same_def Let_def)
qed

lemma gpio_frame:
  "a \<noteq> GPIO_AFSEL0 port \<Longrightarrow> a \<noteq> GPIO_AFSEL1 port \<Longrightarrow> reg_rd a (gpio_af_set port af pin m) = reg_rd a m"
  "a \<noteq> GPIO_CTL port \<Longrightarrow> a \<noteq> GPIO_PUD port \<Longrightarrow> reg_rd a (gpio_mode_set port md pud pin m) = reg_rd a m"
  "a \<noteq> GPIO_OMODE port \<Longrightarrow> a \<noteq> GPIO_OSPD port \<Longrightarrow> reg_rd a (gpio_output_options_set port ot sp pin m) = reg_rd a m"
  by (simp_all add: gpio_af_set_def gpio_mode_set_def gpio_output_options_set_def Let_def split_beta del: upt_rec_numeral)

lemma gpio_clock_same:
  assumes "port \<in> {GPIOA, GPIOB, GPIOC}"
  shows "clock_same m (gpio_af_set port af pin m)" "clock_same m (gpio_mode_set port md pud pin m)"
    "clock_same m (gpio_output_options_set port ot sp pin m)"
proof -
  have "a \<noteq> GPIO_AFSEL0 port" "a \<noteq> GPIO_AFSEL1 port" "a \<noteq> GPIO_CTL port" "a \<noteq> GPIO_PUD port" "a \<noteq> GPIO_OMODE port" "a \<noteq> GPIO_OSPD port"
    if "a \<in> {RCU_CFG0, RCU_PLL}" for a using assms that by (auto simp: reg_simps)
  then show "clock_same m (gpio_af_set port af pin m)" "clock_same m (gpio_mode_set port md pud pin m)"
    "clock_same m (gpio_output_options_set port ot sp pin m)"
    by (simp_all add: clock_same_def gpio_frame)
qed

lemma fold_clock_same: "(\<And>x m. clock_same m (f x m)) \<Longrightarrow> clock_same m (fold f xs m)"
  by (induction xs arbitrary: m) (auto simp: clock_same_def)

lemma rmii_clock_same: "port \<in> {GPIOA, GPIOB, GPIOC} \<Longrightarrow> clock_same m (rmii_pins port pins m)"
  unfolding rmii_pins_def
  by (intro clock_same_trans [OF fold_clock_same fold_clock_same] clock_same_trans [OF gpio_clock_same(2) gpio_clock_same(3)] gpio_clock_same(1))

lemma enet_gpio_clock_same: "clock_same m (enet_gpio_config m)"
proof -
  have e: "clock_same m (fold rcu_periph_clock_enable [RCU_GPIOA, RCU_GPIOB, RCU_GPIOC, RCU_GPIOD, RCU_GPIOG, RCU_GPIOE] m)" for m
    by (simp add: clock_same_def rcu_periph_clock_enable_def rcu_periphs RCU_GPIOG_def rcu_regs)
  have y: "clock_same m (rcu_periph_clock_enable RCU_SYSCFG m)" for m
    by (simp add: clock_same_def rcu_periph_clock_enable_def rcu_periphs rcu_regs)
  have k: "clock_same m (rcu_ckout0_config RCU_CKOUT0SRC_PLLP RCU_CKOUT0_DIV4 m)" for m
  proof -
    have "take_bit 16 ((x AND NOT (RCU_CFG0_CKOUT0SEL OR RCU_CFG0_CKOUT0DIV)) OR (RCU_CKOUT0SRC_PLLP OR RCU_CKOUT0_DIV4)) = take_bit 16 x" for x
      by (rule bit_word_eqI) (auto simp: bit_simps RCU_CFG0_CKOUT0SEL_def RCU_CFG0_CKOUT0DIV_def RCU_CKOUT0SRC_PLLP_def RCU_CKOUT0_DIV4_def)
    then show ?thesis by (simp add: clock_same_def rcu_ckout0_config_def rcu_field_def Let_def rcu_regs)
  qed
  have p: "clock_same m (syscfg_enet_phy_interface_config v m)" for v m
    by (simp add: clock_same_def syscfg_enet_phy_interface_config_def Let_def SYSCFG_CFG1_def rcu_regs)
  show ?thesis
    unfolding enet_gpio_config_def Let_def
    by (intro rmii_clock_same [THEN clock_same_trans [rotated]] p [THEN clock_same_trans [rotated]] k [THEN clock_same_trans [rotated]]
      y [THEN clock_same_trans [rotated]] gpio_clock_same [THEN clock_same_trans [rotated]] e) simp_all
qed

text \<open>
  C20: With a transceiver that answers every access, has come out of reset, has a link and has
  finished the negotiation, and with an AHB clock between 20 and 240 MHz, \<^verbatim>\<open>enet_system_setup\<close> returns
  in its first round, and the tick timer is started with the period of 10 ms of that clock.
\<close>
theorem setup_with_link:
  assumes "phy PHY_REG_BCR AND PHY_RESET = 0"
    "phy PHY_REG_BSR AND PHY_LINKED_STATUS \<noteq> 0" "phy PHY_REG_BSR AND PHY_AUTONEGO_COMPLETE \<noteq> 0"
    "rcu_clock_freq_get CK_AHB (periph s) = Inr f" "20000000 \<le> f" "f \<le> 240000000"
  shows "\<exists>t. enet_system_setup (Suc n) (enet_hw phy) s = Inr t \<and> SysTick_LOAD t = f div 100 - 1 \<and> SysTick_CTRL (nvic t) = 7"
proof -
  let ?m0 = "enet_gpio_config (periph s)"
  let ?m1 = "snd (enet_deinit (fold rcu_periph_clock_enable [RCU_ENET, RCU_ENETTX, RCU_ENETRX] ?m0))"
  have d: "clock_same ?m0 ?m1"
    by (simp add: clock_same_def enet_deinit_def RCU_ENETRST_def rcu_periph_clock_enable_def rcu_periph_reset_enable_def
      rcu_periph_reset_disable_def rcu_periphs rcu_regs)
  define m2 where "m2 = snd (enet_software_reset (enet_hw phy) ?m1)"
  have z: "reg_rd ENET_DMA_BCTL (enet_hw phy m) AND ENET_DMA_BCTL_SWR = 0" for m
    by (simp add: enet_hw_def Let_def enet_regs enet_mac_regs ENET_DMA_BCTL_SWR_def and_BIT_eq_0 bit_simps)
  then have rs: "enet_software_reset (enet_hw phy) ?m1 = (True, m2)"
    by (simp add: m2_def enet_software_reset_def Let_def del: poll_clear.simps)
  have m2: "m2 = enet_hw phy (enet_hw phy (reg_set ENET_DMA_BCTL ENET_DMA_BCTL_SWR ?m1))"
    unfolding m2_def enet_software_reset_def Let_def snd_conv
    by (subst poll_clear_first) (simp_all add: z ENET_DELAY_TO_def)
  have h: "clock_same m (enet_hw phy m)" for m
    using enet_hw_same [of m phy] rcu_not_hw by (simp add: clock_same_def same_but_hw_def)
  have b: "clock_same m (reg_set ENET_DMA_BCTL ENET_DMA_BCTL_SWR m)" for m
    by (simp add: clock_same_def enet_regs rcu_regs)
  have "clock_same (periph s) m2"
    unfolding m2
    by (rule clock_same_trans [OF clock_same_trans [OF clock_same_trans [OF clock_same_trans [OF enet_gpio_clock_same d] b] h] h])
  then have f: "rcu_clock_freq_get CK_AHB m2 = Inr f" using clock_same_freq assms(4) by metis
  obtain m3 where m3: "enet_init (enet_hw phy) enet_initpara_reset ENET_AUTO_NEGOTIATION ENET_NO_AUTOCHECKSUM ENET_BROADCAST_FRAMES_PASS m2 = Inr (True, m3)"
    "reg_rd RCU_CFG0 m3 = reg_rd RCU_CFG0 m2" "reg_rd RCU_PLL m3 = reg_rd RCU_PLL m2"
    using enet_init_auto [of phy, OF assms(1-3) f assms(5,6)] by blast
  have f3: "rcu_clock_freq_get CK_AHB m3 = Inr f" using clock_same_freq [of m2 m3] m3(2,3) f by (simp add: clock_same_def)
  have "enet_mac_dma_config (enet_hw phy) ?m0 = Inr (True, m3)"
    using rs m3(1) by (simp add: enet_mac_dma_config_def enet_deinit_def del: poll_clear.simps)
  moreover have "\<not> f div 100 - 1 > 0xFFFFFF"
    using assms(5,6) by (simp add: word_less_nat_alt word_le_nat_alt unat_sub unat_div)
  ultimately show ?thesis
    using f3 by (simp add: enet_system_setup_def SysTick_Config_def Let_def)
qed

section \<open>Without a cable the firmware does not start\<close>

text \<open>
  C19: In \<^verbatim>\<open>main\<close> the network comes before the serial ports and the timers, and
  \<^verbatim>\<open>enet_system_setup\<close> has no way on when there is no link: if the data register of the
  management interface never shows the link bit, the call does not return (it goes round, or it resets
  the processor), whatever the number of rounds and whatever else the hardware does. The serial ports
  and the poll timer, set up behind it, stay off.
\<close>
theorem no_link_no_start:
  assumes "\<And>m. reg_rd ENET_MAC_PHY_DATA (hw m) AND ucast PHY_LINKED_STATUS = 0"
  shows "\<exists>e. enet_system_setup fuel hw s = Inl e"
proof -
  have c: "enet_mac_dma_config hw m \<noteq> Inr (True, t)" for m t
    using enet_init_no_link [where hw = hw, OF assms] by (auto simp: enet_mac_dma_config_def Let_def split: prod.splits)
  have "setup_loop fuel hw m \<noteq> Inr t" for m t
  proof (induction fuel arbitrary: m)
    case (Suc fuel)
    then show ?case using c by (auto simp: bind_res_eq_Inr split: if_splits)
  qed simp
  then show ?thesis
    by (cases "setup_loop fuel hw (enet_gpio_config (periph s))") (auto simp: enet_system_setup_def)
qed

definition start_sample :: "u32 \<Rightarrow> start_up" where
  "start_sample cfg0 = \<lparr> periph = reg_wr RCU_CFG0 cfg0 (\<lambda>_. 0),
     nvic = \<lparr> SCB_AIRCR = 0, SCB_VTOR = 0, SCB_SCR = 0, SysTick_CTRL = 0, NVIC_IP = (\<lambda>_. 0), NVIC_ISER = (\<lambda>_. 0), NVIC_ICER = (\<lambda>_. 0) \<rparr>,
     SysTick_LOAD = 0, SysTick_VAL = 0, SCB_SHP = (\<lambda>_. 0) \<rparr>"

theorem setup_with_link_witness:
  "\<exists>t. enet_system_setup 1 (enet_hw phy_sample) (start_sample 4) = Inr t \<and> SysTick_LOAD t = 249999"
proof -
  have f: "rcu_clock_freq_get CK_AHB (periph (start_sample 4)) = Inr 25000000"
    by (simp add: start_sample_def rcu_clock_freq_get_def cksys_freq_get_def Let_def GET_BITS_def BITS_def HXTAL_VALUE_def ahb_exp_def)
  show ?thesis
    using setup_with_link [where phy = phy_sample and n = 0, OF _ _ _ f]
    by (simp add: phy_sample_def PHY_REG_BCR_def PHY_REG_BSR_def PHY_SR_def PHY_RESET_def PHY_LINKED_STATUS_def
      PHY_AUTONEGO_COMPLETE_def del: setup_loop.simps) blast
qed

theorem no_link_no_start_witness:
  "\<exists>e. enet_system_setup 1000 (enet_hw (\<lambda>_. 0) \<circ> reg_wr ENET_MAC_PHY_DATA 0) (start_sample 4) = Inl e"
proof -
  have "reg_rd ENET_MAC_PHY_DATA ((enet_hw (\<lambda>_. 0) \<circ> reg_wr ENET_MAC_PHY_DATA 0) m) AND ucast PHY_LINKED_STATUS = 0" for m
    by (simp add: enet_hw_def Let_def enet_regs enet_mac_regs)
  then show ?thesis by (rule no_link_no_start)
qed

end
