(* ===== verification/Irq_Levels.thy ===== *)
theory Irq_Levels
  imports Init_Config Enet_Eval Ethernet
begin

text \<open>
  The part of \<^verbatim>\<open>main\<close> behind the start of the network, which sets up the two serial ports with their
  transmit channels, the four timers and the lamps, and what it makes of the priorities of the seven
  interrupts it enables, next to the one that \<^verbatim>\<open>SysTick_Config\<close> gives to the tick.
\<close>

definition lamp_pin :: "u32 \<Rightarrow> u32 \<Rightarrow> mem \<Rightarrow> mem" where
  "lamp_pin port pin m =
     (let m = gpio_mode_set port GPIO_MODE_OUTPUT GPIO_PUPD_PULLUP pin m;
          m = gpio_output_options_set port GPIO_OTYPE_PP GPIO_OSPEED_50MHZ pin m
      in gpio_bit_reset port pin m)"

definition main_ports :: "u32 \<Rightarrow> board \<Rightarrow> board res" where
  "main_ports buf s =
     bind_res (ConfigUsart USART0 USART_BAUDRATE USART_MSBF_LSB USART_OVSMOD_8 receiveRBNE 0 3 s) (\<lambda>s.
     bind_res (ConfigUsartDMA_Tx USART0 buf (of_nat USART_BUFFER_TX_SIZE_YLS) False DMA_PRIORITY_HIGH 0 6
                 iRQn_full_transmit_Dma s) (\<lambda>s.
     bind_res (ConfigUsart USART5 USART_BAUDRATE USART_MSBF_LSB USART_OVSMOD_8 receiveRBNE 0 3 s) (\<lambda>s.
     bind_res (ConfigUsartDMA_Tx USART5 buf (of_nat USART_BUFFER_TX_SIZE_YLS) False DMA_PRIORITY_HIGH 0 6
                 iRQn_full_transmit_Dma s) (\<lambda>s.
     let s = Timer2_config s;
         s = Timer4_config s;
         s = on_periph Timer3_config s;
         s = Timer6_config s;
         s = on_periph (lamp_pin Blink_TX_PORT Blink_TX_PIN) s
     in Inr (on_periph (lamp_pin Blink_RX_PORT Blink_RX_PIN) s)))))"

section \<open>The calls return\<close>

text \<open>The clock does not change, so that the second port finds the same frequency as the first.\<close>

definition same_clock :: "mem \<Rightarrow> mem \<Rightarrow> bool" where
  "same_clock m n \<longleftrightarrow> reg_rd RCU_CFG0 n = reg_rd RCU_CFG0 m \<and> reg_rd RCU_PLL n = reg_rd RCU_PLL m"

lemma same_clock_freq: "same_clock m n \<Longrightarrow> rcu_clock_freq_get c n = rcu_clock_freq_get c m"
  by (intro freq_cong) (simp_all add: same_clock_def)

lemma clock_apart:
  assumes "u \<in> {USART0, USART5}" "r \<in> {RCU_CFG0, RCU_PLL}"
  shows "r \<notin> {RCU_APB2EN, RCU_APB2RST}"
    "r \<notin> {USART_STAT0 u, USART_CTL0 u, USART_CTL1 u, USART_CTL2 u, USART_CTL3 u, USART_BAUD u}"
    "r \<notin> {DMA_CHCTL DMA1 6, DMA_CHCNT DMA1 6, DMA_CHPADDR DMA1 6, DMA_CHM0ADDR DMA1 6, DMA_CHM1ADDR DMA1 6, DMA_CHFCTL DMA1 6,
          DMA_CHCTL DMA1 7, DMA_CHCNT DMA1 7, DMA_CHPADDR DMA1 7, DMA_CHM0ADDR DMA1 7, DMA_CHM1ADDR DMA1 7, DMA_CHFCTL DMA1 7, DMA_INTC0 DMA1, DMA_INTC1 DMA1}"
  using assms by (auto simp: reg_simps)

definition port_irq :: "u32 \<Rightarrow> nat" where
  "port_irq u = (if u = USART0 then 37 else 71)"

definition channel_irq :: "u32 \<Rightarrow> nat" where
  "channel_irq u = (if u = USART0 then 70 else 69)"

lemma ConfigUsart_returns:
  assumes "u \<in> {USART0, USART5}" "rcu_clock_freq_get CK_APB2 (periph s) = Inr f"
  shows "\<exists>t. ConfigUsart u USART_BAUDRATE USART_MSBF_LSB USART_OVSMOD_8 receiveRBNE 0 3 s = Inr t
    \<and> nvic t = nvic_irq_enable (port_irq u) 0 3 (nvic s) \<and> same_clock (periph s) (periph t)"
proof -
  note n = clock_apart [OF assms(1)]
  have t: "usart_clock u = Some (if u = USART0 then RCU_USART0 else RCU_USART5)" "usart_irqn u = Some (port_irq u)"
    using assms(1) by (auto simp: usart_clock_def usart_irqn_def port_irq_def usart_periphs)
  define m where "m = rcu_periph_clock_enable (if u = USART0 then RCU_USART0 else RCU_USART5) (periph s)"
  define k where "k = usart_oversample_config u USART_OVSMOD_8 (usart_data_first_config u USART_MSBF_LSB (usart_deinit u m))"
  have r: "reg_rd r m = reg_rd r (periph s)" "reg_rd r (usart_deinit u m) = reg_rd r (periph s)" if "r \<in> {RCU_CFG0, RCU_PLL}" for r
    using n [OF that] assms(1)
    by (auto simp: m_def usart_deinit_def Let_def usart_periphs rcu_periph_clock_enable_def rcu_periph_reset_enable_def
        rcu_periph_reset_disable_def rcu_periphs RCU_USART0RST_def RCU_USART5RST_def RCU_REG_VAL_def RCU_BIT_POS_def RCU_REGIDX_BIT_def rcu_regs)
  have k: "reg_rd r k = reg_rd r (periph s)" if "r \<in> {RCU_CFG0, RCU_PLL}" for r
    using n [OF that] r(2) [OF that] by (simp add: k_def usart_line_ops)
  then have "rcu_clock_freq_get CK_APB2 k = Inr f" using assms(2) freq_cong [of k "periph s" CK_APB2] by simp
  then have "usart_uclk u k = Inr f" "USART_BAUDRATE \<noteq> 0" using assms(1) by (auto simp: usart_uclk_def USART_BAUDRATE_def)
  then have "\<exists>v. usart_baudrate_set u USART_BAUDRATE k = Inr (reg_wr (USART_BAUD u) v k)"
    by (simp add: usart_baudrate_set_def Let_def) auto
  then obtain v where "usart_baudrate_set u USART_BAUDRATE k = Inr (reg_wr (USART_BAUD u) v k)" by blast
  then obtain l where l: "usart_line u USART_BAUDRATE USART_MSBF_LSB USART_OVSMOD_8 m = Inr l" "\<And>r. r \<in> {RCU_CFG0, RCU_PLL} \<Longrightarrow> reg_rd r l = reg_rd r (periph s)"
    using n k by (simp add: usart_line_def Let_def flip: k_def) (simp add: usart_line_ops)
  show ?thesis
    using l n
    by (simp add: ConfigUsart_def t Let_def flip: m_def)
      (simp add: config_bits usart_irqs_def usart_rbne_enable usart_rbne_clear usart_enable_def same_clock_def Let_def)
qed

lemma stream_frame:
  assumes "r \<in> {RCU_CFG0, RCU_PLL}" "c \<in> {6, 7}"
  shows "reg_rd r (dma_channel_subperipheral_select DMA1 c k (dma_single_data_mode_init DMA1 c
      (dma_stream u buf n False DMA_PRIORITY_HIGH DMA_MEMORY_TO_PERIPH) (dma_deinit DMA1 c (dma_channel_disable DMA1 c m)))) = reg_rd r m"
proof -
  note d = clock_apart(3) [OF insertI1 assms(1)]
  consider "c = 6" | "c = 7" using assms(2) by auto
  then show ?thesis
    using d by cases (simp_all add: dma_ops dma_stream_def Let_def USARTn_DATA_ADDRESS_def dma_consts)
qed

lemma dma_irq_frame:
  "r \<noteq> DMA_CHCTL d c \<Longrightarrow> r \<noteq> DMA_INTC0 d \<Longrightarrow> r \<noteq> DMA_INTC1 d \<Longrightarrow> reg_rd r (dma_irq d c DMA_INT_FTF m) = reg_rd r m"
  by (simp add: dma_irq_def dma_interrupt_enable_def dma_interrupt_flag_clear_def dma_bits BIT_def)

lemma ConfigDMA_returns:
  assumes "u \<in> {USART0, USART5}"
  shows "\<exists>t. ConfigUsartDMA_Tx u buf n False DMA_PRIORITY_HIGH 0 6 iRQn_full_transmit_Dma s = Inr t
    \<and> nvic t = nvic_irq_enable (channel_irq u) 0 6 (nvic s) \<and> same_clock (periph s) (periph t)"
proof -
  have t: "tx_dma u = Some (DMA1, if u = USART0 then 7 else 6, if u = USART0 then 4 else 5)" "tx_irqn u = Some (channel_irq u)"
    using assms by (auto simp: tx_dma_def tx_irqn_def channel_irq_def usart_periphs)
  have q: "reg_rd r (dma_irq DMA1 c DMA_INT_FTF (dma_channel_subperipheral_select DMA1 c k (dma_single_data_mode_init DMA1 c
        (dma_stream u buf n False DMA_PRIORITY_HIGH DMA_MEMORY_TO_PERIPH) (dma_deinit DMA1 c (dma_channel_disable DMA1 c m))))) = reg_rd r m"
    if "r \<in> {RCU_CFG0, RCU_PLL}" "c \<in> {6, 7}" for r c k m
    using stream_frame [OF that] clock_apart(3) [OF assms that(1)] that(2) dma_irq_frame by auto
  show ?thesis
    using clock_apart [OF assms] q
    by (auto simp: ConfigUsartDMA_Tx_def t Let_def config_bits same_clock_def usart_enable_def usart_disable_def
        usart_dma_transmit_config_def usart_field_def dma_channel_enable_def)
qed

lemma main_ports_nvic:
  assumes "rcu_clock_freq_get CK_APB2 (periph s) = Inr f"
  shows "\<exists>t. main_ports base s = Inr t
    \<and> nvic t = fold (\<lambda>(irq, sub). nvic_irq_enable irq 0 sub) [(37, 3), (70, 6), (71, 3), (69, 6), (29, 4), (50, 4), (55, 2)] (nvic s)"
proof -
  have u: "USART0 \<in> {USART0, USART5}" "USART5 \<in> {USART0, USART5}" "USART5 \<noteq> USART0" by (simp_all add: usart_periphs)
  obtain a where a: "ConfigUsart USART0 USART_BAUDRATE USART_MSBF_LSB USART_OVSMOD_8 receiveRBNE 0 3 s = Inr a"
    "nvic a = nvic_irq_enable 37 0 3 (nvic s)" "same_clock (periph s) (periph a)"
    using ConfigUsart_returns [OF u(1) assms] by (auto simp: port_irq_def)
  obtain b where b: "ConfigUsartDMA_Tx USART0 base (of_nat USART_BUFFER_TX_SIZE_YLS) False DMA_PRIORITY_HIGH 0 6 iRQn_full_transmit_Dma a = Inr b"
    "nvic b = nvic_irq_enable 70 0 6 (nvic a)" "same_clock (periph a) (periph b)"
    using ConfigDMA_returns [OF u(1), of base "of_nat USART_BUFFER_TX_SIZE_YLS" a] by (auto simp: channel_irq_def)
  have "rcu_clock_freq_get CK_APB2 (periph b) = Inr f"
    using assms same_clock_freq [OF a(3)] same_clock_freq [OF b(3)] by simp
  then obtain c where c: "ConfigUsart USART5 USART_BAUDRATE USART_MSBF_LSB USART_OVSMOD_8 receiveRBNE 0 3 b = Inr c"
    "nvic c = nvic_irq_enable 71 0 3 (nvic b)"
    using ConfigUsart_returns [OF u(2), of b] u(3) by (auto simp: port_irq_def)
  obtain d where d: "ConfigUsartDMA_Tx USART5 base (of_nat USART_BUFFER_TX_SIZE_YLS) False DMA_PRIORITY_HIGH 0 6 iRQn_full_transmit_Dma c = Inr d"
    "nvic d = nvic_irq_enable 69 0 6 (nvic c)"
    using ConfigDMA_returns [OF u(2), of base "of_nat USART_BUFFER_TX_SIZE_YLS" c] u(3) by (auto simp: channel_irq_def)
  show ?thesis
    by (simp add: main_ports_def a(1) b(1) c(1) d(1) Let_def Timer2_config_def Timer4_config_def Timer6_config_def timer_irq_def
        a(2) b(2) c(2) d(2))
qed

section \<open>The priorities\<close>

text \<open>With the group of two and two bits a subpriority is cut to its lower two bits.\<close>

lemma nvic_irq_enable_group2:
  assumes "SCB_AIRCR s AND 0x700 \<in> {0, 0x500}"
  shows "SCB_AIRCR (nvic_irq_enable irq 0 sub s) AND 0x700 = 0x500"
    "NVIC_IP (nvic_irq_enable irq 0 sub s) = (NVIC_IP s)(irq := ucast (push_bit 4 (ucast sub AND 3 :: u32)))"
  using assms by (auto simp: nvic_irq_enable_def nvic_group_def nvic_priority_group_set_def Let_def)

text \<open>
  C26: which interrupts can interrupt which. From the reset value of the priority grouping, after
  \<^verbatim>\<open>SysTick_Config\<close> has accepted its period, the set-up of ports and timers in \<^verbatim>\<open>main\<close> returns and leaves
  the seven interrupts of the serial ports, of their DMA channels and of the timers at pre-emption
  level 0 and the tick at level 3: no handler of \<^verbatim>\<open>uart.c\<close> interrupts another one, and each of them
  interrupts the tick handler. Among equals the order of service is not that of the arguments: two bits
  are left for the subpriority, so that the end-of-frame timers, given as 4, come first, the poll timer
  and the ends of transmission, given as 2 and 6, share the next place, and the received bytes, given as
  3, come last.
\<close>

theorem interrupt_levels:
  assumes "rcu_clock_freq_get CK_APB2 (periph s) = Inr f" "SCB_AIRCR (nvic s) AND 0x700 = 0"
    and "SysTick_Config ticks s = (0, r)"
  shows "\<exists>t. main_ports base (board.truncate r) = Inr t
    \<and> (\<forall>irq \<in> {29, 37, 50, 55, 69, 70, 71}. preemption_level (nvic t) irq = 0)
    \<and> level_of (nvic t) (SCB_SHP r 11) = 3
    \<and> map (NVIC_IP (nvic t)) [29, 50, 55, 69, 70, 37, 71] = [0, 0, 0x20, 0x20, 0x20, 0x30, 0x30]"
proof -
  have r: "periph r = periph s" "nvic r = (nvic s)\<lparr> SysTick_CTRL := 7 \<rparr>" "SCB_SHP r 11 = 0xF0"
    using assms(3) by (auto simp: SysTick_Config_def split: if_splits)
  obtain t where t: "main_ports base (board.truncate r) = Inr t"
    "nvic t = fold (\<lambda>(irq, sub). nvic_irq_enable irq 0 sub) [(37, 3), (70, 6), (71, 3), (69, 6), (29, 4), (50, 4), (55, 2)] (nvic r)"
    using main_ports_nvic [of "board.truncate r" f base] assms(1) r(1) by (auto simp: board.defs)
  have g: "SCB_AIRCR (nvic r) AND 0x700 \<in> {0, 0x500}" using assms(2) r(2) by simp
  have a: "SCB_AIRCR (nvic t) AND 0x700 = 0x500" and p: "map (NVIC_IP (nvic t)) [29, 50, 55, 69, 70, 37, 71] = [0, 0, 0x20, 0x20, 0x20, 0x30, 0x30]"
    using g by (simp_all add: t(2) nvic_irq_enable_group2)
  have "\<forall>irq \<in> {29, 37, 50, 55, 69, 70, 71}. preemption_level (nvic t) irq = 0" "level_of (nvic t) (SCB_SHP r 11) = 3"
    using a p by (simp_all add: preemption_level_def level_of_def nvic_group_def r(3))
  then show ?thesis using t(1) p by (intro exI [of _ t] conjI)
qed

theorem interrupt_levels_witness:
  "\<exists>t. main_ports 0x20000000 (board.truncate (snd (SysTick_Config 250000 (start_sample 4)))) = Inr t
    \<and> preemption_level (nvic t) 71 = 0 \<and> NVIC_IP (nvic t) 50 = 0"
proof -
  have "rcu_clock_freq_get CK_APB2 (periph (start_sample 4)) = Inr 25000000"
    by (simp add: start_sample_def rcu_clock_freq_get_def cksys_freq_get_def Let_def GET_BITS_def BITS_def HXTAL_VALUE_def ahb_exp_def apb_exp_def)
  moreover have "SCB_AIRCR (nvic (start_sample 4)) AND 0x700 = 0" by (simp add: start_sample_def)
  moreover have "SysTick_Config 250000 (start_sample 4) = (0, snd (SysTick_Config 250000 (start_sample 4)))" by (simp add: SysTick_Config_def)
  ultimately show ?thesis using interrupt_levels [of "start_sample 4" 25000000 250000 _ "0x20000000"] by fastforce
qed

end
