(* ===== verification/Timer_Ext.thy ===== *)
theory Timer_Ext
  imports Timer
begin

text \<open>
  The rest of the timer driver \<^verbatim>\<open>gd32f4xx_timer.c\<close>: DMA requests, complementary channel
  protection, input capture, triggers, slave modes and clock sources. The firmware does not call
  these functions; the lemmas at the end state what they leave in the registers.
\<close>

section \<open>Registers and constants of \<^verbatim>\<open>gd32f4xx_timer.h\<close>\<close>

definition TIMER_SMCFG :: "u32 \<Rightarrow> u32" where "TIMER_SMCFG timerx = timerx + 0x08"
definition TIMER_DMACFG :: "u32 \<Rightarrow> u32" where "TIMER_DMACFG timerx = timerx + 0x48"
definition TIMER_IRMP :: "u32 \<Rightarrow> u32" where "TIMER_IRMP timerx = timerx + 0x50"
definition TIMER_CFG :: "u32 \<Rightarrow> u32" where "TIMER_CFG timerx = timerx + 0xFC"

lemmas timer_ext_regs [reg_simps] =
  TIMER_SMCFG_def TIMER_DMACFG_def TIMER_IRMP_def TIMER_CFG_def

definition TIMER_CTL1_CCSE :: u32 where "TIMER_CTL1_CCSE = BIT 0"
definition TIMER_CTL1_CCUC :: u32 where "TIMER_CTL1_CCUC = BIT 2"
definition TIMER_CTL1_DMAS :: u32 where "TIMER_CTL1_DMAS = BIT 3"
definition TIMER_CTL1_MMC :: u32 where "TIMER_CTL1_MMC = BITS 4 6"
definition TIMER_CTL1_TI0S :: u32 where "TIMER_CTL1_TI0S = BIT 7"
definition TIMER_SMCFG_SMC :: u32 where "TIMER_SMCFG_SMC = BITS 0 2"
definition TIMER_SMCFG_TRGS :: u32 where "TIMER_SMCFG_TRGS = BITS 4 6"
definition TIMER_SMCFG_MSM :: u32 where "TIMER_SMCFG_MSM = BIT 7"
definition TIMER_SMCFG_ETFC :: u32 where "TIMER_SMCFG_ETFC = BITS 8 11"
definition TIMER_SMCFG_ETPSC :: u32 where "TIMER_SMCFG_ETPSC = BITS 12 13"
definition TIMER_SMCFG_SMC1 :: u32 where "TIMER_SMCFG_SMC1 = BIT 14"
definition TIMER_SMCFG_ETP :: u32 where "TIMER_SMCFG_ETP = BIT 15"
definition TIMER_CHCTL0_CH0COMFEN :: u32 where "TIMER_CHCTL0_CH0COMFEN = BIT 2"
definition TIMER_CHCTL0_CH0COMCEN :: u32 where "TIMER_CHCTL0_CH0COMCEN = BIT 7"
definition TIMER_CHCTL0_CH1COMFEN :: u32 where "TIMER_CHCTL0_CH1COMFEN = BIT 10"
definition TIMER_CHCTL0_CH1COMCEN :: u32 where "TIMER_CHCTL0_CH1COMCEN = BIT 15"
definition TIMER_CHCTL0_CH0CAPPSC :: u32 where "TIMER_CHCTL0_CH0CAPPSC = BITS 2 3"
definition TIMER_CHCTL0_CH0CAPFLT :: u32 where "TIMER_CHCTL0_CH0CAPFLT = BITS 4 7"
definition TIMER_CHCTL0_CH1CAPPSC :: u32 where "TIMER_CHCTL0_CH1CAPPSC = BITS 10 11"
definition TIMER_CHCTL0_CH1CAPFLT :: u32 where "TIMER_CHCTL0_CH1CAPFLT = BITS 12 15"
definition TIMER_CHCTL1_CH2COMFEN :: u32 where "TIMER_CHCTL1_CH2COMFEN = BIT 2"
definition TIMER_CHCTL1_CH2COMCEN :: u32 where "TIMER_CHCTL1_CH2COMCEN = BIT 7"
definition TIMER_CHCTL1_CH3COMFEN :: u32 where "TIMER_CHCTL1_CH3COMFEN = BIT 10"
definition TIMER_CHCTL1_CH3COMCEN :: u32 where "TIMER_CHCTL1_CH3COMCEN = BIT 15"
definition TIMER_CHCTL1_CH2CAPPSC :: u32 where "TIMER_CHCTL1_CH2CAPPSC = BITS 2 3"
definition TIMER_CHCTL1_CH2CAPFLT :: u32 where "TIMER_CHCTL1_CH2CAPFLT = BITS 4 7"
definition TIMER_CHCTL1_CH3CAPPSC :: u32 where "TIMER_CHCTL1_CH3CAPPSC = BITS 10 11"
definition TIMER_CHCTL1_CH3CAPFLT :: u32 where "TIMER_CHCTL1_CH3CAPFLT = BITS 12 15"
definition TIMER_CCHP_BRKEN :: u32 where "TIMER_CCHP_BRKEN = BIT 12"
definition TIMER_CCHP_OAEN :: u32 where "TIMER_CCHP_OAEN = BIT 14"
definition TIMER_DMACFG_DMATA :: u32 where "TIMER_DMACFG_DMATA = BITS 0 4"
definition TIMER_DMACFG_DMATC :: u32 where "TIMER_DMACFG_DMATC = BITS 8 12"
definition TIMER_CFG_OUTSEL :: u32 where "TIMER_CFG_OUTSEL = BIT 0"
definition TIMER_CFG_CHVSEL :: u32 where "TIMER_CFG_CHVSEL = BIT 1"

lemmas timer_ext_bits =
  TIMER_CTL1_CCSE_def TIMER_CTL1_CCUC_def TIMER_CTL1_DMAS_def TIMER_CTL1_MMC_def TIMER_CTL1_TI0S_def
  TIMER_SMCFG_SMC_def TIMER_SMCFG_TRGS_def TIMER_SMCFG_MSM_def TIMER_SMCFG_ETFC_def TIMER_SMCFG_ETPSC_def
  TIMER_SMCFG_SMC1_def TIMER_SMCFG_ETP_def TIMER_CHCTL0_CH0COMFEN_def TIMER_CHCTL0_CH0COMCEN_def
  TIMER_CHCTL0_CH1COMFEN_def TIMER_CHCTL0_CH1COMCEN_def TIMER_CHCTL0_CH0CAPPSC_def
  TIMER_CHCTL0_CH0CAPFLT_def TIMER_CHCTL0_CH1CAPPSC_def TIMER_CHCTL0_CH1CAPFLT_def
  TIMER_CHCTL1_CH2COMFEN_def TIMER_CHCTL1_CH2COMCEN_def TIMER_CHCTL1_CH3COMFEN_def
  TIMER_CHCTL1_CH3COMCEN_def TIMER_CHCTL1_CH2CAPPSC_def TIMER_CHCTL1_CH2CAPFLT_def
  TIMER_CHCTL1_CH3CAPPSC_def TIMER_CHCTL1_CH3CAPFLT_def TIMER_CCHP_BRKEN_def TIMER_CCHP_OAEN_def
  TIMER_DMACFG_DMATA_def TIMER_DMACFG_DMATC_def TIMER_CFG_OUTSEL_def TIMER_CFG_CHVSEL_def

definition TIMER_DMAREQUEST_UPDATEEVENT :: u8 where "TIMER_DMAREQUEST_UPDATEEVENT = 0x0"
definition TIMER_DMAREQUEST_CHANNELEVENT :: u8 where "TIMER_DMAREQUEST_CHANNELEVENT = 0x1"
definition TIMER_ROS_STATE_DISABLE :: u16 where "TIMER_ROS_STATE_DISABLE = 0x0"
definition TIMER_IOS_STATE_DISABLE :: u16 where "TIMER_IOS_STATE_DISABLE = 0x0"
definition TIMER_BREAK_POLARITY_LOW :: u16 where "TIMER_BREAK_POLARITY_LOW = 0x0"
definition TIMER_OUTAUTO_DISABLE :: u16 where "TIMER_OUTAUTO_DISABLE = 0x0"
definition TIMER_BREAK_DISABLE :: u16 where "TIMER_BREAK_DISABLE = 0x0"
definition TIMER_UPDATECTL_CCU :: u32 where "TIMER_UPDATECTL_CCU = 0x0"
definition TIMER_UPDATECTL_CCUTRI :: u32 where "TIMER_UPDATECTL_CCUTRI = 0x1"
definition TIMER_IC_POLARITY_RISING :: u16 where "TIMER_IC_POLARITY_RISING = 0x0"
definition TIMER_IC_POLARITY_FALLING :: u16 where "TIMER_IC_POLARITY_FALLING = 0x2"
definition TIMER_IC_POLARITY_BOTH_EDGE :: u16 where "TIMER_IC_POLARITY_BOTH_EDGE = 0xA"
definition TIMER_IC_SELECTION_DIRECTTI :: u16 where "TIMER_IC_SELECTION_DIRECTTI = 0x1"
definition TIMER_IC_SELECTION_INDIRECTTI :: u16 where "TIMER_IC_SELECTION_INDIRECTTI = 0x2"
definition TIMER_IC_SELECTION_ITS :: u16 where "TIMER_IC_SELECTION_ITS = 0x3"
definition TIMER_IC_PSC_DIV1 :: u16 where "TIMER_IC_PSC_DIV1 = 0x0"
definition TIMER_IC_PSC_DIV2 :: u16 where "TIMER_IC_PSC_DIV2 = 0x4"
definition TIMER_IC_PSC_DIV4 :: u16 where "TIMER_IC_PSC_DIV4 = 0x8"
definition TIMER_IC_PSC_DIV8 :: u16 where "TIMER_IC_PSC_DIV8 = 0xC"
definition TIMER_MASTER_SLAVE_MODE_ENABLE :: u32 where "TIMER_MASTER_SLAVE_MODE_ENABLE = 0x0"
definition TIMER_MASTER_SLAVE_MODE_DISABLE :: u32 where "TIMER_MASTER_SLAVE_MODE_DISABLE = 0x1"
definition TIMER_HALLINTERFACE_ENABLE :: u32 where "TIMER_HALLINTERFACE_ENABLE = 0x0"
definition TIMER_HALLINTERFACE_DISABLE :: u32 where "TIMER_HALLINTERFACE_DISABLE = 0x1"
definition TIMER_CHVSEL_ENABLE :: u16 where "TIMER_CHVSEL_ENABLE = 0x2"
definition TIMER_CHVSEL_DISABLE :: u16 where "TIMER_CHVSEL_DISABLE = 0x0"
definition TIMER_OUTSEL_ENABLE :: u16 where "TIMER_OUTSEL_ENABLE = 0x1"
definition TIMER_OUTSEL_DISABLE :: u16 where "TIMER_OUTSEL_DISABLE = 0x0"
definition CCHP_PROT :: "u32 \<Rightarrow> u16" where "CCHP_PROT regval = ucast (BITS 8 9 AND push_bit 8 regval)"
definition TIMER_CCHP_PROT_OFF :: u16 where "TIMER_CCHP_PROT_OFF = CCHP_PROT 0"
definition SMCFG_TRGSEL :: "u32 \<Rightarrow> u32" where "SMCFG_TRGSEL regval = BITS 4 6 AND push_bit 4 regval"
definition TIMER_SMCFG_TRGSEL_CI1FE1 :: u32 where "TIMER_SMCFG_TRGSEL_CI1FE1 = SMCFG_TRGSEL 6"
definition TIMER_SMCFG_TRGSEL_ETIFP :: u32 where "TIMER_SMCFG_TRGSEL_ETIFP = SMCFG_TRGSEL 7"
definition SMCFG_SMC :: "u32 \<Rightarrow> u32" where "SMCFG_SMC regval = BITS 0 2 AND push_bit 0 regval"
definition TIMER_SLAVE_MODE_EXTERNAL0 :: u32 where "TIMER_SLAVE_MODE_EXTERNAL0 = SMCFG_SMC 7"

lemmas timer_ext_values =
  TIMER_DMAREQUEST_UPDATEEVENT_def TIMER_DMAREQUEST_CHANNELEVENT_def TIMER_ROS_STATE_DISABLE_def
  TIMER_IOS_STATE_DISABLE_def TIMER_BREAK_POLARITY_LOW_def TIMER_OUTAUTO_DISABLE_def TIMER_BREAK_DISABLE_def
  TIMER_UPDATECTL_CCU_def TIMER_UPDATECTL_CCUTRI_def TIMER_IC_POLARITY_RISING_def
  TIMER_IC_POLARITY_FALLING_def TIMER_IC_POLARITY_BOTH_EDGE_def TIMER_IC_SELECTION_DIRECTTI_def
  TIMER_IC_SELECTION_INDIRECTTI_def TIMER_IC_SELECTION_ITS_def TIMER_IC_PSC_DIV1_def TIMER_IC_PSC_DIV2_def
  TIMER_IC_PSC_DIV4_def TIMER_IC_PSC_DIV8_def TIMER_MASTER_SLAVE_MODE_ENABLE_def
  TIMER_MASTER_SLAVE_MODE_DISABLE_def TIMER_HALLINTERFACE_ENABLE_def TIMER_HALLINTERFACE_DISABLE_def
  TIMER_CHVSEL_ENABLE_def TIMER_CHVSEL_DISABLE_def TIMER_OUTSEL_ENABLE_def TIMER_OUTSEL_DISABLE_def
  CCHP_PROT_def TIMER_CCHP_PROT_OFF_def SMCFG_TRGSEL_def TIMER_SMCFG_TRGSEL_CI1FE1_def
  TIMER_SMCFG_TRGSEL_ETIFP_def SMCFG_SMC_def TIMER_SLAVE_MODE_EXTERNAL0_def

section \<open>DMA requests\<close>

definition timer_channel_dma_request_source_select :: "u32 \<Rightarrow> u8 \<Rightarrow> mem \<Rightarrow> mem" where
  "timer_channel_dma_request_source_select timer_periph dma_request m =
     (if dma_request = TIMER_DMAREQUEST_UPDATEEVENT then reg_set (TIMER_CTL1 timer_periph) TIMER_CTL1_DMAS m
      else if dma_request = TIMER_DMAREQUEST_CHANNELEVENT then reg_clr (TIMER_CTL1 timer_periph) TIMER_CTL1_DMAS m
      else m)"

definition timer_dma_transfer_config :: "u32 \<Rightarrow> u32 \<Rightarrow> u32 \<Rightarrow> mem \<Rightarrow> mem" where
  "timer_dma_transfer_config timer_periph dma_baseaddr dma_lenth m =
     reg_set (TIMER_DMACFG timer_periph) (dma_baseaddr OR dma_lenth)
       (reg_clr (TIMER_DMACFG timer_periph) (TIMER_DMACFG_DMATA OR TIMER_DMACFG_DMATC) m)"

section \<open>Complementary channel protection\<close>

record timer_break_parameter_struct =
  runoffstate :: u16
  ideloffstate :: u16
  deadtime :: u16
  breakpolarity :: u16
  outputautostate :: u16
  protectmode :: u16
  breakstate :: u16

definition timer_break_struct_para_init :: "timer_break_parameter_struct \<Rightarrow> timer_break_parameter_struct" where
  "timer_break_struct_para_init breakpara = breakpara
     \<lparr> runoffstate := TIMER_ROS_STATE_DISABLE, ideloffstate := TIMER_IOS_STATE_DISABLE, deadtime := 0,
       breakpolarity := TIMER_BREAK_POLARITY_LOW, outputautostate := TIMER_OUTAUTO_DISABLE,
       protectmode := TIMER_CCHP_PROT_OFF, breakstate := TIMER_BREAK_DISABLE \<rparr>"

definition timer_break_config :: "u32 \<Rightarrow> timer_break_parameter_struct \<Rightarrow> mem \<Rightarrow> mem" where
  "timer_break_config timer_periph breakpara =
     reg_wr (TIMER_CCHP timer_periph)
       (ucast (runoffstate breakpara) OR ucast (ideloffstate breakpara) OR ucast (deadtime breakpara)
        OR ucast (breakpolarity breakpara) OR ucast (outputautostate breakpara)
        OR ucast (protectmode breakpara) OR ucast (breakstate breakpara))"

definition timer_break_enable :: "u32 \<Rightarrow> mem \<Rightarrow> mem" where
  "timer_break_enable timer_periph = reg_set (TIMER_CCHP timer_periph) TIMER_CCHP_BRKEN"

definition timer_break_disable :: "u32 \<Rightarrow> mem \<Rightarrow> mem" where
  "timer_break_disable timer_periph = reg_clr (TIMER_CCHP timer_periph) TIMER_CCHP_BRKEN"

definition timer_automatic_output_enable :: "u32 \<Rightarrow> mem \<Rightarrow> mem" where
  "timer_automatic_output_enable timer_periph = reg_set (TIMER_CCHP timer_periph) TIMER_CCHP_OAEN"

definition timer_automatic_output_disable :: "u32 \<Rightarrow> mem \<Rightarrow> mem" where
  "timer_automatic_output_disable timer_periph = reg_clr (TIMER_CCHP timer_periph) TIMER_CCHP_OAEN"

definition timer_channel_control_shadow_config :: "u32 \<Rightarrow> bool \<Rightarrow> mem \<Rightarrow> mem" where
  "timer_channel_control_shadow_config timer_periph newvalue m =
     (if newvalue then reg_set (TIMER_CTL1 timer_periph) TIMER_CTL1_CCSE m
      else reg_clr (TIMER_CTL1 timer_periph) TIMER_CTL1_CCSE m)"

definition timer_channel_control_shadow_update_config :: "u32 \<Rightarrow> u8 \<Rightarrow> mem \<Rightarrow> mem" where
  "timer_channel_control_shadow_update_config timer_periph ccuctl m =
     (if ucast ccuctl = TIMER_UPDATECTL_CCU then reg_clr (TIMER_CTL1 timer_periph) TIMER_CTL1_CCUC m
      else if ucast ccuctl = TIMER_UPDATECTL_CCUTRI then reg_set (TIMER_CTL1 timer_periph) TIMER_CTL1_CCUC m
      else m)"

section \<open>Output channels\<close>

definition timer_channel_output_fast_config :: "u32 \<Rightarrow> u16 \<Rightarrow> u16 \<Rightarrow> mem \<Rightarrow> mem" where
  "timer_channel_output_fast_config timer_periph channel ocfast m =
     (if channel = 0 then timer_field (TIMER_CHCTL0 timer_periph) TIMER_CHCTL0_CH0COMFEN ocfast 0 m
      else if channel = 1 then timer_field (TIMER_CHCTL0 timer_periph) TIMER_CHCTL0_CH1COMFEN ocfast 8 m
      else if channel = 2 then timer_field (TIMER_CHCTL1 timer_periph) TIMER_CHCTL1_CH2COMFEN ocfast 0 m
      else if channel = 3 then timer_field (TIMER_CHCTL1 timer_periph) TIMER_CHCTL1_CH3COMFEN ocfast 8 m
      else m)"

definition timer_channel_output_clear_config :: "u32 \<Rightarrow> u16 \<Rightarrow> u16 \<Rightarrow> mem \<Rightarrow> mem" where
  "timer_channel_output_clear_config timer_periph channel occlear m =
     (if channel = 0 then timer_field (TIMER_CHCTL0 timer_periph) TIMER_CHCTL0_CH0COMCEN occlear 0 m
      else if channel = 1 then timer_field (TIMER_CHCTL0 timer_periph) TIMER_CHCTL0_CH1COMCEN occlear 8 m
      else if channel = 2 then timer_field (TIMER_CHCTL1 timer_periph) TIMER_CHCTL1_CH2COMCEN occlear 0 m
      else if channel = 3 then timer_field (TIMER_CHCTL1 timer_periph) TIMER_CHCTL1_CH3COMCEN occlear 8 m
      else m)"

definition timer_channel_complementary_output_polarity_config :: "u32 \<Rightarrow> u16 \<Rightarrow> u16 \<Rightarrow> mem \<Rightarrow> mem" where
  "timer_channel_complementary_output_polarity_config timer_periph channel polarity m =
     (if channel = 0 then timer_field (TIMER_CHCTL2 timer_periph) TIMER_CHCTL2_CH0NP polarity 0 m
      else if channel = 1 then timer_field (TIMER_CHCTL2 timer_periph) TIMER_CHCTL2_CH1NP polarity 4 m
      else if channel = 2 then timer_field (TIMER_CHCTL2 timer_periph) TIMER_CHCTL2_CH2NP polarity 8 m
      else m)"

definition timer_channel_complementary_output_state_config :: "u32 \<Rightarrow> u16 \<Rightarrow> u16 \<Rightarrow> mem \<Rightarrow> mem" where
  "timer_channel_complementary_output_state_config timer_periph channel ocnstate m =
     (if channel = 0 then timer_field (TIMER_CHCTL2 timer_periph) TIMER_CHCTL2_CH0NEN ocnstate 0 m
      else if channel = 1 then timer_field (TIMER_CHCTL2 timer_periph) TIMER_CHCTL2_CH1NEN ocnstate 4 m
      else if channel = 2 then timer_field (TIMER_CHCTL2 timer_periph) TIMER_CHCTL2_CH2NEN ocnstate 8 m
      else m)"

section \<open>Input channels\<close>

record timer_ic_parameter_struct =
  icpolarity :: u16
  icselection :: u16
  icprescaler :: u16
  icfilter :: u16

definition timer_channel_input_struct_para_init :: "timer_ic_parameter_struct \<Rightarrow> timer_ic_parameter_struct" where
  "timer_channel_input_struct_para_init icpara = icpara
     \<lparr> icpolarity := TIMER_IC_POLARITY_RISING, icselection := TIMER_IC_SELECTION_DIRECTTI,
       icprescaler := TIMER_IC_PSC_DIV1, icfilter := 0 \<rparr>"

definition timer_channel_input_capture_prescaler_config :: "u32 \<Rightarrow> u16 \<Rightarrow> u16 \<Rightarrow> mem \<Rightarrow> mem" where
  "timer_channel_input_capture_prescaler_config timer_periph channel psc m =
     (if channel = 0 then timer_field (TIMER_CHCTL0 timer_periph) TIMER_CHCTL0_CH0CAPPSC psc 0 m
      else if channel = 1 then timer_field (TIMER_CHCTL0 timer_periph) TIMER_CHCTL0_CH1CAPPSC psc 8 m
      else if channel = 2 then timer_field (TIMER_CHCTL1 timer_periph) TIMER_CHCTL1_CH2CAPPSC psc 0 m
      else if channel = 3 then timer_field (TIMER_CHCTL1 timer_periph) TIMER_CHCTL1_CH3CAPPSC psc 8 m
      else m)"

text \<open>
  The statements that make one channel an input, in the order every caller has them: the channel is
  switched off, its polarity bits in \<^verbatim>\<open>CHCTL2\<close> and its mode and filter fields in
  \<^verbatim>\<open>CHCTL0\<close> or \<^verbatim>\<open>CHCTL1\<close> are replaced, and the channel is switched on again.
\<close>

definition capture_input ::
  "u32 \<Rightarrow> u32 \<Rightarrow> u32 \<Rightarrow> u32 \<Rightarrow> nat \<Rightarrow> u32 \<Rightarrow> u32 \<Rightarrow> u32 \<Rightarrow> nat \<Rightarrow> u16 \<Rightarrow> u16 \<Rightarrow> u32 \<Rightarrow> mem \<Rightarrow> mem" where
  "capture_input chctl2 en p np ps chctl ms flt s pol sel filt m =
     (let m = reg_clr chctl2 en m;
          m = timer_field chctl2 (p OR np) pol ps m;
          m = timer_field chctl ms sel s m;
          m = reg_set chctl (push_bit (s + 4) filt) (reg_clr chctl flt m)
      in reg_set chctl2 en m)"

text \<open>
  Its four instances: polarity, selection and filter of channels 0 to 3. Channel 3 has no
  complementary polarity bit.
\<close>

definition capture_ch0 :: "u32 \<Rightarrow> u16 \<Rightarrow> u16 \<Rightarrow> u32 \<Rightarrow> mem \<Rightarrow> mem" where
  "capture_ch0 timer_periph =
     capture_input (TIMER_CHCTL2 timer_periph) TIMER_CHCTL2_CH0EN TIMER_CHCTL2_CH0P TIMER_CHCTL2_CH0NP 0
       (TIMER_CHCTL0 timer_periph) TIMER_CHCTL0_CH0MS TIMER_CHCTL0_CH0CAPFLT 0"

definition capture_ch1 :: "u32 \<Rightarrow> u16 \<Rightarrow> u16 \<Rightarrow> u32 \<Rightarrow> mem \<Rightarrow> mem" where
  "capture_ch1 timer_periph =
     capture_input (TIMER_CHCTL2 timer_periph) TIMER_CHCTL2_CH1EN TIMER_CHCTL2_CH1P TIMER_CHCTL2_CH1NP 4
       (TIMER_CHCTL0 timer_periph) TIMER_CHCTL0_CH1MS TIMER_CHCTL0_CH1CAPFLT 8"

definition capture_ch2 :: "u32 \<Rightarrow> u16 \<Rightarrow> u16 \<Rightarrow> u32 \<Rightarrow> mem \<Rightarrow> mem" where
  "capture_ch2 timer_periph =
     capture_input (TIMER_CHCTL2 timer_periph) TIMER_CHCTL2_CH2EN TIMER_CHCTL2_CH2P TIMER_CHCTL2_CH2NP 8
       (TIMER_CHCTL1 timer_periph) TIMER_CHCTL1_CH2MS TIMER_CHCTL1_CH2CAPFLT 0"

definition capture_ch3 :: "u32 \<Rightarrow> u16 \<Rightarrow> u16 \<Rightarrow> u32 \<Rightarrow> mem \<Rightarrow> mem" where
  "capture_ch3 timer_periph =
     capture_input (TIMER_CHCTL2 timer_periph) TIMER_CHCTL2_CH3EN TIMER_CHCTL2_CH3P 0 12
       (TIMER_CHCTL1 timer_periph) TIMER_CHCTL1_CH3MS TIMER_CHCTL1_CH3CAPFLT 8"

definition timer_input_capture_config :: "u32 \<Rightarrow> u16 \<Rightarrow> timer_ic_parameter_struct \<Rightarrow> mem \<Rightarrow> mem" where
  "timer_input_capture_config timer_periph channel icpara m =
     (let pol = icpolarity icpara; sel = icselection icpara; filt = ucast (icfilter icpara);
          m = (if channel = 0 then capture_ch0 timer_periph pol sel filt m
               else if channel = 1 then capture_ch1 timer_periph pol sel filt m
               else if channel = 2 then capture_ch2 timer_periph pol sel filt m
               else if channel = 3 then capture_ch3 timer_periph pol sel filt m
               else m)
      in timer_channel_input_capture_prescaler_config timer_periph channel (icprescaler icpara) m)"

definition timer_channel_capture_value_register_read :: "u32 \<Rightarrow> u16 \<Rightarrow> mem \<Rightarrow> u32" where
  "timer_channel_capture_value_register_read timer_periph channel m =
     (if channel = 0 then reg_rd (TIMER_CH0CV timer_periph) m
      else if channel = 1 then reg_rd (TIMER_CH1CV timer_periph) m
      else if channel = 2 then reg_rd (TIMER_CH2CV timer_periph) m
      else if channel = 3 then reg_rd (TIMER_CH3CV timer_periph) m
      else 0)"

definition timer_input_pwm_capture_config :: "u32 \<Rightarrow> u16 \<Rightarrow> timer_ic_parameter_struct \<Rightarrow> mem \<Rightarrow> mem" where
  "timer_input_pwm_capture_config timer_periph channel icpwm m =
     (let pol = (if icpolarity icpwm = TIMER_IC_POLARITY_RISING then TIMER_IC_POLARITY_FALLING
                 else TIMER_IC_POLARITY_RISING);
          sel = (if icselection icpwm = TIMER_IC_SELECTION_DIRECTTI then TIMER_IC_SELECTION_INDIRECTTI
                 else TIMER_IC_SELECTION_DIRECTTI);
          filt = ucast (icfilter icpwm);
          prescale = (\<lambda>ch. timer_channel_input_capture_prescaler_config timer_periph ch (icprescaler icpwm))
      in if channel = 0 then
           let m = capture_ch0 timer_periph (icpolarity icpwm) (icselection icpwm) filt m;
               m = prescale 0 m;
               m = capture_ch1 timer_periph pol sel filt m
           in prescale 1 m
         else
           let m = capture_ch1 timer_periph (icpolarity icpwm) (icselection icpwm) filt m;
               m = prescale 1 m;
               m = capture_ch0 timer_periph pol sel filt m
           in prescale 0 m)"

section \<open>Triggers, slave modes and clock sources\<close>

definition timer_hall_mode_config :: "u32 \<Rightarrow> u32 \<Rightarrow> mem \<Rightarrow> mem" where
  "timer_hall_mode_config timer_periph hallmode m =
     (if hallmode = TIMER_HALLINTERFACE_ENABLE then reg_set (TIMER_CTL1 timer_periph) TIMER_CTL1_TI0S m
      else if hallmode = TIMER_HALLINTERFACE_DISABLE then reg_clr (TIMER_CTL1 timer_periph) TIMER_CTL1_TI0S m
      else m)"

definition timer_input_trigger_source_select :: "u32 \<Rightarrow> u32 \<Rightarrow> mem \<Rightarrow> mem" where
  "timer_input_trigger_source_select timer_periph intrigger m =
     reg_set (TIMER_SMCFG timer_periph) intrigger (reg_clr (TIMER_SMCFG timer_periph) TIMER_SMCFG_TRGS m)"

definition timer_master_output_trigger_source_select :: "u32 \<Rightarrow> u32 \<Rightarrow> mem \<Rightarrow> mem" where
  "timer_master_output_trigger_source_select timer_periph outrigger m =
     reg_set (TIMER_CTL1 timer_periph) outrigger (reg_clr (TIMER_CTL1 timer_periph) TIMER_CTL1_MMC m)"

definition timer_slave_mode_select :: "u32 \<Rightarrow> u32 \<Rightarrow> mem \<Rightarrow> mem" where
  "timer_slave_mode_select timer_periph slavemode m =
     reg_set (TIMER_SMCFG timer_periph) slavemode (reg_clr (TIMER_SMCFG timer_periph) TIMER_SMCFG_SMC m)"

definition timer_master_slave_mode_config :: "u32 \<Rightarrow> u32 \<Rightarrow> mem \<Rightarrow> mem" where
  "timer_master_slave_mode_config timer_periph masterslave m =
     (if masterslave = TIMER_MASTER_SLAVE_MODE_ENABLE then reg_set (TIMER_SMCFG timer_periph) TIMER_SMCFG_MSM m
      else if masterslave = TIMER_MASTER_SLAVE_MODE_DISABLE then reg_clr (TIMER_SMCFG timer_periph) TIMER_SMCFG_MSM m
      else m)"

definition timer_external_trigger_config :: "u32 \<Rightarrow> u32 \<Rightarrow> u32 \<Rightarrow> u32 \<Rightarrow> mem \<Rightarrow> mem" where
  "timer_external_trigger_config timer_periph extprescaler extpolarity extfilter m =
     (let smcfg = TIMER_SMCFG timer_periph;
          m = reg_clr smcfg (TIMER_SMCFG_ETP OR TIMER_SMCFG_ETPSC OR TIMER_SMCFG_ETFC) m;
          m = reg_set smcfg (extprescaler OR extpolarity) m
      in reg_set smcfg (push_bit 8 extfilter) m)"

definition timer_quadrature_decoder_mode_config :: "u32 \<Rightarrow> u32 \<Rightarrow> u16 \<Rightarrow> u16 \<Rightarrow> mem \<Rightarrow> mem" where
  "timer_quadrature_decoder_mode_config timer_periph decomode ic0polarity ic1polarity m =
     (let smcfg = TIMER_SMCFG timer_periph; chctl0 = TIMER_CHCTL0 timer_periph;
          chctl2 = TIMER_CHCTL2 timer_periph;
          m = reg_set smcfg decomode (reg_clr smcfg TIMER_SMCFG_SMC m);
          m = reg_wr chctl0 (reg_rd chctl0 m AND (NOT TIMER_CHCTL0_CH0MS AND NOT TIMER_CHCTL0_CH1MS)) m;
          m = reg_set chctl0 (ucast TIMER_IC_SELECTION_DIRECTTI OR push_bit 8 (ucast TIMER_IC_SELECTION_DIRECTTI)) m;
          m = reg_clr chctl2 (TIMER_CHCTL2_CH0P OR TIMER_CHCTL2_CH0NP) m;
          m = reg_clr chctl2 (TIMER_CHCTL2_CH1P OR TIMER_CHCTL2_CH1NP) m
      in reg_set chctl2 (ucast ic0polarity OR push_bit 4 (ucast ic1polarity)) m)"

definition timer_internal_clock_config :: "u32 \<Rightarrow> mem \<Rightarrow> mem" where
  "timer_internal_clock_config timer_periph = reg_clr (TIMER_SMCFG timer_periph) TIMER_SMCFG_SMC"

definition timer_internal_trigger_as_external_clock_config :: "u32 \<Rightarrow> u32 \<Rightarrow> mem \<Rightarrow> mem" where
  "timer_internal_trigger_as_external_clock_config timer_periph intrigger m =
     (let m = timer_input_trigger_source_select timer_periph intrigger m;
          m = reg_clr (TIMER_SMCFG timer_periph) TIMER_SMCFG_SMC m
      in reg_set (TIMER_SMCFG timer_periph) TIMER_SLAVE_MODE_EXTERNAL0 m)"

definition timer_external_trigger_as_external_clock_config ::
  "u32 \<Rightarrow> u32 \<Rightarrow> u16 \<Rightarrow> u32 \<Rightarrow> mem \<Rightarrow> mem" where
  "timer_external_trigger_as_external_clock_config timer_periph extrigger extpolarity extfilter m =
     (let m = (if extrigger = TIMER_SMCFG_TRGSEL_CI1FE1
               then capture_ch1 timer_periph extpolarity TIMER_IC_SELECTION_DIRECTTI extfilter m
               else capture_ch0 timer_periph extpolarity TIMER_IC_SELECTION_DIRECTTI extfilter m);
          m = timer_input_trigger_source_select timer_periph extrigger m;
          m = reg_clr (TIMER_SMCFG timer_periph) TIMER_SMCFG_SMC m
      in reg_set (TIMER_SMCFG timer_periph) TIMER_SLAVE_MODE_EXTERNAL0 m)"

definition timer_external_clock_mode0_config :: "u32 \<Rightarrow> u32 \<Rightarrow> u32 \<Rightarrow> u32 \<Rightarrow> mem \<Rightarrow> mem" where
  "timer_external_clock_mode0_config timer_periph extprescaler extpolarity extfilter m =
     (let m = timer_external_trigger_config timer_periph extprescaler extpolarity extfilter m;
          m = reg_clr (TIMER_SMCFG timer_periph) (TIMER_SMCFG_SMC OR TIMER_SMCFG_TRGS) m
      in reg_set (TIMER_SMCFG timer_periph) (TIMER_SLAVE_MODE_EXTERNAL0 OR TIMER_SMCFG_TRGSEL_ETIFP) m)"

definition timer_external_clock_mode1_config :: "u32 \<Rightarrow> u32 \<Rightarrow> u32 \<Rightarrow> u32 \<Rightarrow> mem \<Rightarrow> mem" where
  "timer_external_clock_mode1_config timer_periph extprescaler extpolarity extfilter m =
     (let m = timer_external_trigger_config timer_periph extprescaler extpolarity extfilter m
      in reg_set (TIMER_SMCFG timer_periph) TIMER_SMCFG_SMC1 m)"

definition timer_external_clock_mode1_disable :: "u32 \<Rightarrow> mem \<Rightarrow> mem" where
  "timer_external_clock_mode1_disable timer_periph = reg_clr (TIMER_SMCFG timer_periph) TIMER_SMCFG_SMC1"

section \<open>Remap and output selection\<close>

definition timer_channel_remap_config :: "u32 \<Rightarrow> u32 \<Rightarrow> mem \<Rightarrow> mem" where
  "timer_channel_remap_config timer_periph remap = reg_wr (TIMER_IRMP timer_periph) remap"

definition timer_write_chxval_register_config :: "u32 \<Rightarrow> u16 \<Rightarrow> mem \<Rightarrow> mem" where
  "timer_write_chxval_register_config timer_periph ccsel m =
     (if ccsel = TIMER_CHVSEL_ENABLE then reg_set (TIMER_CFG timer_periph) TIMER_CFG_CHVSEL m
      else if ccsel = TIMER_CHVSEL_DISABLE then reg_clr (TIMER_CFG timer_periph) TIMER_CFG_CHVSEL m
      else m)"

definition timer_output_value_selection_config :: "u32 \<Rightarrow> u16 \<Rightarrow> mem \<Rightarrow> mem" where
  "timer_output_value_selection_config timer_periph outsel m =
     (if outsel = TIMER_OUTSEL_ENABLE then reg_set (TIMER_CFG timer_periph) TIMER_CFG_OUTSEL m
      else if outsel = TIMER_OUTSEL_DISABLE then reg_clr (TIMER_CFG timer_periph) TIMER_CFG_OUTSEL m
      else m)"

section \<open>What the functions leave in the registers\<close>

lemma rd_timer_field:
  "reg_rd a (timer_field b k v s m) =
     (if a = b then (reg_rd a m AND NOT k) OR push_bit s (ucast v) else reg_rd a m)"
  by (simp add: timer_field_def)

lemmas capture_defs =
  capture_ch0_def capture_ch1_def capture_ch2_def capture_ch3_def
  timer_channel_input_capture_prescaler_config_def Let_def

lemma capture_chctl2:
  "chctl \<noteq> chctl2 \<Longrightarrow> reg_rd chctl2 (capture_input chctl2 en p np ps chctl ms flt s pol sel filt m) =
     (reg_rd chctl2 m AND NOT en AND NOT (p OR np)) OR push_bit ps (ucast pol) OR en"
  by (simp add: capture_input_def Let_def rd_timer_field ac_simps)

lemma capture_chctl:
  "chctl \<noteq> chctl2 \<Longrightarrow> reg_rd chctl (capture_input chctl2 en p np ps chctl ms flt s pol sel filt m) =
     (((reg_rd chctl m AND NOT ms) OR push_bit s (ucast sel)) AND NOT flt) OR push_bit (s + 4) filt"
  by (simp add: capture_input_def Let_def rd_timer_field)

lemma capture_other:
  "a \<noteq> chctl2 \<Longrightarrow> a \<noteq> chctl \<Longrightarrow>
     reg_rd a (capture_input chctl2 en p np ps chctl ms flt s pol sel filt m) = reg_rd a m"
  by (simp add: capture_input_def Let_def rd_timer_field)

lemmas capture_rd = capture_chctl2 capture_chctl capture_other rd_timer_field

text \<open>
  PWM capture measures a signal with two channels that see opposite edges of it: both channels are
  on, each with one polarity bit, and these differ; the named channel captures on the edge asked for.
\<close>

theorem pwm_capture_edges:
  assumes "icpolarity ic \<in> {TIMER_IC_POLARITY_RISING, TIMER_IC_POLARITY_FALLING}"
    and "r = reg_rd (TIMER_CHCTL2 t) (timer_input_pwm_capture_config t ch ic m)"
  shows "bit r 0 \<and> bit r 4 \<and> bit r 1 \<noteq> bit r 5 \<and> \<not> bit r 3 \<and> \<not> bit r 7"
    and "bit r (if ch = 0 then 1 else 5) \<longleftrightarrow> icpolarity ic = TIMER_IC_POLARITY_FALLING"
    and "8 \<le> n \<Longrightarrow> n < 32 \<Longrightarrow> bit r n = bit (reg_rd (TIMER_CHCTL2 t) m) n"
  using assms 
  by (auto simp: timer_input_pwm_capture_config_def capture_defs capture_rd reg_simps timer_bits
    TIMER_IC_POLARITY_RISING_def TIMER_IC_POLARITY_FALLING_def bit_simps)

text \<open>
  One channel for input capture: its byte of \<^verbatim>\<open>CHCTL0\<close> or \<^verbatim>\<open>CHCTL1\<close> holds the selection,
  the prescaler and the filter asked for, the other byte keeps the other channel's configuration.
\<close>

lemma bit_take_bit_self: "take_bit k w = w \<Longrightarrow> bit (w :: 'a :: len word) n \<Longrightarrow> n < k"
  by (metis bit_take_bit_iff)

definition channel_byte :: "nat \<Rightarrow> u16 \<Rightarrow> u16 \<Rightarrow> u16 \<Rightarrow> u32 \<Rightarrow> u32" where
  "channel_byte s sel psc filt r =
     (((((r AND NOT (BITS s (s + 1))) OR push_bit s (ucast sel)) AND NOT (BITS (s + 4) (s + 7)))
        OR push_bit (s + 4) (ucast filt)) AND NOT (BITS (s + 2) (s + 3))) OR push_bit s (ucast psc)"

lemma input_capture_byte:
  assumes "c < 4"
  shows "reg_rd (if c < 2 then TIMER_CHCTL0 t else TIMER_CHCTL1 t) (timer_input_capture_config t (of_nat c) ic m) =
     channel_byte (8 * (c mod 2)) (icselection ic) (icprescaler ic) (icfilter ic)
       (reg_rd (if c < 2 then TIMER_CHCTL0 t else TIMER_CHCTL1 t) m)"
proof -
  have "c = 0 \<or> c = 1 \<or> c = 2 \<or> c = 3" using assms by linarith
  then show ?thesis
    by (elim disjE) (simp_all add: timer_input_capture_config_def capture_defs capture_rd reg_simps
      timer_bits timer_ext_bits channel_byte_def numeral_2_eq_2 [symmetric])
qed

lemma channel_byte_fields:
  assumes s: "s + 7 < 32"
    and "take_bit 2 sel = sel" "take_bit 2 d = d" "take_bit 4 filt = filt"
  shows "GET_BITS (channel_byte s sel (push_bit 2 d) filt r) s (s + 1) = ucast sel"
    and "GET_BITS (channel_byte s sel (push_bit 2 d) filt r) (s + 2) (s + 3) = ucast d"
    and "GET_BITS (channel_byte s sel (push_bit 2 d) filt r) (s + 4) (s + 7) = ucast filt"
proof -
  note b = bit_take_bit_self [OF assms(2)] bit_take_bit_self [OF assms(3)] bit_take_bit_self [OF assms(4)]
  note d = channel_byte_def bit_GET_BITS bit_or_iff bit_and_iff bit_not_iff bit_push_bit_iff bit_ucast_iff
  show "GET_BITS (channel_byte s sel (push_bit 2 d) filt r) s (s + 1) = ucast sel"
    by (rule bit_word_eqI) (use s in \<open>auto simp: d dest: b\<close>)
  show "GET_BITS (channel_byte s sel (push_bit 2 d) filt r) (s + 2) (s + 3) = ucast d"
    by (rule bit_word_eqI) (use s in \<open>auto simp: d dest: b\<close>)
  show "GET_BITS (channel_byte s sel (push_bit 2 d) filt r) (s + 4) (s + 7) = ucast filt"
    by (rule bit_word_eqI) (use s in \<open>auto simp: d dest: b\<close>)
qed

theorem input_capture_fields:
  assumes "c < 4" "take_bit 2 (icselection ic) = icselection ic" "icprescaler ic = push_bit 2 d"
    "take_bit 2 d = d" "take_bit 4 (icfilter ic) = icfilter ic" "s = 8 * (c mod 2)"
    and "r = reg_rd (if c < 2 then TIMER_CHCTL0 t else TIMER_CHCTL1 t)
               (timer_input_capture_config t (of_nat c) ic m)"
  shows "GET_BITS r s (s + 1) = ucast (icselection ic)"
    and "GET_BITS r (s + 2) (s + 3) = ucast d"
    and "GET_BITS r (s + 4) (s + 7) = ucast (icfilter ic)"
proof -
  have r: "r = channel_byte s (icselection ic) (push_bit 2 d) (icfilter ic)
             (reg_rd (if c < 2 then TIMER_CHCTL0 t else TIMER_CHCTL1 t) m)"
    using input_capture_byte [OF assms(1), of t ic m] assms(3,6,7) by simp
  have "s + 7 < 32" using assms(6) by linarith
  note f = channel_byte_fields [OF this assms(2,4,5)]
  show "GET_BITS r s (s + 1) = ucast (icselection ic)" unfolding r by (rule f(1))
  show "GET_BITS r (s + 2) (s + 3) = ucast d" unfolding r by (rule f(2))
  show "GET_BITS r (s + 4) (s + 7) = ucast (icfilter ic)" unfolding r by (rule f(3))
qed

text \<open>
  \<^verbatim>\<open>TIMER_IC_POLARITY_BOTH_EDGE\<close> sets the bit above the polarity of channel 3 too, which no
  \<^verbatim>\<open>CH3NP\<close> mask covers: a later configuration of the channel for one edge leaves it set, while the
  configuration of channels 0 to 2 clears theirs.
\<close>

theorem both_edges_stick_on_channel_3:
  assumes "icpolarity ic = TIMER_IC_POLARITY_BOTH_EDGE" "icpolarity ic' = TIMER_IC_POLARITY_RISING"
  shows "bit (reg_rd (TIMER_CHCTL2 t) (timer_input_capture_config t 3 ic' (timer_input_capture_config t 3 ic m))) 15"
    and "\<not> bit (reg_rd (TIMER_CHCTL2 t) (timer_input_capture_config t 2 ic' (timer_input_capture_config t 2 ic m))) 11"
  using assms
  by (auto simp: timer_input_capture_config_def capture_defs capture_rd reg_simps timer_bits
    TIMER_IC_POLARITY_RISING_def TIMER_IC_POLARITY_BOTH_EDGE_def bit_simps)

text \<open>
  The clock sources agree on the slave mode: external clock mode 0 and the two trigger inputs count
  on the trigger they name, and \<^verbatim>\<open>timer_internal_clock_config\<close> goes back to the bus clock.
\<close>

theorem clock_source_selected:
  assumes "k = TIMER_SMCFG_SMC OR TIMER_SMCFG_TRGS" "trg AND NOT TIMER_SMCFG_TRGS = 0"
  shows "reg_rd (TIMER_SMCFG t) (timer_internal_trigger_as_external_clock_config t trg m) AND k =
           trg OR TIMER_SLAVE_MODE_EXTERNAL0"
    and "reg_rd (TIMER_SMCFG t) (timer_external_trigger_as_external_clock_config t trg pol filt m) AND k =
           trg OR TIMER_SLAVE_MODE_EXTERNAL0"
    and "reg_rd (TIMER_SMCFG t) (timer_external_clock_mode0_config t psc epol filt m) AND k =
           TIMER_SMCFG_TRGSEL_ETIFP OR TIMER_SLAVE_MODE_EXTERNAL0"
    and "reg_rd (TIMER_SMCFG t) (timer_internal_clock_config t m) AND TIMER_SMCFG_SMC = 0"
proof -
  have trg: "bit trg n \<Longrightarrow> 4 \<le> n \<and> n \<le> 6" for n
    using arg_cong [OF assms(2), of "\<lambda>w. bit w n"]
    by (auto simp: bit_and_iff bit_not_iff TIMER_SMCFG_TRGS_def dest: bit_imp_le_length)
  note d = timer_internal_trigger_as_external_clock_config_def timer_external_trigger_as_external_clock_config_def
    timer_external_clock_mode0_config_def timer_internal_clock_config_def timer_input_trigger_source_select_def
    capture_defs capture_rd reg_simps TIMER_SLAVE_MODE_EXTERNAL0_def SMCFG_SMC_def TIMER_SMCFG_TRGSEL_ETIFP_def
    SMCFG_TRGSEL_def TIMER_SMCFG_SMC_def TIMER_SMCFG_TRGS_def
  have e: "(BITS 0 2 AND push_bit 0 7 :: u32) = BITS 0 2" "(BITS 4 6 AND push_bit 4 7 :: u32) = BITS 4 6"
    by (simp_all add: BITS_def)
  show "reg_rd (TIMER_SMCFG t) (timer_internal_trigger_as_external_clock_config t trg m) AND k =
           trg OR TIMER_SLAVE_MODE_EXTERNAL0"
    unfolding assms(1) by (rule bit_word_eqI) (auto simp: d e bit_and_iff bit_or_iff bit_not_iff dest: trg)
  then show "reg_rd (TIMER_SMCFG t) (timer_external_trigger_as_external_clock_config t trg pol filt m) AND k =
           trg OR TIMER_SLAVE_MODE_EXTERNAL0"
    by (auto simp: d)
  show "reg_rd (TIMER_SMCFG t) (timer_external_clock_mode0_config t psc epol filt m) AND k =
           TIMER_SMCFG_TRGSEL_ETIFP OR TIMER_SLAVE_MODE_EXTERNAL0"
    unfolding assms(1) by (rule bit_word_eqI) (auto simp: d e bit_and_iff bit_or_iff bit_not_iff)
  show "reg_rd (TIMER_SMCFG t) (timer_internal_clock_config t m) AND TIMER_SMCFG_SMC = 0"
    by (rule bit_word_eqI) (auto simp: d bit_and_iff bit_not_iff)
qed

end
