(* ===== verification/Inet_Chksum.thy ===== *)
theory Inet_Chksum
  imports Prelude
begin

text \<open>
  The Internet checksum of lwIP, \<^verbatim>\<open>lwip-2.2.0/src/core/inet_chksum.c\<close>, in the configuration of
  this firmware: algorithm 2, computed in software (\<^verbatim>\<open>CHECKSUM_BY_HARDWARE\<close> is off), IPv4
  only. A block is the address of its first byte, which decides the alignment, and its bytes; memory
  is little-endian. The reference is the end-around-carry sum of RFC 1071.
\<close>

section \<open>The routines\<close>

definition FOLD_U32T :: "u32 \<Rightarrow> u32" where
  "FOLD_U32T u = drop_bit 16 u + (u AND 0x0000ffff)"

definition SWAP_BYTES_IN_WORD :: "u32 \<Rightarrow> u32" where
  "SWAP_BYTES_IN_WORD w = push_bit 8 (w AND 0xff) OR drop_bit 8 (w AND 0xff00)"

fun sum_words :: "u32 \<Rightarrow> u8 list \<Rightarrow> u32 \<times> u8 list" where
  "sum_words s (a # b # ps) = sum_words (s + ucast (be16 b a)) ps"
| "sum_words s ps = (s, ps)"

definition lwip_standard_chksum :: "u32 \<Rightarrow> u8 list \<Rightarrow> u16" where
  "lwip_standard_chksum dataptr pb =
     (let odd = (dataptr AND 1 \<noteq> 0);
          (t1, pb) = (if odd \<and> pb \<noteq> [] then (hd pb, tl pb) else (0, pb));
          (sum, ps) = sum_words 0 pb;
          t0 = (if ps \<noteq> [] then hd ps else 0);
          sum = sum + ucast (be16 t1 t0);
          sum = FOLD_U32T sum;
          sum = FOLD_U32T sum;
          sum = (if odd then SWAP_BYTES_IN_WORD sum else sum)
      in ucast sum)"

definition inet_chksum :: "u32 \<Rightarrow> u8 list \<Rightarrow> u16" where
  "inet_chksum dataptr bs = NOT (lwip_standard_chksum dataptr bs)"

section \<open>The reference: RFC 1071\<close>

fun lesum :: "u8 list \<Rightarrow> nat" where
  "lesum (a # b # bs) = unat a + 256 * unat b + lesum bs"
| "lesum [a] = unat a"
| "lesum [] = 0"

text \<open>The end-around carry sum of any number: its residue modulo 65535, with 65535 for non-zero multiples.\<close>

definition oc :: "nat \<Rightarrow> nat" where
  "oc n = (if n = 0 then 0 else (n - 1) mod 65535 + 1)"

lemma oc_less: "oc n < 65536"
  using mod_less_divisor [of 65535 "n - 1"] by (simp add: oc_def)

lemma oc_mod: "oc n mod 65535 = n mod 65535"
proof (cases n)
  case (Suc k)
  then show ?thesis by (simp add: oc_def mod_Suc)
qed (simp add: oc_def)

lemma oc_eq_0: "oc n = 0 \<longleftrightarrow> n = 0"
  by (simp add: oc_def)

lemma oc_unique:
  assumes "r < 65536" "r mod 65535 = n mod 65535" "r = 0 \<longleftrightarrow> n = 0"
  shows "r = oc n"
proof (cases "n = 0")
  case False
  then have "0 < r" "0 < oc n" using assms(3) by (simp_all add: oc_def)
  moreover have "r mod 65535 = oc n mod 65535" using assms(2) oc_mod by simp
  ultimately show ?thesis using assms(1) oc_less [of n] by (auto simp: mod_if split: if_splits)
qed (use assms in \<open>simp add: oc_def\<close>)

lemma oc_cong: "m mod 65535 = n mod 65535 \<Longrightarrow> (m = 0 \<longleftrightarrow> n = 0) \<Longrightarrow> oc m = oc n"
  by (rule oc_unique) (simp_all add: oc_less oc_mod oc_eq_0)

section \<open>The steps as arithmetic\<close>

lemma unat_FOLD: "unat (FOLD_U32T u) = unat u div 65536 + unat u mod 65536"
proof -
  have m: "u AND 0x0000ffff = take_bit 16 u"
    by (simp add: take_bit_eq_mask mask_eq_exp_minus_1)
  have d: "unat (drop_bit 16 u) = unat u div 65536" by (simp add: drop_bit_eq_div unat_div)
  have t: "unat (take_bit 16 u :: u32) = unat u mod 65536" by (simp add: take_bit_eq_mod unat_mod)
  have "unat u < 65536 * 65536" using unsigned_less [of u, where ?'a = nat] by simp
  then have "unat u div 65536 < 65536" by (rule less_mult_imp_div_less)
  moreover have "unat u mod 65536 < 65536" by simp
  ultimately have "unat u div 65536 + unat u mod 65536 < 2 ^ LENGTH(32)" by simp
  then show ?thesis unfolding FOLD_U32T_def m by (simp add: unat_word_ariths d t)
qed

lemma FOLD_facts:
  shows FOLD_mod: "unat (FOLD_U32T u) mod 65535 = unat u mod 65535"
    and FOLD_zero: "unat (FOLD_U32T u) = 0 \<longleftrightarrow> unat u = 0"
    and FOLD_less: "unat (FOLD_U32T u) < 131071"
    and FOLD_less16: "unat u < 131071 \<Longrightarrow> unat (FOLD_U32T u) < 65536"
proof -
  have e: "unat u = 65536 * (unat u div 65536) + unat u mod 65536" by simp
  have "(65536 * k + r) mod 65535 = (k + r) mod 65535" for k r :: nat
  proof -
    have "65536 * k + r = 65535 * k + (k + r)" by simp
    then show ?thesis by (metis mod_mult_self4)
  qed
  then show "unat (FOLD_U32T u) mod 65535 = unat u mod 65535"
    unfolding unat_FOLD using e by metis
  show "unat (FOLD_U32T u) = 0 \<longleftrightarrow> unat u = 0"
    unfolding unat_FOLD using e by (metis add_is_0 div_0 mod_0 mult_0_right)
  have "unat u < 65536 * 65536" using unsigned_less [of u, where ?'a = nat] by simp
  then have "unat u div 65536 < 65536" by (rule less_mult_imp_div_less)
  moreover have "unat u mod 65536 < 65536" by simp
  ultimately show "unat (FOLD_U32T u) < 131071" unfolding unat_FOLD by linarith
  show "unat u < 131071 \<Longrightarrow> unat (FOLD_U32T u) < 65536" unfolding unat_FOLD using e
    by (cases "unat u < 65536") (simp, auto simp: div_if mod_if)
qed

lemma unat_ucast_16_32: "unat (ucast (w :: u16) :: u32) = unat w"
  using unsigned_less [of w, where ?'a = nat] by (simp add: unsigned_ucast_eq take_bit_nat_eq_self)

lemma unat_be16: "unat (be16 a b) = 256 * unat a + unat b"
proof -
  have c: "unat (ucast (v :: u8) :: u16) = unat v" for v
    by (simp add: unsigned_ucast_eq take_bit_eq_mod order.strict_trans [OF unat_u8_less])
  have "be16 a b = push_bit 8 (ucast a) + ucast b"
    unfolding be16_def by (rule disjunctive_add [symmetric]) (auto simp: bit_simps dest: bit_imp_le_length)
  moreover have "unat (push_bit 8 (ucast a) :: u16) = 256 * unat a"
    using unat_u8_less [of a] by (simp add: push_bit_eq_mult unat_word_ariths c)
  moreover have "unat (ucast b :: u16) = unat b" by (rule c)
  moreover have "256 * unat a + unat b < 65536" using unat_u8_less [of a] unat_u8_less [of b] by linarith
  ultimately show ?thesis by (simp add: unat_word_ariths)
qed

lemma SWAP_be16: "SWAP_BYTES_IN_WORD (ucast (be16 a b)) = ucast (be16 b a)"
proof (rule bit_word_eqI)
  fix n assume n: "n < LENGTH(32)"
  have m: "bit (0xff :: int) k \<longleftrightarrow> k < 8" for k
    using bit_mask_iff [where ?'a = int, of 8 k] by (simp add: mask_eq_exp_minus_1)
  have h: "bit (0xff00 :: int) k \<longleftrightarrow> 8 \<le> k \<and> k < 16" for k
  proof -
    have "(0xff00 :: int) = push_bit 8 0xff" by (simp add: push_bit_eq_mult)
    then show ?thesis by (simp only: bit_push_bit_iff m) auto
  qed
  have l: "bit (v :: u8) k \<Longrightarrow> k < 8" for v k using bit_imp_le_length [of v k] by simp
  show "bit (SWAP_BYTES_IN_WORD (ucast (be16 a b))) n = bit (ucast (be16 b a) :: u32) n"
    using n by (cases "n < 8"; cases "n < 16")
      (auto simp: SWAP_BYTES_IN_WORD_def be16_def bit_or_iff bit_and_iff bit_push_bit_iff bit_drop_bit_eq bit_ucast_iff m h dest: l)
qed

lemma unat_split: "unat w < 65536 \<Longrightarrow> \<exists>a b. (w :: u32) = ucast (be16 a b)"
proof -
  assume w: "unat w < 65536"
  let ?v = "ucast w :: u16"
  have "(ucast ?v :: u32) = w"
    using w by (intro word_unat_eq_iff [THEN iffD2]) (simp add: unsigned_ucast_eq take_bit_eq_mod unat_mod)
  then show ?thesis by (metis be16_hi8_lo8)
qed

lemma SWAP_facts:
  assumes "unat w < 65536"
  shows SWAP_less: "unat (SWAP_BYTES_IN_WORD w) < 65536"
    and SWAP_mod: "unat (SWAP_BYTES_IN_WORD w) mod 65535 = 256 * unat w mod 65535"
    and SWAP_zero: "unat (SWAP_BYTES_IN_WORD w) = 0 \<longleftrightarrow> unat w = 0"
proof -
  obtain a b where w: "w = ucast (be16 a b)" using unat_split [OF assms] by blast
  have s: "unat (SWAP_BYTES_IN_WORD w) = 256 * unat b + unat a" "unat w = 256 * unat a + unat b"
    unfolding w SWAP_be16 unat_ucast_16_32 unat_be16 by simp_all
  then show "unat (SWAP_BYTES_IN_WORD w) = 0 \<longleftrightarrow> unat w = 0" by auto
  show "unat (SWAP_BYTES_IN_WORD w) < 65536" using s unat_u8_less [of a] unat_u8_less [of b] by linarith
  have "256 * (256 * unat a + unat b) = 65535 * unat a + (256 * unat b + unat a)" by simp
  then show "unat (SWAP_BYTES_IN_WORD w) mod 65535 = 256 * unat w mod 65535"
    unfolding s by (metis mod_mult_self4)
qed

section \<open>The sum of a block\<close>

lemma lesum_bound: "lesum bs \<le> 65535 * ((length bs + 1) div 2)"
proof (induction bs rule: lesum.induct)
  case (1 a b bs)
  have "unat a + 256 * unat b \<le> 65535" using unat_u8_less [of a] unat_u8_less [of b] by linarith
  with 1 show ?case by simp
next
  case (2 a)
  have "unat a \<le> 65535" using unat_u8_less [of a] by linarith
  then show ?case by simp
qed simp

lemma lesum_zero: "lesum bs = 0 \<longleftrightarrow> (\<forall>b \<in> set bs. b = 0)"
  by (induction bs rule: lesum.induct) (auto simp: unat_eq_0)

lemma lesum_Cons: "lesum (a # bs) mod 65535 = (unat a + 256 * lesum bs) mod 65535"
proof (induction bs arbitrary: a rule: lesum.induct)
  case (1 b c bs)
  have "unat a + 256 * lesum (b # c # bs) = 65535 * unat c + (unat a + 256 * unat b + (unat c + 256 * lesum bs))" by simp
  then have "(unat a + 256 * lesum (b # c # bs)) mod 65535 = (unat a + 256 * unat b + (unat c + 256 * lesum bs)) mod 65535"
    by (simp only: mod_mult_self4)
  also have "\<dots> = (unat a + 256 * unat b + lesum (c # bs)) mod 65535"
    using 1 [of c] by (intro mod_add_cong) simp_all
  finally show ?case by simp
qed simp_all

lemma lesum_append:
  "lesum (xs @ ys) mod 65535 = (lesum xs + (if even (length xs) then 1 else 256) * lesum ys) mod 65535"
proof (induction xs rule: lesum.induct)
  case (1 a b bs)
  have "(unat a + 256 * unat b + lesum (bs @ ys)) mod 65535
    = (unat a + 256 * unat b + (lesum bs + (if even (length bs) then 1 else 256) * lesum ys)) mod 65535"
    using 1 by (intro mod_add_cong) simp_all
  then show ?case by (simp add: add.assoc)
next
  case (2 a)
  show ?case using lesum_Cons [of a ys] by simp
qed simp

lemma sum_words_nat:
  assumes "unat s + lesum bs < 2 ^ 32"
  shows "\<exists>r ps. sum_words s bs = (r, ps) \<and> length ps \<le> 1 \<and> unat r + lesum ps = unat s + lesum bs"
  using assms
proof (induction s bs rule: sum_words.induct)
  case (1 s a b ps)
  have "unat (s + ucast (be16 b a)) = unat s + (256 * unat b + unat a)"
    using "1.prems" by (simp add: unat_word_ariths unat_ucast_16_32 unat_be16)
  then show ?case using 1 by (simp add: algebra_simps)
qed simp_all

lemma fold_twice:
  fixes v :: u32
  shows "unat (FOLD_U32T (FOLD_U32T v)) = oc (unat v)"
  by (rule oc_unique) (simp_all add: FOLD_less16 FOLD_less FOLD_mod FOLD_zero)

lemma fold_oc:
  fixes v :: u32
  assumes "unat v < 131071"
  shows "unat (FOLD_U32T v) = oc (unat v)"
  by (rule oc_unique) (use assms in \<open>simp_all add: FOLD_less16 FOLD_mod FOLD_zero\<close>)

lemma swap_oc:
  assumes "unat v = oc n"
  shows "unat (SWAP_BYTES_IN_WORD v) = oc (256 * n)"
proof (rule oc_unique)
  have v: "unat v < 65536" using assms oc_less [of n] by simp
  show "unat (SWAP_BYTES_IN_WORD v) < 65536" by (rule SWAP_less [OF v])
  have "256 * unat v mod 65535 = 256 * n mod 65535" unfolding assms by (metis mod_mult_right_eq oc_mod)
  then show "unat (SWAP_BYTES_IN_WORD v) mod 65535 = 256 * n mod 65535" using SWAP_mod [OF v] by simp
  show "unat (SWAP_BYTES_IN_WORD v) = 0 \<longleftrightarrow> 256 * n = 0" using SWAP_zero [OF v] assms oc_eq_0 [of n] by simp
qed

lemma oc_swap_twice: "oc (256 * (256 * n)) = oc n"
proof (rule oc_cong)
  have "256 * (256 * n) = 65535 * n + n" by simp
  then show "256 * (256 * n) mod 65535 = n mod 65535" by (metis mod_mult_self4)
qed simp

text \<open>The sum before the folds: the words, the first byte of an odd block in the high half and the last one in the low half.\<close>

lemma chksum_total:
  assumes "length bs \<le> 0x20000"
  shows "\<exists>r ps. sum_words 0 bs = (r, ps) \<and> unat (r + ucast (be16 0 (if ps \<noteq> [] then hd ps else 0))) = lesum bs"
    and "bs \<noteq> [] \<Longrightarrow> \<exists>r ps. sum_words 0 (tl bs) = (r, ps)
      \<and> unat (r + ucast (be16 (hd bs) (if ps \<noteq> [] then hd ps else 0))) = 256 * unat (hd bs) + lesum (tl bs)"
proof -
  have fin: "\<exists>r ps. sum_words 0 cs = (r, ps) \<and> unat (r + ucast (be16 a (if ps \<noteq> [] then hd ps else 0))) = 256 * unat a + lesum cs"
    if c: "256 * unat a + lesum cs < 2 ^ 32" for a cs
  proof -
    obtain r ps where s: "sum_words 0 cs = (r, ps)" "length ps \<le> 1" "unat r + lesum ps = lesum cs"
      using sum_words_nat [of 0 cs] c by auto
    have "lesum ps = unat (if ps \<noteq> [] then hd ps else 0)" using s(2) by (cases ps) auto
    then have "unat r + (256 * unat a + unat (if ps \<noteq> [] then hd ps else 0)) = 256 * unat a + lesum cs" using s(3) by simp
    then have "unat (r + ucast (be16 a (if ps \<noteq> [] then hd ps else 0))) = 256 * unat a + lesum cs"
      using c by (simp add: unat_word_ariths unat_ucast_16_32 unat_be16 del: unat_0)
    with s(1) show ?thesis by blast
  qed
  have "lesum bs \<le> 65535 * 65536" using lesum_bound [of bs] assms by (elim order.trans) simp
  then show "\<exists>r ps. sum_words 0 bs = (r, ps) \<and> unat (r + ucast (be16 0 (if ps \<noteq> [] then hd ps else 0))) = lesum bs"
    using fin [of 0 bs] by simp
  assume ne: "bs \<noteq> []"
  have "(length (tl bs) + 1) div 2 \<le> 65535 + 1" using assms by simp
  then have "lesum (tl bs) \<le> 65535 * 65536" using lesum_bound [of "tl bs"] by (elim order.trans) simp
  then have "256 * unat (hd bs) + lesum (tl bs) < 4294967296" using unat_u8_less [of "hd bs"] by linarith
  then show "\<exists>r ps. sum_words 0 (tl bs) = (r, ps)
      \<and> unat (r + ucast (be16 (hd bs) (if ps \<noteq> [] then hd ps else 0))) = 256 * unat (hd bs) + lesum (tl bs)"
    by (intro fin) simp
qed

lemma ucast_oc: "unat v = oc n \<Longrightarrow> (ucast (v :: u32) :: u16) = of_nat (oc n)"
  by (metis of_nat_unat)

lemma standard_chksum:
  assumes "length bs \<le> 0x20000"
  shows "lwip_standard_chksum a bs = of_nat (oc (lesum bs))"
proof (cases "a AND 1 \<noteq> 0 \<and> bs \<noteq> []")
  case True
  obtain r ps where s: "sum_words 0 (tl bs) = (r, ps)"
    "unat (r + ucast (be16 (hd bs) (if ps \<noteq> [] then hd ps else 0))) = 256 * unat (hd bs) + lesum (tl bs)"
    using chksum_total(2) [OF assms] True by blast
  have "unat (SWAP_BYTES_IN_WORD (FOLD_U32T (FOLD_U32T (r + ucast (be16 (hd bs) (if ps \<noteq> [] then hd ps else 0))))))
    = oc (256 * (256 * unat (hd bs) + lesum (tl bs)))"
    by (rule swap_oc) (simp only: fold_twice s(2))
  also have "\<dots> = oc (lesum bs)"
  proof (rule oc_cong)
    have "256 * (256 * unat (hd bs) + lesum (tl bs)) = 65535 * unat (hd bs) + (unat (hd bs) + 256 * lesum (tl bs))" by simp
    then show "256 * (256 * unat (hd bs) + lesum (tl bs)) mod 65535 = lesum bs mod 65535"
      using lesum_Cons [of "hd bs" "tl bs"] True by (metis list.collapse mod_mult_self4)
    show "256 * (256 * unat (hd bs) + lesum (tl bs)) = 0 \<longleftrightarrow> lesum bs = 0"
      using True lesum_zero [of bs] lesum_zero [of "tl bs"] by (cases bs) (auto simp: unat_eq_0)
  qed
  finally show ?thesis using True s(1) ucast_oc by (simp add: lwip_standard_chksum_def Let_def)
next
  case False
  obtain r ps where s: "sum_words 0 bs = (r, ps)" "unat (r + ucast (be16 0 (if ps \<noteq> [] then hd ps else 0))) = lesum bs"
    using chksum_total(1) [OF assms] by blast
  have f: "unat (FOLD_U32T (FOLD_U32T (r + ucast (be16 0 (if ps \<noteq> [] then hd ps else 0))))) = oc (lesum bs)"
    by (simp only: fold_twice s(2))
  have "bs = [] \<Longrightarrow> ?thesis"
    by (simp add: lwip_standard_chksum_def Let_def be16_def FOLD_U32T_def SWAP_BYTES_IN_WORD_def oc_def)
  moreover have "bs \<noteq> [] \<Longrightarrow> ?thesis"
    using False s(1) ucast_oc [OF f] by (simp add: lwip_standard_chksum_def Let_def)
  ultimately show ?thesis by blast
qed

section \<open>Chains\<close>

text \<open>A chain of buffers: for every buffer the address of its payload and its bytes.\<close>

type_synonym chain = "(u32 \<times> u8 list) list"

fun chksum_chain :: "chain \<Rightarrow> u32 \<times> bool \<Rightarrow> u32 \<times> bool" where
  "chksum_chain [] (acc, swapped) = (acc, swapped)"
| "chksum_chain ((payload, bs) # q) (acc, swapped) =
     (let acc = FOLD_U32T (acc + ucast (lwip_standard_chksum payload bs))
      in chksum_chain q (if odd (length bs) then (SWAP_BYTES_IN_WORD acc, \<not> swapped) else (acc, swapped)))"

definition inet_chksum_pbuf :: "chain \<Rightarrow> u16" where
  "inet_chksum_pbuf p =
     (let (acc, swapped) = chksum_chain p (0, False);
          acc = (if swapped then SWAP_BYTES_IN_WORD acc else acc)
      in ucast (NOT (acc AND 0xffff)))"

text \<open>Equality of end-around sums.\<close>

definition oceq :: "nat \<Rightarrow> nat \<Rightarrow> bool" where
  "oceq m n \<longleftrightarrow> m mod 65535 = n mod 65535 \<and> (m = 0 \<longleftrightarrow> n = 0)"

lemma oceq_refl [simp]: "oceq n n" by (simp add: oceq_def)
lemma oceq_sym: "oceq m n \<Longrightarrow> oceq n m" by (simp add: oceq_def)
lemma oceq_trans [trans]: "oceq k m \<Longrightarrow> oceq m n \<Longrightarrow> oceq k n" by (simp add: oceq_def)
lemma oceq_oc: "oceq (oc n) n" by (simp add: oceq_def oc_mod oc_eq_0)
lemma oceq_add: "oceq k k' \<Longrightarrow> oceq m m' \<Longrightarrow> oceq (k + m) (k' + m')" unfolding oceq_def by (auto intro: mod_add_cong)
lemma oceq_mult: "oceq m n \<Longrightarrow> oceq (c * m) (c * n)" unfolding oceq_def by (auto intro: mod_mult_cong)
lemma oc_eq_iff: "oceq m n \<Longrightarrow> oc m = oc n" unfolding oceq_def by (auto intro: oc_cong)

lemma oceq_swap: "oceq (256 * (256 * n)) n"
proof -
  have "256 * (256 * n) = 65535 * n + n" by simp
  then have "256 * (256 * n) mod 65535 = n mod 65535" by (metis mod_mult_self4)
  then show ?thesis by (simp add: oceq_def)
qed

definition par :: "nat \<Rightarrow> nat" where
  "par n = (if even n then 1 else 256)"

lemma oceq_par: "oceq (par m * (par n * k)) (par (m + n) * k)"
  using oceq_swap by (simp add: par_def)

lemma oceq_lesum_append: "oceq (lesum (xs @ ys)) (lesum xs + par (length xs) * lesum ys)"
  using lesum_append [of xs ys] by (auto simp: oceq_def par_def lesum_zero)

lemma chain_step:
  assumes "unat acc = oc n" "length bs < 65536"
  shows "unat (FOLD_U32T (acc + ucast (lwip_standard_chksum a bs))) = oc (n + lesum bs)"
proof -
  have l: "unat (ucast (lwip_standard_chksum a bs) :: u32) = oc (lesum bs)"
    using assms(2) oc_less [of "lesum bs"] by (simp add: unat_ucast_16_32 standard_chksum unat_of_nat take_bit_nat_eq_self)
  have u: "unat (acc + ucast (lwip_standard_chksum a bs)) = oc n + oc (lesum bs)"
    using oc_less [of n] oc_less [of "lesum bs"] by (simp add: unat_word_ariths assms(1) l)
  have "unat (acc + ucast (lwip_standard_chksum a bs)) < 131071"
    unfolding u using oc_less [of n] oc_less [of "lesum bs"] by linarith
  then have "unat (FOLD_U32T (acc + ucast (lwip_standard_chksum a bs))) = oc (oc n + oc (lesum bs))"
    using fold_oc u by simp
  then show ?thesis using oc_eq_iff [OF oceq_add [OF oceq_oc oceq_oc], of n "lesum bs"] by simp
qed

lemma chksum_chain:
  assumes "unat acc = oc n" "\<forall>(a, bs) \<in> set q. length bs < 65536"
  shows "\<exists>r. chksum_chain q (acc, sw) = (r, sw \<noteq> odd (length (concat (map snd q))))
    \<and> unat r = oc (par (length (concat (map snd q))) * (n + lesum (concat (map snd q))))"
  using assms
proof (induction q arbitrary: acc sw n)
  case Nil
  then show ?case by (simp add: par_def)
next
  case (Cons s q)
  obtain a bs where s: "s = (a, bs)" by (cases s)
  let ?f = "FOLD_U32T (acc + ucast (lwip_standard_chksum a bs))" and ?cs = "concat (map snd q)"
  let ?g = "if odd (length bs) then SWAP_BYTES_IN_WORD ?f else ?f"
  have f: "unat ?f = oc (n + lesum bs)" using Cons.prems s by (intro chain_step) auto
  then have g: "unat ?g = oc (par (length bs) * (n + lesum bs))" by (simp add: par_def swap_oc)
  obtain r where r: "chksum_chain q (?g, sw \<noteq> odd (length bs)) = (r, (sw \<noteq> odd (length bs)) \<noteq> odd (length ?cs))"
    "unat r = oc (par (length ?cs) * (par (length bs) * (n + lesum bs) + lesum ?cs))"
    using Cons.IH [OF g, of "sw \<noteq> odd (length bs)"] Cons.prems(2) by (auto split: if_splits)
  have "oceq (par (length bs) * (n + lesum bs) + lesum ?cs) (par (length bs) * (n + lesum bs) + par (length bs) * (par (length bs) * lesum ?cs))"
    using oceq_par [of "length bs" "length bs" "lesum ?cs"] by (intro oceq_add) (auto simp: par_def intro: oceq_sym)
  also have "\<dots> = par (length bs) * (n + (lesum bs + par (length bs) * lesum ?cs))" by (simp add: algebra_simps)
  also have "oceq \<dots> (par (length bs) * (n + lesum (bs @ ?cs)))"
    by (intro oceq_mult oceq_add oceq_refl oceq_sym [OF oceq_lesum_append])
  finally have "oceq (par (length ?cs) * (par (length bs) * (n + lesum bs) + lesum ?cs)) (par (length ?cs) * (par (length bs) * (n + lesum (bs @ ?cs))))"
    by (rule oceq_mult)
  also have "oceq \<dots> (par (length (bs @ ?cs)) * (n + lesum (bs @ ?cs)))"
    using oceq_par [of "length ?cs" "length bs" "n + lesum (bs @ ?cs)"] by (simp add: add.commute)
  finally have "unat r = oc (par (length (bs @ ?cs)) * (n + lesum (bs @ ?cs)))" using r(2) oc_eq_iff by simp
  moreover have "chksum_chain (s # q) (acc, sw) = (r, (sw \<noteq> odd (length bs)) \<noteq> odd (length ?cs))"
    using r(1) by (simp add: s Let_def split: if_splits)
  ultimately show ?case by (auto simp: s)
qed

lemma chain_unswapped:
  assumes "unat acc = oc n" "\<forall>(a, bs) \<in> set q. length bs < 65536"
  shows "\<exists>r sw. chksum_chain q (acc, False) = (r, sw)
    \<and> unat (if sw then SWAP_BYTES_IN_WORD r else r) = oc (n + lesum (concat (map snd q)))"
proof -
  let ?d = "concat (map snd q)"
  obtain r where r: "chksum_chain q (acc, False) = (r, odd (length ?d))" "unat r = oc (par (length ?d) * (n + lesum ?d))"
    using chksum_chain [OF assms, of False] by auto
  have k: "unat (if odd (length ?d) then SWAP_BYTES_IN_WORD r else r) = oc k" if "unat r = oc (par (length ?d) * k)" for k
    using that swap_oc [of r "256 * k"] oc_swap_twice [of k] by (simp add: par_def split: if_splits)
  have "unat (if odd (length ?d) then SWAP_BYTES_IN_WORD r else r) = oc (n + lesum ?d)"
    by (rule k [OF r(2)])
  with r(1) show ?thesis by blast
qed

lemma ucast_NOT_low: "unat (acc :: u32) = oc n \<Longrightarrow> (ucast (NOT (acc AND 0xffff)) :: u16) = NOT (of_nat (oc n))"
proof -
  assume a: "unat acc = oc n"
  have m: "bit (0xffff :: int) k \<longleftrightarrow> k < 16" for k
    using bit_mask_iff [where ?'a = int, of 16 k] by (simp add: mask_eq_exp_minus_1)
  have "(ucast (NOT (acc AND 0xffff)) :: u16) = NOT (ucast acc)"
    by (rule bit_word_eqI) (auto simp: bit_simps m)
  then show ?thesis using ucast_oc [OF a] by simp
qed

lemma inet_chksum_pbuf:
  assumes "\<forall>(a, bs) \<in> set q. length bs < 65536"
  shows "inet_chksum_pbuf q = NOT (of_nat (oc (lesum (concat (map snd q)))))"
proof -
  obtain r sw where r: "chksum_chain q (0, False) = (r, sw)"
    "unat (if sw then SWAP_BYTES_IN_WORD r else r) = oc (0 + lesum (concat (map snd q)))"
    using chain_unswapped [OF _ assms, of 0 0] by (auto simp: oc_def)
  then show ?thesis using ucast_NOT_low [OF r(2)] by (simp add: inet_chksum_pbuf_def Let_def)
qed

section \<open>The pseudo header\<close>

definition lwip_htons :: "u16 \<Rightarrow> u16" where
  "lwip_htons n = push_bit 8 (n AND 0x00ff) OR drop_bit 8 (n AND 0xff00)"

definition inet_cksum_pseudo_base :: "chain \<Rightarrow> u8 \<Rightarrow> u16 \<Rightarrow> u32 \<Rightarrow> u16" where
  "inet_cksum_pseudo_base p proto proto_len acc =
     (let (acc, swapped) = chksum_chain p (acc, False);
          acc = (if swapped then SWAP_BYTES_IN_WORD acc else acc);
          acc = acc + ucast (lwip_htons (ucast proto));
          acc = acc + ucast (lwip_htons proto_len);
          acc = FOLD_U32T acc;
          acc = FOLD_U32T acc
      in ucast (NOT (acc AND 0xffff)))"

definition inet_chksum_pseudo :: "chain \<Rightarrow> u8 \<Rightarrow> u16 \<Rightarrow> u32 \<Rightarrow> u32 \<Rightarrow> u16" where
  "inet_chksum_pseudo p proto proto_len src dest =
     (let acc = src AND 0xffff;
          acc = acc + (drop_bit 16 src AND 0xffff);
          acc = acc + (dest AND 0xffff);
          acc = acc + (drop_bit 16 dest AND 0xffff);
          acc = FOLD_U32T acc;
          acc = FOLD_U32T acc
      in inet_cksum_pseudo_base p proto proto_len acc)"

definition ip_chksum_pseudo :: "chain \<Rightarrow> u8 \<Rightarrow> u16 \<Rightarrow> u32 \<Rightarrow> u32 \<Rightarrow> u16" where
  "ip_chksum_pseudo p proto proto_len src dest = inet_chksum_pseudo p proto proto_len src dest"

text \<open>The pseudo header of UDP and TCP as bytes; an address is kept in network order.\<close>

definition le32 :: "u32 \<Rightarrow> u8 list" where
  "le32 w = [lo8 (ucast w), hi8 (ucast w), lo8 (ucast (drop_bit 16 w)), hi8 (ucast (drop_bit 16 w))]"

definition pseudo_header :: "u8 \<Rightarrow> u16 \<Rightarrow> u32 \<Rightarrow> u32 \<Rightarrow> u8 list" where
  "pseudo_header proto len src dest = le32 src @ le32 dest @ [0, proto, hi8 len, lo8 len]"

lemma htons_be16: "lwip_htons (be16 a b) = be16 b a"
proof (rule bit_word_eqI)
  fix n assume n: "n < LENGTH(16)"
  have m: "bit (0xff :: int) k \<longleftrightarrow> k < 8" for k
    using bit_mask_iff [where ?'a = int, of 8 k] by (simp add: mask_eq_exp_minus_1)
  have h: "bit (0xff00 :: int) k \<longleftrightarrow> 8 \<le> k \<and> k < 16" for k
  proof -
    have "(0xff00 :: int) = push_bit 8 0xff" by (simp add: push_bit_eq_mult)
    then show ?thesis by (simp only: bit_push_bit_iff m) auto
  qed
  have l: "bit (v :: u8) k \<Longrightarrow> k < 8" for v k using bit_imp_le_length [of v k] by simp
  show "bit (lwip_htons (be16 a b)) n = bit (be16 b a) n"
    using n by (cases "n < 8")
      (auto simp: lwip_htons_def be16_def bit_or_iff bit_and_iff bit_push_bit_iff bit_drop_bit_eq bit_ucast_iff m h dest: l)
qed

lemma unat_hi_lo: "unat (w :: u16) = 256 * unat (hi8 w) + unat (lo8 w)"
  by (metis be16_hi8_lo8 unat_be16)

lemma unat_htons: "unat (lwip_htons w) = 256 * unat (lo8 w) + unat (hi8 w)"
  by (metis be16_hi8_lo8 htons_be16 unat_be16)

lemma low_half: "unat (w AND 0xffff :: u32) = unat (ucast w :: u16)"
proof -
  have "w AND 0xffff = take_bit 16 w" by (simp add: take_bit_eq_mask mask_eq_exp_minus_1)
  then show ?thesis by (simp add: take_bit_eq_mod unat_mod unsigned_ucast_eq)
qed

lemma lesum_le32: "lesum (le32 w) = unat (w AND 0xffff) + unat (drop_bit 16 w AND 0xffff)"
  unfolding low_half le32_def by (simp add: unat_hi_lo [of "ucast w"] unat_hi_lo [of "ucast (drop_bit 16 w)"])

lemma lesum_even_append: "even (length xs) \<Longrightarrow> lesum (xs @ ys) = lesum xs + lesum ys"
  by (induction xs rule: lesum.induct) simp_all

lemma lesum_pseudo_header:
  "lesum (pseudo_header proto len src dest @ bs) =
     unat (src AND 0xffff) + unat (drop_bit 16 src AND 0xffff) + unat (dest AND 0xffff) + unat (drop_bit 16 dest AND 0xffff)
     + unat (lwip_htons (ucast proto)) + unat (lwip_htons len) + lesum bs"
proof -
  have p: "hi8 (ucast proto) = 0" "lo8 (ucast proto) = proto"
    by (rule bit_word_eqI; auto simp: hi8_def lo8_def bit_simps dest: bit_imp_le_length)+
  have l: "even (length (le32 w))" for w by (simp add: le32_def)
  show ?thesis
    unfolding pseudo_header_def unat_htons p append_assoc lesum_even_append [OF l] lesum_le32 by simp
qed

lemma pseudo_addresses:
  "unat (FOLD_U32T (FOLD_U32T ((src AND 0xffff) + (drop_bit 16 src AND 0xffff) + (dest AND 0xffff) + (drop_bit 16 dest AND 0xffff))))
     = oc (unat (src AND 0xffff) + unat (drop_bit 16 src AND 0xffff) + unat (dest AND 0xffff) + unat (drop_bit 16 dest AND 0xffff))"
proof -
  have l: "unat (w AND 0xffff :: u32) < 65536" for w
    unfolding low_half using unsigned_less [of "ucast w :: u16", where ?'a = nat] by simp
  show ?thesis
    using l [of src] l [of "drop_bit 16 src"] l [of dest] l [of "drop_bit 16 dest"]
    unfolding fold_twice by (simp add: unat_word_ariths)
qed

lemma inet_chksum_pseudo:
  assumes "\<forall>(a, bs) \<in> set q. length bs < 65536"
  shows "inet_chksum_pseudo q proto len src dest = NOT (of_nat (oc (lesum (pseudo_header proto len src dest @ concat (map snd q)))))"
proof -
  let ?d = "concat (map snd q)" and ?p = "ucast (lwip_htons (ucast proto)) :: u32" and ?l = "ucast (lwip_htons len) :: u32"
  let ?n = "unat (src AND 0xffff) + unat (drop_bit 16 src AND 0xffff) + unat (dest AND 0xffff) + unat (drop_bit 16 dest AND 0xffff)"
  obtain r sw where r: "chksum_chain q (FOLD_U32T (FOLD_U32T ((src AND 0xffff) + (drop_bit 16 src AND 0xffff) + (dest AND 0xffff) + (drop_bit 16 dest AND 0xffff))), False) = (r, sw)"
    "unat (if sw then SWAP_BYTES_IN_WORD r else r) = oc (?n + lesum ?d)"
    using chain_unswapped [OF pseudo_addresses assms] by blast
  let ?r = "if sw then SWAP_BYTES_IN_WORD r else r"
  have w: "unat (w :: u16) < 65536" for w using unsigned_less [of w, where ?'a = nat] by simp
  have "unat (?r + ?p + ?l) = oc (?n + lesum ?d) + unat (lwip_htons (ucast proto)) + unat (lwip_htons len)"
    using w [of "lwip_htons (ucast proto)"] w [of "lwip_htons len"] oc_less [of "?n + lesum ?d"]
    by (simp only: unat_word_ariths r(2) unat_ucast_16_32) simp
  moreover have "oceq (oc (?n + lesum ?d) + unat (lwip_htons (ucast proto)) + unat (lwip_htons len)) (lesum (pseudo_header proto len src dest @ ?d))"
    unfolding lesum_pseudo_header
    using oceq_add [OF oceq_add [OF oceq_oc oceq_refl] oceq_refl, of "?n + lesum ?d" "unat (lwip_htons (ucast proto))" "unat (lwip_htons len)"]
    by (simp add: ac_simps)
  ultimately have "unat (FOLD_U32T (FOLD_U32T (?r + ?p + ?l))) = oc (lesum (pseudo_header proto len src dest @ ?d))"
    unfolding fold_twice by (simp only: oc_eq_iff)
  from ucast_NOT_low [OF this] show ?thesis
    using r(1) by (simp only: inet_chksum_pseudo_def inet_cksum_pseudo_base_def Let_def split_conv)
qed

lemma inet_chksum_eq: "length bs \<le> 0x20000 \<Longrightarrow> inet_chksum a bs = NOT (of_nat (oc (lesum bs)))"
  by (simp add: inet_chksum_def standard_chksum)

lemma inet_chksum_0_iff:
  assumes "length bs \<le> 0x20000"
  shows "inet_chksum a bs = 0 \<longleftrightarrow> lesum bs \<noteq> 0 \<and> 65535 dvd lesum bs"
proof -
  have "inet_chksum a bs = 0 \<longleftrightarrow> (of_nat (oc (lesum bs)) :: u16) = NOT 0"
    unfolding inet_chksum_eq [OF assms] by (metis bit.double_compl)
  also have "\<dots> \<longleftrightarrow> oc (lesum bs) = 65535"
  proof -
    have "unat (of_nat (oc (lesum bs)) :: u16) = oc (lesum bs)" using oc_less by (simp add: unat_of_nat take_bit_nat_eq_self)
    moreover have "unat (NOT 0 :: u16) = 65535" by (simp add: unsigned_minus_1_eq_mask mask_eq_exp_minus_1)
    ultimately show ?thesis by (metis word_unat_eq_iff)
  qed
  also have "\<dots> \<longleftrightarrow> lesum bs \<noteq> 0 \<and> 65535 dvd lesum bs"
  proof
    show "oc (lesum bs) = 65535 \<Longrightarrow> lesum bs \<noteq> 0 \<and> 65535 dvd lesum bs"
      using oc_mod [of "lesum bs"] oc_eq_0 [of "lesum bs"] by (simp add: dvd_eq_mod_eq_0)
    assume "lesum bs \<noteq> 0 \<and> 65535 dvd lesum bs"
    then show "oc (lesum bs) = 65535" using oc_unique [of 65535 "lesum bs"] by (simp add: dvd_eq_mod_eq_0)
  qed
  finally show ?thesis .
qed

section \<open>Properties\<close>

text \<open>
  C15: the checksum routine against RFC 1071. For every block of up to \<^verbatim>\<open>0x20000\<close> bytes and every
  alignment of its first byte, the routine that sums 16-bit words, treats an odd first byte
  separately and swaps at the end computes the end-around-carry sum of the block's little-endian
  words: the residue of their sum modulo 65535, with 65535 in place of 0 for a non-zero block.
\<close>

theorem standard_chksum_rfc1071:
  assumes "length bs \<le> 0x20000"
  shows "unat (lwip_standard_chksum dataptr bs) = (if \<forall>b \<in> set bs. b = 0 then 0 else (lesum bs - 1) mod 65535 + 1)"
proof -
  have "unat (of_nat (oc (lesum bs)) :: u16) = oc (lesum bs)"
    using oc_less [of "lesum bs"] by (simp add: unat_of_nat take_bit_nat_eq_self)
  then show ?thesis using lesum_zero [of bs] by (simp add: standard_chksum [OF assms] oc_def)
qed

theorem standard_chksum_rfc1071_witness:
  "unat (lwip_standard_chksum 0x20000001 [0xff, 0xff, 0x45, 0x00, 0x12]) = 0x57"
  using standard_chksum_rfc1071 [of "[0xff, 0xff, 0x45, 0x00, 0x12]" "0x20000001"] by simp

text \<open>
  C10: a checksum does not depend on how the bytes are laid out. Over a chain of buffers of any
  lengths, odd ones included, at any addresses, \<^verbatim>\<open>inet_chksum_pbuf\<close> is the checksum of the
  concatenated bytes, and \<^verbatim>\<open>ip_chksum_pseudo\<close> is the checksum of the pseudo header followed
  by them.
\<close>

theorem chain_chksum:
  assumes "\<forall>(a, bs) \<in> set q. length bs < 65536" "length (concat (map snd q)) \<le> 0x1fff4"
  shows "inet_chksum_pbuf q = inet_chksum d (concat (map snd q))
    \<and> ip_chksum_pseudo q proto len src dest = inet_chksum d (pseudo_header proto len src dest @ concat (map snd q))"
  using assms(2)
  by (simp add: ip_chksum_pseudo_def inet_chksum_pbuf [OF assms(1)] inet_chksum_pseudo [OF assms(1)] inet_chksum_eq
      pseudo_header_def le32_def)

theorem chain_chksum_witness:
  "ip_chksum_pseudo [(0x20000000, [1, 2, 3]), (0x20000101, [4, 5]), (0x20000200, [6])] 17 6 0x0111a8c0 0xe611a8c0
     = inet_chksum 0 (pseudo_header 17 6 0x0111a8c0 0xe611a8c0 @ [1, 2, 3, 4, 5, 6])"
  using chain_chksum [of "[(0x20000000, [1, 2, 3]), (0x20000101, [4, 5]), (0x20000200, [6])]" 0 17 6 "0x0111a8c0" "0xe611a8c0"]
  by simp

lemma lesum_word: "even (length xs) \<Longrightarrow> lesum (xs @ [lo8 w, hi8 w] @ zs) = lesum xs + unat w + lesum zs"
  by (simp add: lesum_even_append unat_hi_lo [of w])

lemma unat_NOT: "unat (NOT u :: u16) = 65535 - unat u"
proof -
  have "unat (- 1 - u) = unat (- 1 :: u16) - unat u" by (rule unat_sub) simp
  moreover have "NOT u = - 1 - u" by (simp add: not_eq_complement)
  ultimately show ?thesis by (simp add: unsigned_minus_1_eq_mask mask_eq_exp_minus_1)
qed

lemma zero_word: "lo8 0 = 0" "hi8 0 = 0"
  by (simp_all add: lo8_def hi8_def)

text \<open>
  C16: a stored checksum verifies, and protects its message. Computing the checksum with the field at
  an even offset zero, storing it there low byte first and computing again gives 0, at any
  address. And of two messages that differ in one aligned word only, both verify only when one of the
  words is 0 and the other one \<^verbatim>\<open>0xffff\<close>, the two representations of zero.
\<close>

theorem chksum_roundtrip:
  assumes "even (length xs)" "length xs + length zs + 2 \<le> 0x20000"
  shows "(let c = inet_chksum a (xs @ [0, 0] @ zs) in inet_chksum b (xs @ [lo8 c, hi8 c] @ zs) = 0)
    \<and> (inet_chksum a (xs @ [lo8 v, hi8 v] @ zs) = 0 \<and> inet_chksum b (xs @ [lo8 w, hi8 w] @ zs) = 0 \<and> v \<noteq> w
       \<longrightarrow> {v, w} = {0, 0xffff})"
proof (intro conjI impI)
  have len: "length (xs @ [p, q] @ zs) \<le> 0x20000" for p q using assms(2) by simp
  note z = inet_chksum_0_iff [OF len] and w = lesum_word [OF assms(1)]
  let ?n = "lesum xs + lesum zs"
  have n: "lesum (xs @ [0, 0] @ zs) = ?n" using w [of 0 zs] by (simp add: zero_word)
  have "unat (NOT (of_nat (oc ?n)) :: u16) = 65535 - oc ?n"
    using oc_less [of ?n] by (simp add: unat_NOT unat_of_nat take_bit_nat_eq_self)
  then have c: "unat (inet_chksum a (xs @ [0, 0] @ zs)) = 65535 - oc ?n"
    by (simp only: inet_chksum_eq [OF len] n)
  have "(?n + (65535 - oc ?n)) mod 65535 = (oc ?n + (65535 - oc ?n)) mod 65535"
    by (intro mod_add_cong) (simp_all add: oc_mod)
  also have "\<dots> = 0" using oc_less [of ?n] by simp
  finally have "65535 dvd ?n + (65535 - oc ?n)" by (simp add: dvd_eq_mod_eq_0)
  moreover have "?n + (65535 - oc ?n) \<noteq> 0" by (cases "?n = 0") (simp_all add: oc_def)
  ultimately show "let c = inet_chksum a (xs @ [0, 0] @ zs) in inet_chksum b (xs @ [lo8 c, hi8 c] @ zs) = 0"
    unfolding Let_def z w c by (simp add: ac_simps)
  assume h: "inet_chksum a (xs @ [lo8 v, hi8 v] @ zs) = 0 \<and> inet_chksum b (xs @ [lo8 w, hi8 w] @ zs) = 0 \<and> v \<noteq> w"
  have r: "unat (u :: u16) < 65536" for u using unsigned_less [of u, where ?'a = nat] by simp
  from h have "65535 dvd ?n + unat v" "65535 dvd ?n + unat w" unfolding z w by (simp_all add: ac_simps)
  then have "int 65535 dvd int (unat v) - int (unat w)"
    by (metis (no_types) add_diff_cancel_left dvd_diff int_dvd_int_iff of_nat_add)
  then obtain k where k: "int (unat v) = int (unat w) + 65535 * k" by (metis add.commute diff_add_cancel dvdE of_nat_numeral)
  have "k \<noteq> 0" using k h by (metis add.right_neutral mult_zero_right of_nat_eq_iff word_unat_eq_iff)
  moreover have "k < 2" "- 2 < k" using k r [of v] r [of w] by linarith+
  ultimately have "k = 1 \<or> k = - 1" by linarith
  then have "unat v = 0 \<and> unat w = 65535 \<or> unat v = 65535 \<and> unat w = 0"
    using k r [of v] r [of w] by (elim disjE) linarith+
  then have "v = 0 \<and> w = 0xffff \<or> v = 0xffff \<and> w = 0" by (auto simp: word_unat_eq_iff)
  then show "{v, w} = {0, 0xffff}" by auto
qed

theorem chksum_roundtrip_witness:
  "inet_chksum 0 ([0x45, 0, 0, 28] @ [lo8 (inet_chksum 0 ([0x45, 0, 0, 28] @ [0, 0] @ [192, 168])),
     hi8 (inet_chksum 0 ([0x45, 0, 0, 28] @ [0, 0] @ [192, 168]))] @ [192, 168]) = 0"
  using chksum_roundtrip [of "[0x45, 0, 0, 28]" "[192, 168]" 0 0] unfolding Let_def by simp

end
