(* ===== verification/Ethernetif.thy ===== *)
theory Ethernetif
  imports Enet_Mac
begin

text \<open>
  The network interface driver, \<^verbatim>\<open>lwip-2.2.0/port/GD32F4xx/Basic/ethernetif.c\<close>, and the receive
  part of the main loop. A packet buffer is the list of the payloads of its chain. What the stack
  does with a frame is not part of this theory: \<^verbatim>\<open>netif->input\<close> is a parameter that yields
  its result, its calls are recorded in \<open>inputs\<close>, in order, and the chains that the driver frees
  because the stack refused them in \<open>freed\<close>.
\<close>

section \<open>Buffers of the pool\<close>

definition PBUF_POOL_BUFSIZE_ALIGNED :: nat where "PBUF_POOL_BUFSIZE_ALIGNED = 1500"

text \<open>The lengths of the chain that \<^verbatim>\<open>pbuf_alloc(PBUF_RAW, length, PBUF_POOL)\<close> builds.\<close>

function pool_lens :: "nat \<Rightarrow> nat list" where
  "pool_lens rem_len =
     (let qlen = min rem_len PBUF_POOL_BUFSIZE_ALIGNED
      in qlen # (if rem_len - qlen > 0 then pool_lens (rem_len - qlen) else []))"
  by auto
termination by (relation "measure id") (auto simp: PBUF_POOL_BUFSIZE_ALIGNED_def)

declare pool_lens.simps [simp del]

lemma pool_lens_sum: "sum_list (pool_lens n) = n"
  by (induction n rule: pool_lens.induct) (subst pool_lens.simps, auto simp: Let_def)

section \<open>The interface\<close>

record port =
  ring :: enet
  inputs :: "u8 list list list"
  freed :: "u8 list list list"

datatype err_t = ERR_OK | ERR_MEM | ERR_BUF | ERR_TIMEOUT | ERR_RTE | ERR_INPROGRESS | ERR_VAL | ERR_WOULDBLOCK
  | ERR_USE | ERR_ALREADY | ERR_ISCONN | ERR_CONN | ERR_IF | ERR_ABRT | ERR_RST | ERR_CLSD | ERR_ARG

definition on_ring :: "enet \<Rightarrow> port \<Rightarrow> port" where
  "on_ring e s = s\<lparr> ring := e \<rparr>"

fun copy_in :: "enet \<Rightarrow> u32 \<Rightarrow> nat list \<Rightarrow> nat \<Rightarrow> u8 list list res" where
  "copy_in e buffer [] l = Inr []"
| "copy_in e buffer (n # q) l =
     bind_res (buf_read (rx_buff_at e) (rx_buff e) (buffer + of_nat l) n) (\<lambda>bs.
     bind_res (copy_in e buffer q (l + n)) (\<lambda>bss. Inr (bs # bss)))"

text \<open>\<open>free\<close> is the number of free buffers in the pool; an allocation that needs more yields \<^verbatim>\<open>NULL\<close>.\<close>

definition low_level_input :: "nat \<Rightarrow> enet \<Rightarrow> (u8 list list option \<times> enet) res" where
  "low_level_input free e = bind_res (rx_desc e) (\<lambda>d.
     let len = unat (ucast (enet_desc_information_get d RXDESC_FRAME_LENGTH (enet_mem e)) :: u16);
         buffer = enet_desc_information_get d RXDESC_BUFFER_1_ADDR (enet_mem e);
         lens = pool_lens len
     in bind_res (if length lens \<le> free then bind_res (copy_in e buffer lens 0) (\<lambda>p. Inr (Some p)) else Inr None) (\<lambda>p.
        bind_res (enet_frame_receive None 0 e) (\<lambda>(_, _, e). Inr (p, e))))"

definition ethernetif_input :: "(u8 list list \<Rightarrow> err_t) \<Rightarrow> nat \<Rightarrow> port \<Rightarrow> (err_t \<times> port) res" where
  "ethernetif_input input free s = bind_res (low_level_input free (ring s)) (\<lambda>(p, e).
     case p of None \<Rightarrow> Inr (ERR_MEM, on_ring e s)
     | Some p \<Rightarrow>
         (let s = (on_ring e s)\<lparr> inputs := inputs s @ [p] \<rparr>; err = input p
          in Inr (err, if err \<noteq> ERR_OK then s\<lparr> freed := freed s @ [p] \<rparr> else s)))"

definition lwip_frame_recv :: "(u8 list list \<Rightarrow> err_t) \<Rightarrow> nat \<Rightarrow> port \<Rightarrow> port res" where
  "lwip_frame_recv input free s = bind_res (ethernetif_input input free s) (\<lambda>(_, s). Inr s)"

text \<open>The receive part of one round of the main loop.\<close>

definition main_recv :: "(u8 list list \<Rightarrow> err_t) \<Rightarrow> nat \<Rightarrow> port \<Rightarrow> port res" where
  "main_recv input free s = bind_res (enet_rxframe_size_get (ring s)) (\<lambda>(n, e).
     if n \<noteq> 0 then lwip_frame_recv input free (on_ring e s) else Inr (on_ring e s))"

text \<open>Transmission: a busy wait for the current descriptor, then the chain is copied behind its address.\<close>

fun tx_wait :: "nat \<Rightarrow> (enet \<Rightarrow> enet) \<Rightarrow> enet \<Rightarrow> enet res" where
  "tx_wait 0 hw e = Inl Hang"
| "tx_wait (Suc fuel) hw e = bind_res (tx_desc (hw e)) (\<lambda>d.
     if has (desc_status d) ENET_TDES0_DAV then tx_wait fuel hw (hw e) else Inr (hw e))"

fun copy_out :: "u32 \<Rightarrow> u8 list list \<Rightarrow> nat \<Rightarrow> enet \<Rightarrow> (nat \<times> enet) res" where
  "copy_out buffer [] l e = Inr (l, e)"
| "copy_out buffer (bs # q) l e =
     bind_res (buf_write (tx_buff_at e) (tx_buff e) (buffer + of_nat l) bs) (\<lambda>t.
     copy_out buffer q (l + length bs) (e\<lparr> tx_buff := t \<rparr>))"

definition low_level_output :: "nat \<Rightarrow> (enet \<Rightarrow> enet) \<Rightarrow> u8 list list \<Rightarrow> enet \<Rightarrow> (err_t \<times> enet) res" where
  "low_level_output fuel hw p e = bind_res (tx_wait fuel hw e) (\<lambda>e.
     bind_res (tx_desc e) (\<lambda>d.
     bind_res (copy_out (enet_desc_information_get d TXDESC_BUFFER_1_ADDR (enet_mem e)) p 0 e) (\<lambda>(framelength, e).
     bind_res (enet_frame_transmit None (of_nat framelength) e) (\<lambda>(_, e). Inr (ERR_OK, e)))))"

section \<open>Initialisation\<close>

text \<open>The function pointers of the interface.\<close>

datatype netif_fn = netif_null | fn_etharp_output | fn_low_level_output

record netif =
  hwaddr_len :: u8
  hwaddr :: "u8 list"
  mtu :: u16
  netif_flags :: u8
  netif_name :: string
  netif_output :: netif_fn
  linkoutput :: netif_fn

definition ETHARP_HWADDR_LEN :: u8 where "ETHARP_HWADDR_LEN = 6"
definition LOCAL_MAC_ADDR :: "u8 list" where "LOCAL_MAC_ADDR = [0x20, 0x40, 0x60, 0x80, 0xA0, 0xC0]"
definition ENET_MAC_ADDRESS0 :: u32 where "ENET_MAC_ADDRESS0 = 0"
definition NETIF_FLAG_BROADCAST :: u8 where "NETIF_FLAG_BROADCAST = 0x02"
definition NETIF_FLAG_LINK_UP :: u8 where "NETIF_FLAG_LINK_UP = 0x04"
definition NETIF_FLAG_ETHARP :: u8 where "NETIF_FLAG_ETHARP = 0x08"

definition low_level_init :: "(mem \<Rightarrow> mem) \<Rightarrow> netif \<Rightarrow> enet \<Rightarrow> netif \<times> enet" where
  "low_level_init hw n e =
     (let n = n\<lparr> hwaddr_len := ETHARP_HWADDR_LEN, hwaddr := LOCAL_MAC_ADDR \<rparr>;
          e = e\<lparr> enet_mem := enet_mac_address_set ENET_MAC_ADDRESS0 (hwaddr n) (enet_mem e) \<rparr>;
          n = n\<lparr> mtu := 1500, netif_flags := NETIF_FLAG_BROADCAST OR NETIF_FLAG_ETHARP OR NETIF_FLAG_LINK_UP \<rparr>;
          e = enet_descriptors_chain_init ENET_DMA_RX (enet_descriptors_chain_init ENET_DMA_TX e);
          e = e\<lparr> rxdesc_tab := map enet_rx_desc_immediate_receive_complete_interrupt (rxdesc_tab e) \<rparr>
      in (n, e\<lparr> enet_mem := enet_enable hw (enet_mem e) \<rparr>))"

definition ethernetif_init :: "(mem \<Rightarrow> mem) \<Rightarrow> netif \<Rightarrow> enet \<Rightarrow> err_t \<times> netif \<times> enet" where
  "ethernetif_init hw n e =
     (let n = n\<lparr> netif_name := ''GD'', netif_output := fn_etharp_output, linkoutput := fn_low_level_output \<rparr>
      in (ERR_OK, low_level_init hw n e))"

end
