(* ===== verification/Rx_Queue.thy ===== *)
theory Rx_Queue
  imports Ethernetif
begin

text \<open>
  The receive side of the network interface as a queue of frames. The ring of five descriptors, seen
  from the descriptor the driver stands on, is a queue of received frames followed by the descriptors
  that the controller may fill; one round of the main loop is shown to implement the specification
  \<open>recv_spec\<close> on this queue. The locale \<open>desc_ring\<close> states what the two sides of the driver have in
  common.
\<close>

section \<open>The receive ring as a queue\<close>

definition owned :: "u32 \<times> u8 list \<Rightarrow> bool" where
  "owned f \<longleftrightarrow> \<not> has (fst f) ENET_RDES0_DAV"

definition rx_pos :: "enet \<Rightarrow> nat" where
  "rx_pos e = unat (dma_current_rxdesc e - rxdesc_at e) div 16"

definition rx_slots :: "enet \<Rightarrow> (u32 \<times> u8 list) list" where
  "rx_slots e = map (\<lambda>i. (desc_status (rxdesc_tab e ! i), take 1524 (drop (1524 * i) (rx_buff e)))) [0..<5]"

definition rx_ring :: "enet \<Rightarrow> (u32 \<times> u8 list) list" where
  "rx_ring e = rotate (rx_pos e) (rx_slots e)"

definition rx_queue :: "enet \<Rightarrow> (u32 \<times> u8 list) list" where
  "rx_queue e = takeWhile owned (rx_ring e)"

definition rx_chain :: "enet \<Rightarrow> bool" where
  "rx_chain e \<longleftrightarrow> length (rxdesc_tab e) = 5 \<and> length (rx_buff e) = 7620 \<and> dma_current_ptp_rxdesc e = 0
     \<and> (\<forall>i < 5. has (control_buffer_size (rxdesc_tab e ! i)) ENET_RDES1_RCHM
          \<and> buffer1_addr (rxdesc_tab e ! i) = rx_buff_at e + of_nat (1524 * i)
          \<and> buffer2_next_desc_addr (rxdesc_tab e ! i) = rxdesc_at e + 16 * of_nat (Suc i mod 5))
     \<and> rx_pos e < 5 \<and> dma_current_rxdesc e = rxdesc_at e + 16 * of_nat (rx_pos e)"

definition rx_ok :: "enet \<Rightarrow> bool" where
  "rx_ok e \<longleftrightarrow> rx_chain e \<and> (\<forall>f \<in> set (dropWhile owned (rx_ring e)). fst f = ENET_RDES0_DAV)"

lemma unat_16_of_nat: "c < 5 \<Longrightarrow> unat (16 * of_nat c :: u32) = 16 * c"
  by (simp add: unat_word_ariths unat_of_nat take_bit_nat_eq_self)

lemma desc_index_ok: "c < 5 \<Longrightarrow> length tab = 5 \<Longrightarrow> desc_index base tab (base + 16 * of_nat c) = Inr c"
  by (simp add: desc_index_def unat_16_of_nat)

text \<open>
  A ring of descriptors: the driver changes the slot it stands on and steps to the next one. The laws
  are those that the receive and the transmit side of the driver share; seen from the current slot,
  a step moves the ring by one and puts the changed slot last.
\<close>

locale desc_ring =
  fixes inv :: "'s \<Rightarrow> bool" and slots :: "'s \<Rightarrow> 'a list" and pos :: "'s \<Rightarrow> nat" and move :: "'s \<Rightarrow> 's" and mark :: "'s \<Rightarrow> 'a"
  assumes pos_less: "inv s \<Longrightarrow> pos s < length (slots s)"
    and move_slots: "inv s \<Longrightarrow> slots (move s) = (slots s)[pos s := mark s]"
    and move_pos: "inv s \<Longrightarrow> pos (move s) = Suc (pos s) mod length (slots s)"
begin

lemma move_ring:
  assumes "inv s"
  shows "rotate (pos (move s)) (slots (move s)) = tl (rotate (pos s) (slots s)) @ [mark s]"
proof -
  let ?xs = "(slots s)[pos s := mark s]"
  have "rotate (pos (move s)) (slots (move s)) = rotate (Suc (pos s)) ?xs"
    using rotate_conv_mod [of "Suc (pos s)" ?xs] move_slots [OF assms] move_pos [OF assms] by simp
  also have "\<dots> = rotate1 (rotate (pos s) ?xs)" by simp
  also have "rotate (pos s) ?xs = mark s # tl (rotate (pos s) (slots s))"
    using pos_less [OF assms]
    by (simp add: rotate_drop_take drop_update_swap take_update_cancel upd_conv_take_nth_drop Cons_nth_drop_Suc [symmetric])
  finally show ?thesis by simp
qed

lemma hd_ring: "inv s \<Longrightarrow> hd (rotate (pos s) (slots s)) = slots s ! pos s"
  using pos_less [of s] by (subst hd_rotate_conv_nth) auto

text \<open>The driver takes from the front: the slots that satisfy \<open>P\<close> are a queue.\<close>

lemma consume:
  assumes "inv s" "takeWhile P (rotate (pos s) (slots s)) = f # fs" "\<not> P (mark s)"
  shows "takeWhile P (rotate (pos (move s)) (slots (move s))) = fs"
    and "dropWhile P (rotate (pos (move s)) (slots (move s))) = dropWhile P (rotate (pos s) (slots s)) @ [mark s]"
    and "slots s ! pos s = f" "P f"
proof -
  obtain rest where r: "rotate (pos s) (slots s) = f # rest" "P f" "takeWhile P rest = fs"
    using assms(2) by (cases "rotate (pos s) (slots s)") (auto split: if_splits)
  then show "slots s ! pos s = f" "P f" using hd_ring [OF assms(1)] by simp_all
  show "takeWhile P (rotate (pos (move s)) (slots (move s))) = fs"
    using r assms(3) by (cases "\<forall>x \<in> set rest. P x") (auto simp: move_ring [OF assms(1)] takeWhile_append takeWhile_eq_all_conv [THEN iffD2])
  show "dropWhile P (rotate (pos (move s)) (slots (move s))) = dropWhile P (rotate (pos s) (slots s)) @ [mark s]"
    using r assms(3) by (auto simp: move_ring [OF assms(1)] dropWhile_append)
qed

text \<open>The driver appends at the back: the slots behind the free ones are a queue.\<close>

lemma produce:
  assumes "inv s" "P (slots s ! pos s)" "\<not> P (mark s)"
  shows "dropWhile P (rotate (pos (move s)) (slots (move s))) = dropWhile P (rotate (pos s) (slots s)) @ [mark s]"
proof -
  have "rotate (pos s) (slots s) \<noteq> []" using pos_less [OF assms(1)] by auto
  then obtain rest where "rotate (pos s) (slots s) = slots s ! pos s # rest"
    using hd_ring [OF assms(1)] by (cases "rotate (pos s) (slots s)") auto
  then show ?thesis using assms(2,3) by (auto simp: move_ring [OF assms(1)] dropWhile_append)
qed

end

lemma rx_desc_ok: "rx_chain e \<Longrightarrow> rx_desc e = Inr (rxdesc_tab e ! rx_pos e)"
  by (auto simp: rx_desc_def rx_chain_def desc_index_ok)

lemma rx_slots_length [simp]: "length (rx_slots e) = 5" by (simp add: rx_slots_def)

lemma rx_ring_length [simp]: "length (rx_ring e) = 5" by (simp add: rx_ring_def)

lemma rx_slots_nth: "i < 5 \<Longrightarrow> rx_slots e ! i = (desc_status (rxdesc_tab e ! i), take 1524 (drop (1524 * i) (rx_buff e)))"
  by (simp add: rx_slots_def)

text \<open>Giving the current descriptor back to the controller and stepping to the next one.\<close>

definition rx_given :: "enet \<Rightarrow> enet" where
  "rx_given e = e\<lparr> rxdesc_tab := (rxdesc_tab e)[rx_pos e := (rxdesc_tab e ! rx_pos e)\<lparr> desc_status := ENET_RDES0_DAV \<rparr>],
     dma_current_rxdesc := buffer2_next_desc_addr (rxdesc_tab e ! rx_pos e) \<rparr>"

lemma rx_given_fields [simp]:
  "rx_buff (rx_given e) = rx_buff e" "rx_buff_at (rx_given e) = rx_buff_at e" "rxdesc_at (rx_given e) = rxdesc_at e"
  "enet_mem (rx_given e) = enet_mem e" "dma_current_ptp_rxdesc (rx_given e) = dma_current_ptp_rxdesc e"
  by (simp_all add: rx_given_def)

lemma rx_given_pos: "rx_chain e \<Longrightarrow> rx_pos (rx_given e) = Suc (rx_pos e) mod 5"
proof -
  assume c: "rx_chain e"
  then have "dma_current_rxdesc (rx_given e) = rxdesc_at e + 16 * of_nat (Suc (rx_pos e) mod 5)"
    by (simp add: rx_given_def rx_chain_def)
  then show ?thesis
    using unat_16_of_nat [of "Suc (rx_pos e) mod 5"] unfolding rx_pos_def [of "rx_given e"] by simp
qed

lemma rx_given_chain: "rx_chain e \<Longrightarrow> rx_chain (rx_given e)"
  using rx_given_pos [of e] by (auto simp: rx_chain_def nth_list_update) (auto simp: rx_given_def nth_list_update)

interpretation rxr: desc_ring rx_chain rx_slots rx_pos rx_given "\<lambda>e. (ENET_RDES0_DAV, snd (rx_slots e ! rx_pos e))"
proof
  fix e assume c: "rx_chain e"
  then have p: "rx_pos e < 5" "length (rxdesc_tab e) = 5" by (simp_all add: rx_chain_def)
  show "rx_pos e < length (rx_slots e)" using p by simp
  show "rx_pos (rx_given e) = Suc (rx_pos e) mod length (rx_slots e)" using rx_given_pos [OF c] by simp
  show "rx_slots (rx_given e) = (rx_slots e)[rx_pos e := (ENET_RDES0_DAV, snd (rx_slots e ! rx_pos e))]"
    using p by (intro nth_equalityI) (auto simp: rx_slots_nth nth_list_update, auto simp: rx_given_def nth_list_update)
qed

lemma rx_ring_hd: "rx_chain e \<Longrightarrow> hd (rx_ring e) = rx_slots e ! rx_pos e"
  by (simp add: rx_ring_def rxr.hd_ring)

lemma rx_mem_upd [simp]:
  "rx_pos (e\<lparr> enet_mem := m \<rparr>) = rx_pos e" "rx_ring (e\<lparr> enet_mem := m \<rparr>) = rx_ring e"
  "rx_chain (e\<lparr> enet_mem := m \<rparr>) = rx_chain e"
  by (simp_all add: rx_pos_def rx_ring_def rx_slots_def rx_chain_def)

definition rx_resume :: "mem \<Rightarrow> mem" where
  "rx_resume m = (if has (reg_rd ENET_DMA_STAT m) ENET_DMA_STAT_RBU
     then reg_wr ENET_DMA_RPEN 0 (reg_wr ENET_DMA_STAT ENET_DMA_STAT_RBU m) else m)"

lemma rx_resume_cfg: "reg_rd ENET_MAC_CFG (rx_resume m) = reg_rd ENET_MAC_CFG m"
  by (simp add: rx_resume_def enet_regs)

lemma rx_given_eq:
  assumes "rx_chain e"
  defines "e1 \<equiv> e\<lparr> rxdesc_tab := (rxdesc_tab e)[rx_pos e := (rxdesc_tab e ! rx_pos e)\<lparr> desc_status := ENET_RDES0_DAV \<rparr>] \<rparr>"
  shows "set_rx_desc (\<lambda>d. d\<lparr> desc_status := ENET_RDES0_DAV \<rparr>) e = Inr e1"
    and "rx_advance (e1\<lparr> enet_mem := m \<rparr>) = Inr ((rx_given e)\<lparr> enet_mem := m \<rparr>)"
    and "rx_advance e1 = Inr (rx_given e)"
proof -
  have i: "desc_index (rxdesc_at e) tab (dma_current_rxdesc e) = Inr (rx_pos e)" if "length tab = 5" for tab :: "enet_descriptors_struct list"
    using assms that by (metis desc_index_ok rx_chain_def)
  have l: "length (rxdesc_tab e) = 5" "rx_pos e < 5" "has (control_buffer_size (rxdesc_tab e ! rx_pos e)) ENET_RDES1_RCHM"
    using assms by (simp_all add: rx_chain_def)
  show "set_rx_desc (\<lambda>d. d\<lparr> desc_status := ENET_RDES0_DAV \<rparr>) e = Inr e1"
    by (simp add: set_rx_desc_def i l e1_def)
  show "rx_advance (e1\<lparr> enet_mem := m \<rparr>) = Inr ((rx_given e)\<lparr> enet_mem := m \<rparr>)" "rx_advance e1 = Inr (rx_given e)"
    by (simp_all add: rx_advance_def rx_desc_def i l rx_given_def e1_def)
qed

lemma rx_release_eq: "rx_chain e \<Longrightarrow> rx_release e = Inr ((rx_given e)\<lparr> enet_mem := rx_resume (enet_mem e) \<rparr>)"
proof -
  assume c: "rx_chain e"
  note g = rx_given_eq [OF c]
  show ?thesis
    unfolding rx_release_def g(1) bind_res_simps rx_resume_def using g(2) g(3) rx_given_fields(4) [of e] by simp
qed

lemma rx_drop_eq: "rx_chain e \<Longrightarrow> enet_rxframe_drop e = Inr (rx_given e)"
proof -
  assume c: "rx_chain e"
  then have "dma_current_ptp_rxdesc e = 0" by (simp add: rx_chain_def)
  then show ?thesis unfolding enet_rxframe_drop_def rx_given_eq(1) [OF c] bind_res_simps using rx_given_eq(3) [OF c] by simp
qed

text \<open>What the driver accepts, and what it hands over.\<close>

definition good :: "u32 \<times> u8 list \<Rightarrow> bool" where
  "good f \<longleftrightarrow> \<not> has (fst f) ENET_RDES0_ERRS \<and> has (fst f) ENET_RDES0_LDES \<and> has (fst f) ENET_RDES0_FDES
     \<and> \<not> (has (fst f) ENET_RDES0_FRMT \<and> has (fst f) ENET_RDES0_PCERR)"

definition fits :: "mem \<Rightarrow> u32 \<times> u8 list \<Rightarrow> bool" where
  "fits m f \<longleftrightarrow> 4 < GET_RDES0_FRML (fst f) \<and> unat (frame_size (fst f) m) \<le> 1524"

definition payload_of :: "mem \<Rightarrow> u32 \<times> u8 list \<Rightarrow> u8 list" where
  "payload_of m f = take (unat (frame_size (fst f) m)) (snd f)"

lemma hd_status: "rx_chain e \<Longrightarrow> desc_status (rxdesc_tab e ! rx_pos e) = fst (hd (rx_ring e))"
  by (simp add: rx_ring_hd rx_slots_nth rx_chain_def)

lemma frame_size_nonzero: "4 < GET_RDES0_FRML st \<Longrightarrow> frame_size st m \<noteq> 0"
  by (auto simp: frame_size_def Let_def)

lemma size_get_eq:
  assumes "rx_chain e"
  defines "f \<equiv> hd (rx_ring e)"
  shows "enet_rxframe_size_get e =
    (if \<not> owned f then Inr (0, e) else if good f then Inr (frame_size (fst f) (enet_mem e), e) else Inr (1, rx_given e))"
  unfolding f_def enet_rxframe_size_get_def rx_desc_ok [OF assms(1)] rx_drop_eq [OF assms(1)] bind_res_simps Let_def hd_status [OF assms(1)]
  by (auto simp: owned_def good_def)

lemma copy_in_ok:
  assumes "b + l + sum_list lens \<le> length (rx_buff e)" "length (rx_buff e) < 2 ^ 32"
  shows "\<exists>p. copy_in e (rx_buff_at e + of_nat b) lens l = Inr p \<and> concat p = take (sum_list lens) (drop (b + l) (rx_buff e))"
  using assms(1)
proof (induction lens arbitrary: l)
  case (Cons n lens)
  have "unat (of_nat b + of_nat l :: u32) = b + l"
    using Cons.prems assms(2) by (simp add: unat_of_nat take_bit_nat_eq_self flip: of_nat_add)
  then have "buf_read (rx_buff_at e) (rx_buff e) (rx_buff_at e + of_nat b + of_nat l) n = Inr (take n (drop (b + l) (rx_buff e)))"
    using Cons.prems by (simp add: buf_read_def add.assoc)
  moreover obtain p where "copy_in e (rx_buff_at e + of_nat b) lens (l + n) = Inr p" "concat p = take (sum_list lens) (drop (b + (l + n)) (rx_buff e))"
    using Cons.IH [of "l + n"] Cons.prems by (auto simp: add.assoc)
  moreover have "take (n + sum_list lens) (drop (b + l) (rx_buff e))
      = take n (drop (b + l) (rx_buff e)) @ take (sum_list lens) (drop (b + (l + n)) (rx_buff e))"
    unfolding take_add drop_drop by (simp add: ac_simps)
  ultimately show ?case by (simp add: add.assoc)
qed simp

lemma frame_len: "4 < GET_RDES0_FRML st \<Longrightarrow> unat (frame_size st m) \<le> 1524 \<Longrightarrow>
    unat (ucast (frame_size st m) :: u16) = unat (frame_size st m)"
  by (simp add: unsigned_ucast_eq take_bit_nat_eq_self)

lemma current_buffer:
  assumes "rx_chain e"
  shows "buffer1_addr (rxdesc_tab e ! rx_pos e) = rx_buff_at e + of_nat (1524 * rx_pos e)"
    and "1524 * rx_pos e + 1524 \<le> length (rx_buff e)" "length (rx_buff e) < 2 ^ 32"
    and "snd (hd (rx_ring e)) = take 1524 (drop (1524 * rx_pos e) (rx_buff e))"
  using assms by (auto simp: rx_chain_def rx_ring_hd [OF assms] rx_slots_nth)

lemma low_level_input_ok:
  assumes "rx_chain e"
  defines "f \<equiv> hd (rx_ring e)"
  assumes "owned f \<and> fits (enet_mem e) f"
  shows "\<exists>p. low_level_input free e = Inr (p, (rx_given e)\<lparr> enet_mem := rx_resume (enet_mem e) \<rparr>)
    \<and> map_option concat p = (if length (pool_lens (unat (frame_size (fst f) (enet_mem e)))) \<le> free then Some (payload_of (enet_mem e) f) else None)"
proof -
  let ?n = "unat (frame_size (fst f) (enet_mem e))"
  note b = current_buffer [OF assms(1)] and h = hd_status [OF assms(1), folded f_def]
  have n: "4 < GET_RDES0_FRML (fst f)" "?n \<le> 1524" using assms(3) by (simp_all add: fits_def)
  obtain p where p: "copy_in e (rx_buff_at e + of_nat (1524 * rx_pos e)) (pool_lens ?n) 0 = Inr p"
    "concat p = take ?n (drop (1524 * rx_pos e) (rx_buff e))"
    using copy_in_ok [of "1524 * rx_pos e" 0 "pool_lens ?n" e] b(2,3) n(2) by (auto simp: pool_lens_sum)
  have "concat p = payload_of (enet_mem e) f"
    using p(2) n(2) b(4) by (simp add: payload_of_def f_def min_def)
  moreover have "enet_frame_receive None 0 e = Inr (True, None, (rx_given e)\<lparr> enet_mem := rx_resume (enet_mem e) \<rparr>)"
    using assms(3) by (simp add: enet_frame_receive_def rx_desc_ok [OF assms(1)] Let_def h owned_def rx_release_eq [OF assms(1)])
  ultimately show ?thesis
    using n p(1) by (simp add: low_level_input_def rx_desc_ok [OF assms(1)] enet_desc_information_get_def h frame_len b(1) Let_def del: of_nat_mult)
qed

text \<open>On a descriptor the controller still owns, a chain of length 0 is handed over and the ring stays as it is.\<close>

lemma low_level_input_idle:
  assumes "rx_chain e" "fst (hd (rx_ring e)) = ENET_RDES0_DAV"
  shows "\<exists>p. low_level_input free e = Inr (p, e) \<and> map_option concat p = (if 1 \<le> free then Some [] else None)"
proof -
  have h: "desc_status (rxdesc_tab e ! rx_pos e) = ENET_RDES0_DAV" using hd_status [OF assms(1)] assms(2) by simp
  have z: "GET_RDES0_FRML ENET_RDES0_DAV = 0" "has ENET_RDES0_DAV ENET_RDES0_DAV"
    by (simp_all add: GET_RDES0_FRML_def ENET_RDES0_DAV_def GET_BITS_def BITS_def BIT_def has_def)
  have l: "pool_lens 0 = [0]" by (subst pool_lens.simps) simp
  obtain p where "copy_in e (rx_buff_at e + of_nat (1524 * rx_pos e)) [0] 0 = Inr p" "concat p = []"
    using copy_in_ok [of "1524 * rx_pos e" 0 "[0]" e] current_buffer(2,3) [OF assms(1)] by auto
  then have c: "copy_in e (buffer1_addr (rxdesc_tab e ! rx_pos e)) [0] 0 = Inr p" "concat p = []"
    by (simp_all only: current_buffer(1) [OF assms(1)])
  show ?thesis
    using c by (simp add: low_level_input_def rx_desc_ok [OF assms(1)] enet_desc_information_get_def h z l enet_frame_receive_def Let_def del: copy_in.simps)
qed


lemma rx_given_queue:
  assumes "rx_ok e" "rx_queue e = f # fs"
  shows "rx_ok (rx_given e)" "rx_queue (rx_given e) = fs" "hd (rx_ring e) = f" "owned f"
proof -
  have c: "rx_chain e" using assms(1) by (simp add: rx_ok_def)
  have n: "\<not> owned (ENET_RDES0_DAV, b)" for b by (simp add: owned_def has_def ENET_RDES0_DAV_def BIT_def)
  note q = rxr.consume [OF c assms(2) [unfolded rx_queue_def rx_ring_def] n]
  show "owned f" "hd (rx_ring e) = f" using q(3,4) rx_ring_hd [OF c] by simp_all
  show "rx_queue (rx_given e) = fs" using q(1) by (simp add: rx_queue_def rx_ring_def)
  show "rx_ok (rx_given e)" using assms(1) q(2) rx_given_chain [OF c] by (auto simp: rx_ok_def rx_ring_def)
qed

lemma rx_idle: "rx_ok e \<Longrightarrow> rx_queue e = [] \<Longrightarrow> fst (hd (rx_ring e)) = ENET_RDES0_DAV \<and> \<not> owned (hd (rx_ring e))"
proof -
  assume a: "rx_ok e" "rx_queue e = []"
  obtain f rest where r: "rx_ring e = f # rest" using rx_ring_length [of e] by (cases "rx_ring e") auto
  then have "\<not> owned f" using a(2) by (auto simp: rx_queue_def split: if_splits)
  then show ?thesis using a(1) r by (auto simp: rx_ok_def)
qed

lemma rx_ok_mem [simp]: "rx_ok (e\<lparr> enet_mem := m \<rparr>) = rx_ok e" "rx_queue (e\<lparr> enet_mem := m \<rparr>) = rx_queue e"
  by (simp_all add: rx_ok_def rx_queue_def)

text \<open>
  What one round of the main loop does to the queue of received frames: the first frame is checked;
  when it is damaged it is dropped, and the frame behind it, if any, is handed over as it is.
\<close>

definition deliver :: "nat \<Rightarrow> mem \<Rightarrow> u32 \<times> u8 list \<Rightarrow> u8 list list" where
  "deliver free m f = (if length (pool_lens (unat (frame_size (fst f) m))) \<le> free then [payload_of m f] else [])"

fun recv_spec :: "nat \<Rightarrow> mem \<Rightarrow> (u32 \<times> u8 list) list \<Rightarrow> (u32 \<times> u8 list) list \<times> u8 list list" where
  "recv_spec free m [] = ([], [])"
| "recv_spec free m (f # fs) =
     (if good f then (fs, deliver free m f)
      else case fs of [] \<Rightarrow> ([], if 1 \<le> free then [[]] else []) | g # gs \<Rightarrow> (gs, deliver free m g))"

text \<open>The frames handed to the stack, as byte strings.\<close>

definition delivered :: "port \<Rightarrow> u8 list list" where
  "delivered s = map concat (inputs s)"

lemma recv_one:
  assumes "rx_ok e" "rx_queue e = f # fs" "fits (enet_mem e) f" "ring s = e"
  shows "\<exists>t. lwip_frame_recv input free s = Inr t \<and> rx_ok (ring t) \<and> rx_queue (ring t) = fs
    \<and> delivered t = delivered s @ deliver free (enet_mem e) f"
proof -
  note q = rx_given_queue [OF assms(1,2)]
  have "rx_chain e" using assms(1) by (simp add: rx_ok_def)
  then obtain p where p: "low_level_input free e = Inr (p, (rx_given e)\<lparr> enet_mem := rx_resume (enet_mem e) \<rparr>)"
    "map_option concat p = (if length (pool_lens (unat (frame_size (fst f) (enet_mem e)))) \<le> free then Some (payload_of (enet_mem e) f) else None)"
    using low_level_input_ok [of e free] q(3,4) assms(3) by auto
  then show ?thesis
    using q(1,2) assms(4) by (cases p) (auto simp: lwip_frame_recv_def ethernetif_input_def on_ring_def delivered_def Let_def deliver_def split: if_splits)
qed

lemma recv_none:
  assumes "rx_ok e" "rx_queue e = []" "ring s = e"
  shows "\<exists>t. lwip_frame_recv input free s = Inr t \<and> ring t = e
    \<and> delivered t = delivered s @ (if 1 \<le> free then [[]] else [])"
proof -
  have "rx_chain e" using assms(1) by (simp add: rx_ok_def)
  then obtain p where "low_level_input free e = Inr (p, e)" "map_option concat p = (if 1 \<le> free then Some [] else None)"
    using low_level_input_idle [of e free] rx_idle [OF assms(1,2)] by auto
  then show ?thesis
    using assms(3) by (cases p) (auto simp: lwip_frame_recv_def ethernetif_input_def on_ring_def delivered_def Let_def split: if_splits)
qed

lemma on_ring_simps [simp]: "ring (on_ring e s) = e" "delivered (on_ring e s) = delivered s" "inputs (on_ring e s) = inputs s"
  by (simp_all add: on_ring_def delivered_def)

text \<open>
  C4: The receive path of the firmware implements the queue specification: from any state in which the
  descriptor ring is chained and consistent and every received frame fits its buffer, one round of the
  main loop returns, keeps the ring consistent, removes from the queue exactly the frames that
  \<open>recv_spec\<close> removes and hands to the stack exactly the frames that it delivers.
\<close>
theorem main_recv_refines:
  assumes "rx_ok (ring s)" "\<forall>f \<in> set (rx_queue (ring s)). fits (enet_mem (ring s)) f"
  shows "\<exists>t. main_recv input free s = Inr t \<and> rx_ok (ring t)
    \<and> (rx_queue (ring t), delivered t) = map_prod id (append (delivered s)) (recv_spec free (enet_mem (ring s)) (rx_queue (ring s)))"
proof -
  let ?e = "ring s"
  have c: "rx_chain ?e" using assms(1) by (simp add: rx_ok_def)
  note sg = size_get_eq [OF c]
  show ?thesis
  proof (cases "rx_queue ?e")
    case Nil
    then show ?thesis using rx_idle [OF assms(1) Nil] assms(1) by (simp add: main_recv_def sg)
  next
    case (Cons f fs)
    note q = rx_given_queue [OF assms(1) Cons]
    have ft: "4 < GET_RDES0_FRML (fst f)" using assms(2) Cons by (simp add: fits_def)
    show ?thesis
    proof (cases "good f")
      case True
      then have "main_recv input free s = lwip_frame_recv input free (on_ring ?e s)"
        using q frame_size_nonzero [OF ft] by (simp add: main_recv_def sg)
      then show ?thesis
        using recv_one [OF assms(1) Cons, of "on_ring ?e s" input free] assms(2) Cons True by auto
    next
      case False
      then have m: "main_recv input free s = lwip_frame_recv input free (on_ring (rx_given ?e) s)"
        using q by (simp add: main_recv_def sg)
      show ?thesis
      proof (cases fs)
        case Nil
        then show ?thesis using recv_none [OF q(1), of "on_ring (rx_given ?e) s" input free] q m Cons False by auto
      next
        case (Cons g gs)
        then show ?thesis
          using recv_one [OF q(1), of g gs "on_ring (rx_given ?e) s" input free] q m \<open>rx_queue ?e = f # fs\<close> assms(2) False
          by auto
      qed
    qed
  qed
qed

section \<open>The initial ring\<close>

lemma chain_init_rx:
  assumes "length (rx_buff e) = 7620"
  defines "t \<equiv> enet_descriptors_chain_init ENET_DMA_RX e"
  shows "rx_ok t" "rx_queue t = []" "rx_pos t = 0"
proof -
  have tab: "rxdesc_tab t ! i = chain_desc (rxdesc_at e) (rx_buff_at e) 5 1524 ENET_RDES0_DAV (ENET_RDES1_RCHM OR 1524) i" if "i < 5" for i
    using that by (simp add: t_def enet_descriptors_chain_init_def Let_def enet_sizes)
  have r: "has (ENET_RDES1_RCHM OR 1524) ENET_RDES1_RCHM" by (simp add: has_def ENET_RDES1_RCHM_def BIT_def)
  have n: "\<not> owned (ENET_RDES0_DAV, b)" for b by (simp add: owned_def has_def ENET_RDES0_DAV_def BIT_def)
  have f: "dma_current_rxdesc t = rxdesc_at e" "rxdesc_at t = rxdesc_at e" "rx_buff t = rx_buff e" "rx_buff_at t = rx_buff_at e"
    "dma_current_ptp_rxdesc t = 0" "length (rxdesc_tab t) = 5"
    by (simp_all add: t_def enet_descriptors_chain_init_def Let_def enet_sizes)
  have nx: "(if i < 4 then a + 16 * of_nat (i + 1) else a) = a + 16 * (of_nat (Suc i mod 5) :: u32)" if "i < 5" for i a
    using that by (cases "i = 4") auto
  show p: "rx_pos t = 0" by (simp add: rx_pos_def f)
  have c: "rx_chain t"
    using assms(1) nx by (auto simp: rx_chain_def f p tab chain_desc_def r algebra_simps)
  have s: "rx_ring t = map (\<lambda>i. (ENET_RDES0_DAV, take 1524 (drop (1524 * i) (rx_buff e)))) [0..<5]"
    using tab by (auto simp: rx_ring_def p rx_slots_def f chain_desc_def)
  show "rx_queue t = []" by (simp add: rx_queue_def s n upt_rec)
  show "rx_ok t" unfolding rx_ok_def using c by (auto simp: s dest!: set_dropWhileD)
qed

section \<open>Frames larger than a buffer\<close>

lemma copy_in_overrun:
  assumes "length (rx_buff e) < 2 ^ 32" "b + l \<le> length (rx_buff e)" "length (rx_buff e) < b + l + sum_list lens"
  shows "copy_in e (rx_buff_at e + of_nat b) lens l = Inl Out_Of_Bounds"
  using assms(2,3)
proof (induction lens arbitrary: l)
  case (Cons n lens)
  have "unat (of_nat b + of_nat l :: u32) = b + l"
    using Cons.prems assms(1) by (simp add: unat_of_nat take_bit_nat_eq_self flip: of_nat_add)
  then have r: "buf_read (rx_buff_at e) (rx_buff e) (rx_buff_at e + of_nat b + of_nat l) n =
      (if b + l + n \<le> length (rx_buff e) then Inr (take n (drop (b + l) (rx_buff e))) else Inl Out_Of_Bounds)"
    by (simp add: buf_read_def add.assoc)
  show ?case
    using Cons.IH [of "l + n"] Cons.prems r by (cases "b + l + n \<le> length (rx_buff e)") (auto simp: add.assoc)
qed simp

lemma frml_less: "unat (GET_RDES0_FRML st) < 2 ^ 14"
proof -
  have "GET_RDES0_FRML st = take_bit 14 (GET_RDES0_FRML st)"
    by (rule bit_word_eqI) (auto simp: bit_simps GET_RDES0_FRML_def bit_GET_BITS)
  then have "unat (GET_RDES0_FRML st) = take_bit 14 (unat (GET_RDES0_FRML st))"
    by (metis unsigned_take_bit_eq)
  then show ?thesis by (metis take_bit_nat_less_exp)
qed

lemma frame_size_less: "4 < GET_RDES0_FRML st \<Longrightarrow> unat (frame_size st m) < 2 ^ 14"
proof -
  assume a: "4 < GET_RDES0_FRML st"
  then have "unat (GET_RDES0_FRML st - 4) = unat (GET_RDES0_FRML st) - 4" by (subst unat_sub) (auto simp: less_imp_le)
  then show ?thesis using frml_less [of st] by (auto simp: frame_size_def Let_def)
qed

text \<open>
  C40: The receive path trusts the length that the controller writes into the last descriptor of a
  frame. When the first descriptor is dropped (it is not the last one of its frame, or it carries an
  error) and the frame behind it is longer than what is left of the receive buffers, the copy into the
  packet buffers reads outside them.
\<close>
theorem oversize_frame_overread:
  assumes "rx_ok (ring s)" "rx_queue (ring s) = f # g # gs" "\<not> good f" "4 < GET_RDES0_FRML (fst g)"
    "1524 * (5 - rx_pos (rx_given (ring s))) < unat (frame_size (fst g) (enet_mem (ring s)))"
    "length (pool_lens (unat (frame_size (fst g) (enet_mem (ring s))))) \<le> free"
  shows "main_recv input free s = Inl Out_Of_Bounds"
proof -
  let ?e = "rx_given (ring s)" and ?n = "frame_size (fst g) (enet_mem (ring s))"
  note q = rx_given_queue [OF assms(1,2)]
  note q2 = rx_given_queue [OF q(1,2)]
  have c: "rx_chain (ring s)" "rx_chain ?e" using assms(1) q(1) by (simp_all add: rx_ok_def)
  have m: "main_recv input free s = lwip_frame_recv input free (on_ring ?e s)"
    using q assms(3) by (simp add: main_recv_def size_get_eq [OF c(1)])
  have u: "unat (ucast ?n :: u16) = unat ?n"
    using frame_size_less [OF assms(4), of "enet_mem (ring s)"] by (simp add: unsigned_ucast_eq take_bit_nat_eq_self)
  note b = current_buffer [OF c(2)]
  have "rx_pos ?e < 5" "length (rx_buff ?e) = 7620" using c(2) unfolding rx_chain_def by auto
  then have "copy_in ?e (rx_buff_at ?e + of_nat (1524 * rx_pos ?e)) (pool_lens (unat ?n)) 0 = Inl Out_Of_Bounds"
    using assms(5) b(3) by (intro copy_in_overrun) (simp_all add: pool_lens_sum)
  then have "low_level_input free ?e = Inl Out_Of_Bounds"
    using assms(4,6) u q2(3) b(1)
    by (simp add: low_level_input_def rx_desc_ok [OF c(2)] enet_desc_information_get_def hd_status [OF c(2)] Let_def del: of_nat_mult)
  then show ?thesis by (simp add: m lwip_frame_recv_def ethernetif_input_def)
qed

section \<open>Rings with received frames\<close>

text \<open>The controller completes descriptor \<open>i\<close>; the ring stands at descriptor \<open>p\<close>.\<close>

definition rx_arrive :: "nat \<Rightarrow> u32 \<Rightarrow> enet \<Rightarrow> enet" where
  "rx_arrive i st e = e\<lparr> rxdesc_tab := (rxdesc_tab e)[i := (rxdesc_tab e ! i)\<lparr> desc_status := st \<rparr>] \<rparr>"

definition rx_at :: "nat \<Rightarrow> enet \<Rightarrow> enet" where
  "rx_at p e = e\<lparr> dma_current_rxdesc := rxdesc_at e + 16 * of_nat p \<rparr>"

lemma rx_arrive_chain: "rx_chain e \<Longrightarrow> i < 5 \<Longrightarrow> rx_chain (rx_arrive i st e)"
  by (auto simp: rx_chain_def rx_arrive_def rx_pos_def nth_list_update)

lemma rx_arrive_slots: "rx_chain e \<Longrightarrow> i < 5 \<Longrightarrow> rx_slots (rx_arrive i st e) = (rx_slots e)[i := (st, snd (rx_slots e ! i))]"
  by (rule nth_equalityI) (auto simp: rx_slots_nth nth_list_update rx_chain_def, auto simp: rx_arrive_def nth_list_update)

lemma rx_at_pos: "p < 5 \<Longrightarrow> rx_pos (rx_at p e) = p"
  by (simp add: rx_pos_def rx_at_def unat_16_of_nat)

lemma rx_at_chain: "rx_chain e \<Longrightarrow> p < 5 \<Longrightarrow> rx_chain (rx_at p e)"
  using rx_at_pos [of p e] by (auto simp: rx_chain_def) (auto simp: rx_at_def)

lemma rx_sample_simps [simp]: "rx_pos (rx_arrive i st e) = rx_pos e" "rx_slots (rx_at p e) = rx_slots e"
  "enet_mem (rx_arrive i st e) = enet_mem e" "enet_mem (rx_at p e) = enet_mem e"
  by (simp_all add: rx_pos_def rx_arrive_def rx_slots_def rx_at_def)

definition enet_blank :: enet where
  "enet_blank = \<lparr> enet_mem = (\<lambda>_. 0), rxdesc_tab = [], txdesc_tab = [], rx_buff = replicate 7620 0, tx_buff = replicate 7620 0,
     dma_current_rxdesc = 0, dma_current_txdesc = 0, dma_current_ptp_rxdesc = 0, dma_current_ptp_txdesc = 0,
     ptp_desc = Map.empty, enet_unknow_err = 0, rxdesc_at = 0x20001000, txdesc_at = 0x20001100,
     rx_buff_at = 0x20002000, tx_buff_at = 0x20004000 \<rparr>"

definition rx_sample :: "nat \<Rightarrow> u32 \<Rightarrow> u32 \<Rightarrow> enet" where
  "rx_sample p a b =
     rx_arrive (Suc p) b (rx_arrive p a (rx_at p (enet_descriptors_chain_init ENET_DMA_RX enet_blank)))"

lemma rx_sample_ok:
  assumes "p < 4" "\<not> has a ENET_RDES0_DAV" "\<not> has b ENET_RDES0_DAV"
  defines "e \<equiv> rx_sample p a b"
  shows "rx_ok e" "rx_queue e = [(a, replicate 1524 0), (b, replicate 1524 0)]" "rx_pos e = p" "reg_rd ENET_MAC_CFG (enet_mem e) = 0"
proof -
  define e0 where "e0 = enet_descriptors_chain_init ENET_DMA_RX enet_blank"
  have i: "rx_ok e0" unfolding e0_def by (rule chain_init_rx) (simp add: enet_blank_def)
  then have c0: "rx_chain (rx_at p e0)" using rx_at_chain [of e0 p] assms(1) by (simp add: rx_ok_def)
  then have c: "rx_chain e" unfolding e_def rx_sample_def e0_def using assms(1) by (intro rx_arrive_chain) auto
  show p: "rx_pos e = p" using rx_at_pos [of p] assms(1) by (simp add: e_def rx_sample_def)
  have tab: "rxdesc_tab e0 ! i = chain_desc (rxdesc_at enet_blank) (rx_buff_at enet_blank) 5 1524 ENET_RDES0_DAV (ENET_RDES1_RCHM OR 1524) i" if "i < 5" for i
    using that by (simp add: e0_def enet_descriptors_chain_init_def Let_def enet_sizes)
  have "rx_slots e0 = map (\<lambda>i. (ENET_RDES0_DAV, replicate 1524 0)) [0..<5]"
    by (auto simp: rx_slots_def tab chain_desc_def) (simp add: e0_def enet_descriptors_chain_init_def Let_def enet_blank_def)
  then have z: "rx_slots e0 = replicate 5 (ENET_RDES0_DAV, replicate 1524 0)" by (simp add: map_replicate_const)
  then have s: "rx_slots e = (replicate 5 (ENET_RDES0_DAV, replicate 1524 0))[p := (a, replicate 1524 0), Suc p := (b, replicate 1524 0)]"
    using assms(1) c0 rx_arrive_chain [OF c0, of p] by (simp add: e_def rx_sample_def e0_def [symmetric] rx_arrive_slots)
  have v: "replicate 5 x = [x, x, x, x, x]" for x :: "u32 \<times> u8 list" by (simp add: numeral_eq_Suc)
  have cs: "p = 0 \<or> p = 1 \<or> p = 2 \<or> p = 3" using assms(1) by auto
  have r: "rx_ring e = (a, replicate 1524 0) # (b, replicate 1524 0) # replicate 3 (ENET_RDES0_DAV, replicate 1524 0)"
    unfolding rx_ring_def p s v using cs by (auto simp: numeral_eq_Suc rotate_def simp del: replicate.simps(2)) (simp_all add: numeral_eq_Suc)
  have n: "\<not> owned (ENET_RDES0_DAV, x)" "owned (a, x)" "owned (b, x)" for x
    using assms(2,3) by (simp_all add: owned_def has_def ENET_RDES0_DAV_def BIT_def)
  show "rx_queue e = [(a, replicate 1524 0), (b, replicate 1524 0)]"
    unfolding rx_queue_def r using n by (simp add: numeral_3_eq_3)
  show "rx_ok e" unfolding rx_ok_def r using c n by (auto dest!: set_dropWhileD)
  show "reg_rd ENET_MAC_CFG (enet_mem e) = 0"
    by (simp add: e_def rx_sample_def enet_descriptors_chain_init_def Let_def enet_blank_def enet_regs) (simp add: reg_rd_def)
qed

lemma rx_sample_words:
  "\<not> has 0x00440300 ENET_RDES0_DAV" "\<not> has 0x200 ENET_RDES0_DAV" "\<not> has 0x07D00100 ENET_RDES0_DAV"
  "GET_RDES0_FRML 0x00440300 = 68" "GET_RDES0_FRML 0x07D00100 = 2000"
  "good (0x00440300, bs)" "\<not> good (0x200, bs)"
  by (simp_all add: has_def GET_RDES0_FRML_def good_def enet_bits GET_BITS_def BITS_def BIT_def)

lemma rx_sample_size: "reg_rd ENET_MAC_CFG m = 0 \<Longrightarrow> frame_size st m = GET_RDES0_FRML st - 4"
  by (simp add: frame_size_def Let_def has_def)

theorem main_recv_refines_witness:
  "\<exists>t. main_recv (\<lambda>_. ERR_OK) 10 \<lparr> ring = rx_sample 3 0x00440300 0x00440300, inputs = [], freed = [] \<rparr> = Inr t
     \<and> rx_ok (ring t) \<and> rx_queue (ring t) = [(0x00440300, replicate 1524 0)] \<and> delivered t = [replicate 64 0]"
proof -
  let ?e = "rx_sample 3 0x00440300 0x00440300"
  note w = rx_sample_words and o = rx_sample_ok [of 3 "0x00440300" "0x00440300", OF _ rx_sample_words(1,1), simplified]
  have l: "pool_lens 64 = [64]" by (subst pool_lens.simps) (simp add: PBUF_POOL_BUFSIZE_ALIGNED_def)
  have z: "frame_size 0x00440300 (enet_mem ?e) = 64" using rx_sample_size [OF o(4)] w by simp
  show ?thesis
    using main_recv_refines [of "\<lparr> ring = ?e, inputs = [], freed = [] \<rparr>" "\<lambda>_. ERR_OK" 10] o z w l
    by (simp add: fits_def deliver_def payload_of_def delivered_def)
qed

theorem oversize_frame_overread_witness:
  "main_recv (\<lambda>_. ERR_OK) 10 \<lparr> ring = rx_sample 3 0x200 0x07D00100, inputs = [], freed = [] \<rparr> = Inl Out_Of_Bounds"
proof -
  let ?e = "rx_sample 3 0x200 0x07D00100"
  note w = rx_sample_words and o = rx_sample_ok [of 3 "0x200" "0x07D00100", OF _ rx_sample_words(2,3), simplified]
  have l: "pool_lens 1996 = [1500, 496]" by (subst pool_lens.simps, subst pool_lens.simps) (simp add: PBUF_POOL_BUFSIZE_ALIGNED_def)
  have z: "frame_size 0x07D00100 (enet_mem ?e) = 1996" using rx_sample_size [OF o(4)] w by simp
  have p: "rx_pos (rx_given ?e) = 4" using rx_given_pos [of ?e] o(1,3) by (simp add: rx_ok_def)
  show ?thesis
    using oversize_frame_overread [of "\<lparr> ring = ?e, inputs = [], freed = [] \<rparr>" "(0x200, replicate 1524 0)" "(0x07D00100, replicate 1524 0)" "[]" 10]
      o z w l p by simp
qed

end
