(* ===== verification/Tx_Queue.thy ===== *)
theory Tx_Queue
  imports Rx_Queue
begin

text \<open>
  The transmit side of the network interface as a queue of frames: the descriptors that the controller
  has not sent yet, oldest first. \<^verbatim>\<open>low_level_output\<close> appends to it. The last sections show that
  \<^verbatim>\<open>low_level_init\<close> establishes the invariants of both rings and that the station address can be read
  back.
\<close>

section \<open>The transmit ring as a queue\<close>

definition tx_pending :: "u32 \<times> u8 list \<Rightarrow> bool" where
  "tx_pending f \<longleftrightarrow> has (fst f) ENET_TDES0_DAV"

definition tx_pos :: "enet \<Rightarrow> nat" where
  "tx_pos e = unat (dma_current_txdesc e - txdesc_at e) div 16"

definition tx_slots :: "enet \<Rightarrow> (u32 \<times> u8 list) list" where
  "tx_slots e = map (\<lambda>i. (desc_status (txdesc_tab e ! i),
     take (unat (control_buffer_size (txdesc_tab e ! i))) (drop (1524 * i) (tx_buff e)))) [0..<5]"

definition tx_ring :: "enet \<Rightarrow> (u32 \<times> u8 list) list" where
  "tx_ring e = rotate (tx_pos e) (tx_slots e)"

text \<open>The frames handed to the controller that it has not sent yet, oldest first.\<close>

definition tx_waiting :: "enet \<Rightarrow> (u32 \<times> u8 list) list" where
  "tx_waiting e = dropWhile (\<lambda>f. \<not> tx_pending f) (tx_ring e)"

definition tx_queue :: "enet \<Rightarrow> u8 list list" where
  "tx_queue e = map snd (tx_waiting e)"

definition tx_chain :: "enet \<Rightarrow> bool" where
  "tx_chain e \<longleftrightarrow> length (txdesc_tab e) = 5 \<and> length (tx_buff e) = 7620
     \<and> (\<forall>i < 5. has (desc_status (txdesc_tab e ! i)) ENET_TDES0_TCHM
          \<and> unat (control_buffer_size (txdesc_tab e ! i)) \<le> 1524
          \<and> buffer1_addr (txdesc_tab e ! i) = tx_buff_at e + of_nat (1524 * i)
          \<and> buffer2_next_desc_addr (txdesc_tab e ! i) = txdesc_at e + 16 * of_nat (Suc i mod 5))
     \<and> tx_pos e < 5 \<and> dma_current_txdesc e = txdesc_at e + 16 * of_nat (tx_pos e)"

definition tx_ok :: "enet \<Rightarrow> bool" where
  "tx_ok e \<longleftrightarrow> tx_chain e \<and> (\<forall>f \<in> set (tx_waiting e). tx_pending f)"

text \<open>The state after a frame was put into the current descriptor.\<close>

definition tx_filled :: "u8 list \<Rightarrow> enet_descriptors_struct \<Rightarrow> enet_descriptors_struct" where
  "tx_filled fr d = d\<lparr> control_buffer_size := of_nat (length fr),
     desc_status := desc_status d OR (ENET_TDES0_LSG OR ENET_TDES0_FSG) OR ENET_TDES0_DAV \<rparr>"

definition tx_put :: "u8 list \<Rightarrow> enet \<Rightarrow> enet" where
  "tx_put fr e = e\<lparr> enet_mem := tx_resume (enet_mem e),
     tx_buff := take (1524 * tx_pos e) (tx_buff e) @ fr @ drop (1524 * tx_pos e + length fr) (tx_buff e),
     txdesc_tab := (txdesc_tab e)[tx_pos e := tx_filled fr (txdesc_tab e ! tx_pos e)],
     dma_current_txdesc := buffer2_next_desc_addr (txdesc_tab e ! tx_pos e) \<rparr>"

lemma tx_put_fields [simp]:
  "txdesc_at (tx_put fr e) = txdesc_at e" "tx_buff_at (tx_put fr e) = tx_buff_at e"
  by (simp_all add: tx_put_def)

lemma tx_put_pos: "tx_chain e \<Longrightarrow> tx_pos (tx_put fr e) = Suc (tx_pos e) mod 5"
proof -
  assume c: "tx_chain e"
  then have "dma_current_txdesc (tx_put fr e) = txdesc_at e + 16 * of_nat (Suc (tx_pos e) mod 5)"
    by (simp add: tx_put_def tx_chain_def)
  then show ?thesis
    using unat_16_of_nat [of "Suc (tx_pos e) mod 5"] unfolding tx_pos_def [of "tx_put fr e"] by simp
qed

lemma has_or: "has (a OR b) c \<longleftrightarrow> has a c \<or> has b c"
  by (simp add: has_def bit.conj_disj_distrib2 or_eq_0_iff)

lemma has_dav: "has ENET_TDES0_DAV ENET_TDES0_DAV"
  by (simp add: has_def ENET_TDES0_DAV_def BIT_def)

lemma tx_put_chain:
  assumes "tx_chain e" "length fr \<le> 1524"
  shows "tx_chain (tx_put fr e)"
proof -
  have l: "unat (of_nat (length fr) :: u32) = length fr" using assms(2) by (simp add: unat_of_nat take_bit_nat_eq_self)
  show ?thesis
    using assms tx_put_pos [OF assms(1), of fr] l
    by (auto simp: tx_chain_def) (auto simp: tx_put_def tx_filled_def nth_list_update has_or)
qed

lemma tx_slots_length [simp]: "length (tx_slots e) = 5" by (simp add: tx_slots_def)

lemma tx_slots_nth: "i < 5 \<Longrightarrow> tx_slots e ! i = (desc_status (txdesc_tab e ! i),
    take (unat (control_buffer_size (txdesc_tab e ! i))) (drop (1524 * i) (tx_buff e)))"
  by (simp add: tx_slots_def)

text \<open>Bytes written inside one slot of the buffers leave the other slots alone.\<close>

lemma splice_same: "b + length fr \<le> length t \<Longrightarrow> take (length fr) (drop b (take b t @ fr @ drop (b + length fr) t)) = fr"
  by simp

lemma splice_other:
  assumes "b + length fr \<le> length t" "n \<le> 1524" "length fr \<le> 1524" "i \<noteq> j" "b = 1524 * j"
  shows "take n (drop (1524 * i) (take b t @ fr @ drop (b + length fr) t)) = take n (drop (1524 * i) t)"
proof (rule nth_equalityI)
  have L: "length (take b t @ fr @ drop (b + length fr) t) = length t" using assms by simp
  show "length (take n (drop (1524 * i) (take b t @ fr @ drop (b + length fr) t))) = length (take n (drop (1524 * i) t))"
    unfolding length_take length_drop L by simp
  fix k assume "k < length (take n (drop (1524 * i) (take b t @ fr @ drop (b + length fr) t)))"
  then have k: "k < n" "1524 * i + k < length t" unfolding length_take length_drop L by auto
  have "1524 * i + k < 1524 * j \<or> 1524 * j + 1524 \<le> 1524 * i + k"
    using assms(2,4) k(1) by (cases "i < j") auto
  then show "take n (drop (1524 * i) (take b t @ fr @ drop (b + length fr) t)) ! k = take n (drop (1524 * i) t) ! k"
    using k assms by (auto simp: nth_append)
qed

interpretation txr: desc_ring "\<lambda>e. tx_chain e \<and> length fr \<le> 1524" tx_slots tx_pos "tx_put fr"
  "\<lambda>e. (desc_status (tx_filled fr (txdesc_tab e ! tx_pos e)), fr)" for fr
proof
  fix e assume c: "tx_chain e \<and> length fr \<le> 1524"
  then have p: "tx_pos e < 5" "length (txdesc_tab e) = 5" "length (tx_buff e) = 7620" "1524 * tx_pos e + length fr \<le> 7620"
    by (auto simp: tx_chain_def)
  have l: "unat (of_nat (length fr) :: u32) = length fr" using c by (simp add: unat_of_nat take_bit_nat_eq_self)
  show "tx_pos e < length (tx_slots e)" using p by simp
  show "tx_pos (tx_put fr e) = Suc (tx_pos e) mod length (tx_slots e)" using tx_put_pos c by simp
  have "tx_slots (tx_put fr e) ! i = (tx_slots e)[tx_pos e := (desc_status (tx_filled fr (txdesc_tab e ! tx_pos e)), fr)] ! i" if "i < 5" for i
  proof (cases "i = tx_pos e")
    case True
    then show ?thesis using p l splice_same [of "1524 * tx_pos e" fr "tx_buff e"] by (simp add: tx_slots_nth tx_put_def tx_filled_def)
  next
    case False
    then show ?thesis
      using p c that splice_other [of "1524 * tx_pos e" fr "tx_buff e" _ i "tx_pos e"] by (simp add: tx_slots_nth tx_put_def tx_chain_def)
  qed
  then show "tx_slots (tx_put fr e) = (tx_slots e)[tx_pos e := (desc_status (tx_filled fr (txdesc_tab e ! tx_pos e)), fr)]"
    by (intro nth_equalityI) auto
qed

lemma tx_put_queue:
  assumes "tx_ok e" "length fr \<le> 1524" "\<not> tx_pending (tx_slots e ! tx_pos e)"
  shows "tx_ok (tx_put fr e)" "tx_queue (tx_put fr e) = tx_queue e @ [fr]"
proof -
  have c: "tx_chain e \<and> length fr \<le> 1524" using assms(1,2) by (simp add: tx_ok_def)
  have d: "tx_pending (desc_status (tx_filled fr d), fr)" for d
    by (simp add: tx_pending_def tx_filled_def has_or has_dav)
  have q: "tx_waiting (tx_put fr e) = tx_waiting e @ [(desc_status (tx_filled fr (txdesc_tab e ! tx_pos e)), fr)]"
    using txr.produce [OF c, of "\<lambda>f. \<not> tx_pending f"] assms(3) d unfolding tx_waiting_def tx_ring_def by blast
  show "tx_queue (tx_put fr e) = tx_queue e @ [fr]" by (simp add: tx_queue_def q)
  show "tx_ok (tx_put fr e)" using assms(1,2) tx_put_chain [of e fr] d by (simp add: tx_ok_def q)
qed

lemma tx_full: "tx_ok e \<Longrightarrow> tx_pending (tx_slots e ! tx_pos e) \<longleftrightarrow> length (tx_queue e) = 5"
proof -
  assume "tx_ok e"
  then have "tx_chain e \<and> length ([] :: u8 list) \<le> 1524" by (simp add: tx_ok_def)
  from txr.hd_ring [OF this] have h: "hd (tx_ring e) = tx_slots e ! tx_pos e" by (simp add: tx_ring_def)
  have "length (tx_ring e) = 5" by (simp add: tx_ring_def)
  then obtain f rest where "tx_ring e = f # rest" "length rest = 4" by (cases "tx_ring e") auto
  then show ?thesis
    using h length_dropWhile_le [of "\<lambda>f. \<not> tx_pending f" rest] by (auto simp: tx_queue_def tx_waiting_def)
qed

lemma tx_desc_ok: "tx_chain e \<Longrightarrow> tx_desc e = Inr (txdesc_tab e ! tx_pos e)"
  by (auto simp: tx_desc_def tx_chain_def desc_index_ok)

lemma copy_out_ok:
  assumes "b + l + length (concat p) \<le> length (tx_buff e)" "length (tx_buff e) < 2 ^ 32"
  shows "copy_out (tx_buff_at e + of_nat b) p l e =
    Inr (l + length (concat p), e\<lparr> tx_buff := take (b + l) (tx_buff e) @ concat p @ drop (b + l + length (concat p)) (tx_buff e) \<rparr>)"
  using assms
proof (induction p arbitrary: l e)
  case (Cons bs q)
  let ?t = "take (b + l) (tx_buff e) @ bs @ drop (b + l + length bs) (tx_buff e)"
  have "unat (of_nat b + of_nat l :: u32) = b + l"
    using Cons.prems by (simp add: unat_of_nat take_bit_nat_eq_self flip: of_nat_add)
  then have w: "buf_write (tx_buff_at e) (tx_buff e) (tx_buff_at e + of_nat b + of_nat l) bs = Inr ?t"
    using Cons.prems by (simp add: buf_write_def add.assoc)
  have L: "length ?t = length (tx_buff e)" using Cons.prems(1) by simp
  have T: "take (b + (l + length bs)) ?t = take (b + l) (tx_buff e) @ bs" using Cons.prems(1) by simp
  have D: "drop (b + (l + length bs) + n) ?t = drop (b + l + length bs + n) (tx_buff e)" for n
    using Cons.prems(1) by (simp add: ac_simps)
  have "copy_out (tx_buff_at e + of_nat b) q (l + length bs) (e\<lparr> tx_buff := ?t \<rparr>) =
      Inr (l + length bs + length (concat q), e\<lparr> tx_buff := take (b + (l + length bs)) ?t @ concat q
        @ drop (b + (l + length bs) + length (concat q)) ?t \<rparr>)"
    using Cons.IH [of "l + length bs" "e\<lparr> tx_buff := ?t \<rparr>"] Cons.prems L by simp
  then show ?case
    unfolding copy_out.simps w bind_res_simps T D by (simp add: add.assoc)
qed simp

lemma output_free:
  assumes "tx_chain e" "length (concat p) \<le> 1524" "\<not> tx_pending (tx_slots e ! tx_pos e)"
  shows "bind_res (tx_desc e) (\<lambda>d.
     bind_res (copy_out (enet_desc_information_get d TXDESC_BUFFER_1_ADDR (enet_mem e)) p 0 e) (\<lambda>(framelength, e).
     bind_res (enet_frame_transmit None (of_nat framelength) e) (\<lambda>(_, e). Inr (ERR_OK, e)))) = Inr (ERR_OK, tx_put (concat p) e)"
proof -
  let ?d = "txdesc_tab e ! tx_pos e" and ?fr = "concat p"
  let ?e = "e\<lparr> tx_buff := take (1524 * tx_pos e) (tx_buff e) @ ?fr @ drop (1524 * tx_pos e + length ?fr) (tx_buff e) \<rparr>"
  have c: "tx_pos e < 5" "length (txdesc_tab e) = 5" "length (tx_buff e) = 7620"
    "buffer1_addr ?d = tx_buff_at e + of_nat (1524 * tx_pos e)" "has (desc_status ?d) ENET_TDES0_TCHM"
    using assms(1) by (auto simp: tx_chain_def)
  have i: "desc_index (txdesc_at e) tab (dma_current_txdesc e) = Inr (tx_pos e)" if "length tab = 5" for tab :: "enet_descriptors_struct list"
    using assms that by (metis desc_index_ok tx_chain_def)
  have co: "copy_out (tx_buff_at e + of_nat (1524 * tx_pos e)) p 0 e = Inr (length ?fr, ?e)"
    using copy_out_ok [of "1524 * tx_pos e" 0 p e] c assms(2) by simp
  have l: "unat (of_nat (length ?fr) :: u32) = length ?fr" using assms(2) by (simp add: unat_of_nat take_bit_nat_eq_self)
  have nd: "\<not> has (desc_status ?d) ENET_TDES0_DAV" using assms(3) c(1) by (simp add: tx_pending_def tx_slots_nth)
  have "enet_frame_transmit None (of_nat (length ?fr)) ?e = Inr (True, tx_put ?fr e)"
    using c nd l assms(2)
    by (simp add: enet_frame_transmit_def tx_desc_def set_tx_desc_def tx_advance_def i enet_sizes has_or tx_put_def tx_filled_def)
  then show ?thesis
    by (simp add: tx_desc_ok [OF assms(1)] enet_desc_information_get_def c(4) co del: of_nat_mult copy_out.simps)
qed

text \<open>
  What the program relies on of the controller while it waits: one step keeps the ring consistent and
  either sends the oldest frame or leaves the queue alone.
\<close>

definition sends :: "(enet \<Rightarrow> enet) \<Rightarrow> bool" where
  "sends hw \<longleftrightarrow> (\<forall>e. tx_ok e \<longrightarrow> tx_ok (hw e) \<and> (tx_queue (hw e) = tx_queue e \<or> tx_queue (hw e) = tl (tx_queue e)))"

lemma sends_pow: "sends hw \<Longrightarrow> tx_ok e \<Longrightarrow> tx_ok ((hw ^^ j) e)"
  by (induction j) (simp_all add: sends_def)

text \<open>The wait ends with the first step of the controller that leaves room, and changes nothing itself.\<close>

lemma sends_tx_wait:
  assumes "sends hw" "tx_ok e" "0 < k" "k \<le> fuel" "length (tx_queue ((hw ^^ k) e)) < 5"
  shows "\<exists>j. 0 < j \<and> j \<le> k \<and> tx_wait fuel hw e = Inr ((hw ^^ j) e) \<and> length (tx_queue ((hw ^^ j) e)) < 5
    \<and> (\<forall>i. 0 < i \<and> i < j \<longrightarrow> length (tx_queue ((hw ^^ i) e)) = 5)"
  using assms(2-)
proof (induction fuel arbitrary: e k)
  case (Suc fuel)
  let ?e = "hw e"
  have h: "tx_ok ?e" using assms(1) Suc.prems(1) by (simp add: sends_def)
  then have c: "tx_chain ?e" "tx_pos ?e < 5" by (auto simp: tx_ok_def tx_chain_def)
  then have d: "has (desc_status (txdesc_tab ?e ! tx_pos ?e)) ENET_TDES0_DAV \<longleftrightarrow> length (tx_queue ?e) = 5"
    using tx_full [OF h] by (simp add: tx_pending_def tx_slots_nth)
  show ?case
  proof (cases "length (tx_queue ?e) = 5")
    case True
    then have "k \<noteq> 1" using Suc.prems(4) by auto
    then obtain k' where k: "k = Suc k'" "0 < k'" using Suc.prems(2) by (cases k) auto
    then obtain j where j: "0 < j" "j \<le> k'" "tx_wait fuel hw ?e = Inr ((hw ^^ j) ?e)" "length (tx_queue ((hw ^^ j) ?e)) < 5"
      "\<forall>i. 0 < i \<and> i < j \<longrightarrow> length (tx_queue ((hw ^^ i) ?e)) = 5"
      using Suc.IH [OF h, of k'] Suc.prems by (auto simp: funpow_swap1)
    have "length (tx_queue ((hw ^^ i) e)) = 5" if "0 < i" "i < Suc j" for i
      using that True j(5) by (cases i; cases "i - 1") (auto simp: funpow_swap1)
    then show ?thesis
      using j k True d by (intro exI [of _ "Suc j"]) (auto simp: tx_desc_ok [OF c(1)] funpow_swap1)
  next
    case False
    moreover have "length (tx_queue ?e) \<le> 5"
      using length_dropWhile_le [of "\<lambda>f. \<not> tx_pending f" "tx_ring ?e"] by (simp add: tx_queue_def tx_waiting_def tx_ring_def)
    ultimately show ?thesis
      using d Suc.prems(2) by (intro exI [of _ 1]) (auto simp: tx_desc_ok [OF c(1)])
  qed
qed simp

text \<open>
  C6: sending a frame is an append to the queue of the controller. Whatever the controller does while
  the program waits for a free descriptor, as long as it sends frames in order and frees a descriptor
  within \<open>k\<close> steps, \<^verbatim>\<open>low_level_output\<close> returns after the first step \<open>j\<close> that leaves room. The queue then
  is exactly what the controller has left of it after these \<open>j\<close> steps, in its order, followed by the chain
  of packet buffers as one frame, unchanged: the driver itself discards and overwrites nothing.
\<close>

theorem output_fifo:
  assumes "sends hw" "tx_ok e" "0 < k" "k \<le> fuel" "length (tx_queue ((hw ^^ k) e)) < 5" "length (concat p) \<le> 1524"
  shows "\<exists>t j. low_level_output fuel hw p e = Inr (ERR_OK, t) \<and> tx_ok t
    \<and> 0 < j \<and> j \<le> k \<and> (\<forall>i. 0 < i \<and> i < j \<longrightarrow> length (tx_queue ((hw ^^ i) e)) = 5)
    \<and> tx_queue t = tx_queue ((hw ^^ j) e) @ [concat p]"
proof -
  obtain j where j: "0 < j" "j \<le> k" "tx_wait fuel hw e = Inr ((hw ^^ j) e)" "length (tx_queue ((hw ^^ j) e)) < 5"
    "\<forall>i. 0 < i \<and> i < j \<longrightarrow> length (tx_queue ((hw ^^ i) e)) = 5"
    using sends_tx_wait [OF assms(1-5)] by auto
  let ?u = "(hw ^^ j) e"
  have u: "tx_ok ?u" by (rule sends_pow [OF assms(1,2)])
  have f: "\<not> tx_pending (tx_slots ?u ! tx_pos ?u)" using tx_full [OF u] j(4) by simp
  have "low_level_output fuel hw p e = Inr (ERR_OK, tx_put (concat p) ?u)"
    using output_free [of ?u p] assms(6) u f j(3) by (simp add: low_level_output_def tx_ok_def)
  then show ?thesis using tx_put_queue [OF u assms(6) f] j by auto
qed

lemma chain_init_tx:
  assumes "length (tx_buff e) = 7620"
  defines "t \<equiv> enet_descriptors_chain_init ENET_DMA_TX e"
  shows "tx_ok t" "tx_queue t = []"
proof -
  have tab: "txdesc_tab t ! i = chain_desc (txdesc_at e) (tx_buff_at e) 5 1524 ENET_TDES0_TCHM 0 i" if "i < 5" for i
    using that by (simp add: t_def enet_descriptors_chain_init_def Let_def enet_sizes)
  have r: "has ENET_TDES0_TCHM ENET_TDES0_TCHM" "\<not> has ENET_TDES0_TCHM ENET_TDES0_DAV" by (simp_all add: has_def enet_bits BIT_def)
  have f: "dma_current_txdesc t = txdesc_at e" "txdesc_at t = txdesc_at e" "tx_buff t = tx_buff e" "tx_buff_at t = tx_buff_at e"
    "length (txdesc_tab t) = 5"
    by (simp_all add: t_def enet_descriptors_chain_init_def Let_def enet_sizes)
  have nx: "(if i < 4 then a + 16 * of_nat (i + 1) else a) = a + 16 * (of_nat (Suc i mod 5) :: u32)" if "i < 5" for i a
    using that by (cases "i = 4") auto
  have p: "tx_pos t = 0" by (simp add: tx_pos_def f)
  have c: "tx_chain t" using assms(1) nx by (auto simp: tx_chain_def f p tab chain_desc_def r algebra_simps)
  have "tx_slots t = map (\<lambda>_. (ENET_TDES0_TCHM, [])) [0..<5]" by (auto simp: tx_slots_def tab chain_desc_def)
  then have "tx_waiting t = []" by (auto simp: tx_waiting_def tx_ring_def p tx_pending_def r)
  then show "tx_ok t" "tx_queue t = []" using c by (simp_all add: tx_ok_def tx_queue_def)
qed

text \<open>A controller that sends the oldest frame in every step: it clears the flag of that descriptor.\<close>

definition tx_send :: "enet \<Rightarrow> enet" where
  "tx_send e = (if tx_queue e = [] then e else
     let i = (tx_pos e + (5 - length (tx_queue e))) mod 5
     in e\<lparr> txdesc_tab := (txdesc_tab e)[i := (txdesc_tab e ! i)\<lparr> desc_status := desc_status (txdesc_tab e ! i) AND NOT ENET_TDES0_DAV \<rparr>] \<rparr>)"

lemma rotate_update:
  assumes "j < length xs"
  shows "rotate p (xs[(p + j) mod length xs := x]) = (rotate p xs)[j := x]"
proof (rule nth_equalityI)
  fix k assume "k < length (rotate p (xs[(p + j) mod length xs := x]))"
  then have k: "k < length xs" by simp
  have "x = y" if "(p + x) mod length xs = (p + y) mod length xs" "x \<le> y" "y < length xs" for x y
    using that mod_eq_dvd_iff_nat [of "p + x" "p + y" "length xs"] nat_dvd_not_less [of "y - x" "length xs"]
    by (cases "x < y") auto
  then have "(p + k) mod length xs = (p + j) mod length xs \<longleftrightarrow> k = j"
    using assms k by (metis nat_le_linear)
  moreover have "0 < length xs" using k by linarith
  ultimately show "rotate p (xs[(p + j) mod length xs := x]) ! k = (rotate p xs)[j := x] ! k"
    using assms k by (auto simp: nth_rotate nth_list_update)
qed simp

lemma tx_send_oldest:
  assumes ok: "tx_ok e" and q: "tx_queue e \<noteq> []"
  shows "tx_ok (tx_send e)" "tx_queue (tx_send e) = tl (tx_queue e)"
proof -
  define i where "i = (tx_pos e + (5 - length (tx_queue e))) mod 5"
  define d where "d = (txdesc_tab e ! i)\<lparr> desc_status := desc_status (txdesc_tab e ! i) AND NOT ENET_TDES0_DAV \<rparr>"
  have c: "tx_chain e" "length (txdesc_tab e) = 5" "i < 5" using ok by (simp_all add: tx_ok_def tx_chain_def i_def)
  have e: "tx_send e = e\<lparr> txdesc_tab := (txdesc_tab e)[i := d] \<rparr>" using q by (simp add: tx_send_def i_def d_def Let_def)
  have h: "has (desc_status d) ENET_TDES0_TCHM = has (desc_status (txdesc_tab e ! i)) ENET_TDES0_TCHM" "\<not> has (desc_status d) ENET_TDES0_DAV"
    by (auto simp: d_def has_def ENET_TDES0_TCHM_def ENET_TDES0_DAV_def and_BIT_eq_0 bit_and_iff bit_not_iff)
  have ch: "tx_chain (tx_send e)" and pos: "tx_pos (tx_send e) = tx_pos e"
    using c h by (auto simp: tx_chain_def e tx_pos_def nth_list_update d_def)
  let ?x = "(desc_status d, snd (tx_slots e ! i))"
  have "tx_slots (tx_send e) = (tx_slots e)[i := ?x]"
    using c by (intro nth_equalityI) (auto simp: tx_slots_nth e nth_list_update d_def)
  then have r: "tx_ring (tx_send e) = (tx_ring e)[5 - length (tx_queue e) := ?x]"
    using rotate_update [of "5 - length (tx_queue e)" "tx_slots e" "tx_pos e" ?x] q by (simp add: tx_ring_def pos i_def)
  obtain f fs where w: "tx_waiting e = f # fs" using q by (cases "tx_waiting e") (auto simp: tx_queue_def)
  define ps where "ps = takeWhile (\<lambda>f. \<not> tx_pending f) (tx_ring e)"
  have sp: "tx_ring e = ps @ f # fs" using w unfolding ps_def tx_waiting_def by (metis takeWhile_dropWhile_id)
  have "length (tx_ring e) = 5" by (simp add: tx_ring_def)
  then have l: "5 - length (tx_queue e) = length ps" using sp w by (simp add: tx_queue_def)
  have "\<forall>g \<in> set ps. \<not> tx_pending g" by (auto simp: ps_def dest: set_takeWhileD)
  moreover have "\<forall>g \<in> set fs. tx_pending g" using ok w by (simp add: tx_ok_def)
  ultimately have "tx_waiting (tx_send e) = fs"
    unfolding tx_waiting_def r l sp list_update_length using h(2) by (cases fs) (simp_all add: tx_pending_def)
  with ch w ok show "tx_ok (tx_send e)" "tx_queue (tx_send e) = tl (tx_queue e)" by (simp_all add: tx_ok_def tx_queue_def)
qed

lemma tx_send_sends: "sends tx_send"
proof -
  have "tx_send e = e" if "tx_queue e = []" for e using that by (simp add: tx_send_def)
  then show ?thesis unfolding sends_def using tx_send_oldest by metis
qed

lemma full_ring:
  assumes "tx_ok e" "tx_queue e = []"
  shows "tx_ok (fold tx_put [[1], [2], [3], [4], [5]] e)" "tx_queue (fold tx_put [[1], [2], [3], [4], [5]] e) = [[1], [2], [3], [4], [5]]"
proof -
  have "tx_ok (fold tx_put fs e) \<and> tx_queue (fold tx_put fs e) = fs" if "length fs \<le> 5" "\<forall>f \<in> set fs. length f \<le> 1524" for fs
    using that
  proof (induction fs rule: rev_induct)
    case (snoc f fs)
    then have "tx_ok (fold tx_put fs e)" "tx_queue (fold tx_put fs e) = fs" "length f \<le> 1524" by auto
    moreover have "length fs \<noteq> 5" using snoc.prems(1) by simp
    ultimately show ?case using tx_put_queue [of "fold tx_put fs e" f] tx_full [of "fold tx_put fs e"] by simp
  qed (use assms in simp)
  from this [of "[[1], [2], [3], [4], [5]]"]
  show "tx_ok (fold tx_put [[1], [2], [3], [4], [5]] e)" "tx_queue (fold tx_put [[1], [2], [3], [4], [5]] e) = [[1], [2], [3], [4], [5]]"
    by simp_all
qed

theorem output_fifo_witness:
  "\<exists>t. low_level_output 1 tx_send [[6, 7], [8]] (fold tx_put [[1], [2], [3], [4], [5]] (enet_descriptors_chain_init ENET_DMA_TX enet_blank))
      = Inr (ERR_OK, t) \<and> tx_queue t = [[2], [3], [4], [5], [6, 7, 8]]"
proof -
  let ?e = "fold tx_put [[1], [2], [3], [4], [5]] (enet_descriptors_chain_init ENET_DMA_TX enet_blank)"
  have b: "length (tx_buff enet_blank) = 7620" by (simp add: enet_blank_def)
  note f = full_ring [OF chain_init_tx [OF b]]
  have q: "tx_queue (tx_send ?e) = tl (tx_queue ?e)"
    by (rule tx_send_oldest(2) [OF f(1)]) (unfold f(2), simp)
  then have "length (tx_queue ((tx_send ^^ 1) ?e)) < 5" "(0::nat) < 1" "(1::nat) \<le> 1" "length (concat [[6, 7], [8 :: u8]]) \<le> 1524"
    using f(2) by simp_all
  from output_fifo [OF tx_send_sends f(1) this(2,3,1,4)] obtain t j where
    t: "low_level_output 1 tx_send [[6, 7], [8]] ?e = Inr (ERR_OK, t)" "0 < j" "j \<le> 1"
    "tx_queue t = tx_queue ((tx_send ^^ j) ?e) @ [concat [[6, 7], [8]]]" by blast
  moreover have "j = 1" using t(2,3) by simp
  ultimately show ?thesis using q f(2) by auto
qed

section \<open>The rings after initialisation\<close>

lemma tx_frame:
  "tx_ok (enet_descriptors_chain_init ENET_DMA_RX e) = tx_ok e"
  "tx_queue (enet_descriptors_chain_init ENET_DMA_RX e) = tx_queue e"
  "tx_ok (e\<lparr> rxdesc_tab := r, enet_mem := m \<rparr>) = tx_ok e" "tx_queue (e\<lparr> rxdesc_tab := r, enet_mem := m \<rparr>) = tx_queue e"
  by (simp_all add: enet_descriptors_chain_init_def Let_def tx_ok_def tx_queue_def tx_chain_def tx_waiting_def tx_ring_def tx_slots_def tx_pos_def)

lemma rx_frame:
  fixes m
  assumes "rx_chain e"
  defines "t \<equiv> e\<lparr> rxdesc_tab := map enet_rx_desc_immediate_receive_complete_interrupt (rxdesc_tab e), enet_mem := m \<rparr>"
  shows "rx_chain t" "rx_ring t = rx_ring e"
proof -
  have k: "has (c AND NOT ENET_RDES1_DINTC) ENET_RDES1_RCHM = has c ENET_RDES1_RCHM" for c
    by (simp add: has_def ENET_RDES1_DINTC_def ENET_RDES1_RCHM_def and_BIT_eq_0 bit_simps)
  have p: "rx_pos t = rx_pos e" by (simp add: rx_pos_def t_def)
  show "rx_chain t"
    using assms(1) by (auto simp: rx_chain_def p) (auto simp: t_def k enet_rx_desc_immediate_receive_complete_interrupt_def)
  have "rx_slots t = rx_slots e"
    using assms(1) by (auto simp: rx_slots_def rx_chain_def t_def enet_rx_desc_immediate_receive_complete_interrupt_def)
  then show "rx_ring t = rx_ring e" by (simp add: rx_ring_def p)
qed

text \<open>
  C23: The initialisation of the interface establishes the invariants that reception and
  transmission rely on: after \<^verbatim>\<open>low_level_init\<close> both rings are chained and consistent and hold no
  frame, whatever the controller does while its FIFO is flushed.
\<close>
theorem rings_initialised:
  fixes hw n
  assumes "length (rx_buff e) = 7620" "length (tx_buff e) = 7620"
  defines "t \<equiv> snd (low_level_init hw n e)"
  shows "rx_ok t \<and> rx_queue t = [] \<and> tx_ok t \<and> tx_queue t = []"
proof -
  define e1 where "e1 = enet_descriptors_chain_init ENET_DMA_TX
     (e\<lparr> enet_mem := enet_mac_address_set ENET_MAC_ADDRESS0 LOCAL_MAC_ADDR (enet_mem e) \<rparr>)"
  define e2 where "e2 = enet_descriptors_chain_init ENET_DMA_RX e1"
  have i: "snd (low_level_init hw n e) =
      e2\<lparr> rxdesc_tab := map enet_rx_desc_immediate_receive_complete_interrupt (rxdesc_tab e2), enet_mem := enet_enable hw (enet_mem e2) \<rparr>"
    by (simp add: low_level_init_def Let_def e1_def e2_def)
  have l: "length (rx_buff e1) = 7620" using assms(1) by (simp add: e1_def enet_descriptors_chain_init_def Let_def)
  have r: "rx_ok e2" "rx_queue e2 = []" unfolding e2_def by (rule chain_init_rx [OF l])+
  note f = rx_frame [of e2 "enet_enable hw (enet_mem e2)"]
  have "rx_ok t \<and> rx_queue t = []" using r f unfolding t_def i by (simp add: rx_ok_def rx_queue_def)
  moreover have "tx_ok e1" "tx_queue e1 = []" unfolding e1_def by (rule chain_init_tx; use assms(2) in simp)+
  then have "tx_ok t \<and> tx_queue t = []" unfolding t_def i tx_frame e2_def by simp
  ultimately show ?thesis by simp
qed

definition netif_blank :: netif where
  "netif_blank = \<lparr> hwaddr_len = 0, hwaddr = [], mtu = 0, netif_flags = 0, netif_name = [], netif_output = netif_null, linkoutput = netif_null \<rparr>"

theorem rings_initialised_witness:
  "rx_ok (snd (low_level_init id netif_blank enet_blank)) \<and> tx_ok (snd (low_level_init id netif_blank enet_blank))"
  using rings_initialised [of enet_blank id netif_blank] by (simp add: enet_blank_def)

section \<open>The station address\<close>

text \<open>
  C39: The address registers hold what was put there: for each of the four station addresses,
  reading an address that was set gives its six bytes back in order.
\<close>
theorem mac_address_roundtrip:
  assumes "mac_addr \<in> {0, 8, 0x10, 0x18}" "length p = 6"
  shows "enet_mac_address_get mac_addr (enet_mac_address_set mac_addr p m) = p"
proof -
  let ?m = "enet_mac_address_set mac_addr p m"
  have lo: "reg_rd (ENET_ADDRL_BASE + mac_addr) ?m = ENET_SET_MACADDRL p" by (simp add: enet_mac_address_set_def)
  have hi: "reg_rd (ENET_ADDRL_BASE + mac_addr - 4) ?m = ENET_SET_MACADDRH p"
    by (simp add: enet_mac_address_set_def enet_regs)
  have ff: "bit (0xFF :: int) k \<longleftrightarrow> k < 8" for k
    using bit_mask_iff [where 'a = int, of 8 k] by (simp add: mask_eq_exp_minus_1)
  have up: "\<not> bit x (8 + k)" "\<not> bit x (16 + k)" "\<not> bit x (24 + k)" for x :: u8 and k
    by (auto dest!: bit_imp_le_length)
  have "ENET_GET_MACADDR mac_addr i ?m = p ! i" if "i < 6" for i
  proof (rule bit_word_eqI)
    fix k assume k: "k < LENGTH(8)"
    have "i = 0 \<or> i = 1 \<or> i = 2 \<or> i = 3 \<or> i = 4 \<or> i = 5" using that by auto
    then show "bit (ENET_GET_MACADDR mac_addr i ?m) k = bit (p ! i) k"
      using k by (elim disjE) (auto simp: ENET_GET_MACADDR_def lo hi ENET_SET_MACADDRL_def ENET_SET_MACADDRH_def bit_simps ff up)
  qed
  then show ?thesis
    using assms(2) by (intro nth_equalityI) (auto simp: enet_mac_address_get_def)
qed

theorem mac_address_roundtrip_witness:
  "enet_mac_address_get 8 (enet_mac_address_set 8 [0x20, 0x40, 0x60, 0x80, 0xA0, 0xC0] (\<lambda>_. 0)) = [0x20, 0x40, 0x60, 0x80, 0xA0, 0xC0]"
  by (rule mac_address_roundtrip) simp_all

end
