(* ===== verification/Spec2Isabelle.thy ===== *)
theory Spec2Isabelle
  imports Main_Race Irq_Levels Timer_Ext Inet_Chksum Tx_Queue
begin

text \<open>
  \<^bold>\<open>Verification of the GD32F450 controller firmware.\<close>

  The firmware is a gateway between a host on Ethernet and up to 176 devices on two RS-485 lines. A
  timer interrupt polls one device after the other with a 20-byte frame (\<^verbatim>\<open>src/src/uart.c\<close>,
  \<^verbatim>\<open>Qwerty_all_Device\<close>); the serial interrupts collect the bytes of the answer, a second timer
  detects its end and hands it to \<^verbatim>\<open>Check_message_UART\<close>, which stores it in one of two packets. The main
  loop receives Ethernet frames and gives them to lwIP; a UDP request of 80 bytes
  (\<^verbatim>\<open>src/src/ethernet.c\<close>) puts commands into the poll frames, switches the two packets and sends one
  of them back.

  \<^bold>\<open>Theories, in the order of their dependencies.\<close>

  \<^item> \<open>Prelude\<close>: words, the result type with the faults \<open>Out_Of_Bounds\<close>, \<open>Div_By_Zero\<close>, \<open>Hang\<close>
    and \<open>System_Reset\<close>, array access, folds of fallible operations.
  \<^item> \<open>Crc\<close>: \<^verbatim>\<open>Crc8\<close> of \<^verbatim>\<open>uart.c\<close>; the table-driven loop equals the bit-serial CRC, and the
    CRC detects every single-byte change and every odd number of flipped bits (locale \<open>crc_step\<close>).
  \<^item> \<open>Mmio\<close>, \<open>Rcu\<close>, \<open>Gpio\<close>, \<open>Dma\<close>, \<open>Usart\<close>, \<open>Timer\<close>, \<open>Timer_Ext\<close>, \<open>Misc\<close>: the vendor drivers
    \<^verbatim>\<open>gd32f4xx_rcu.c\<close>, \<^verbatim>\<open>gd32f4xx_gpio.c\<close>, \<^verbatim>\<open>gd32f4xx_dma.c\<close>, \<^verbatim>\<open>gd32f4xx_usart.c\<close>,
    \<^verbatim>\<open>gd32f4xx_timer.c\<close> and \<^verbatim>\<open>gd32f4xx_misc.c\<close>, one definition per function, over a store of
    32-bit registers (locale \<open>register_bus\<close>). The interrupt controller has a record of its own.
  \<^item> \<open>Protocol\<close>: the packed structures of \<^verbatim>\<open>src/inc/protocol.h\<close> as bytes and bits.
  \<^item> \<open>App_State\<close>: the global variables of the application as the record \<open>app\<close>, with the
    well-formedness \<open>app_wf\<close> (array sizes and ranges of the counters).
  \<^item> \<open>Uart_Poll\<close>: \<^verbatim>\<open>Qwerty_all_Device\<close>: the frame it sends, the health bit it clears, and that no
    device starves (locale \<open>cyclic_counter\<close>, interpreted for the four poll counters).
  \<^item> \<open>Uart_Answer\<close>: \<^verbatim>\<open>Check_message_UART\<close> and the three handlers behind it.
  \<^item> \<open>Uart_Irq\<close>: the interrupt handlers (locale \<open>frame_receiver\<close>, interpreted for both ports).
  \<^item> \<open>Ethernet\<close>: the UDP callback, the reading of a request and the reply.
  \<^item> \<open>Clock\<close>: tick interrupt, local time, timer dispatch and delay.
  \<^item> \<open>Main_App\<close>: all of these together. The work of the main loop on a datagram is a list of single
    accesses (\<open>main_op\<close>): the stores of the request, the checksum of each frame byte by byte, the
    switch of the packets, and the copy of the reply byte by byte. The inductive relation \<open>step\<close> lets
    any enabled interrupt handler run between two of them; the locale \<open>app_invariant\<close> turns an invariant
    of the handlers into one of all reachable states.
  \<^item> \<open>Main_Race\<close>: two runs from every start with the interrupts on that end badly: the receive buffer on
    a line that echoes, and the reply that a poll changes while it is copied.
  \<^item> \<open>Board\<close>, \<open>Config_Usart\<close>, \<open>Init_Config\<close>: the set-up of the serial ports, clocks, pins and
    timers (\<^verbatim>\<open>ConfigurationUSARTn.c\<close>, \<^verbatim>\<open>init_config.c\<close>).
  \<^item> \<open>Enet\<close>, \<open>Enet_Mac\<close>: the Ethernet controller driver \<^verbatim>\<open>gd32f4xx_enet.c\<close>: descriptor tables
    and buffers as lists with their addresses; registers, transceiver and initialisation.
  \<^item> \<open>Enet_Phy\<close>, \<open>Enet_Eval\<close>: what the initialisation makes of the transceiver, and the start of
    the network (\<^verbatim>\<open>gd32f4xx_enet_eval.c\<close>), with and without a link.
  \<^item> \<open>Irq_Levels\<close>: the set-up of ports, timers and lamps in \<^verbatim>\<open>main\<close>, and the priorities it leaves to the
    seven interrupts and the tick.
  \<^item> \<open>Ethernetif\<close>: the network interface driver and the receive part of the main loop.
  \<^item> \<open>Rx_Queue\<close>, \<open>Tx_Queue\<close>: the two descriptor rings as queues of frames (locale \<open>desc_ring\<close>);
    reception refines the specification \<open>recv_spec\<close>, transmission is an append.
  \<^item> \<open>Inet_Chksum\<close>: the Internet checksum of lwIP against the sum modulo 65535.

  \<^bold>\<open>State and environment.\<close> Variables of the program are fields of records and are passed
  explicitly. An access outside an array, an endless loop and a reset of the processor are values of
  the result type. Registers keep the last word written; what the hardware does by itself is a function
  \<open>hw\<close> that is applied before every read in a loop that waits for it. A statement about such a loop
  either gives a number of steps within which the hardware answers and shows that this much fuel is
  enough, or holds for every number of steps. The loops of the driver that count down by themselves are
  total functions. The seven interrupts that \<^verbatim>\<open>main\<close> enables get the same pre-emption level, so that
  none of them interrupts another and a handler is one step; the tick has a lower priority, and all of
  them interrupt it (both are shown in \<open>Irq_Levels\<close>), but it only counts the local time, which they do not
  use. A byte can be received at any time its interrupt is on, also while its port is transmitting:
  \<open>no_fault\<close> says when such a byte leaves the buffer, and \<open>half_duplex_no_fault\<close> is the statement
  for a line that never delivers one then. The transceiver of the Ethernet port, where it has to answer,
  is \<open>enet_hw\<close>, an assumption on the board. The structures of the protocol are packed, and an index that
  leaves an inner array is an access to the byte of the structure at that address. The functions of lwIP that the program calls appear as
  parameters: whether an allocation succeeds, what the input function returns, how many buffers are free.

  \<^bold>\<open>What the theorems say.\<close> The frames sent, the answers stored, the checksums, the liveness of the
  poll and the safety of the whole under interleaving are shown for all states that satisfy the
  invariants, and the invariants for all reachable states. Where the code does not do what it means to,
  the statement says what it does: the answers of the external servos are misplaced and never reported,
  the request for the BKHO-A block is read from the wrong bytes, a reply is one request old and can be
  changed while it is sent, a line that echoes overflows the receive buffer, the last field of a packet
  is not sent, the local time stands still, one of the two end-of-frame timers is never given its
  period, a damaged Ethernet frame lets the next one pass unchecked, a link at 100 Mbit/s in full duplex
  is driven in half duplex, and neither a missing crystal nor a missing cable lets the firmware start.

  \<^bold>\<open>Not modelled.\<close> The protocols of lwIP (ARP, IP, UDP, TCP, memory pools, apart from the checksum and
  the split of a pool allocation), which the firmware calls through a narrow interface; the USB library,
  CMSIS and the vendor drivers that the firmware does not call; of the ENET driver the time-stamp,
  wake-up and statistics functions and the enhanced descriptors; the fault handlers, which are endless
  loops; code that is commented out or not selected by the build (DHCP, the Ethernet interrupt, the MII
  pins).
\<close>

end
